(* ===== verification/Hash_Map.thy ===== *)
theory Hash_Map
  imports Prelude "HOL-Library.Multiset"
begin

text \<open>
  \<open>std::collections::HashMap\<close> as an association list with distinct keys.  The iteration order of a
  \<open>HashMap\<close> is unspecified; here it is the order of the list.  Every property below quantifies over
  all lists, hence over every order, and where an operation's result depends on the order the
  properties are stated over its set of elements.

  The locale \<open>key_value_map\<close> is the interface the components rely on; \<open>iterable_map\<close> extends it
  with iteration.  Both are interpreted on the operations defined here, and \<open>key_value_map\<close> once
  more on HOL maps, which model the tables the code only looks up.
\<close>

section \<open>Operations\<close>

type_synonym ('k, 'v) hmap = "('k \<times> 'v) list"

definition hm_wf :: "('k, 'v) hmap \<Rightarrow> bool" where
  "hm_wf m \<longleftrightarrow> distinct (map fst m)"

definition hm_get :: "('k, 'v) hmap \<Rightarrow> 'k \<Rightarrow> 'v option" where
  "hm_get m k = map_of m k"

definition hm_insert :: "'k \<Rightarrow> 'v \<Rightarrow> ('k, 'v) hmap \<Rightarrow> ('k, 'v) hmap" where
  "hm_insert k v m = AList.update k v m"

definition hm_remove :: "'k \<Rightarrow> ('k, 'v) hmap \<Rightarrow> ('k, 'v) hmap" where
  "hm_remove k m = AList.delete k m"

definition hm_contains :: "('k, 'v) hmap \<Rightarrow> 'k \<Rightarrow> bool" where
  "hm_contains m k \<longleftrightarrow> k \<in> set (map fst m)"

definition hm_values :: "('k, 'v) hmap \<Rightarrow> 'v list" where
  "hm_values m = map snd m"

text \<open>A modification through \<open>get_mut\<close> (a missing key changes nothing) and through \<open>values_mut\<close>.\<close>

definition hm_modify :: "'k \<Rightarrow> ('v \<Rightarrow> 'v) \<Rightarrow> ('k, 'v) hmap \<Rightarrow> ('k, 'v) hmap" where
  "hm_modify k f m = map (\<lambda>(k', v). (k', if k' = k then f v else v)) m"

definition hm_map_values :: "('k \<Rightarrow> 'v \<Rightarrow> 'v) \<Rightarrow> ('k, 'v) hmap \<Rightarrow> ('k, 'v) hmap" where
  "hm_map_values f m = map (\<lambda>(k, v). (k, f k v)) m"

section \<open>The interface\<close>

locale key_value_map =
  fixes mk_empty :: "'m"
    and get :: "'m \<Rightarrow> 'k \<Rightarrow> 'v option"
    and ins :: "'k \<Rightarrow> 'v \<Rightarrow> 'm \<Rightarrow> 'm"
    and rem :: "'k \<Rightarrow> 'm \<Rightarrow> 'm"
    and wf :: "'m \<Rightarrow> bool"
  assumes get_empty: "get mk_empty k = None"
    and get_ins: "wf m \<Longrightarrow> get (ins k v m) k' = (if k' = k then Some v else get m k')"
    and get_rem: "wf m \<Longrightarrow> get (rem k m) k' = (if k' = k then None else get m k')"
    and wf_empty: "wf mk_empty"
    and wf_ins: "wf m \<Longrightarrow> wf (ins k v m)"
    and wf_rem: "wf m \<Longrightarrow> wf (rem k m)"
begin

lemma get_ins_same: "wf m \<Longrightarrow> get (ins k v m) k = Some v"
  by (simp add: get_ins)

lemma get_ins_other: "wf m \<Longrightarrow> k' \<noteq> k \<Longrightarrow> get (ins k v m) k' = get m k'"
  by (simp add: get_ins)

lemma get_rem_same: "wf m \<Longrightarrow> get (rem k m) k = None"
  by (simp add: get_rem)

lemma ins_overwrites: "wf m \<Longrightarrow> get (ins k w (ins k v m)) k' = get (ins k w m) k'"
  by (simp add: get_ins wf_ins)

lemma rem_undoes_fresh_ins:
  "wf m \<Longrightarrow> get m k = None \<Longrightarrow> get (rem k (ins k v m)) k' = get m k'"
  by (simp add: get_ins get_rem wf_ins)

lemma ins_commute:
  "wf m \<Longrightarrow> k \<noteq> l \<Longrightarrow> get (ins k v (ins l w m)) k' = get (ins l w (ins k v m)) k'"
  by (simp add: get_ins wf_ins)

end

locale iterable_map = key_value_map mk_empty get ins rem wf
  for mk_empty :: "'m" and get :: "'m \<Rightarrow> 'k \<Rightarrow> 'v option" and ins and rem and wf +
  fixes entries :: "'m \<Rightarrow> ('k \<times> 'v) list"
  assumes set_entries: "wf m \<Longrightarrow> (k, v) \<in> set (entries m) \<longleftrightarrow> get m k = Some v"
    and distinct_entries: "wf m \<Longrightarrow> distinct (map fst (entries m))"
begin

lemma entries_ins_fresh:
  "wf m \<Longrightarrow> get m k = None \<Longrightarrow> set (entries (ins k v m)) = insert (k, v) (set (entries m))"
  by (auto simp: set_entries get_ins wf_ins split: if_splits)

lemma entries_rem: "wf m \<Longrightarrow> set (entries (rem k m)) = {(k', v) \<in> set (entries m). k' \<noteq> k}"
  by (auto simp: set_entries get_rem wf_rem split: if_splits)

lemma keys_iff: "k \<in> fst ` set (entries m) \<longleftrightarrow> (\<exists>v. get m k = Some v)"
  if wf: "wf m"
proof
  assume "k \<in> fst ` set (entries m)"
  then obtain v where "(k, v) \<in> set (entries m)" by auto
  with wf show "\<exists>v. get m k = Some v" by (auto simp: set_entries)
next
  assume "\<exists>v. get m k = Some v"
  with wf obtain v where "(k, v) \<in> set (entries m)" by (auto simp: set_entries)
  then show "k \<in> fst ` set (entries m)" by force
qed

lemma keys_ins: "wf m \<Longrightarrow> fst ` set (entries (ins k v m)) = insert k (fst ` set (entries m))"
  by (rule set_eqI) (simp add: keys_iff wf_ins get_ins)

lemma entries_empty: "entries mk_empty = []"
proof -
  have "(k, v) \<notin> set (entries mk_empty)" for k v
    by (simp add: set_entries wf_empty get_empty)
  then show ?thesis by (cases "entries mk_empty") force+
qed

end

section \<open>Laws of the operations\<close>

lemma hm_wf_Nil [simp]: "hm_wf []"
  by (simp add: hm_wf_def)

lemma hm_wf_Cons [simp]: "hm_wf ((k, v) # m) \<longleftrightarrow> k \<notin> fst ` set m \<and> hm_wf m"
  by (auto simp: hm_wf_def)

lemma hm_get_Nil [simp]: "hm_get [] k = None"
  by (simp add: hm_get_def)

lemma hm_get_Cons [simp]: "hm_get ((k, v) # m) k' = (if k' = k then Some v else hm_get m k')"
  by (simp add: hm_get_def)

lemma hm_get_insert [simp]: "hm_get (hm_insert k v m) k' = (if k' = k then Some v else hm_get m k')"
  by (simp add: hm_get_def hm_insert_def update_conv')

lemma hm_get_remove [simp]: "hm_get (hm_remove k m) k' = (if k' = k then None else hm_get m k')"
  by (simp add: hm_get_def hm_remove_def delete_conv')

lemma hm_wf_insert [simp, intro]: "hm_wf m \<Longrightarrow> hm_wf (hm_insert k v m)"
  unfolding hm_wf_def hm_insert_def by (rule distinct_update)

lemma hm_wf_remove [simp, intro]: "hm_wf m \<Longrightarrow> hm_wf (hm_remove k m)"
  unfolding hm_wf_def hm_remove_def by (rule distinct_delete)

lemma hm_modify_keys [simp]: "map fst (hm_modify k f m) = map fst m"
  by (auto simp: hm_modify_def)

lemma hm_map_values_keys [simp]: "map fst (hm_map_values f m) = map fst m"
  by (auto simp: hm_map_values_def)

lemma hm_wf_modify [simp]: "hm_wf (hm_modify k f m) = hm_wf m"
  by (simp add: hm_wf_def)

lemma hm_wf_map_values [simp]: "hm_wf (hm_map_values f m) = hm_wf m"
  by (simp add: hm_wf_def)

lemma hm_get_modify [simp]:
  "hm_get (hm_modify k f m) k' = (if k' = k then map_option f (hm_get m k) else hm_get m k')"
  by (induction m) (auto simp: hm_modify_def)

lemma hm_get_map_values [simp]: "hm_get (hm_map_values f m) k = map_option (f k) (hm_get m k)"
  by (induction m) (auto simp: hm_map_values_def)

lemma hm_contains_get: "hm_contains m k \<longleftrightarrow> (\<exists>v. hm_get m k = Some v)"
  by (induction m) (auto simp: hm_contains_def hm_get_def)

lemma hm_get_in_set: "hm_get m k = Some v \<Longrightarrow> (k, v) \<in> set m"
  by (simp add: hm_get_def map_of_SomeD)

lemma hm_in_set_get: "hm_wf m \<Longrightarrow> (k, v) \<in> set m \<longleftrightarrow> hm_get m k = Some v"
  by (simp add: hm_get_def hm_wf_def)

lemma hm_get_None_iff: "hm_get m k = None \<longleftrightarrow> k \<notin> fst ` set m"
  by (simp add: hm_get_def map_of_eq_None_iff)

lemma hm_empty_iff: "m = [] \<longleftrightarrow> (\<forall>k. hm_get m k = None)"
  by (cases m) (auto simp: hm_get_None_iff)

lemma hm_remove_set: "set (hm_remove k m) = {(k', v) \<in> set m. k' \<noteq> k}"
  unfolding hm_remove_def by (induction m) auto

lemma hm_remove_absent: "hm_get m k = None \<Longrightarrow> hm_remove k m = m"
  unfolding hm_get_def hm_remove_def by (simp add: delete_id map_of_eq_None_iff)

lemma hm_values_in: "v \<in> set (hm_values m) \<Longrightarrow> hm_wf m \<Longrightarrow> \<exists>k. hm_get m k = Some v"
  by (auto simp: hm_values_def hm_in_set_get)

interpretation hm: iterable_map "[]" hm_get hm_insert hm_remove hm_wf "\<lambda>m. m"
  by unfold_locales (auto simp: hm_in_set_get, simp add: hm_wf_def)

interpretation tbl: key_value_map "Map.empty" "\<lambda>m k. m k" "\<lambda>k v m. m(k \<mapsto> v)" "\<lambda>k m. m(k := None)"
  "\<lambda>_. True"
  by unfold_locales auto

end
