(* ===== verification/Net_Types.thy ===== *)
theory Net_Types
  imports Hash_Map
begin

text \<open>
  The types shared by the components of the SFU: identifiers, socket addresses, four-tuples and
  transport contexts (\<open>vendor/sfu/src/types.rs\<close>), the errors of \<open>shared::error\<close> the source
  raises, and the messages that travel through the pipeline (\<open>vendor/sfu/src/messages.rs\<close>).
\<close>

section \<open>Identifiers and addresses\<close>

type_synonym session_id = u64
type_synonym endpoint_id = u64
type_synonym user_name = string
type_synonym mid = string

text \<open>Time: an \<open>Instant\<close> and a \<open>Duration\<close> are counted in nanoseconds.\<close>

type_synonym instant = int
type_synonym duration = nat

datatype ip_addr = IpV4 u32 | IpV6 "128 word"

record socket_addr =
  sa_ip :: ip_addr
  sa_port :: u16

record four_tuple =
  ft_local_addr :: socket_addr
  ft_peer_addr :: socket_addr

text \<open>A transport context adds the ECN code point of the datagram, which the code only copies.\<close>

record transport_context =
  tc_local_addr :: socket_addr
  tc_peer_addr :: socket_addr
  tc_ecn :: "u8 option"

definition four_tuple_of :: "transport_context \<Rightarrow> four_tuple" where
  "four_tuple_of tc = \<lparr>ft_local_addr = tc_local_addr tc, ft_peer_addr = tc_peer_addr tc\<rparr>"

definition context_of :: "four_tuple \<Rightarrow> u8 option \<Rightarrow> transport_context" where
  "context_of ft e = \<lparr>tc_local_addr = ft_local_addr ft, tc_peer_addr = ft_peer_addr ft, tc_ecn = e\<rparr>"

lemma four_tuple_of_context_of [simp]: "four_tuple_of (context_of ft e) = ft"
  by (simp add: four_tuple_of_def context_of_def)

lemma context_of_four_tuple_of [simp]: "context_of (four_tuple_of tc) (tc_ecn tc) = tc"
  by (simp add: four_tuple_of_def context_of_def)

lemma context_of_inject [simp]: "context_of a e = context_of b e' \<longleftrightarrow> a = b \<and> e = e'"
  by (auto simp: context_of_def)

section \<open>Errors\<close>

text \<open>
  \<open>Error::Other(format!(\<dots>))\<close> keeps the format string and its arguments apart, so no \<open>Debug\<close>
  rendering is needed.  \<open>ErrLib\<close> stands for whatever an external crate returned and the source
  passes on.
\<close>

datatype sdp_type = SdpUnspecified | SdpOffer | SdpPranswer | SdpAnswer | SdpRollback

datatype fmt_arg = ArgId u64 | ArgTuple four_tuple | ArgSdpType sdp_type

datatype error =
    ErrClientTransportNotSet
  | ErrInvalidCertificate
  | ErrAttributeNotFound
  | ErrAlertFatalOrClose
  | ErrOutboundPacketTooLarge
  | ErrAssociationNotExisted
  | ErrNoSuchSrtpProfile
  | ErrUtf8
  | ErrParseInt
  | InvalidPEM string
  | Other string "fmt_arg list"
  | ErrLib string

type_synonym 'a res = "error + 'a"

section \<open>Pipeline messages\<close>

datatype data_channel_message_type = DcNone | DcControl | DcBinary | DcText

datatype reliability_type = RelReliable | RelRexmit | RelTimed

record data_channel_message_params =
  dp_unordered :: bool
  dp_reliability_type :: reliability_type
  dp_reliability_parameter :: u32

datatype data_channel_event = DcOpen | DcMessage "u8 list" | DcClose

record data_channel_message =
  dm_association_handle :: nat
  dm_stream_id :: u16
  dm_message_type :: data_channel_message_type
  dm_params :: "data_channel_message_params option"
  dm_payload :: "u8 list"

record application_message =
  am_association_handle :: nat
  am_stream_id :: u16
  am_event :: data_channel_event

text \<open>RTP packets: the header fields the source reads, and the payload.\<close>

record rtp_packet =
  rtp_payload_type :: u8
  rtp_sequence_number :: u16
  rtp_timestamp :: u32
  rtp_ssrc :: u32
  rtp_payload :: "u8 list"

text \<open>
  An RTCP packet is known to the source by its packet type, for a sender report by its source and
  NTP time, and for the receiver reports the source writes by their reception reports; the rest of
  the packet is opaque and only copied.
\<close>

datatype rtcp_packet_type = PtSenderReport | PtReceiverReport | PtTransportSpecificFeedback | PtOther u8

record reception_report =
  rr_ssrc :: u32
  rr_last_sequence_number :: u32
  rr_last_sender_report :: u32
  rr_fraction_lost :: u8
  rr_total_lost :: u32
  rr_delay :: u32
  rr_jitter :: u32

record rtcp_packet =
  rtcp_type :: rtcp_packet_type
  rtcp_ssrc :: u32
  rtcp_ntp_time :: u64
  rtcp_reports :: "reception_report list"
  rtcp_body :: "u8 list"

text \<open>STUN messages are values of the \<open>stun\<close> crate, the type \<open>'m\<close>.\<close>

datatype 'm stun_event = StunRaw "u8 list" | StunMsg 'm

datatype dtls_event = DtlsRaw "u8 list" | DtlsSctp data_channel_message | DtlsDataChannel application_message

datatype rtp_event = RtpRaw "u8 list" | RtpRtp rtp_packet | RtpRtcp "rtcp_packet list"

datatype 'm message_event = EvStun "'m stun_event" | EvDtls dtls_event | EvRtp rtp_event

record 'm tagged =
  tg_now :: instant
  tg_transport :: transport_context
  tg_message :: "'m message_event"

end
