(* ===== verification/Sdp_Types.thy ===== *)
theory Sdp_Types
  imports Net_Types
begin

text \<open>
  The data of \<open>vendor/sfu/src/description\<close>: directions (\<open>rtp_transceiver_direction.rs\<close>),
  description types (\<open>sdp_type.rs\<close>), codecs (\<open>rtp_codec.rs\<close>), transceivers
  (\<open>rtp_transceiver.rs\<close>), and the readers of \<open>mod.rs\<close> that scan the attributes of a media section.

  Media and session descriptions are structs of the \<open>sdp\<close> crate.  The records below have the
  public fields the source reads or writes; \<open>sd_rest\<close> stands for the others, which only the
  crate's own functions look at.
\<close>

section \<open>Directions\<close>

datatype direction = DirUnspecified | Sendrecv | Sendonly | Recvonly | Inactive

definition unspecified_str :: string where
  "unspecified_str = ''Unspecified''"

definition direction_of_str :: "string \<Rightarrow> direction" where
  "direction_of_str raw =
     (if raw = ''sendrecv'' then Sendrecv
      else if raw = ''sendonly'' then Sendonly
      else if raw = ''recvonly'' then Recvonly
      else if raw = ''inactive'' then Inactive
      else DirUnspecified)"

definition direction_of_u8 :: "u8 \<Rightarrow> direction" where
  "direction_of_u8 v =
     (if v = 1 then Sendrecv else if v = 2 then Sendonly else if v = 3 then Recvonly
      else if v = 4 then Inactive else DirUnspecified)"

fun direction_str :: "direction \<Rightarrow> string" where
  "direction_str Sendrecv = ''sendrecv''"
| "direction_str Sendonly = ''sendonly''"
| "direction_str Recvonly = ''recvonly''"
| "direction_str Inactive = ''inactive''"
| "direction_str DirUnspecified = unspecified_str"

fun reverse_direction :: "direction \<Rightarrow> direction" where
  "reverse_direction Sendonly = Recvonly"
| "reverse_direction Recvonly = Sendonly"
| "reverse_direction d = d"

definition has_send :: "direction \<Rightarrow> bool" where
  "has_send d \<longleftrightarrow> d = Sendrecv \<or> d = Sendonly"

definition has_recv :: "direction \<Rightarrow> bool" where
  "has_recv d \<longleftrightarrow> d = Sendrecv \<or> d = Recvonly"

fun from_send_recv :: "bool \<Rightarrow> bool \<Rightarrow> direction" where
  "from_send_recv True True = Sendrecv"
| "from_send_recv True False = Sendonly"
| "from_send_recv False True = Recvonly"
| "from_send_recv False False = Inactive"

definition intersect_direction :: "direction \<Rightarrow> direction \<Rightarrow> direction" where
  "intersect_direction a b = from_send_recv (has_send a \<and> has_send b) (has_recv a \<and> has_recv b)"

lemma has_send_recv_simps [simp]:
  "has_send Sendrecv" "has_send Sendonly" "\<not> has_send Recvonly" "\<not> has_send Inactive"
  "\<not> has_send DirUnspecified" "has_recv Sendrecv" "\<not> has_recv Sendonly" "has_recv Recvonly"
  "\<not> has_recv Inactive" "\<not> has_recv DirUnspecified"
  by (simp_all add: has_send_def has_recv_def)

lemma has_send_from [simp]: "has_send (from_send_recv s r) = s"
  by (cases s; cases r) simp_all

lemma has_recv_from [simp]: "has_recv (from_send_recv s r) = r"
  by (cases s; cases r) simp_all

lemma has_send_reverse [simp]: "has_send (reverse_direction d) = has_recv d"
  by (cases d) simp_all

lemma has_recv_reverse [simp]: "has_recv (reverse_direction d) = has_send d"
  by (cases d) simp_all

lemma intersect_sends [simp]:
  "has_send (intersect_direction a b) \<longleftrightarrow> has_send a \<and> has_send b"
  "has_recv (intersect_direction a b) \<longleftrightarrow> has_recv a \<and> has_recv b"
  by (simp_all add: intersect_direction_def)

lemma direction_of_str_str [simp]: "direction_of_str (direction_str d) = d"
  by (cases d) (simp_all add: direction_of_str_def unspecified_str_def)

section \<open>Description types\<close>

definition sdp_type_of_str :: "string \<Rightarrow> sdp_type" where
  "sdp_type_of_str raw =
     (if raw = ''offer'' then SdpOffer
      else if raw = ''pranswer'' then SdpPranswer
      else if raw = ''answer'' then SdpAnswer
      else if raw = ''rollback'' then SdpRollback
      else SdpUnspecified)"

fun sdp_type_str :: "sdp_type \<Rightarrow> string" where
  "sdp_type_str SdpOffer = ''offer''"
| "sdp_type_str SdpPranswer = ''pranswer''"
| "sdp_type_str SdpAnswer = ''answer''"
| "sdp_type_str SdpRollback = ''rollback''"
| "sdp_type_str SdpUnspecified = unspecified_str"

lemma sdp_type_of_str_str [simp]: "sdp_type_of_str (sdp_type_str t) = t"
  by (cases t) (simp_all add: sdp_type_of_str_def unspecified_str_def)

section \<open>Codecs and transceivers\<close>

datatype codec_type = KindUnspecified | KindAudio | KindVideo

definition codec_type_of_str :: "string \<Rightarrow> codec_type" where
  "codec_type_of_str raw =
     (if raw = ''audio'' then KindAudio else if raw = ''video'' then KindVideo else KindUnspecified)"

definition codec_type_of_u8 :: "u8 \<Rightarrow> codec_type" where
  "codec_type_of_u8 v = (if v = 1 then KindAudio else if v = 2 then KindVideo else KindUnspecified)"

fun codec_type_str :: "codec_type \<Rightarrow> string" where
  "codec_type_str KindAudio = ''audio''"
| "codec_type_str KindVideo = ''video''"
| "codec_type_str KindUnspecified = unspecified_str"

lemma codec_type_of_str_str [simp]: "codec_type_of_str (codec_type_str k) = k"
  by (cases k) (simp_all add: codec_type_of_str_def unspecified_str_def)

record rtcp_feedback =
  fb_typ :: string
  fb_parameter :: string

record codec_capability =
  mime_type :: string
  clock_rate :: u32
  channels :: u16
  sdp_fmtp_line :: string
  rtcp_feedbacks :: "rtcp_feedback list"

record codec_parameters =
  capability :: codec_capability
  cp_payload_type :: u8
  stats_id :: u64

definition default_codec_parameters :: codec_parameters where
  "default_codec_parameters =
     \<lparr>capability = \<lparr>mime_type = [], clock_rate = 0, channels = 0, sdp_fmtp_line = [],
                    rtcp_feedbacks = []\<rparr>,
      cp_payload_type = 0, stats_id = 0\<rparr>"

record header_extension_parameters =
  hx_uri :: string
  hx_id :: int

record rtp_parameters =
  rp_header_extensions :: "header_extension_parameters list"
  rp_codecs :: "codec_parameters list"

record media_stream_id =
  stream_id :: string
  track_id :: string

record ssrc_group =
  sg_name :: string
  sg_ssrcs :: "u32 list"

record rtp_sender =
  sn_cname :: string
  sn_msid :: media_stream_id
  sn_ssrcs :: "u32 list"
  sn_ssrc_groups :: "ssrc_group list"

record transceiver =
  tr_mid :: string
  tr_sender :: "rtp_sender option"
  tr_direction :: direction
  tr_current_direction :: direction
  tr_rtp_params :: rtp_parameters
  tr_kind :: codec_type

section \<open>Descriptions\<close>

record sdp_attribute =
  a_key :: string
  a_value :: "string option"

record connection_information =
  ci_network_type :: string
  ci_address_type :: string
  ci_address :: "string option"

record media_description =
  md_media :: string
  md_port :: int
  md_protos :: "string list"
  md_formats :: "string list"
  md_connection :: "connection_information option"
  md_attributes :: "sdp_attribute list"

record origin =
  or_session_id :: u64
  or_session_version :: u64

record session_description =
  sd_origin :: origin
  sd_attributes :: "sdp_attribute list"
  sd_media_descriptions :: "media_description list"
  sd_rest :: "u8 list"

record rtc_description =
  rd_sdp_type :: sdp_type
  rd_sdp :: string
  rd_parsed :: "session_description option"

section \<open>Readers of a media section\<close>

definition media_section_application :: string where
  "media_section_application = ''application''"

fun first_attr :: "(sdp_attribute \<Rightarrow> 'a option) \<Rightarrow> sdp_attribute list \<Rightarrow> 'a option" where
  "first_attr f [] = None"
| "first_attr f (a # as) = (case f a of Some v \<Rightarrow> Some v | None \<Rightarrow> first_attr f as)"

text \<open>The first \<open>mid\<close> attribute decides, also when it has no value.\<close>

definition get_mid_value :: "media_description \<Rightarrow> string option" where
  "get_mid_value m =
     (case first_attr (\<lambda>a. if a_key a = ''mid'' then Some (a_value a) else None) (md_attributes m) of
        Some v \<Rightarrow> v
      | None \<Rightarrow> None)"

definition get_peer_direction :: "media_description \<Rightarrow> direction" where
  "get_peer_direction m =
     (case first_attr (\<lambda>a. let d = direction_of_str (a_key a)
                           in if d \<noteq> DirUnspecified then Some d else None) (md_attributes m) of
        Some d \<Rightarrow> d
      | None \<Rightarrow> DirUnspecified)"

definition get_cname :: "media_description \<Rightarrow> string option" where
  "get_cname m =
     first_attr (\<lambda>a. if a_key a = ''ssrc'' then
                       (case a_value a of
                          Some v \<Rightarrow> if str_contains v ''cname'' then Some (last (split_on (CHR '':'') v))
                                    else None
                        | None \<Rightarrow> None)
                     else None) (md_attributes m)"

definition msid_of_fields :: "string list \<Rightarrow> media_stream_id option" where
  "msid_of_fields fs =
     (case fs of [s, t] \<Rightarrow> Some \<lparr>stream_id = s, track_id = t\<rparr> | _ \<Rightarrow> None)"

definition get_msid :: "media_description \<Rightarrow> media_stream_id option" where
  "get_msid m =
     first_attr (\<lambda>a. if a_key a = ''msid'' then
                       (case a_value a of
                          Some v \<Rightarrow> msid_of_fields (split_whitespace v)
                        | None \<Rightarrow> None)
                     else if a_key a = ''ssrc'' then
                       (case a_value a of
                          Some v \<Rightarrow> if str_contains v ''msid''
                                    then msid_of_fields (split_whitespace (last (split_on (CHR '':'') v)))
                                    else None
                        | None \<Rightarrow> None)
                     else None) (md_attributes m)"

definition parse_u32 :: "string \<Rightarrow> u32 res" where
  "parse_u32 s = (case parse_uint 4294967295 s of Some n \<Rightarrow> Inr (of_nat n) | None \<Rightarrow> Inl ErrParseInt)"

fun get_ssrc_groups_from :: "sdp_attribute list \<Rightarrow> ssrc_group list res" where
  "get_ssrc_groups_from [] = Inr []"
| "get_ssrc_groups_from (a # as) =
     (case (if a_key a = ''ssrc-group'' then map_option split_whitespace (a_value a) else None) of
        Some fs \<Rightarrow>
          if length fs \<ge> 3 then
            and_then (collect_results parse_u32 (drop 1 fs)) (\<lambda>ss.
            and_then (get_ssrc_groups_from as) (\<lambda>gs.
              Inr (\<lparr>sg_name = fs ! 0, sg_ssrcs = ss\<rparr> # gs)))
          else get_ssrc_groups_from as
      | None \<Rightarrow> get_ssrc_groups_from as)"

definition get_ssrc_groups :: "media_description \<Rightarrow> ssrc_group list res" where
  "get_ssrc_groups m = get_ssrc_groups_from (md_attributes m)"

fun get_ssrcs_from :: "u32 list \<Rightarrow> sdp_attribute list \<Rightarrow> u32 list res" where
  "get_ssrcs_from acc [] = Inr acc"
| "get_ssrcs_from acc (a # as) =
     (case (if a_key a = ''ssrc'' then map_option split_whitespace (a_value a) else None) of
        Some (f # fs) \<Rightarrow>
          and_then (parse_u32 f) (\<lambda>s. get_ssrcs_from (if s \<in> set acc then acc else acc @ [s]) as)
      | _ \<Rightarrow> get_ssrcs_from acc as)"

definition get_ssrcs :: "media_description \<Rightarrow> u32 list res" where
  "get_ssrcs m = get_ssrcs_from [] (md_attributes m)"

definition get_rids :: "media_description \<Rightarrow> (string, string) hmap" where
  "get_rids m =
     foldl (\<lambda>rids a.
       if a_key a = ''rid'' then
         (case a_value a of
            Some v \<Rightarrow> hm_insert (hd (split_on (CHR '' '') v)) v rids
          | None \<Rightarrow> rids)
       else rids) [] (md_attributes m)"

definition have_application_media_section :: "session_description \<Rightarrow> bool" where
  "have_application_media_section d \<longleftrightarrow>
     (\<exists>m \<in> set (sd_media_descriptions d). md_media m = media_section_application)"

definition have_data_channel :: "rtc_description \<Rightarrow> media_description option" where
  "have_data_channel desc =
     (case rd_parsed desc of
        Some p \<Rightarrow> find (\<lambda>m. md_media m = media_section_application) (sd_media_descriptions p)
      | None \<Rightarrow> None)"

definition update_sdp_origin :: "origin \<Rightarrow> session_description \<Rightarrow> origin \<times> session_description" where
  "update_sdp_origin og d =
     (if or_session_version og = 0 then
        (og\<lparr>or_session_version := or_session_version (sd_origin d),
            or_session_id := or_session_id (sd_origin d)\<rparr>, d)
      else
        (og\<lparr>or_session_version := or_session_version og + 1\<rparr>,
         d\<lparr>sd_origin := \<lparr>or_session_id = or_session_id og,
                         or_session_version = or_session_version (sd_origin d) + 1\<rparr>\<rparr>))"

section \<open>Facts about the readers\<close>

lemma first_attr_Some:
  "first_attr f as = Some v \<Longrightarrow> \<exists>a \<in> set as. f a = Some v"
  by (induction as) (auto split: option.splits)

lemma first_attr_None: "first_attr f as = None \<longleftrightarrow> (\<forall>a \<in> set as. f a = None)"
  by (induction as) (auto split: option.splits)

lemma first_attr_append:
  "first_attr f (xs @ ys) = (case first_attr f xs of Some v \<Rightarrow> Some v | None \<Rightarrow> first_attr f ys)"
  by (induction xs) (auto split: option.splits)

lemma get_ssrcs_from_distinct:
  "get_ssrcs_from acc as = Inr ss \<Longrightarrow> distinct acc \<Longrightarrow> distinct ss"
proof (induction acc as rule: get_ssrcs_from.induct)
  case (2 acc a as)
  then show ?case
    by (fastforce simp: result_simps split: if_splits option.splits list.splits)
qed simp

lemma get_ssrcs_from_mono: "get_ssrcs_from acc as = Inr ss \<Longrightarrow> set acc \<subseteq> set ss"
proof (induction acc as rule: get_ssrcs_from.induct)
  case (2 acc a as)
  then show ?case
    by (fastforce simp: result_simps split: if_splits option.splits list.splits)
qed simp

lemma parse_u32_dec [simp]: "parse_u32 (dec (unat (w :: u32))) = Inr w"
proof -
  have "unat w \<le> 4294967295"
    using unsigned_less [of w, where 'a = nat] by simp
  then show ?thesis by (simp add: parse_u32_def parse_uint_dec)
qed

lemma get_rids_wf: "hm_wf (get_rids m)"
proof -
  have "hm_wf rids \<Longrightarrow> hm_wf (foldl (\<lambda>rids a.
       if a_key a = ''rid'' then
         (case a_value a of
            Some v \<Rightarrow> hm_insert (hd (split_on (CHR '' '') v)) v rids
          | None \<Rightarrow> rids)
       else rids) rids as)" for as :: "sdp_attribute list" and rids
    by (induction as arbitrary: rids) (auto split: option.splits)
  then show ?thesis by (simp add: get_rids_def)
qed

end
