(* ===== verification/Fmtp_Codec.thy ===== *)
theory Fmtp_Codec
  imports Sdp_Types
begin

text \<open>
  Format parameters and codec matching: \<open>vendor/sfu/src/description/fmtp\<close> and
  \<open>codec_parameters_fuzzy_search\<close> of \<open>rtp_codec.rs\<close>.  The trait object \<open>dyn Fmtp\<close> is a datatype
  with one constructor per implementation.  \<open>hex::decode\<close> is the argument \<open>hexd\<close>.
\<close>

section \<open>Format parameters\<close>

datatype fmtp =
    GenericFmtp (gen_mime: string) (fm_params: "(string, string) hmap")
  | H264Fmtp (fm_params: "(string, string) hmap")

definition fmtp_params_of :: "string \<Rightarrow> (string, string) hmap" where
  "fmtp_params_of line =
     foldl (\<lambda>ps p.
       let pp = splitn_on 2 (CHR ''='') (trim p);
           key = to_lowercase (pp ! 0);
           v = (if length pp > 1 then pp ! 1 else [])
       in hm_insert key v ps) [] (split_on (CHR '';'') line)"

definition fmtp_parse :: "string \<Rightarrow> string \<Rightarrow> fmtp" where
  "fmtp_parse mime line =
     (if to_uppercase mime = to_uppercase ''video/h264'' then H264Fmtp (fmtp_params_of line)
      else GenericFmtp mime (fmtp_params_of line))"

definition fmtp_parameter :: "fmtp \<Rightarrow> string \<Rightarrow> string option" where
  "fmtp_parameter f key = hm_get (fm_params f) key"

fun fmtp_mime_type :: "fmtp \<Rightarrow> string" where
  "fmtp_mime_type (GenericFmtp m ps) = m"
| "fmtp_mime_type (H264Fmtp ps) = ''video/h264''"

definition params_agree :: "(string, string) hmap \<Rightarrow> (string, string) hmap \<Rightarrow> bool" where
  "params_agree a b \<longleftrightarrow>
     (\<forall>(k, v) \<in> set a. case hm_get b k of
        Some vb \<Rightarrow> to_uppercase vb = to_uppercase v
      | None \<Rightarrow> True)"

definition fmtp_consist :: "(string, string) hmap \<Rightarrow> (string, string) hmap \<Rightarrow> bool" where
  "fmtp_consist a b \<longleftrightarrow> params_agree a b \<and> params_agree b a"

definition profile_level_id_matches :: "(string \<Rightarrow> u8 list option) \<Rightarrow> string \<Rightarrow> string \<Rightarrow> bool" where
  "profile_level_id_matches hexd a b =
     (case hexd a of
        None \<Rightarrow> False
      | Some aa \<Rightarrow>
          if length aa < 2 then False
          else case hexd b of
                 None \<Rightarrow> False
               | Some bb \<Rightarrow> if length bb < 2 then False else aa ! 0 = bb ! 0 \<and> aa ! 1 = bb ! 1)"

fun match_fmtp :: "(string \<Rightarrow> u8 list option) \<Rightarrow> fmtp \<Rightarrow> fmtp \<Rightarrow> bool" where
  "match_fmtp hexd (GenericFmtp m ps) (GenericFmtp n qs) =
     (if to_lowercase m \<noteq> to_lowercase n then False else fmtp_consist ps qs)"
| "match_fmtp hexd (H264Fmtp ps) (H264Fmtp qs) =
     (case (hm_get ps ''packetization-mode'', hm_get qs ''packetization-mode'') of
        (Some hp, Some cp) \<Rightarrow>
          if hp \<noteq> cp then False
          else (case (hm_get ps ''profile-level-id'', hm_get qs ''profile-level-id'') of
                  (Some hl, Some cl) \<Rightarrow> profile_level_id_matches hexd hl cl
                | _ \<Rightarrow> False)
      | _ \<Rightarrow> False)"
| "match_fmtp hexd _ _ = False"

section \<open>Searching a codec\<close>

datatype codec_match = MatchNone | MatchPartial | MatchExact

definition codec_fmtp :: "codec_parameters \<Rightarrow> fmtp" where
  "codec_fmtp c = fmtp_parse (mime_type (capability c)) (sdp_fmtp_line (capability c))"

definition codec_parameters_fuzzy_search ::
  "(string \<Rightarrow> u8 list option) \<Rightarrow> codec_parameters \<Rightarrow> codec_parameters list
     \<Rightarrow> codec_parameters \<times> codec_match" where
  "codec_parameters_fuzzy_search hexd needle haystack =
     (case find (\<lambda>c. match_fmtp hexd (codec_fmtp needle) (codec_fmtp c)) haystack of
        Some c \<Rightarrow> (c, MatchExact)
      | None \<Rightarrow>
          (case find (\<lambda>c. to_uppercase (mime_type (capability c)) =
                          to_uppercase (mime_type (capability needle))) haystack of
             Some c \<Rightarrow> (c, MatchPartial)
           | None \<Rightarrow> (default_codec_parameters, MatchNone)))"

section \<open>Facts\<close>

lemma params_agree_get:
  "hm_wf a \<Longrightarrow> params_agree a b \<longleftrightarrow>
     (\<forall>k v w. hm_get a k = Some v \<longrightarrow> hm_get b k = Some w \<longrightarrow> to_uppercase w = to_uppercase v)"
  unfolding params_agree_def by (fastforce simp: hm_in_set_get split: option.splits)

lemma fmtp_consist_commute: "fmtp_consist a b = fmtp_consist b a"
  by (auto simp: fmtp_consist_def)

lemma fmtp_consist_refl: "hm_wf a \<Longrightarrow> fmtp_consist a a"
  by (simp add: fmtp_consist_def params_agree_get)

lemma profile_level_id_matches_commute:
  "profile_level_id_matches hexd a b = profile_level_id_matches hexd b a"
  by (auto simp: profile_level_id_matches_def split: option.splits)

lemma match_fmtp_commute: "match_fmtp hexd f g = match_fmtp hexd g f"
proof (cases f; cases g)
  fix ps qs assume "f = H264Fmtp ps" "g = H264Fmtp qs"
  then show ?thesis
    by (auto simp: profile_level_id_matches_commute split: option.splits)
qed (auto simp: fmtp_consist_commute)

lemma fmtp_params_wf_aux:
  "hm_wf ps \<Longrightarrow> hm_wf (foldl (\<lambda>ps p.
       let pp = splitn_on 2 (CHR ''='') (trim p);
           key = to_lowercase (pp ! 0);
           v = (if length pp > 1 then pp ! 1 else [])
       in hm_insert key v ps) ps xs)"
  by (induction xs arbitrary: ps) (auto simp: Let_def)

lemma fmtp_params_of_wf [simp]: "hm_wf (fmtp_params_of line)"
  unfolding fmtp_params_of_def by (rule fmtp_params_wf_aux) simp

lemma lower_upper_char [simp]: "lower_char (upper_char c) = lower_char c"
  by (auto simp: lower_char_def upper_char_def Let_def)

lemma upper_lower_char [simp]: "upper_char (lower_char c) = upper_char c"
  by (auto simp: lower_char_def upper_char_def Let_def)

lemma upper_eq_iff_lower_eq: "to_uppercase s = to_uppercase t \<longleftrightarrow> to_lowercase s = to_lowercase t"
proof
  assume "to_uppercase s = to_uppercase t"
  then have "map lower_char (to_uppercase s) = map lower_char (to_uppercase t)" by simp
  then show "to_lowercase s = to_lowercase t"
    by (simp add: to_uppercase_def to_lowercase_def comp_def)
next
  assume "to_lowercase s = to_lowercase t"
  then have "map upper_char (to_lowercase s) = map upper_char (to_lowercase t)" by simp
  then show "to_uppercase s = to_uppercase t"
    by (simp add: to_uppercase_def to_lowercase_def comp_def)
qed

lemma match_codec_fmtp_mime:
  assumes "match_fmtp hexd (codec_fmtp a) (codec_fmtp b)"
  shows "to_uppercase (mime_type (capability a)) = to_uppercase (mime_type (capability b))"
  using assms by (auto simp: codec_fmtp_def fmtp_parse_def upper_eq_iff_lower_eq split: if_splits)

lemma fuzzy_search_mime:
  assumes "codec_parameters_fuzzy_search hexd needle hs = (c, mt)" and "mt \<noteq> MatchNone"
  shows "c \<in> set hs \<and> to_uppercase (mime_type (capability c)) = to_uppercase (mime_type (capability needle))"
proof (cases "find (\<lambda>c. match_fmtp hexd (codec_fmtp needle) (codec_fmtp c)) hs")
  case None
  with assms show ?thesis
    by (auto simp: codec_parameters_fuzzy_search_def find_Some_iff split: option.splits)
next
  case (Some x)
  with assms show ?thesis
    using match_codec_fmtp_mime [of hexd needle x]
    by (auto simp: codec_parameters_fuzzy_search_def find_Some_iff)
qed

lemma fuzzy_search_exact_iff:
  "snd (codec_parameters_fuzzy_search hexd needle hs) = MatchExact \<longleftrightarrow>
     (\<exists>c \<in> set hs. match_fmtp hexd (codec_fmtp needle) (codec_fmtp c))"
proof (cases "find (\<lambda>c. match_fmtp hexd (codec_fmtp needle) (codec_fmtp c)) hs")
  case None
  then show ?thesis
    by (auto simp: codec_parameters_fuzzy_search_def find_None_iff split: option.splits)
next
  case (Some x)
  then have "x \<in> set hs \<and> match_fmtp hexd (codec_fmtp needle) (codec_fmtp x)"
    by (auto simp: find_Some_iff)
  with Some show ?thesis by (auto simp: codec_parameters_fuzzy_search_def)
qed

lemma fuzzy_search_none_iff:
  "snd (codec_parameters_fuzzy_search hexd needle hs) = MatchNone \<longleftrightarrow>
     (\<forall>c \<in> set hs. to_uppercase (mime_type (capability c)) \<noteq> to_uppercase (mime_type (capability needle)))"
proof -
  let ?r = "codec_parameters_fuzzy_search hexd needle hs"
  have "snd ?r = MatchNone \<Longrightarrow> c \<in> set hs \<Longrightarrow>
      to_uppercase (mime_type (capability c)) \<noteq> to_uppercase (mime_type (capability needle))" for c
    by (auto simp: codec_parameters_fuzzy_search_def find_None_iff split: option.splits)
  then show ?thesis
    using fuzzy_search_mime [of hexd needle hs "fst ?r" "snd ?r"] by auto
qed

end
