(* ===== verification/Sdp_Lib.thy ===== *)
theory Sdp_Lib
  imports Fmtp_Codec
begin

text \<open>
  The functions of the \<open>sdp\<close> and \<open>url\<close> crates the source calls, gathered in a record that the
  definitions take as their argument \<open>L\<close>.  \<open>sdp_laws\<close> names what the source relies on: the
  builder methods append attributes and media sections and leave everything else alone.
  \<open>plain_sdp\<close> is a concrete record that obeys the laws.
\<close>

section \<open>The crate's functions\<close>

datatype connection_role = RoleUnspecified | RoleActive | RolePassive | RoleActpass

record sdp_codec =
  sc_name :: string
  sc_clock_rate :: u32
  sc_encoding_parameters :: string
  sc_fmtp :: string
  sc_rtcp_feedback :: "string list"

record sdp_extmap =
  em_value :: int
  em_uri :: "string option"

record sdp_lib =
  sl_key_setup :: string
  sl_key_mid :: string
  sl_key_rtcpmux :: string
  sl_key_rtcprsize :: string
  sl_key_icelite :: string
  sl_key_group :: string
  sl_key_extmap :: string
  sl_role_str :: "connection_role \<Rightarrow> string"
  sl_unmarshal :: "string \<Rightarrow> string + session_description"
  sl_marshal :: "session_description \<Rightarrow> string"
  sl_new_session :: "bool \<Rightarrow> session_description"
  sl_new_media :: "string \<Rightarrow> media_description"
  sl_session_attribute :: "session_description \<Rightarrow> string \<Rightarrow> string option"
  sl_media_attribute :: "media_description \<Rightarrow> string \<Rightarrow> string option option"
  sl_codec_for_payload_type :: "media_description \<Rightarrow> u8 \<Rightarrow> string + sdp_codec"
  sl_parse_extmap :: "sdp_attribute \<Rightarrow> string + sdp_extmap"
  sl_value_attribute :: "string \<Rightarrow> string \<Rightarrow> media_description \<Rightarrow> media_description"
  sl_property_attribute :: "string \<Rightarrow> media_description \<Rightarrow> media_description"
  sl_ice_credentials :: "string \<Rightarrow> string \<Rightarrow> media_description \<Rightarrow> media_description"
  sl_fingerprint :: "string \<Rightarrow> string \<Rightarrow> media_description \<Rightarrow> media_description"
  sl_codec :: "u8 \<Rightarrow> string \<Rightarrow> u32 \<Rightarrow> u16 \<Rightarrow> string \<Rightarrow> media_description \<Rightarrow> media_description"
  sl_extmap :: "sdp_extmap \<Rightarrow> media_description \<Rightarrow> media_description"
  sl_media_source :: "u32 \<Rightarrow> string \<Rightarrow> string \<Rightarrow> string \<Rightarrow> media_description \<Rightarrow> media_description"
  sl_with_media :: "media_description \<Rightarrow> session_description \<Rightarrow> session_description"
  sl_session_fingerprint :: "string \<Rightarrow> string \<Rightarrow> session_description \<Rightarrow> session_description"
  sl_session_property :: "string \<Rightarrow> session_description \<Rightarrow> session_description"
  sl_session_value :: "string \<Rightarrow> string \<Rightarrow> session_description \<Rightarrow> session_description"
  sl_parse_url :: "string \<Rightarrow> error + string"

section \<open>What the source relies on\<close>

text \<open>A builder step on a media section appends attributes whose keys satisfy \<open>P\<close>.\<close>

definition appends :: "(string \<Rightarrow> bool) \<Rightarrow> (media_description \<Rightarrow> media_description) \<Rightarrow> bool" where
  "appends P f \<longleftrightarrow>
     (\<forall>m. \<exists>as. md_attributes (f m) = md_attributes m @ as \<and> (\<forall>a \<in> set as. P (a_key a)) \<and>
               md_media (f m) = md_media m)"

text \<open>A key the readers of a media section do not look for.\<close>

definition inert_key :: "string \<Rightarrow> bool" where
  "inert_key k \<longleftrightarrow> k \<noteq> ''mid'' \<and> k \<noteq> ''candidate'' \<and> direction_of_str k = DirUnspecified"

definition sdp_laws :: "sdp_lib \<Rightarrow> bool" where
  "sdp_laws L \<longleftrightarrow>
     sl_key_mid L = ''mid'' \<and> inert_key (sl_key_setup L) \<and> inert_key (sl_key_rtcpmux L) \<and>
     inert_key (sl_key_rtcprsize L) \<and>
     (\<forall>k v m. md_attributes (sl_value_attribute L k v m) = md_attributes m @ [\<lparr>a_key = k, a_value = Some v\<rparr>] \<and>
              md_media (sl_value_attribute L k v m) = md_media m) \<and>
     (\<forall>k m. md_attributes (sl_property_attribute L k m) = md_attributes m @ [\<lparr>a_key = k, a_value = None\<rparr>] \<and>
            md_media (sl_property_attribute L k m) = md_media m) \<and>
     (\<forall>u p. appends inert_key (sl_ice_credentials L u p)) \<and>
     (\<forall>a v. appends inert_key (sl_fingerprint L a v)) \<and>
     (\<forall>pt n r c f. appends inert_key (sl_codec L pt n r c f)) \<and>
     (\<forall>e. appends inert_key (sl_extmap L e)) \<and>
     (\<forall>s c i t. appends inert_key (sl_media_source L s c i t)) \<and>
     (\<forall>k. md_attributes (sl_new_media L k) = [] \<and> md_media (sl_new_media L k) = k) \<and>
     (\<forall>b. sd_media_descriptions (sl_new_session L b) = []) \<and>
     (\<forall>m d. sd_media_descriptions (sl_with_media L m d) = sd_media_descriptions d @ [m] \<and>
            sd_attributes (sl_with_media L m d) = sd_attributes d) \<and>
     (\<forall>a v d. sd_media_descriptions (sl_session_fingerprint L a v d) = sd_media_descriptions d) \<and>
     (\<forall>k d. sd_media_descriptions (sl_session_property L k d) = sd_media_descriptions d) \<and>
     (\<forall>k v d. sd_media_descriptions (sl_session_value L k v d) = sd_media_descriptions d \<and>
              sd_attributes (sl_session_value L k v d) = sd_attributes d @ [\<lparr>a_key = k, a_value = Some v\<rparr>])"

lemma appendsE:
  assumes "appends P f"
  obtains as where "md_attributes (f m) = md_attributes m @ as" "\<forall>a \<in> set as. P (a_key a)"
    "md_media (f m) = md_media m"
  using assms by (auto simp: appends_def)

lemma appends_id [intro]: "appends P (\<lambda>m. m)"
  by (auto simp: appends_def)

lemma appends_comp: "appends P f \<Longrightarrow> appends P g \<Longrightarrow> appends P (\<lambda>m. g (f m))"
  unfolding appends_def
proof
  fix m
  assume f: "\<forall>m. \<exists>as. md_attributes (f m) = md_attributes m @ as \<and> (\<forall>a \<in> set as. P (a_key a)) \<and>
               md_media (f m) = md_media m"
    and g: "\<forall>m. \<exists>as. md_attributes (g m) = md_attributes m @ as \<and> (\<forall>a \<in> set as. P (a_key a)) \<and>
               md_media (g m) = md_media m"
  obtain as where as: "md_attributes (f m) = md_attributes m @ as" "\<forall>a \<in> set as. P (a_key a)"
    "md_media (f m) = md_media m" using f by blast
  obtain bs where bs: "md_attributes (g (f m)) = md_attributes (f m) @ bs" "\<forall>a \<in> set bs. P (a_key a)"
    "md_media (g (f m)) = md_media (f m)" using g by blast
  from as bs show "\<exists>cs. md_attributes (g (f m)) = md_attributes m @ cs \<and> (\<forall>a \<in> set cs. P (a_key a)) \<and>
               md_media (g (f m)) = md_media m"
    by (intro exI [of _ "as @ bs"]) auto
qed

lemma appends_foldl: "(\<And>x. x \<in> set xs \<Longrightarrow> appends P (\<lambda>m. f m x)) \<Longrightarrow> appends P (\<lambda>m. foldl f m xs)"
proof (induction xs)
  case (Cons x xs)
  have "appends P (\<lambda>m. foldl f (f m x) xs)"
    using Cons.prems by (intro appends_comp [where f = "\<lambda>m. f m x" and g = "\<lambda>m. foldl f m xs"] Cons.IH) simp_all
  then show ?case by simp
qed auto

lemma appends_mono: "appends P f \<Longrightarrow> (\<And>k. P k \<Longrightarrow> Q k) \<Longrightarrow> appends Q f"
  unfolding appends_def by meson

section \<open>A record that obeys the laws\<close>

definition add_attribute :: "string \<Rightarrow> string option \<Rightarrow> media_description \<Rightarrow> media_description" where
  "add_attribute k v m = m\<lparr>md_attributes := md_attributes m @ [\<lparr>a_key = k, a_value = v\<rparr>]\<rparr>"

definition add_session_attribute :: "string \<Rightarrow> string option \<Rightarrow> session_description \<Rightarrow> session_description" where
  "add_session_attribute k v d = d\<lparr>sd_attributes := sd_attributes d @ [\<lparr>a_key = k, a_value = v\<rparr>]\<rparr>"

definition plain_media :: "string \<Rightarrow> media_description" where
  "plain_media k = \<lparr>md_media = k, md_port = 9, md_protos = [''UDP''], md_formats = [],
                    md_connection = None, md_attributes = []\<rparr>"

definition plain_session :: session_description where
  "plain_session = \<lparr>sd_origin = \<lparr>or_session_id = 7, or_session_version = 1\<rparr>, sd_attributes = [],
                    sd_media_descriptions = [], sd_rest = []\<rparr>"

definition plain_sdp :: sdp_lib where
  "plain_sdp =
     \<lparr>sl_key_setup = ''setup'', sl_key_mid = ''mid'', sl_key_rtcpmux = ''rtcp-mux'',
      sl_key_rtcprsize = ''rtcp-rsize'', sl_key_icelite = ''ice-lite'', sl_key_group = ''group'',
      sl_key_extmap = ''extmap'',
      sl_role_str = (\<lambda>r. case r of RoleActive \<Rightarrow> ''active'' | RolePassive \<Rightarrow> ''passive''
                                | RoleActpass \<Rightarrow> ''actpass'' | RoleUnspecified \<Rightarrow> ''Unspecified''),
      sl_unmarshal = (\<lambda>s. Inr plain_session),
      sl_marshal = (\<lambda>d. ''''),
      sl_new_session = (\<lambda>b. plain_session),
      sl_new_media = plain_media,
      sl_session_attribute = (\<lambda>d k. first_attr (\<lambda>a. if a_key a = k then a_value a else None) (sd_attributes d)),
      sl_media_attribute = (\<lambda>m k. first_attr (\<lambda>a. if a_key a = k then Some (a_value a) else None) (md_attributes m)),
      sl_codec_for_payload_type = (\<lambda>m pt. Inl ''payload type not found''),
      sl_parse_extmap = (\<lambda>a. Inl ''syntax error''),
      sl_value_attribute = (\<lambda>k v. add_attribute k (Some v)),
      sl_property_attribute = (\<lambda>k. add_attribute k None),
      sl_ice_credentials = (\<lambda>u p m. add_attribute ''ice-pwd'' (Some p) (add_attribute ''ice-ufrag'' (Some u) m)),
      sl_fingerprint = (\<lambda>a v. add_attribute ''fingerprint'' (Some (a @ '' '' @ v))),
      sl_codec = (\<lambda>pt n r c f. add_attribute ''rtpmap'' (Some n)),
      sl_extmap = (\<lambda>e. add_attribute ''extmap'' (em_uri e)),
      sl_media_source = (\<lambda>s c i t. add_attribute ''ssrc'' (Some (dec (unat s) @ '' cname:'' @ c))),
      sl_with_media = (\<lambda>m d. d\<lparr>sd_media_descriptions := sd_media_descriptions d @ [m]\<rparr>),
      sl_session_fingerprint = (\<lambda>a v. add_session_attribute ''fingerprint'' (Some (a @ '' '' @ v))),
      sl_session_property = (\<lambda>k. add_session_attribute k None),
      sl_session_value = (\<lambda>k v. add_session_attribute k (Some v)),
      sl_parse_url = Inr\<rparr>"

lemma add_attribute_simps [simp]:
  "md_attributes (add_attribute k v m) = md_attributes m @ [\<lparr>a_key = k, a_value = v\<rparr>]"
  "md_media (add_attribute k v m) = md_media m"
  by (simp_all add: add_attribute_def)

lemma add_session_attribute_simps [simp]:
  "sd_attributes (add_session_attribute k v d) = sd_attributes d @ [\<lparr>a_key = k, a_value = v\<rparr>]"
  "sd_media_descriptions (add_session_attribute k v d) = sd_media_descriptions d"
  by (simp_all add: add_session_attribute_def)

lemma plain_sdp_laws: "sdp_laws plain_sdp"
  unfolding sdp_laws_def appends_def inert_key_def
  by (simp add: plain_sdp_def plain_media_def plain_session_def direction_of_str_def)

end
