(* ===== verification/Media_Config.thy ===== *)
theory Media_Config
  imports Sdp_Lib
begin

text \<open>
  \<open>vendor/sfu/src/description/config.rs\<close>: the codecs and header extensions an SFU supports, what
  was negotiated, and the proposals it makes.  The two readers of \<open>mod.rs\<close> that turn a media
  section into codecs and header extensions are here too, because negotiation calls them.
\<close>

section \<open>State\<close>

record header_extension =
  he_uri :: string
  he_is_audio :: bool
  he_is_video :: bool
  he_allowed :: "direction option"

datatype interceptor_builder = SenderReportBuilder | ReceiverReportBuilder

record media_config =
  mc_registry :: "interceptor_builder list"
  mc_negotiated_video :: bool
  mc_negotiated_audio :: bool
  mc_video_codecs :: "codec_parameters list"
  mc_audio_codecs :: "codec_parameters list"
  mc_negotiated_video_codecs :: "codec_parameters list"
  mc_negotiated_audio_codecs :: "codec_parameters list"
  mc_extensions :: "header_extension list"
  mc_proposed :: "(int, header_extension) hmap"
  mc_negotiated :: "(int, header_extension) hmap"

definition valid_ext_ids :: "int list" where
  "valid_ext_ids = [1..14]"

definition valid_ext_ids_end :: nat where
  "valid_ext_ids_end = 15"

fun is_matching_direction :: "header_extension \<Rightarrow> direction \<Rightarrow> bool" where
  "is_matching_direction e d =
     (case he_allowed e of
        Some a \<Rightarrow> a = Inactive \<and> d = Inactive \<or> has_send a \<and> has_send d \<or> has_recv a \<and> has_recv d
      | None \<Rightarrow> True)"

section \<open>Registration\<close>

definition add_codec :: "codec_parameters list \<Rightarrow> codec_parameters \<Rightarrow> codec_parameters list" where
  "add_codec cs c =
     (if \<exists>d \<in> set cs. mime_type (capability d) = mime_type (capability c) \<and>
                      cp_payload_type d = cp_payload_type c
      then cs else cs @ [c])"

definition register_codec :: "codec_parameters \<Rightarrow> codec_type \<Rightarrow> media_config \<Rightarrow> unit res \<times> media_config" where
  "register_codec c typ mc =
     (case typ of
        KindAudio \<Rightarrow> (Inr (), mc\<lparr>mc_audio_codecs := add_codec (mc_audio_codecs mc) c\<rparr>)
      | KindVideo \<Rightarrow> (Inr (), mc\<lparr>mc_video_codecs := add_codec (mc_video_codecs mc) c\<rparr>)
      | KindUnspecified \<Rightarrow> (Inl (Other ''ErrUnknownType'' []), mc))"

text \<open>A literal \<open>RTCRtpCodecParameters\<close>: no feedback, every other field at its default.\<close>

definition codec_of :: "string \<Rightarrow> u32 \<Rightarrow> u16 \<Rightarrow> string \<Rightarrow> u8 \<Rightarrow> codec_parameters" where
  "codec_of mime rate ch fm pt =
     default_codec_parameters\<lparr>
       capability := \<lparr>mime_type = mime, clock_rate = rate, channels = ch, sdp_fmtp_line = fm,
                      rtcp_feedbacks = []\<rparr>,
       cp_payload_type := pt\<rparr>"

definition default_audio_codecs :: "codec_parameters list" where
  "default_audio_codecs =
     [codec_of ''audio/opus'' 48000 2 ''minptime=10;useinbandfec=1'' 111,
      codec_of ''audio/G722'' 8000 0 '''' 9,
      codec_of ''audio/PCMU'' 8000 0 '''' 0,
      codec_of ''audio/PCMA'' 8000 0 '''' 8]"

definition default_video_codecs :: "codec_parameters list" where
  "default_video_codecs =
     [codec_of ''video/VP8'' 90000 0 '''' 96,
      codec_of ''video/VP9'' 90000 0 ''profile-id=0'' 98,
      codec_of ''video/VP9'' 90000 0 ''profile-id=1'' 100,
      codec_of ''video/H264'' 90000 0
        ''level-asymmetry-allowed=1;packetization-mode=1;profile-level-id=42001f'' 102,
      codec_of ''video/H264'' 90000 0
        ''level-asymmetry-allowed=1;packetization-mode=0;profile-level-id=42001f'' 127,
      codec_of ''video/H264'' 90000 0
        ''level-asymmetry-allowed=1;packetization-mode=1;profile-level-id=42e01f'' 125,
      codec_of ''video/H264'' 90000 0
        ''level-asymmetry-allowed=1;packetization-mode=0;profile-level-id=42e01f'' 108,
      codec_of ''video/H264'' 90000 0
        ''level-asymmetry-allowed=1;packetization-mode=0;profile-level-id=42001f'' 127,
      codec_of ''video/H264'' 90000 0
        ''level-asymmetry-allowed=1;packetization-mode=1;profile-level-id=640032'' 123,
      codec_of ''video/AV1'' 90000 0 ''profile-id=0'' 41,
      codec_of ''video/ulpfec'' 90000 0 '''' 116]"

text \<open>\<open>payloader_for_codec\<close> of \<open>rtp_codec.rs\<close>: which payloader of the RTP crate a codec is sent with.\<close>

datatype payloader = H264Payloader | Vp8Payloader (vp8_enable_picture_id: bool) | Vp9Payloader
  | OpusPayloader | G7xxPayloader | Av1Payloader

definition payloader_for_codec :: "codec_capability \<Rightarrow> payloader res" where
  "payloader_for_codec c =
     (let mime = to_lowercase (mime_type c); is = (\<lambda>s. mime = to_lowercase s) in
      if is ''video/H264'' then Inr H264Payloader
      else if is ''video/VP8'' then Inr (Vp8Payloader True)
      else if is ''video/VP9'' then Inr Vp9Payloader
      else if is ''audio/opus'' then Inr OpusPayloader
      else if is ''audio/G722'' \<or> is ''audio/PCMU'' \<or> is ''audio/PCMA'' \<or> is ''audio/telephone-event''
        then Inr G7xxPayloader
      else if is ''video/AV1'' then Inr Av1Payloader
      else Inl (Other ''ErrNoPayloaderForCodec'' []))"

fun register_codecs :: "codec_type \<Rightarrow> codec_parameters list \<Rightarrow> media_config \<Rightarrow> unit res \<times> media_config" where
  "register_codecs typ [] mc = (Inr (), mc)"
| "register_codecs typ (c # cs) mc =
     (case register_codec c typ mc of
        (Inl e, mc') \<Rightarrow> (Inl e, mc')
      | (Inr _, mc') \<Rightarrow> register_codecs typ cs mc')"

definition register_default_codecs :: "media_config \<Rightarrow> unit res \<times> media_config" where
  "register_default_codecs mc =
     (case register_codecs KindAudio default_audio_codecs mc of
        (Inl e, mc') \<Rightarrow> (Inl e, mc')
      | (Inr _, mc') \<Rightarrow> register_codecs KindVideo default_video_codecs mc')"

definition configure_rtcp_reports :: "media_config \<Rightarrow> media_config" where
  "configure_rtcp_reports mc =
     mc\<lparr>mc_registry := mc_registry mc @ [SenderReportBuilder, ReceiverReportBuilder]\<rparr>"

definition empty_media_config :: media_config where
  "empty_media_config =
     \<lparr>mc_registry = [], mc_negotiated_video = False, mc_negotiated_audio = False,
      mc_video_codecs = [], mc_audio_codecs = [], mc_negotiated_video_codecs = [],
      mc_negotiated_audio_codecs = [], mc_extensions = [], mc_proposed = [], mc_negotiated = []\<rparr>"

definition media_config_default :: media_config where
  "media_config_default = configure_rtcp_reports (snd (register_default_codecs empty_media_config))"

definition clone_to :: "media_config \<Rightarrow> media_config" where
  "clone_to mc =
     media_config_default\<lparr>mc_video_codecs := mc_video_codecs mc,
                          mc_audio_codecs := mc_audio_codecs mc,
                          mc_extensions := mc_extensions mc\<rparr>"

text \<open>
  The entry found is updated in place, the one just pushed is the last.  The direction is compared
  after the entry has been changed.
\<close>

definition enable_kind :: "string \<Rightarrow> codec_type \<Rightarrow> header_extension \<Rightarrow> header_extension" where
  "enable_kind uri typ e =
     e\<lparr>he_is_audio := he_is_audio e \<or> typ = KindAudio,
       he_is_video := he_is_video e \<or> typ = KindVideo, he_uri := uri\<rparr>"

fun update_first_ext :: "string \<Rightarrow> codec_type \<Rightarrow> header_extension list
    \<Rightarrow> (header_extension \<times> header_extension list) option" where
  "update_first_ext uri typ [] = None"
| "update_first_ext uri typ (e # es) =
     (if he_uri e = uri then Some (enable_kind uri typ e, enable_kind uri typ e # es)
      else map_option (\<lambda>(x, es'). (x, e # es')) (update_first_ext uri typ es))"

definition register_header_extension ::
  "string \<Rightarrow> codec_type \<Rightarrow> direction option \<Rightarrow> media_config \<Rightarrow> unit res \<times> media_config" where
  "register_header_extension uri typ allowed mc =
     (let finish = (\<lambda>ext exts.
            (if he_allowed ext \<noteq> allowed
             then Inl (Other ''ErrRegisterHeaderExtensionInvalidDirection'' []) else Inr (),
             mc\<lparr>mc_extensions := exts\<rparr>))
      in case update_first_ext uri typ (mc_extensions mc) of
           Some (ext, exts) \<Rightarrow> finish ext exts
         | None \<Rightarrow>
             if length (mc_extensions mc) > valid_ext_ids_end then
               (Inl (Other ''ErrRegisterHeaderExtensionNoFreeID'' []), mc)
             else
               (let ext = enable_kind uri typ
                      \<lparr>he_uri = [], he_is_audio = False, he_is_video = False, he_allowed = allowed\<rparr>
                in finish ext (mc_extensions mc @ [ext])))"

definition push_feedback :: "rtcp_feedback \<Rightarrow> codec_parameters \<Rightarrow> codec_parameters" where
  "push_feedback fb c =
     c\<lparr>capability := (capability c)\<lparr>rtcp_feedbacks := rtcp_feedbacks (capability c) @ [fb]\<rparr>\<rparr>"

definition register_rtcp_feedback :: "rtcp_feedback \<Rightarrow> codec_type \<Rightarrow> media_config \<Rightarrow> media_config" where
  "register_rtcp_feedback fb typ mc =
     (case typ of
        KindVideo \<Rightarrow> mc\<lparr>mc_video_codecs := map (push_feedback fb) (mc_video_codecs mc)\<rparr>
      | KindAudio \<Rightarrow> mc\<lparr>mc_audio_codecs := map (push_feedback fb) (mc_audio_codecs mc)\<rparr>
      | KindUnspecified \<Rightarrow> mc)"

definition configure_nack :: "media_config \<Rightarrow> media_config" where
  "configure_nack mc =
     register_rtcp_feedback \<lparr>fb_typ = ''nack'', fb_parameter = ''pli''\<rparr> KindVideo
       (register_rtcp_feedback \<lparr>fb_typ = ''nack'', fb_parameter = ''''\<rparr> KindVideo mc)"

text \<open>The URI of the transport-wide congestion control extension is a constant of the \<open>sdp\<close> crate.\<close>

definition configure_twcc_sender_only :: "string \<Rightarrow> media_config \<Rightarrow> unit res \<times> media_config" where
  "configure_twcc_sender_only transport_cc_uri mc =
     (case register_header_extension transport_cc_uri KindVideo None mc of
        (Inl e, mc1) \<Rightarrow> (Inl e, mc1)
      | (Inr _, mc1) \<Rightarrow> register_header_extension transport_cc_uri KindAudio None mc1)"

definition configure_twcc :: "string \<Rightarrow> media_config \<Rightarrow> unit res \<times> media_config" where
  "configure_twcc transport_cc_uri mc =
     (let fb = \<lparr>fb_typ = ''transport-cc'', fb_parameter = ''''\<rparr>
      in case register_header_extension transport_cc_uri KindVideo None
                (register_rtcp_feedback fb KindVideo mc) of
           (Inl e, mc1) \<Rightarrow> (Inl e, mc1)
         | (Inr _, mc1) \<Rightarrow>
             register_header_extension transport_cc_uri KindAudio None
               (register_rtcp_feedback fb KindAudio mc1))"

definition configure_twcc_receiver_only :: "string \<Rightarrow> media_config \<Rightarrow> unit res \<times> media_config" where
  "configure_twcc_receiver_only transport_cc_uri mc =
     (let fb = \<lparr>fb_typ = ''transport-cc'', fb_parameter = ''''\<rparr>
      in case register_header_extension transport_cc_uri KindVideo None
                (register_rtcp_feedback fb KindVideo mc) of
           (Inl e, mc1) \<Rightarrow> (Inl e, mc1)
         | (Inr _, mc1) \<Rightarrow>
             register_header_extension transport_cc_uri KindAudio None
               (register_rtcp_feedback fb KindAudio mc1))"

section \<open>Lookups\<close>

definition get_header_extension_id :: "string \<Rightarrow> media_config \<Rightarrow> int \<times> bool \<times> bool" where
  "get_header_extension_id uri mc =
     (case find (\<lambda>(i, h). uri = he_uri h) (mc_negotiated mc) of
        Some (i, h) \<Rightarrow> (i, he_is_audio h, he_is_video h)
      | None \<Rightarrow> (0, False, False))"

definition get_codec_by_payload :: "u8 \<Rightarrow> media_config \<Rightarrow> (codec_parameters \<times> codec_type) res" where
  "get_codec_by_payload pt mc =
     (case find (\<lambda>c. cp_payload_type c = pt) (mc_negotiated_video_codecs mc) of
        Some c \<Rightarrow> Inr (c, KindVideo)
      | None \<Rightarrow>
          (case find (\<lambda>c. cp_payload_type c = pt) (mc_negotiated_audio_codecs mc) of
             Some c \<Rightarrow> Inr (c, KindAudio)
           | None \<Rightarrow> Inl (Other ''ErrCodecNotFound'' [])))"

definition get_codecs_by_kind :: "codec_type \<Rightarrow> media_config \<Rightarrow> codec_parameters list" where
  "get_codecs_by_kind typ mc =
     (if typ = KindVideo then
        (if mc_negotiated_video mc then mc_negotiated_video_codecs mc else mc_video_codecs mc)
      else if typ = KindAudio then
        (if mc_negotiated_audio mc then mc_negotiated_audio_codecs mc else mc_audio_codecs mc)
      else [])"

end
