(* ===== verification/Media_Negotiation.thy ===== *)
theory Media_Negotiation
  imports Media_Config
begin

text \<open>
  Negotiation in \<open>vendor/sfu/src/description/config.rs\<close>: matching remote codecs, recording header
  extensions, and the parameters a transceiver is given; with the two readers of \<open>mod.rs\<close> that
  list the codecs and the extensions of a media section.
\<close>

section \<open>Codecs and extensions of a media section\<close>

definition feedback_of :: "string \<Rightarrow> rtcp_feedback" where
  "feedback_of raw =
     (let parts = split_on (CHR '' '') raw
      in if length parts = 2 then \<lparr>fb_typ = parts ! 0, fb_parameter = parts ! 1\<rparr>
         else \<lparr>fb_typ = parts ! 0, fb_parameter = []\<rparr>)"

definition parse_u8 :: "string \<Rightarrow> u8 res" where
  "parse_u8 s = (case parse_uint 255 s of Some n \<Rightarrow> Inr (of_nat n) | None \<Rightarrow> Inl ErrParseInt)"

definition codec_from_sdp :: "media_description \<Rightarrow> u8 \<Rightarrow> sdp_codec \<Rightarrow> codec_parameters" where
  "codec_from_sdp m pt c =
     default_codec_parameters\<lparr>
       capability := \<lparr>mime_type = md_media m @ ''/'' @ sc_name c,
                      clock_rate = sc_clock_rate c,
                      channels = (case parse_uint 65535 (sc_encoding_parameters c) of
                                    Some n \<Rightarrow> of_nat n | None \<Rightarrow> 0),
                      sdp_fmtp_line = sc_fmtp c,
                      rtcp_feedbacks = map feedback_of (sc_rtcp_feedback c)\<rparr>,
       cp_payload_type := pt\<rparr>"

fun codecs_from_formats ::
  "sdp_lib \<Rightarrow> media_description \<Rightarrow> string list \<Rightarrow> codec_parameters list res" where
  "codecs_from_formats L m [] = Inr []"
| "codecs_from_formats L m (f # fs) =
     and_then (parse_u8 f) (\<lambda>pt.
       case sl_codec_for_payload_type L m pt of
         Inr c \<Rightarrow> and_then (codecs_from_formats L m fs) (\<lambda>out. Inr (codec_from_sdp m pt c # out))
       | Inl e \<Rightarrow> if pt = 0 then codecs_from_formats L m fs else Inl (Other e []))"

definition codecs_from_media_description :: "sdp_lib \<Rightarrow> media_description \<Rightarrow> codec_parameters list res" where
  "codecs_from_media_description L m = codecs_from_formats L m (md_formats m)"

fun extensions_from_attributes ::
  "sdp_lib \<Rightarrow> sdp_attribute list \<Rightarrow> header_extension_parameters list res" where
  "extensions_from_attributes L [] = Inr []"
| "extensions_from_attributes L (a # as) =
     (if a_key a = sl_key_extmap L then
        (case sl_parse_extmap L a of
           Inl e \<Rightarrow> Inl (Other e [])
         | Inr x \<Rightarrow>
             and_then (extensions_from_attributes L as) (\<lambda>out.
               Inr (case em_uri x of
                      Some u \<Rightarrow> \<lparr>hx_uri = u, hx_id = em_value x\<rparr> # out
                    | None \<Rightarrow> out)))
      else extensions_from_attributes L as)"

definition rtp_extensions_from_media_description ::
  "sdp_lib \<Rightarrow> media_description \<Rightarrow> header_extension_parameters list res" where
  "rtp_extensions_from_media_description L m = extensions_from_attributes L (md_attributes m)"

section \<open>Matching remote codecs\<close>

definition match_remote_codec ::
  "(string \<Rightarrow> u8 list option) \<Rightarrow> media_config \<Rightarrow> codec_parameters \<Rightarrow> codec_type
     \<Rightarrow> codec_parameters list \<Rightarrow> codec_parameters list \<Rightarrow> codec_match res" where
  "match_remote_codec hexd mc remote typ exact_matches partial_matches =
     (let codecs = (if typ = KindAudio then mc_audio_codecs mc else mc_video_codecs mc);
          match_type = snd (codec_parameters_fuzzy_search hexd remote codecs)
      in case fmtp_parameter (codec_fmtp remote) ''apt'' of
           Some apt \<Rightarrow>
             and_then (parse_u8 apt) (\<lambda>pt.
               let apt_match = (if \<exists>c \<in> set exact_matches. cp_payload_type c = pt then MatchExact
                                else if \<exists>c \<in> set partial_matches. cp_payload_type c = pt
                                then MatchPartial else MatchNone)
               in if apt_match = MatchNone then Inr MatchNone
                  else Inr (if match_type = MatchExact \<and> apt_match = MatchPartial
                            then MatchPartial else match_type))
         | None \<Rightarrow> Inr match_type)"

fun match_codecs ::
  "(string \<Rightarrow> u8 list option) \<Rightarrow> media_config \<Rightarrow> codec_type \<Rightarrow> codec_parameters list
     \<Rightarrow> codec_parameters list \<Rightarrow> codec_parameters list
     \<Rightarrow> (codec_parameters list \<times> codec_parameters list) res" where
  "match_codecs hexd mc typ [] exact partial = Inr (exact, partial)"
| "match_codecs hexd mc typ (c # cs) exact partial =
     and_then (match_remote_codec hexd mc c typ exact partial) (\<lambda>t.
       if t = MatchExact then match_codecs hexd mc typ cs (exact @ [c]) partial
       else if t = MatchPartial then match_codecs hexd mc typ cs exact (partial @ [c])
       else match_codecs hexd mc typ cs exact partial)"

definition push_codecs :: "codec_parameters list \<Rightarrow> codec_type \<Rightarrow> media_config \<Rightarrow> media_config" where
  "push_codecs cs typ mc =
     (case typ of
        KindAudio \<Rightarrow> mc\<lparr>mc_negotiated_audio_codecs := foldl add_codec (mc_negotiated_audio_codecs mc) cs\<rparr>
      | KindVideo \<Rightarrow> mc\<lparr>mc_negotiated_video_codecs := foldl add_codec (mc_negotiated_video_codecs mc) cs\<rparr>
      | KindUnspecified \<Rightarrow> mc)"

section \<open>Recording header extensions\<close>

text \<open>One round of the loop over the local extensions; only the log differs on the refused paths.\<close>

definition negotiate_extension ::
  "int \<Rightarrow> string \<Rightarrow> codec_type \<Rightarrow> media_config \<Rightarrow> header_extension \<Rightarrow> media_config" where
  "negotiate_extension i uri typ mc local_ext =
     (if he_uri local_ext \<noteq> uri then mc
      else
        (let mc' =
               (case find (\<lambda>(_, e). he_uri e = uri) (mc_negotiated mc) of
                  Some (nid, _) \<Rightarrow>
                    if nid = i then
                      mc\<lparr>mc_negotiated := hm_modify i
                           (\<lambda>e. e\<lparr>he_is_video := he_is_video e \<or> typ = KindVideo,
                                  he_is_audio := he_is_audio e \<or> typ = KindAudio\<rparr>) (mc_negotiated mc)\<rparr>
                    else mc
                | None \<Rightarrow>
                    (case hm_get (mc_negotiated mc) i of
                       Some _ \<Rightarrow> mc
                     | None \<Rightarrow>
                         mc\<lparr>mc_negotiated := hm_insert i
                              \<lparr>he_uri = uri,
                               he_is_audio = (he_is_audio local_ext \<and> typ = KindAudio),
                               he_is_video = (he_is_video local_ext \<and> typ = KindVideo),
                               he_allowed = he_allowed local_ext\<rparr> (mc_negotiated mc)\<rparr>))
         in mc'\<lparr>mc_proposed := hm_remove i (mc_proposed mc')\<rparr>))"

definition update_header_extension :: "int \<Rightarrow> string \<Rightarrow> codec_type \<Rightarrow> media_config \<Rightarrow> media_config" where
  "update_header_extension i uri typ mc =
     foldl (negotiate_extension i uri typ) mc (mc_extensions mc)"

section \<open>Negotiation\<close>

definition negotiated_kind :: "media_config \<Rightarrow> media_description \<Rightarrow> (codec_type \<times> media_config) option" where
  "negotiated_kind mc m =
     (if \<not> mc_negotiated_audio mc \<and> to_lowercase (md_media m) = ''audio'' then
        Some (KindAudio, mc\<lparr>mc_negotiated_audio := True\<rparr>)
      else if \<not> mc_negotiated_video mc \<and> to_lowercase (md_media m) = ''video'' then
        Some (KindVideo, mc\<lparr>mc_negotiated_video := True\<rparr>)
      else None)"

definition negotiate_media ::
  "sdp_lib \<Rightarrow> (string \<Rightarrow> u8 list option) \<Rightarrow> media_description \<Rightarrow> media_config \<Rightarrow> unit res \<times> media_config" where
  "negotiate_media L hexd m mc =
     (case negotiated_kind mc m of
        None \<Rightarrow> (Inr (), mc)
      | Some (typ, mc1) \<Rightarrow>
          (case and_then (codecs_from_media_description L m)
                  (\<lambda>cs. match_codecs hexd mc1 typ cs [] []) of
             Inl e \<Rightarrow> (Inl e, mc1)
           | Inr (exact, partial) \<Rightarrow>
               if exact = [] \<and> partial = [] then (Inr (), mc1)
               else
                 (let mc2 = push_codecs (if exact \<noteq> [] then exact else partial) typ mc1
                  in case rtp_extensions_from_media_description L m of
                       Inl e \<Rightarrow> (Inl e, mc2)
                     | Inr xs \<Rightarrow>
                         (Inr (), foldl (\<lambda>mc x. update_header_extension (hx_id x) (hx_uri x) typ mc) mc2 xs))))"

fun negotiate_all ::
  "sdp_lib \<Rightarrow> (string \<Rightarrow> u8 list option) \<Rightarrow> media_description list \<Rightarrow> media_config \<Rightarrow> unit res \<times> media_config" where
  "negotiate_all L hexd [] mc = (Inr (), mc)"
| "negotiate_all L hexd (m # ms) mc =
     (case negotiate_media L hexd m mc of
        (Inl e, mc') \<Rightarrow> (Inl e, mc')
      | (Inr _, mc') \<Rightarrow> negotiate_all L hexd ms mc')"

definition update_from_remote_description ::
  "sdp_lib \<Rightarrow> (string \<Rightarrow> u8 list option) \<Rightarrow> session_description \<Rightarrow> media_config \<Rightarrow> unit res \<times> media_config" where
  "update_from_remote_description L hexd d mc = negotiate_all L hexd (sd_media_descriptions d) mc"

section \<open>Parameters for a transceiver\<close>

definition extension_for_kind :: "header_extension \<Rightarrow> codec_type \<Rightarrow> bool" where
  "extension_for_kind e typ \<longleftrightarrow> he_is_audio e \<and> typ = KindAudio \<or> he_is_video e \<and> typ = KindVideo"

definition kind_negotiated :: "media_config \<Rightarrow> codec_type \<Rightarrow> bool" where
  "kind_negotiated mc typ \<longleftrightarrow>
     mc_negotiated_video mc \<and> typ = KindVideo \<or> mc_negotiated_audio mc \<and> typ = KindAudio"

definition negotiated_parameters ::
  "media_config \<Rightarrow> codec_type \<Rightarrow> direction \<Rightarrow> header_extension_parameters list" where
  "negotiated_parameters mc typ dir =
     map (\<lambda>(i, e). \<lparr>hx_uri = he_uri e, hx_id = i\<rparr>)
       (filter (\<lambda>(i, e). is_matching_direction e dir \<and> extension_for_kind e typ) (mc_negotiated mc))"

definition unused_ext_id :: "media_config \<Rightarrow> int option" where
  "unused_ext_id mc =
     find (\<lambda>i. \<not> hm_contains (mc_negotiated mc) i \<and> \<not> hm_contains (mc_proposed mc) i) valid_ext_ids"

definition proposed_parameter ::
  "media_config \<Rightarrow> codec_type \<Rightarrow> direction \<Rightarrow> header_extension \<Rightarrow> header_extension_parameters list" where
  "proposed_parameter mc typ dir e =
     (if \<not> (is_matching_direction e dir \<and> extension_for_kind e typ) then []
      else
        case find (\<lambda>(_, x). he_uri x = he_uri e) (mc_negotiated mc) of
          Some (i, x) \<Rightarrow> [\<lparr>hx_uri = he_uri x, hx_id = i\<rparr>]
        | None \<Rightarrow>
            (case find (\<lambda>(_, x). he_uri x = he_uri e) (mc_proposed mc) of
               Some (i, x) \<Rightarrow> [\<lparr>hx_uri = he_uri x, hx_id = i\<rparr>]
             | None \<Rightarrow>
                 (case unused_ext_id mc of
                    Some i \<Rightarrow> [\<lparr>hx_uri = he_uri e, hx_id = i\<rparr>]
                  | None \<Rightarrow> [])))"

definition get_rtp_parameters_by_kind :: "media_config \<Rightarrow> codec_type \<Rightarrow> direction \<Rightarrow> rtp_parameters" where
  "get_rtp_parameters_by_kind mc typ dir =
     \<lparr>rp_header_extensions =
        (if kind_negotiated mc typ then negotiated_parameters mc typ dir
         else concat (map (proposed_parameter mc typ dir) (mc_extensions mc))),
      rp_codecs = get_codecs_by_kind typ mc\<rparr>"

text \<open>The variant that records its proposals.\<close>

definition propose_parameter ::
  "codec_type \<Rightarrow> direction \<Rightarrow> header_extension_parameters list \<times> media_config \<Rightarrow> header_extension
     \<Rightarrow> header_extension_parameters list \<times> media_config" where
  "propose_parameter typ dir st e =
     (let (out, mc) = st
      in if \<not> (is_matching_direction e dir \<and> extension_for_kind e typ) then st
         else
           case find (\<lambda>(_, x). he_uri x = he_uri e) (mc_negotiated mc) of
             Some (i, x) \<Rightarrow>
               (out @ [\<lparr>hx_uri = he_uri x, hx_id = i\<rparr>],
                mc\<lparr>mc_negotiated := hm_modify i
                     (\<lambda>x. x\<lparr>he_is_audio := he_is_audio x \<or> typ = KindAudio,
                            he_is_video := he_is_video x \<or> typ = KindVideo\<rparr>) (mc_negotiated mc)\<rparr>)
           | None \<Rightarrow>
               (case find (\<lambda>(_, x). he_uri x = he_uri e) (mc_proposed mc) of
                  Some (i, x) \<Rightarrow> (out @ [\<lparr>hx_uri = he_uri x, hx_id = i\<rparr>], mc)
                | None \<Rightarrow>
                    (case unused_ext_id mc of
                       Some i \<Rightarrow>
                         (out @ [\<lparr>hx_uri = he_uri e, hx_id = i\<rparr>],
                          mc\<lparr>mc_proposed := hm_insert i e (mc_proposed mc)\<rparr>)
                     | None \<Rightarrow> st)))"

definition get_mut_rtp_parameters_by_kind ::
  "media_config \<Rightarrow> codec_type \<Rightarrow> direction \<Rightarrow> rtp_parameters \<times> media_config" where
  "get_mut_rtp_parameters_by_kind mc typ dir =
     (let (xs, mc') = (if kind_negotiated mc typ then (negotiated_parameters mc typ dir, mc)
                       else foldl (propose_parameter typ dir) ([], mc) (mc_extensions mc))
      in (\<lparr>rp_header_extensions = xs, rp_codecs = get_codecs_by_kind typ mc'\<rparr>, mc'))"

definition get_rtp_parameters_by_payload_type :: "media_config \<Rightarrow> u8 \<Rightarrow> rtp_parameters res" where
  "get_rtp_parameters_by_payload_type mc pt =
     and_then (get_codec_by_payload pt mc) (\<lambda>(c, typ).
       Inr \<lparr>rp_header_extensions =
              map (\<lambda>(i, e). \<lparr>hx_uri = he_uri e, hx_id = i\<rparr>)
                (filter (\<lambda>(i, e). extension_for_kind e typ) (mc_negotiated mc)),
            rp_codecs = [c]\<rparr>)"

end
