(* ===== verification/Sdp_Build.thy ===== *)
theory Sdp_Build
  imports Media_Negotiation
begin

text \<open>
  Building a description in \<open>vendor/sfu/src/description/mod.rs\<close>: candidates, data channel and
  media sections, and \<open>populate_sdp\<close>, which puts them together.
\<close>

section \<open>Descriptions from text\<close>

definition unmarshal :: "sdp_lib \<Rightarrow> rtc_description \<Rightarrow> session_description res" where
  "unmarshal L desc = (case sl_unmarshal L (rd_sdp desc) of Inl e \<Rightarrow> Inl (Other e []) | Inr d \<Rightarrow> Inr d)"

definition description_of :: "sdp_lib \<Rightarrow> sdp_type \<Rightarrow> string \<Rightarrow> rtc_description res" where
  "description_of L t s =
     (let desc = \<lparr>rd_sdp_type = t, rd_sdp = s, rd_parsed = None\<rparr>
      in and_then (unmarshal L desc) (\<lambda>p. Inr (desc\<lparr>rd_parsed := Some p\<rparr>)))"

definition rtc_answer :: "sdp_lib \<Rightarrow> string \<Rightarrow> rtc_description res" where
  "rtc_answer L s = description_of L SdpAnswer s"

definition rtc_offer :: "sdp_lib \<Rightarrow> string \<Rightarrow> rtc_description res" where
  "rtc_offer L s = description_of L SdpOffer s"

definition rtc_pranswer :: "sdp_lib \<Rightarrow> string \<Rightarrow> rtc_description res" where
  "rtc_pranswer L s = description_of L SdpPranswer s"

fun unwrap_fingerprints :: "string list \<Rightarrow> (string \<times> string) res" where
  "unwrap_fingerprints [] = Inl (Other ''ErrSessionDescriptionNoFingerprint'' [])"
| "unwrap_fingerprints (f # fs) =
     (if \<exists>g \<in> set fs. g \<noteq> f then Inl (Other ''ErrSessionDescriptionConflictingFingerprints'' [])
      else let parts = split_on (CHR '' '') f
           in if length parts \<noteq> 2 then Inl (Other ''ErrSessionDescriptionInvalidFingerprint'' [])
              else Inr (parts ! 1, parts ! 0))"

definition extract_fingerprint :: "sdp_lib \<Rightarrow> session_description \<Rightarrow> (string \<times> string) res" where
  "extract_fingerprint L d =
     unwrap_fingerprints
       ((case sl_session_attribute L d ''fingerprint'' of Some f \<Rightarrow> [f] | None \<Rightarrow> []) @
        List.map_filter (\<lambda>m. case sl_media_attribute L m ''fingerprint'' of Some v \<Rightarrow> v | None \<Rightarrow> None)
          (sd_media_descriptions d))"

definition get_by_mid :: "sdp_lib \<Rightarrow> string \<Rightarrow> rtc_description \<Rightarrow> media_description option" where
  "get_by_mid L search desc =
     (case rd_parsed desc of
        Some p \<Rightarrow>
          find (\<lambda>m. sl_media_attribute L m (sl_key_mid L) = Some (Some search)) (sd_media_descriptions p)
      | None \<Rightarrow> None)"

section \<open>Printing addresses\<close>

text \<open>\<open>Display\<close> of the standard library's addresses.\<close>

unbundle bit_operations_syntax

definition show_ipv4 :: "u32 \<Rightarrow> string" where
  "show_ipv4 w =
     join_with ''.'' (map (\<lambda>i. dec (unat (drop_bit i w AND 255))) [24, 16, 8, 0])"

definition hex_char :: "nat \<Rightarrow> char" where
  "hex_char d = (if d < 10 then digit_char d else char_of (87 + d))"

fun hexs :: "nat \<Rightarrow> string" where
  "hexs n = (if n < 16 then [hex_char n] else hexs (n div 16) @ [hex_char (n mod 16)])"

declare hexs.simps [simp del]

definition ipv6_segments :: "128 word \<Rightarrow> nat list" where
  "ipv6_segments w = map (\<lambda>i. unat (drop_bit (16 * i) w AND 65535)) [7, 6, 5, 4, 3, 2, 1, 0]"

text \<open>The first of the longest runs of zero segments, as (start, length).\<close>

fun longest_zeros :: "nat \<Rightarrow> nat \<times> nat \<Rightarrow> nat \<times> nat \<Rightarrow> nat list \<Rightarrow> nat \<times> nat" where
  "longest_zeros i cur best [] = best"
| "longest_zeros i cur best (s # ss) =
     (if s = 0 then
        (let cur' = (if snd cur = 0 then (i, 1) else (fst cur, snd cur + 1))
         in longest_zeros (Suc i) cur' (if snd cur' > snd best then cur' else best) ss)
      else longest_zeros (Suc i) (0, 0) best ss)"

definition show_ipv6 :: "128 word \<Rightarrow> string" where
  "show_ipv6 w =
     (let ss = ipv6_segments w; colons = (\<lambda>xs. join_with '':'' (map hexs xs))
      in if take 5 ss = [0, 0, 0, 0, 0] \<and> ss ! 5 = 65535 then ''::ffff:'' @ show_ipv4 (ucast w)
         else let (start, len) = longest_zeros 0 (0, 0) (0, 0) ss
              in if len > 1 then colons (take start ss) @ ''::'' @ colons (drop (start + len) ss)
                 else colons ss)"

fun show_ip :: "ip_addr \<Rightarrow> string" where
  "show_ip (IpV4 w) = show_ipv4 w"
| "show_ip (IpV6 w) = show_ipv6 w"

section \<open>Candidates\<close>

datatype gathering_state = GatherUnspecified | GatherNew | Gathering | GatherComplete

definition candidate_value :: "socket_addr \<Rightarrow> u16 \<Rightarrow> string" where
  "candidate_value c component =
     ''1 '' @ dec (unat component) @ '' UDP 1 '' @ show_ip (sa_ip c) @ '' '' @ dec (unat (sa_port c)) @ '' typ host''"

definition append_candidate_if_new ::
  "sdp_lib \<Rightarrow> socket_addr \<Rightarrow> u16 \<Rightarrow> media_description \<Rightarrow> media_description" where
  "append_candidate_if_new L c component m =
     (if \<exists>a \<in> set (md_attributes m). a_value a = Some (candidate_value c component) then m
      else sl_value_attribute L ''candidate'' (candidate_value c component) m)"

definition add_candidate_to_media_descriptions ::
  "sdp_lib \<Rightarrow> socket_addr \<Rightarrow> media_description \<Rightarrow> gathering_state \<Rightarrow> media_description" where
  "add_candidate_to_media_descriptions L c m g =
     (let m' = append_candidate_if_new L c 1 m
      in if g \<noteq> GatherComplete then m'
         else if \<exists>a \<in> set (md_attributes m'). a_key a = ''end-of-candidates'' then m'
         else sl_property_attribute L ''end-of-candidates'' m')"

section \<open>Sections\<close>

text \<open>
  The parts of \<open>SessionConfig\<close> the builders read.  \<open>bc_sctp_port\<close> and \<open>bc_max_message_size\<close> are
  what the accessors of the \<open>sctp\<close> crate's transport configuration return.
\<close>

record build_config =
  bc_local_addr :: socket_addr
  bc_media_config :: media_config
  bc_sctp_port :: u16
  bc_max_message_size :: u32

record ice_parameters =
  ip_username_fragment :: string
  ip_password :: string

record dtls_fingerprint =
  fp_algorithm :: string
  fp_value :: string

record media_section =
  ms_mid :: mid
  ms_data :: bool
  ms_rid_map :: "(string, string) hmap"
  ms_offered_direction :: "direction option"

definition add_fingerprints ::
  "sdp_lib \<Rightarrow> dtls_fingerprint list \<Rightarrow> media_description \<Rightarrow> media_description" where
  "add_fingerprints L fps m =
     foldl (\<lambda>m f. sl_fingerprint L (fp_algorithm f) (to_uppercase (fp_value f)) m) m fps"

definition data_media_base :: media_description where
  "data_media_base =
     \<lparr>md_media = media_section_application, md_port = 9, md_protos = [''UDP'', ''DTLS'', ''SCTP''],
      md_formats = [''webrtc-datachannel''],
      md_connection = Some \<lparr>ci_network_type = ''IN'', ci_address_type = ''IP4'',
                            ci_address = Some ''0.0.0.0''\<rparr>,
      md_attributes = []\<rparr>"

definition data_media ::
  "sdp_lib \<Rightarrow> dtls_fingerprint list \<Rightarrow> build_config \<Rightarrow> bool \<Rightarrow> string \<Rightarrow> ice_parameters
     \<Rightarrow> connection_role \<Rightarrow> gathering_state \<Rightarrow> media_description" where
  "data_media L fps bc should_add mid_value ice role g =
     (let m1 = sl_value_attribute L (sl_key_setup L) (sl_role_str L role) data_media_base;
          m2 = sl_value_attribute L (sl_key_mid L) mid_value m1;
          m3 = sl_property_attribute L (direction_str Sendrecv) m2;
          m4 = sl_value_attribute L ''sctp-port'' (dec (unat (bc_sctp_port bc))) m3;
          m5 = sl_value_attribute L ''max-message-size'' (dec (unat (bc_max_message_size bc))) m4;
          m6 = sl_ice_credentials L (ip_username_fragment ice) (ip_password ice) m5;
          m7 = add_fingerprints L fps m6
      in if should_add then add_candidate_to_media_descriptions L (bc_local_addr bc) m7 g else m7)"

definition add_data_media_section ::
  "sdp_lib \<Rightarrow> session_description \<Rightarrow> dtls_fingerprint list \<Rightarrow> build_config \<Rightarrow> bool \<Rightarrow> string
     \<Rightarrow> ice_parameters \<Rightarrow> connection_role \<Rightarrow> gathering_state \<Rightarrow> session_description" where
  "add_data_media_section L d fps bc should_add mid_value ice role g =
     sl_with_media L (data_media L fps bc should_add mid_value ice role g) d"

fun trim_start_matches_fuel :: "nat \<Rightarrow> string \<Rightarrow> string \<Rightarrow> string" where
  "trim_start_matches_fuel 0 p s = s"
| "trim_start_matches_fuel (Suc n) p s =
     (if p \<noteq> [] \<and> starts_with s p then trim_start_matches_fuel n p (drop (length p) s) else s)"

text \<open>Every round drops a character, so the length of the string is enough fuel.\<close>

definition trim_start_matches :: "string \<Rightarrow> string \<Rightarrow> string" where
  "trim_start_matches p s = trim_start_matches_fuel (length s) p s"

definition codec_name :: "string \<Rightarrow> string" where
  "codec_name mime = trim_start_matches ''video/'' (trim_start_matches ''audio/'' mime)"

definition add_codec_to_media :: "sdp_lib \<Rightarrow> media_description \<Rightarrow> codec_parameters \<Rightarrow> media_description" where
  "add_codec_to_media L m c =
     foldl (\<lambda>m fb. sl_value_attribute L ''rtcp-fb''
              (dec (unat (cp_payload_type c)) @ '' '' @ fb_typ fb @ '' '' @ fb_parameter fb) m)
       (sl_codec L (cp_payload_type c) (codec_name (mime_type (capability c)))
          (clock_rate (capability c)) (channels (capability c)) (sdp_fmtp_line (capability c)) m)
       (rtcp_feedbacks (capability c))"

fun add_extmaps ::
  "sdp_lib \<Rightarrow> header_extension_parameters list \<Rightarrow> media_description \<Rightarrow> media_description res" where
  "add_extmaps L [] m = Inr m"
| "add_extmaps L (x # xs) m =
     and_then (sl_parse_url L (hx_uri x)) (\<lambda>u.
       add_extmaps L xs (sl_extmap L \<lparr>em_value = hx_id x, em_uri = Some u\<rparr> m))"

definition add_rids :: "sdp_lib \<Rightarrow> (string, string) hmap \<Rightarrow> media_description \<Rightarrow> media_description" where
  "add_rids L rids m =
     (if rids = [] then m
      else sl_value_attribute L ''simulcast'' (''recv '' @ join_with '';'' (map fst rids))
             (foldl (\<lambda>m r. sl_value_attribute L ''rid'' (r @ '' recv'') m) m (map fst rids)))"

definition answer_direction :: "direction option \<Rightarrow> direction \<Rightarrow> direction" where
  "answer_direction offered local_dir =
     (case offered of
        None \<Rightarrow> local_dir
      | Some Sendonly \<Rightarrow> intersect_direction (reverse_direction Sendonly) local_dir
      | Some Recvonly \<Rightarrow> intersect_direction (reverse_direction Recvonly) local_dir
      | Some Sendrecv \<Rightarrow> local_dir
      | Some DirUnspecified \<Rightarrow> local_dir
      | Some Inactive \<Rightarrow> Inactive)"

definition add_sender :: "sdp_lib \<Rightarrow> rtp_sender \<Rightarrow> media_description \<Rightarrow> media_description" where
  "add_sender L s m =
     (let sid = stream_id (sn_msid s); tid = track_id (sn_msid s);
          m1 = sl_property_attribute L (''msid:'' @ sid @ '' '' @ tid) m;
          m2 = foldl (\<lambda>m g. sl_property_attribute L (''ssrc-group:'' @ sg_name g @ '' '' @
                        join_with '' '' (map (\<lambda>x. dec (unat x)) (sg_ssrcs g))) m) m1 (sn_ssrc_groups s)
      in foldl (\<lambda>m x. sl_media_source L x (sn_cname s) sid tid m) m2 (sn_ssrcs s))"

definition transceiver_base ::
  "sdp_lib \<Rightarrow> dtls_fingerprint list \<Rightarrow> ice_parameters \<Rightarrow> build_config \<Rightarrow> transceiver \<Rightarrow> bool
     \<Rightarrow> string \<Rightarrow> connection_role \<Rightarrow> gathering_state \<Rightarrow> media_description" where
  "transceiver_base L fps ice bc t should_add mid_value role g =
     (let m1 = sl_value_attribute L (sl_key_setup L) (sl_role_str L role)
                 (sl_new_media L (codec_type_str (tr_kind t)));
          m2 = sl_value_attribute L (sl_key_mid L) mid_value m1;
          m3 = sl_ice_credentials L (ip_username_fragment ice) (ip_password ice) m2;
          m4 = sl_property_attribute L (sl_key_rtcprsize L) (sl_property_attribute L (sl_key_rtcpmux L) m3);
          m5 = add_fingerprints L fps m4
      in if should_add then add_candidate_to_media_descriptions L (bc_local_addr bc) m5 g else m5)"

definition transceiver_media ::
  "sdp_lib \<Rightarrow> dtls_fingerprint list \<Rightarrow> ice_parameters \<Rightarrow> build_config \<Rightarrow> media_section \<Rightarrow> transceiver
     \<Rightarrow> bool \<Rightarrow> string \<Rightarrow> connection_role \<Rightarrow> gathering_state \<Rightarrow> direction option \<Rightarrow> media_description res" where
  "transceiver_media L fps ice bc ms t should_add mid_value role g offered =
     (let m1 = transceiver_base L fps ice bc t should_add mid_value role g;
          m2 = foldl (add_codec_to_media L) m1 (get_codecs_by_kind (tr_kind t) (bc_media_config bc));
          xs = rp_header_extensions
                 (get_rtp_parameters_by_kind (bc_media_config bc) (tr_kind t) (tr_direction t))
      in and_then (add_extmaps L xs m2) (\<lambda>m3.
         let dir = answer_direction offered (tr_direction t);
             m5 = sl_property_attribute L (direction_str dir) (add_rids L (ms_rid_map ms) m3)
         in if dir = Sendonly then
              (case tr_sender t of
                 Some s \<Rightarrow> Inr (add_sender L s m5)
               | None \<Rightarrow> Inl (Other ''Sendonly transceiver doesn't have sender set'' []))
            else Inr m5))"

definition add_transceiver_sdp ::
  "sdp_lib \<Rightarrow> session_description \<Rightarrow> dtls_fingerprint list \<Rightarrow> ice_parameters \<Rightarrow> build_config
     \<Rightarrow> media_section \<Rightarrow> transceiver \<Rightarrow> bool \<Rightarrow> string \<Rightarrow> connection_role \<Rightarrow> gathering_state
     \<Rightarrow> direction option \<Rightarrow> (session_description \<times> bool) res" where
  "add_transceiver_sdp L d fps ice bc ms t should_add mid_value role g offered =
     and_then (transceiver_media L fps ice bc ms t should_add mid_value role g offered)
       (\<lambda>m. Inr (sl_with_media L m d, True))"

section \<open>The whole description\<close>

text \<open>One round of the loop over the media sections; \<open>i\<close> is its index, \<open>bundle\<close> the group so far.\<close>

definition populate_section ::
  "sdp_lib \<Rightarrow> dtls_fingerprint list \<Rightarrow> build_config \<Rightarrow> ice_parameters \<Rightarrow> connection_role
     \<Rightarrow> (mid, transceiver) hmap \<Rightarrow> nat \<Rightarrow> session_description \<Rightarrow> string \<Rightarrow> media_section
     \<Rightarrow> (session_description \<times> string) res" where
  "populate_section L fps bc ice role ts i d bundle ms =
     (if ms_data ms \<and> hm_get ts (ms_mid ms) \<noteq> None then
        Inl (Other ''ErrSDPMediaSectionMediaDataChanInvalid'' [])
      else
        let should_add = (i = 0) in
        and_then
          (if ms_data ms then
             Inr (add_data_media_section L d fps bc should_add (ms_mid ms) ice role GatherComplete, True)
           else
             and_then (ok_or (Other ''ErrSDPZeroTransceivers'' []) (hm_get ts (ms_mid ms))) (\<lambda>t.
               add_transceiver_sdp L d fps ice bc ms t should_add (ms_mid ms) role GatherComplete
                 (ms_offered_direction ms)))
          (\<lambda>(d', should_add_id).
             Inr (d', if should_add_id then bundle @ '' '' @ ms_mid ms else bundle)))"

fun populate_sections ::
  "sdp_lib \<Rightarrow> dtls_fingerprint list \<Rightarrow> build_config \<Rightarrow> ice_parameters \<Rightarrow> connection_role
     \<Rightarrow> (mid, transceiver) hmap \<Rightarrow> nat \<Rightarrow> session_description \<Rightarrow> string \<Rightarrow> media_section list
     \<Rightarrow> (session_description \<times> string) res" where
  "populate_sections L fps bc ice role ts i d bundle [] = Inr (d, bundle)"
| "populate_sections L fps bc ice role ts i d bundle (ms # mss) =
     and_then (populate_section L fps bc ice role ts i d bundle ms) (\<lambda>(d', bundle').
       populate_sections L fps bc ice role ts (Suc i) d' bundle' mss)"

definition populate_sdp ::
  "sdp_lib \<Rightarrow> session_description \<Rightarrow> dtls_fingerprint list \<Rightarrow> build_config \<Rightarrow> ice_parameters
     \<Rightarrow> connection_role \<Rightarrow> media_section list \<Rightarrow> (mid, transceiver) hmap \<Rightarrow> bool
     \<Rightarrow> session_description res" where
  "populate_sdp L d fps bc ice role sections ts media_fp =
     and_then (populate_sections L (if media_fp then fps else []) bc ice role ts 0 d ''BUNDLE'' sections)
       (\<lambda>(d1, bundle).
          let d2 = (if media_fp then d1
                    else foldl (\<lambda>d f. sl_session_fingerprint L (fp_algorithm f) (to_uppercase (fp_value f)) d) d1 fps);
              d3 = sl_session_property L (sl_key_icelite L) d2
          in Inr (sl_session_value L (sl_key_group L) bundle d3))"

end
