(* ===== verification/Candidate.thy ===== *)
theory Candidate
  imports Sdp_Build
begin

text \<open>
  \<open>vendor/sfu/src/endpoint/candidate.rs\<close>, \<open>server/certificate.rs\<close> (fingerprints) and
  \<open>server/config.rs\<close>: the credentials of a connection and the candidate that a client proves it
  owns when its first STUN binding request arrives.
\<close>

section \<open>DTLS roles\<close>

datatype dtls_role = DtlsUnspecified | DtlsAuto | DtlsClient | DtlsServer

definition default_dtls_role_offer :: dtls_role where
  "default_dtls_role_offer = DtlsAuto"

fun dtls_role_str :: "dtls_role \<Rightarrow> string" where
  "dtls_role_str DtlsAuto = ''auto''"
| "dtls_role_str DtlsClient = ''client''"
| "dtls_role_str DtlsServer = ''server''"
| "dtls_role_str DtlsUnspecified = unspecified_str"

definition setup_role :: "string option \<Rightarrow> dtls_role" where
  "setup_role v =
     (if v = Some ''active'' then DtlsClient else if v = Some ''passive'' then DtlsServer else DtlsAuto)"

definition dtls_role_of_sdp :: "session_description \<Rightarrow> dtls_role" where
  "dtls_role_of_sdp d =
     (case first_attr (\<lambda>a. if a_key a = ''setup'' then Some (setup_role (a_value a)) else None)
             (concat (map md_attributes (sd_media_descriptions d))) of
        Some r \<Rightarrow> r
      | None \<Rightarrow> DtlsAuto)"

fun to_connection_role :: "dtls_role \<Rightarrow> connection_role" where
  "to_connection_role DtlsClient = RoleActive"
| "to_connection_role DtlsServer = RolePassive"
| "to_connection_role DtlsAuto = RoleActpass"
| "to_connection_role DtlsUnspecified = RoleUnspecified"

section \<open>Fingerprints and certificates\<close>

definition fingerprint_of_str :: "string \<Rightarrow> dtls_fingerprint res" where
  "fingerprint_of_str s =
     (case split_whitespace s of
        [a, v] \<Rightarrow> Inr \<lparr>fp_algorithm = a, fp_value = v\<rparr>
      | _ \<Rightarrow> Inl (Other ''invalid fingerprint'' []))"

text \<open>A certificate is its list of DER blocks; SHA-256 is the argument \<open>sha\<close>.\<close>

type_synonym certificate = "u8 list list"

definition hex_byte :: "u8 \<Rightarrow> string" where
  "hex_byte b = [hex_char (unat b div 16), hex_char (unat b mod 16)]"

definition get_fingerprints :: "(u8 list \<Rightarrow> u8 list) \<Rightarrow> certificate \<Rightarrow> dtls_fingerprint list" where
  "get_fingerprints sha c =
     map (\<lambda>der. \<lparr>fp_algorithm = ''sha-256'', fp_value = join_with '':'' (map hex_byte (sha der))\<rparr>) c"

section \<open>Server configuration\<close>

text \<open>
  \<open>svc_dtls_endpoint\<close> and \<open>svc_sctp_endpoint\<close> are the endpoints the \<open>dtls\<close> and \<open>sctp\<close> crates
  build from the corresponding configurations; \<open>svc_sctp_port\<close> and \<open>svc_max_message_size\<close> are
  what the accessors of the SCTP transport configuration return.
\<close>

record 'x server_config =
  svc_certificates :: "certificate list"
  svc_media_config :: media_config
  svc_idle_timeout :: duration
  svc_sctp_port :: u16
  svc_max_message_size :: u32
  svc_dtls_endpoint :: 'x
  svc_sctp_endpoint :: 'x

text \<open>\<open>port\<close>, \<open>size\<close>, \<open>dtls\<close> and \<open>sctp\<close> are the crates' defaults.\<close>

definition server_config_new :: "u16 \<Rightarrow> u32 \<Rightarrow> 'x \<Rightarrow> 'x \<Rightarrow> certificate list \<Rightarrow> 'x server_config" where
  "server_config_new port max_size dtls sctp certs =
     \<lparr>svc_certificates = certs, svc_media_config = media_config_default,
      svc_idle_timeout = 30 * 1000000000, svc_sctp_port = port, svc_max_message_size = max_size,
      svc_dtls_endpoint = dtls, svc_sctp_endpoint = sctp\<rparr>"

definition with_media_config :: "media_config \<Rightarrow> 'x server_config \<Rightarrow> 'x server_config" where
  "with_media_config mc c = c\<lparr>svc_media_config := mc\<rparr>"

definition with_idle_timeout :: "duration \<Rightarrow> 'x server_config \<Rightarrow> 'x server_config" where
  "with_idle_timeout t c = c\<lparr>svc_idle_timeout := t\<rparr>"

section \<open>Credentials\<close>

record connection_credentials =
  cc_ice :: ice_parameters
  cc_role :: dtls_role
  cc_fingerprints :: "dtls_fingerprint list"

text \<open>\<open>fresh\<close> is the random user fragment and password, drawn and encoded by external crates.\<close>

definition credentials_new ::
  "ice_parameters \<Rightarrow> dtls_fingerprint list \<Rightarrow> dtls_role \<Rightarrow> connection_credentials" where
  "credentials_new fresh fps remote_role =
     \<lparr>cc_ice = fresh, cc_role = (if remote_role = DtlsServer then DtlsClient else DtlsServer),
      cc_fingerprints = fps\<rparr>"

definition first_media_attribute :: "sdp_lib \<Rightarrow> session_description \<Rightarrow> string \<Rightarrow> string res" where
  "first_media_attribute L d k =
     and_then (ok_or ErrAttributeNotFound
                 (case List.map_filter (\<lambda>m. sl_media_attribute L m k) (sd_media_descriptions d) of
                    v # _ \<Rightarrow> Some v | [] \<Rightarrow> None))
       (ok_or ErrAttributeNotFound)"

definition credentials_from_sdp :: "sdp_lib \<Rightarrow> session_description \<Rightarrow> connection_credentials res" where
  "credentials_from_sdp L d =
     and_then (first_media_attribute L d ''ice-ufrag'') (\<lambda>ufrag.
     and_then (first_media_attribute L d ''ice-pwd'') (\<lambda>pwd.
     and_then (case sl_session_attribute L d ''fingerprint'' of
                 Some f \<Rightarrow> fingerprint_of_str f
               | None \<Rightarrow> and_then (first_media_attribute L d ''fingerprint'') fingerprint_of_str) (\<lambda>fp.
       Inr \<lparr>cc_ice = \<lparr>ip_username_fragment = ufrag, ip_password = pwd\<rparr>,
            cc_role = dtls_role_of_sdp d, cc_fingerprints = [fp]\<rparr>)))"

definition credentials_valid :: "connection_credentials \<Rightarrow> bool" where
  "credentials_valid c \<longleftrightarrow>
     length (ip_username_fragment (cc_ice c)) \<ge> 4 \<and> length (ip_username_fragment (cc_ice c)) \<le> 256 \<and>
     length (ip_password (cc_ice c)) \<ge> 22 \<and> length (ip_password (cc_ice c)) \<le> 256"

section \<open>Candidates\<close>

record candidate =
  cd_session_id :: session_id
  cd_endpoint_id :: endpoint_id
  cd_remote_cred :: connection_credentials
  cd_local_cred :: connection_credentials
  cd_remote_description :: rtc_description
  cd_local_description :: rtc_description
  cd_expired_time :: instant

definition candidate_new ::
  "session_id \<Rightarrow> endpoint_id \<Rightarrow> connection_credentials \<Rightarrow> connection_credentials
     \<Rightarrow> rtc_description \<Rightarrow> rtc_description \<Rightarrow> instant \<Rightarrow> candidate" where
  "candidate_new sid eid remote local_cred rdesc ldesc expiry =
     \<lparr>cd_session_id = sid, cd_endpoint_id = eid, cd_remote_cred = remote, cd_local_cred = local_cred,
      cd_remote_description = rdesc, cd_local_description = ldesc, cd_expired_time = expiry\<rparr>"

definition candidate_username :: "candidate \<Rightarrow> user_name" where
  "candidate_username c =
     ip_username_fragment (cc_ice (cd_local_cred c)) @ '':'' @
     ip_username_fragment (cc_ice (cd_remote_cred c))"

end
