(* ===== verification/Receiver_Stream.thy ===== *)
theory Receiver_Stream
  imports Net_Types
begin

text \<open>
  \<open>vendor/sfu/src/interceptor/report/receiver_stream.rs\<close>: the reception statistics of one RTP
  stream.  The bitmap of received sequence numbers is a list of 64-bit words, sequence numbers are
  \<open>i32\<close> values kept as integers (they stay within 17 bits), and floating point numbers are the
  argument \<open>F\<close>, a record of the \<open>f64\<close> operations and casts the code uses.
\<close>

unbundle bit_operations_syntax

section \<open>State\<close>

record 'f f64_ops =
  f_zero :: 'f
  f_of_nat :: "nat \<Rightarrow> 'f"
  f_secs :: "duration \<Rightarrow> 'f"
  f_add :: "'f \<Rightarrow> 'f \<Rightarrow> 'f"
  f_sub :: "'f \<Rightarrow> 'f \<Rightarrow> 'f"
  f_mul :: "'f \<Rightarrow> 'f \<Rightarrow> 'f"
  f_div :: "'f \<Rightarrow> 'f \<Rightarrow> 'f"
  f_abs :: "'f \<Rightarrow> 'f"
  f_to_u8 :: "'f \<Rightarrow> u8"
  f_to_u32 :: "'f \<Rightarrow> u32"

record 'f receiver_stream =
  rs_ssrc :: u32
  rs_receiver_ssrc :: u32
  rs_clock_rate :: 'f
  rs_packets :: "u64 list"
  rs_started :: bool
  rs_seq_num_cycles :: u16
  rs_last_seq_num :: int
  rs_last_report_seq_num :: int
  rs_last_rtp_time_rtp :: u32
  rs_last_rtp_time_time :: instant
  rs_jitter :: 'f
  rs_last_sender_report :: u32
  rs_last_sender_report_time :: instant
  rs_total_lost :: u32

text \<open>The random receiver SSRC and the two readings of the clock are arguments.\<close>

definition stream_new ::
  "'f f64_ops \<Rightarrow> u32 \<Rightarrow> instant \<Rightarrow> instant \<Rightarrow> u32 \<Rightarrow> u32 \<Rightarrow> 'f receiver_stream" where
  "stream_new F rnd t1 t2 ssrc rate =
     \<lparr>rs_ssrc = ssrc, rs_receiver_ssrc = rnd, rs_clock_rate = f_of_nat F (unat rate),
      rs_packets = replicate 128 0, rs_started = False, rs_seq_num_cycles = 0,
      rs_last_seq_num = 0, rs_last_report_seq_num = 0, rs_last_rtp_time_rtp = 0,
      rs_last_rtp_time_time = t1, rs_jitter = f_zero F, rs_last_sender_report = 0,
      rs_last_sender_report_time = t2, rs_total_lost = 0\<rparr>"

section \<open>The bitmap\<close>

text \<open>The position is taken modulo the number of words, not of bits, as the source has it.\<close>

definition received_pos :: "u64 list \<Rightarrow> u16 \<Rightarrow> nat" where
  "received_pos ps s = unat s mod length ps"

definition set_received :: "u16 \<Rightarrow> 'f receiver_stream \<Rightarrow> 'f receiver_stream" where
  "set_received s st =
     (let ps = rs_packets st; p = received_pos ps s
      in st\<lparr>rs_packets := ps[p div 64 := ps ! (p div 64) OR push_bit (p mod 64) 1]\<rparr>)"

definition del_received :: "u16 \<Rightarrow> 'f receiver_stream \<Rightarrow> 'f receiver_stream" where
  "del_received s st =
     (let ps = rs_packets st; p = received_pos ps s
      in st\<lparr>rs_packets := ps[p div 64 := ps ! (p div 64) AND (- 1 XOR push_bit (p mod 64) 1)]\<rparr>)"

definition get_received :: "u16 \<Rightarrow> 'f receiver_stream \<Rightarrow> bool" where
  "get_received s st \<longleftrightarrow>
     (let ps = rs_packets st; p = received_pos ps s
      in ps ! (p div 64) AND push_bit (p mod 64) 1 \<noteq> 0)"

section \<open>Packets and reports\<close>

definition seq_of :: "rtp_packet \<Rightarrow> int" where
  "seq_of pkt = uint (rtp_sequence_number pkt)"

text \<open>\<open>for i in last + 1..seq\<close>: empty when the sequence number is not larger.\<close>

definition mark_missing :: "int \<Rightarrow> int \<Rightarrow> 'f receiver_stream \<Rightarrow> 'f receiver_stream" where
  "mark_missing last_seq s st = foldl (\<lambda>st i. del_received (word_of_int i) st) st [last_seq + 1..s - 1]"

definition advance_sequence :: "int \<Rightarrow> 'f receiver_stream \<Rightarrow> 'f receiver_stream" where
  "advance_sequence s st =
     (let diff = s - rs_last_seq_num st
      in if \<not> (- 0x0FFF \<le> diff \<and> diff \<le> 0) then
           (let st1 = (if diff < - 0x0FFF then st\<lparr>rs_seq_num_cycles := rs_seq_num_cycles st + 1\<rparr> else st)
            in (mark_missing (rs_last_seq_num st) s st1)\<lparr>rs_last_seq_num := s\<rparr>)
         else st)"

definition update_jitter ::
  "'f f64_ops \<Rightarrow> instant \<Rightarrow> rtp_packet \<Rightarrow> 'f receiver_stream \<Rightarrow> 'f receiver_stream" where
  "update_jitter F now pkt st =
     (let d = f_sub F (f_mul F (f_secs F (nat (now - rs_last_rtp_time_time st))) (rs_clock_rate st))
                (f_sub F (f_of_nat F (unat (rtp_timestamp pkt))) (f_of_nat F (unat (rs_last_rtp_time_rtp st))))
      in st\<lparr>rs_jitter := f_add F (rs_jitter st)
              (f_div F (f_sub F (f_abs F d) (rs_jitter st)) (f_of_nat F 16))\<rparr>)"

definition process_rtp ::
  "'f f64_ops \<Rightarrow> instant \<Rightarrow> rtp_packet \<Rightarrow> 'f receiver_stream \<Rightarrow> 'f receiver_stream" where
  "process_rtp F now pkt st =
     (let s = seq_of pkt;
          st' = (if \<not> rs_started st then
                   (set_received (rtp_sequence_number pkt) (st\<lparr>rs_started := True\<rparr>))
                     \<lparr>rs_last_seq_num := s, rs_last_report_seq_num := s - 1\<rparr>
                 else
                   update_jitter F now pkt
                     (advance_sequence s (set_received (rtp_sequence_number pkt) st)))
      in st'\<lparr>rs_last_rtp_time_rtp := rtp_timestamp pkt, rs_last_rtp_time_time := now\<rparr>)"

definition process_sender_report :: "instant \<Rightarrow> rtcp_packet \<Rightarrow> 'f receiver_stream \<Rightarrow> 'f receiver_stream" where
  "process_sender_report now sr st =
     st\<lparr>rs_last_sender_report := ucast (drop_bit 16 (rtcp_ntp_time sr)),
        rs_last_sender_report_time := now\<rparr>"

lemma word_distance_decreases:
  fixes i stop :: u16
  assumes "i \<noteq> stop"
  shows "unat (stop - (i + 1)) < unat (stop - i)"
proof -
  have "stop - i \<noteq> 0" using assms by simp
  then have "unat (stop - i - 1) < unat (stop - i)"
    by (metis measure_unat)
  then show ?thesis by (simp add: diff_diff_eq)
qed

text \<open>The loop walks from the sequence number after the last report up to, not including, the
  newest, wrapping at 16 bits.\<close>

function count_missing :: "'f receiver_stream \<Rightarrow> u16 \<Rightarrow> u16 \<Rightarrow> u32" where
  "count_missing st i stop =
     (if i = stop then 0
      else (if get_received i st then 0 else 1) + count_missing st (i + 1) stop)"
  by pat_completeness auto

termination
  by (relation "measure (\<lambda>(st, i, stop). unat (stop - i))") (auto intro: word_distance_decreases)

declare count_missing.simps [simp del]

definition saturate_24 :: "u32 \<Rightarrow> u32" where
  "saturate_24 w = (if w > 0xFFFFFF then 0xFFFFFF else w)"

definition lost_since_report :: "'f receiver_stream \<Rightarrow> u32" where
  "lost_since_report st =
     (if rs_last_seq_num st = rs_last_report_seq_num st then 0
      else count_missing st (word_of_int (rs_last_report_seq_num st + 1)) (word_of_int (rs_last_seq_num st)))"

definition generate_report ::
  "'f f64_ops \<Rightarrow> instant \<Rightarrow> 'f receiver_stream \<Rightarrow> rtcp_packet \<times> 'f receiver_stream" where
  "generate_report F now st =
     (let total_since = (word_of_int (rs_last_seq_num st - rs_last_report_seq_num st) :: u16);
          lost = lost_since_report st;
          total_lost = saturate_24 (rs_total_lost st + lost);
          lost24 = saturate_24 lost;
          report = \<lparr>rr_ssrc = rs_ssrc st,
                    rr_last_sequence_number =
                      push_bit 16 (ucast (rs_seq_num_cycles st)) OR word_of_int (rs_last_seq_num st),
                    rr_last_sender_report = rs_last_sender_report st,
                    rr_fraction_lost =
                      f_to_u8 F (f_div F (f_of_nat F (unat (lost24 * 256))) (f_of_nat F (unat total_since))),
                    rr_total_lost = total_lost,
                    rr_delay = f_to_u32 F (f_mul F (f_secs F (nat (now - rs_last_sender_report_time st)))
                                                   (f_of_nat F 65536)),
                    rr_jitter = f_to_u32 F (rs_jitter st)\<rparr>
      in (\<lparr>rtcp_type = PtReceiverReport, rtcp_ssrc = rs_receiver_ssrc st, rtcp_ntp_time = 0,
           rtcp_reports = [report], rtcp_body = []\<rparr>,
          st\<lparr>rs_total_lost := total_lost, rs_last_report_seq_num := rs_last_seq_num st\<rparr>))"

end
