(* ===== verification/Interceptors.thy ===== *)
theory Interceptors
  imports Receiver_Stream Media_Config
begin

text \<open>
  \<open>vendor/sfu/src/interceptor\<close>: the chain of interceptors an endpoint owns.  The trait object
  \<open>Box<dyn Interceptor>\<close> is a datatype with a constructor per implementation, whose last argument
  is the field \<open>next\<close>.
\<close>

datatype 'f interceptor =
    NoOp
  | SenderReport "'f interceptor option"
  | ReceiverReport duration instant "(u32, 'f receiver_stream) hmap" "'f interceptor option"

datatype 'm interceptor_event = Inbound "'m tagged" | Outbound "'m tagged" | EventError error

section \<open>Building\<close>

definition chain :: "'f interceptor \<Rightarrow> 'f interceptor \<Rightarrow> 'f interceptor" where
  "chain i next_one =
     (case i of
        NoOp \<Rightarrow> NoOp
      | SenderReport _ \<Rightarrow> SenderReport (Some next_one)
      | ReceiverReport v e ss _ \<Rightarrow> ReceiverReport v e ss (Some next_one))"

text \<open>Both builders of \<open>MediaConfig\<close> leave the interval at its default of one second; \<open>now\<close> is the
  clock the receiver report reads.\<close>

fun build_interceptor :: "instant \<Rightarrow> interceptor_builder \<Rightarrow> 'f interceptor" where
  "build_interceptor now SenderReportBuilder = SenderReport None"
| "build_interceptor now ReceiverReportBuilder = ReceiverReport 1000000000 now [] None"

definition registry_build :: "instant \<Rightarrow> interceptor_builder list \<Rightarrow> 'f interceptor" where
  "registry_build now builders = foldl (\<lambda>n b. chain (build_interceptor now b) n) NoOp (rev builders)"

section \<open>Reading\<close>

definition hop_by_hop :: "rtcp_packet \<Rightarrow> bool" where
  "hop_by_hop p \<longleftrightarrow> rtcp_type p = PtReceiverReport \<or> rtcp_type p = PtTransportSpecificFeedback"

definition sender_report_read :: "'m tagged \<Rightarrow> 'm interceptor_event list" where
  "sender_report_read msg =
     (case tg_message msg of
        EvRtp (RtpRtcp ps) \<Rightarrow>
          (let fwd = filter (\<lambda>p. \<not> hop_by_hop p) ps
           in if fwd \<noteq> [] then [Inbound (msg\<lparr>tg_message := EvRtp (RtpRtcp fwd)\<rparr>)] else [])
      | _ \<Rightarrow> [])"

definition receiver_report_read ::
  "'f f64_ops \<Rightarrow> 'm tagged \<Rightarrow> (u32, 'f receiver_stream) hmap \<Rightarrow> (u32, 'f receiver_stream) hmap" where
  "receiver_report_read F msg streams =
     (case tg_message msg of
        EvRtp (RtpRtcp ps) \<Rightarrow>
          foldl (\<lambda>ss p. if rtcp_type p = PtSenderReport
                        then hm_modify (rtcp_ssrc p) (process_sender_report (tg_now msg) p) ss
                        else ss) streams ps
      | EvRtp (RtpRtp pkt) \<Rightarrow> hm_modify (rtp_ssrc pkt) (process_rtp F (tg_now msg) pkt) streams
      | _ \<Rightarrow> streams)"

fun interceptor_read ::
  "'f f64_ops \<Rightarrow> 'm tagged \<Rightarrow> 'f interceptor \<Rightarrow> 'm interceptor_event list \<times> 'f interceptor" where
  "interceptor_read F msg NoOp = ([], NoOp)"
| "interceptor_read F msg (SenderReport None) = (sender_report_read msg, SenderReport None)"
| "interceptor_read F msg (SenderReport (Some n)) =
     (let (evs, n') = interceptor_read F msg n
      in (sender_report_read msg @ evs, SenderReport (Some n')))"
| "interceptor_read F msg (ReceiverReport v e ss None) =
     ([], ReceiverReport v e (receiver_report_read F msg ss) None)"
| "interceptor_read F msg (ReceiverReport v e ss (Some n)) =
     (let (evs, n') = interceptor_read F msg n
      in (evs, ReceiverReport v e (receiver_report_read F msg ss) (Some n')))"

text \<open>No implementation overrides \<open>write\<close>.\<close>

fun interceptor_write :: "'m tagged \<Rightarrow> 'f interceptor \<Rightarrow> 'm interceptor_event list" where
  "interceptor_write msg NoOp = []"
| "interceptor_write msg (SenderReport n) =
     (case n of Some i \<Rightarrow> interceptor_write msg i | None \<Rightarrow> [])"
| "interceptor_write msg (ReceiverReport v e ss n) =
     (case n of Some i \<Rightarrow> interceptor_write msg i | None \<Rightarrow> [])"

section \<open>Timers\<close>

fun report_streams ::
  "'f f64_ops \<Rightarrow> instant \<Rightarrow> four_tuple list \<Rightarrow> (u32, 'f receiver_stream) hmap
     \<Rightarrow> 'm interceptor_event list \<times> (u32, 'f receiver_stream) hmap" where
  "report_streams F now fts [] = ([], [])"
| "report_streams F now fts ((k, st) # ss) =
     (let (rr, st') = generate_report F now st;
          (evs, ss') = report_streams F now fts ss
      in (map (\<lambda>ft. Outbound \<lparr>tg_now = now, tg_transport = context_of ft None,
                               tg_message = EvRtp (RtpRtcp [rr])\<rparr>) fts @ evs,
          (k, st') # ss'))"

fun interceptor_timeout ::
  "'f f64_ops \<Rightarrow> instant \<Rightarrow> four_tuple list \<Rightarrow> 'f interceptor
     \<Rightarrow> 'm interceptor_event list \<times> 'f interceptor" where
  "interceptor_timeout F now fts NoOp = ([], NoOp)"
| "interceptor_timeout F now fts (SenderReport None) = ([], SenderReport None)"
| "interceptor_timeout F now fts (SenderReport (Some n)) =
     (let (evs, n') = interceptor_timeout F now fts n in (evs, SenderReport (Some n')))"
| "interceptor_timeout F now fts (ReceiverReport v e ss nxt) =
     (let (evs, e', ss') =
            (if e \<le> now then
               (let (evs, ss') = report_streams F now fts ss in (evs, now + int v, ss'))
             else ([], e, ss))
      in case nxt of
           None \<Rightarrow> (evs, ReceiverReport v e' ss' None)
         | Some n \<Rightarrow>
             (let (evs', n') = interceptor_timeout F now fts n
              in (evs @ evs', ReceiverReport v e' ss' (Some n'))))"

fun interceptor_poll_timeout :: "instant \<Rightarrow> 'f interceptor \<Rightarrow> instant" where
  "interceptor_poll_timeout eto NoOp = eto"
| "interceptor_poll_timeout eto (SenderReport n) =
     (case n of Some i \<Rightarrow> interceptor_poll_timeout eto i | None \<Rightarrow> eto)"
| "interceptor_poll_timeout eto (ReceiverReport v e ss n) =
     (let eto' = (if e < eto then e else eto)
      in case n of Some i \<Rightarrow> interceptor_poll_timeout eto' i | None \<Rightarrow> eto')"

section \<open>What a chain does\<close>

text \<open>The contract of an interceptor: reading reports only feedback that is not hop by hop, for the
  connection it came from, and a later deadline is never polled before an earlier one.\<close>

locale interceptor_contract =
  fixes rd :: "'m tagged \<Rightarrow> 'i \<Rightarrow> 'm interceptor_event list \<times> 'i"
    and poll :: "instant \<Rightarrow> 'i \<Rightarrow> instant"
  assumes rd_forwards: "ev \<in> set (fst (rd msg i)) \<Longrightarrow>
      \<exists>ps. ev = Inbound (msg\<lparr>tg_message := EvRtp (RtpRtcp ps)\<rparr>) \<and> ps \<noteq> [] \<and> (\<forall>p \<in> set ps. \<not> hop_by_hop p)"
    and rd_media: "tg_message msg = EvRtp (RtpRtp pkt) \<Longrightarrow> fst (rd msg i) = []"
    and poll_le: "poll eto i \<le> eto"
    and poll_mono: "eto \<le> eto' \<Longrightarrow> poll eto i \<le> poll eto' i"
begin

lemma rd_same_transport:
  "Inbound m \<in> set (fst (rd msg i)) \<Longrightarrow> tg_transport m = tg_transport msg \<and> tg_now m = tg_now msg"
  using rd_forwards by fastforce

lemma rd_never_outbound: "Outbound m \<notin> set (fst (rd msg i)) \<and> EventError e \<notin> set (fst (rd msg i))"
  using rd_forwards by fastforce

lemma poll_twice: "poll (poll eto i) i \<le> poll eto i"
  by (rule poll_le)

end

lemma sender_report_read_forwards:
  "ev \<in> set (sender_report_read msg) \<Longrightarrow>
     \<exists>ps. ev = Inbound (msg\<lparr>tg_message := EvRtp (RtpRtcp ps)\<rparr>) \<and> ps \<noteq> [] \<and> (\<forall>p \<in> set ps. \<not> hop_by_hop p)"
  by (auto simp: sender_report_read_def Let_def filter_empty_conv split: message_event.splits rtp_event.splits if_splits)

lemma interceptor_read_forwards:
  "ev \<in> set (fst (interceptor_read F msg i)) \<Longrightarrow>
     \<exists>ps. ev = Inbound (msg\<lparr>tg_message := EvRtp (RtpRtcp ps)\<rparr>) \<and> ps \<noteq> [] \<and> (\<forall>p \<in> set ps. \<not> hop_by_hop p)"
proof (induction F msg i rule: interceptor_read.induct)
  case (3 F msg n)
  then show ?case
    by (cases "interceptor_read F msg n") (auto dest: sender_report_read_forwards)
next
  case (5 F msg v e ss n)
  then show ?case by (cases "interceptor_read F msg n") auto
qed (auto dest: sender_report_read_forwards)

lemma interceptor_read_media:
  "tg_message msg = EvRtp (RtpRtp pkt) \<Longrightarrow> fst (interceptor_read F msg i) = []"
  by (induction F msg i rule: interceptor_read.induct)
     (auto simp: sender_report_read_def split: prod.splits)

lemma interceptor_poll_le: "interceptor_poll_timeout eto i \<le> eto"
proof (induction i arbitrary: eto)
  case (SenderReport n)
  then show ?case by (cases n) auto
next
  case (ReceiverReport v e ss n)
  show ?case
  proof (cases n)
    case (Some i)
    have "interceptor_poll_timeout (if e < eto then e else eto) i \<le> (if e < eto then e else eto)"
      using ReceiverReport.IH Some by simp
    then show ?thesis using Some by (simp add: Let_def split: if_splits)
  qed (simp add: Let_def)
qed simp

lemma interceptor_poll_mono:
  "eto \<le> eto' \<Longrightarrow> interceptor_poll_timeout eto i \<le> interceptor_poll_timeout eto' i"
proof (induction i arbitrary: eto eto')
  case (SenderReport n)
  then show ?case by (cases n) auto
next
  case (ReceiverReport v e ss n)
  then show ?case by (cases n) (auto simp: Let_def)
qed simp

interpretation chain_reads: interceptor_contract "interceptor_read F" interceptor_poll_timeout for F
  by unfold_locales
     (rule interceptor_read_forwards interceptor_read_media interceptor_poll_le interceptor_poll_mono;
      assumption)+

end
