(* ===== verification/Session.thy ===== *)
theory Session
  imports Candidate Interceptors
begin

text \<open>
  \<open>vendor/sfu/src/endpoint/mod.rs\<close>, \<open>endpoint/transport.rs\<close>, \<open>session/mod.rs\<close> and
  \<open>session/config.rs\<close>: a session is a set of endpoints, an endpoint a set of transports and of
  transceivers.  The objects of the DTLS, SCTP and SRTP crates a transport holds are values of the
  type \<open>'x\<close>.
\<close>

section \<open>Transports\<close>

record 'x transport =
  tp_four_tuple :: four_tuple
  tp_last_activity :: instant
  tp_candidate :: candidate
  tp_dtls_endpoint :: 'x
  tp_sctp_endpoint :: 'x
  tp_sctp_associations :: "(nat, 'x) hmap"
  tp_association_handle :: "nat option"
  tp_stream_id :: "u16 option"
  tp_local_srtp :: "'x option"
  tp_remote_srtp :: "'x option"

definition transport_new :: "'x server_config \<Rightarrow> instant \<Rightarrow> four_tuple \<Rightarrow> candidate \<Rightarrow> 'x transport" where
  "transport_new cfg now ft c =
     \<lparr>tp_four_tuple = ft, tp_last_activity = now, tp_candidate = c,
      tp_dtls_endpoint = svc_dtls_endpoint cfg, tp_sctp_endpoint = svc_sctp_endpoint cfg,
      tp_sctp_associations = [], tp_association_handle = None, tp_stream_id = None,
      tp_local_srtp = None, tp_remote_srtp = None\<rparr>"

definition set_association_handle_and_stream_id :: "nat \<Rightarrow> u16 \<Rightarrow> 'x transport \<Rightarrow> 'x transport" where
  "set_association_handle_and_stream_id h s t =
     t\<lparr>tp_association_handle := Some h, tp_stream_id := Some s\<rparr>"

definition is_local_srtp_context_ready :: "'x transport \<Rightarrow> bool" where
  "is_local_srtp_context_ready t \<longleftrightarrow> tp_local_srtp t \<noteq> None"

definition keep_alive :: "instant \<Rightarrow> 'x transport \<Rightarrow> 'x transport" where
  "keep_alive now t = t\<lparr>tp_last_activity := now\<rparr>"

section \<open>Endpoints\<close>

record ('x, 'f) endpoint =
  ep_id :: endpoint_id
  ep_interceptor :: "'f interceptor"
  ep_renegotiation_needed :: bool
  ep_remote_description :: "rtc_description option"
  ep_local_description :: "rtc_description option"
  ep_transports :: "(four_tuple, 'x transport) hmap"
  ep_mids :: "mid list"
  ep_transceivers :: "(mid, transceiver) hmap"

definition endpoint_new :: "endpoint_id \<Rightarrow> 'f interceptor \<Rightarrow> ('x, 'f) endpoint" where
  "endpoint_new eid i =
     \<lparr>ep_id = eid, ep_interceptor = i, ep_renegotiation_needed = False,
      ep_remote_description = None, ep_local_description = None,
      ep_transports = [], ep_mids = [], ep_transceivers = []\<rparr>"

definition add_transport :: "'x transport \<Rightarrow> ('x, 'f) endpoint \<Rightarrow> ('x, 'f) endpoint" where
  "add_transport t ep = ep\<lparr>ep_transports := hm_insert (tp_four_tuple t) t (ep_transports ep)\<rparr>"

definition endpoint_remove_transport ::
  "four_tuple \<Rightarrow> ('x, 'f) endpoint \<Rightarrow> 'x transport option \<times> ('x, 'f) endpoint" where
  "endpoint_remove_transport ft ep =
     (hm_get (ep_transports ep) ft, ep\<lparr>ep_transports := hm_remove ft (ep_transports ep)\<rparr>)"

definition add_transceiver :: "transceiver \<Rightarrow> ('x, 'f) endpoint \<Rightarrow> ('x, 'f) endpoint" where
  "add_transceiver t ep =
     ep\<lparr>ep_mids := ep_mids ep @ [tr_mid t],
        ep_transceivers := hm_insert (tr_mid t) t (ep_transceivers ep)\<rparr>"

section \<open>Sessions\<close>

record 'x session_config =
  scf_server_config :: "'x server_config"
  scf_local_addr :: socket_addr

record ('x, 'f) session =
  ss_config :: "'x session_config"
  ss_id :: session_id
  ss_endpoints :: "(endpoint_id, ('x, 'f) endpoint) hmap"

definition session_new_empty :: "'x session_config \<Rightarrow> session_id \<Rightarrow> ('x, 'f) session" where
  "session_new_empty cfg sid = \<lparr>ss_config = cfg, ss_id = sid, ss_endpoints = []\<rparr>"

definition session_has_endpoint :: "('x, 'f) session \<Rightarrow> endpoint_id \<Rightarrow> bool" where
  "session_has_endpoint s eid \<longleftrightarrow> hm_contains (ss_endpoints s) eid"

text \<open>
  \<open>now\<close> is what the clock reads while the new endpoint's interceptor and transport are built.  The
  result tells whether the endpoint was there already.
\<close>

definition session_add_endpoint ::
  "instant \<Rightarrow> candidate \<Rightarrow> transport_context \<Rightarrow> ('x, 'f) session \<Rightarrow> bool \<times> ('x, 'f) session" where
  "session_add_endpoint now c tc s =
     (let cfg = scf_server_config (ss_config s); eid = cd_endpoint_id c; ft = four_tuple_of tc
      in case hm_get (ss_endpoints s) eid of
           Some ep \<Rightarrow>
             if hm_contains (ep_transports ep) ft then (True, s)
             else (True, s\<lparr>ss_endpoints :=
                             hm_modify eid (add_transport (transport_new cfg now ft c)) (ss_endpoints s)\<rparr>)
         | None \<Rightarrow>
             (let ep0 = add_transport (transport_new cfg now ft c)
                          (endpoint_new eid (registry_build now (mc_registry (svc_media_config cfg))));
                  ep = ep0\<lparr>ep_local_description := Some (cd_local_description c),
                           ep_remote_description := Some (cd_remote_description c)\<rparr>
              in (False, s\<lparr>ss_endpoints := hm_insert eid ep (ss_endpoints s)\<rparr>)))"

section \<open>Descriptions\<close>

text \<open>The media sections both \<open>set_remote_description\<close> and \<open>set_local_description\<close> act on.\<close>

definition media_target :: "media_description \<Rightarrow> (codec_type \<times> direction \<times> mid) option res" where
  "media_target m =
     (if md_media m = media_section_application then Inr None
      else
        let kind = codec_type_of_str (md_media m); dir = get_peer_direction m
        in if kind = KindUnspecified \<or> dir = DirUnspecified then Inr None
           else case get_mid_value m of
                  Some v \<Rightarrow> if v = [] then Inl (Other ''ErrPeerConnRemoteDescriptionWithoutMidValue'' [])
                            else Inr (Some (kind, dir, v))
                | None \<Rightarrow> Inr None)"

definition remote_sender_and_parameters ::
  "sdp_lib \<Rightarrow> media_description \<Rightarrow> (rtp_sender option \<times> rtp_parameters) res" where
  "remote_sender_and_parameters L m =
     and_then (get_ssrc_groups m) (\<lambda>groups.
     and_then (get_ssrcs m) (\<lambda>ssrcs.
     and_then (codecs_from_media_description L m) (\<lambda>cs.
     and_then (rtp_extensions_from_media_description L m) (\<lambda>xs.
       Inr (case (get_cname m, get_msid m) of
              (Some cname, Some msid) \<Rightarrow>
                Some \<lparr>sn_cname = cname, sn_msid = msid, sn_ssrcs = ssrcs, sn_ssrc_groups = groups\<rparr>
            | _ \<Rightarrow> None,
            \<lparr>rp_header_extensions = xs, rp_codecs = cs\<rparr>)))))"

definition peer_mid :: "endpoint_id \<Rightarrow> mid \<Rightarrow> mid" where
  "peer_mid eid v = dec (unat eid) @ ''-'' @ v"

text \<open>What another endpoint of the session learns of the new transceiver.\<close>

definition share_transceiver ::
  "endpoint_id \<Rightarrow> mid \<Rightarrow> codec_type \<Rightarrow> direction \<Rightarrow> rtp_sender option \<Rightarrow> rtp_parameters
     \<Rightarrow> ('x, 'f) endpoint \<Rightarrow> ('x, 'f) endpoint" where
  "share_transceiver eid v kind dir sender params ep =
     (let other_mid = peer_mid eid v
      in case hm_get (ep_transceivers ep) other_mid of
           Some t \<Rightarrow>
             if tr_direction t \<noteq> dir then
               ep\<lparr>ep_transceivers := hm_modify other_mid (\<lambda>t. t\<lparr>tr_direction := dir\<rparr>) (ep_transceivers ep),
                  ep_renegotiation_needed := True\<rparr>
             else ep
         | None \<Rightarrow>
             if dir = Sendonly then
               (add_transceiver
                  \<lparr>tr_mid = other_mid, tr_sender = sender, tr_direction = dir,
                   tr_current_direction = DirUnspecified, tr_rtp_params = params, tr_kind = kind\<rparr> ep)
                 \<lparr>ep_renegotiation_needed := True\<rparr>
             else ep)"

definition offered_media ::
  "sdp_lib \<Rightarrow> endpoint_id \<Rightarrow> media_description \<Rightarrow> codec_type \<Rightarrow> direction \<Rightarrow> mid
     \<Rightarrow> ('x, 'f) session \<Rightarrow> unit res \<times> ('x, 'f) session" where
  "offered_media L eid m kind dir v s =
     (case hm_get (ss_endpoints s) eid of
        None \<Rightarrow> (Inr (), s)
      | Some ep \<Rightarrow>
          if hm_contains (ep_transceivers ep) v then (Inr (), s)
          else
            (case remote_sender_and_parameters L m of
               Inl e \<Rightarrow> (Inl e, s)
             | Inr (sender, params) \<Rightarrow>
                 (let t = \<lparr>tr_mid = v, tr_sender = sender,
                           tr_direction = (if dir = Recvonly then Sendonly else Recvonly),
                           tr_current_direction = DirUnspecified, tr_rtp_params = params, tr_kind = kind\<rparr>
                  in (Inr (), s\<lparr>ss_endpoints :=
                        hm_map_values (\<lambda>oid oep. if oid \<noteq> eid
                                                then share_transceiver eid v kind dir sender params oep
                                                else oep)
                          (hm_modify eid (add_transceiver t) (ss_endpoints s))\<rparr>))))"

definition set_current_direction :: "direction \<Rightarrow> transceiver \<Rightarrow> transceiver" where
  "set_current_direction d t = t\<lparr>tr_current_direction := d\<rparr>"

definition set_endpoint_direction ::
  "endpoint_id \<Rightarrow> mid \<Rightarrow> direction \<Rightarrow> ('x, 'f) session \<Rightarrow> ('x, 'f) session" where
  "set_endpoint_direction eid v d s =
     s\<lparr>ss_endpoints :=
        hm_modify eid (\<lambda>ep. ep\<lparr>ep_transceivers := hm_modify v (set_current_direction d) (ep_transceivers ep)\<rparr>)
          (ss_endpoints s)\<rparr>"

fun remote_media ::
  "sdp_lib \<Rightarrow> endpoint_id \<Rightarrow> bool \<Rightarrow> media_description list \<Rightarrow> ('x, 'f) session
     \<Rightarrow> unit res \<times> ('x, 'f) session" where
  "remote_media L eid we_offer [] s = (Inr (), s)"
| "remote_media L eid we_offer (m # ms) s =
     (case media_target m of
        Inl e \<Rightarrow> (Inl e, s)
      | Inr None \<Rightarrow> remote_media L eid we_offer ms s
      | Inr (Some (kind, dir, v)) \<Rightarrow>
          if we_offer then
            remote_media L eid we_offer ms (set_endpoint_direction eid v (reverse_direction dir) s)
          else
            (case offered_media L eid m kind dir v s of
               (Inl e, s') \<Rightarrow> (Inl e, s')
             | (Inr _, s') \<Rightarrow> remote_media L eid we_offer ms s'))"

definition set_remote_description ::
  "sdp_lib \<Rightarrow> endpoint_id \<Rightarrow> rtc_description \<Rightarrow> ('x, 'f) session \<Rightarrow> unit res \<times> ('x, 'f) session" where
  "set_remote_description L eid desc s =
     (if \<not> session_has_endpoint s eid then (Inl (Other ''can't find endpoint id {}'' [ArgId eid]), s)
      else case rd_parsed desc of
             None \<Rightarrow> (Inl (Other ''Unparsed remote description'' []), s)
           | Some p \<Rightarrow> remote_media L eid (rd_sdp_type desc = SdpAnswer) (sd_media_descriptions p) s)"

fun local_media ::
  "endpoint_id \<Rightarrow> media_description list \<Rightarrow> ('x, 'f) session \<Rightarrow> unit res \<times> ('x, 'f) session" where
  "local_media eid [] s = (Inr (), s)"
| "local_media eid (m # ms) s =
     (case media_target m of
        Inl e \<Rightarrow> (Inl e, s)
      | Inr None \<Rightarrow> local_media eid ms s
      | Inr (Some (kind, dir, v)) \<Rightarrow> local_media eid ms (set_endpoint_direction eid v dir s))"

definition set_local_description ::
  "endpoint_id \<Rightarrow> rtc_description \<Rightarrow> ('x, 'f) session \<Rightarrow> unit res \<times> ('x, 'f) session" where
  "set_local_description eid desc s =
     (case rd_parsed desc of
        None \<Rightarrow> (Inl (Other ''Unparsed local description'' []), s)
      | Some p \<Rightarrow>
          if \<not> session_has_endpoint s eid then (Inl (Other ''can't find endpoint id {}'' [ArgId eid]), s)
          else if rd_sdp_type desc = SdpAnswer then local_media eid (sd_media_descriptions p) s
          else (Inr (), s))"

end
