(* ===== verification/Session_Sdp.thy ===== *)
theory Session_Sdp
  imports Session
begin

text \<open>
  \<open>generate_matched_sdp\<close>, \<open>create_offer\<close> and \<open>create_answer\<close> of \<open>session/mod.rs\<close>: the media
  sections of the next local description, matched against the remote one.
\<close>

section \<open>Media sections\<close>

definition data_section :: "mid \<Rightarrow> media_section" where
  "data_section v = \<lparr>ms_mid = v, ms_data = True, ms_rid_map = [], ms_offered_direction = None\<rparr>"

definition unmatched_section :: "mid \<Rightarrow> media_section" where
  "unmatched_section v = \<lparr>ms_mid = v, ms_data = False, ms_rid_map = [], ms_offered_direction = None\<rparr>"

text \<open>One remote media section; the state is the sections so far, whether an application section
  was among them, and the matched identifiers.\<close>

definition match_media ::
  "(mid, transceiver) hmap \<Rightarrow> bool \<Rightarrow> media_description
     \<Rightarrow> media_section list \<times> bool \<times> mid list \<Rightarrow> (media_section list \<times> bool \<times> mid list) res" where
  "match_media ts include_unmatched m st =
     (let (secs, app, matched) = st
      in case get_mid_value m of
           None \<Rightarrow> Inr st
         | Some v \<Rightarrow>
             if v = [] then Inl (Other ''ErrPeerConnRemoteDescriptionWithoutMidValue'' [])
             else if md_media m = media_section_application then
               Inr (secs @ [data_section v], True, matched)
             else
               let kind = codec_type_of_str (md_media m); dir = get_peer_direction m
               in if kind = KindUnspecified \<or> dir = DirUnspecified then Inr st
                  else if hm_contains ts v then
                    Inr (secs @ [\<lparr>ms_mid = v, ms_data = False, ms_rid_map = get_rids m,
                                  ms_offered_direction = (if include_unmatched then None else Some dir)\<rparr>],
                         app, List.insert v matched)
                  else Inl (Other ''ErrPeerConnTransceiverMidNil'' []))"

fun match_all ::
  "(mid, transceiver) hmap \<Rightarrow> bool \<Rightarrow> media_description list
     \<Rightarrow> media_section list \<times> bool \<times> mid list \<Rightarrow> (media_section list \<times> bool \<times> mid list) res" where
  "match_all ts include_unmatched [] st = Inr st"
| "match_all ts include_unmatched (m # ms) st =
     and_then (match_media ts include_unmatched m st) (match_all ts include_unmatched ms)"

definition media_sections ::
  "mid list \<Rightarrow> (mid, transceiver) hmap \<Rightarrow> rtc_description \<Rightarrow> bool \<Rightarrow> media_section list res" where
  "media_sections mids ts remote include_unmatched =
     and_then (match_all ts include_unmatched
                 (case rd_parsed remote of Some p \<Rightarrow> sd_media_descriptions p | None \<Rightarrow> []) ([], False, []))
       (\<lambda>(secs, app, matched).
          if include_unmatched then
            (let secs' = secs @ map unmatched_section (filter (\<lambda>v. v \<notin> set matched) mids)
             in Inr (if app then secs' else secs' @ [data_section (dec (length secs'))]))
          else Inr secs)"

section \<open>Offers and answers\<close>

definition build_config_of :: "'x session_config \<Rightarrow> build_config" where
  "build_config_of cfg =
     \<lparr>bc_local_addr = scf_local_addr cfg,
      bc_media_config = svc_media_config (scf_server_config cfg),
      bc_sctp_port = svc_sctp_port (scf_server_config cfg),
      bc_max_message_size = svc_max_message_size (scf_server_config cfg)\<rparr>"

definition generate_matched_sdp ::
  "sdp_lib \<Rightarrow> (u8 list \<Rightarrow> u8 list) \<Rightarrow> endpoint_id \<Rightarrow> rtc_description \<Rightarrow> ice_parameters \<Rightarrow> bool
     \<Rightarrow> bool \<Rightarrow> connection_role \<Rightarrow> ('x, 'f) session \<Rightarrow> session_description res" where
  "generate_matched_sdp L sha eid remote ice use_identity include_unmatched role s =
     (let d = sl_new_session L use_identity;
          (mids, ts) = (case hm_get (ss_endpoints s) eid of
                          Some ep \<Rightarrow> (ep_mids ep, ep_transceivers ep) | None \<Rightarrow> ([], []))
      in and_then (media_sections mids ts remote include_unmatched) (\<lambda>secs.
           case svc_certificates (scf_server_config (ss_config s)) of
             [] \<Rightarrow> Inl (Other ''ErrNonCertificate'' [])
           | cert # _ \<Rightarrow>
               populate_sdp L d (get_fingerprints sha cert) (build_config_of (ss_config s)) ice role
                 secs ts True))"

definition default_origin :: origin where
  "default_origin = \<lparr>or_session_id = 0, or_session_version = 0\<rparr>"

definition describe :: "sdp_lib \<Rightarrow> sdp_type \<Rightarrow> session_description \<Rightarrow> rtc_description" where
  "describe L t d =
     (let d' = snd (update_sdp_origin default_origin d)
      in \<lparr>rd_sdp_type = t, rd_sdp = sl_marshal L d', rd_parsed = Some d'\<rparr>)"

definition create_offer ::
  "sdp_lib \<Rightarrow> (u8 list \<Rightarrow> u8 list) \<Rightarrow> endpoint_id \<Rightarrow> rtc_description \<Rightarrow> ice_parameters
     \<Rightarrow> ('x, 'f) session \<Rightarrow> rtc_description res" where
  "create_offer L sha eid remote ice s =
     and_then (generate_matched_sdp L sha eid remote ice False True
                 (to_connection_role default_dtls_role_offer) s)
       (\<lambda>d. Inr (describe L SdpOffer d))"

definition create_answer ::
  "sdp_lib \<Rightarrow> (u8 list \<Rightarrow> u8 list) \<Rightarrow> endpoint_id \<Rightarrow> rtc_description \<Rightarrow> ice_parameters
     \<Rightarrow> ('x, 'f) session \<Rightarrow> rtc_description res" where
  "create_answer L sha eid remote ice s =
     and_then (generate_matched_sdp L sha eid remote ice False False (to_connection_role DtlsServer) s)
       (\<lambda>d. Inr (describe L SdpAnswer d))"

end
