(* ===== verification/Server_States.thy ===== *)
theory Server_States
  imports Session_Sdp
begin

text \<open>
  \<open>vendor/sfu/src/server/states.rs\<close>: sessions, candidates awaiting their connection, and the table
  from four-tuples to endpoints.  The operations that fail part way return the state they leave.
\<close>

record ('x, 'f) server_states =
  st_server_config :: "'x server_config"
  st_local_addr :: socket_addr
  st_sessions :: "(session_id, ('x, 'f) session) hmap"
  st_candidates :: "(user_name, candidate) hmap"
  st_endpoints :: "(four_tuple, session_id \<times> endpoint_id) hmap"

text \<open>What the operations take from outside: the \<open>sdp\<close> crate and SHA-256.\<close>

record sfu_lib =
  lib_sdp :: sdp_lib
  lib_sha256 :: "u8 list \<Rightarrow> u8 list"

definition server_states_new ::
  "sfu_lib \<Rightarrow> 'x server_config \<Rightarrow> socket_addr \<Rightarrow> ('x, 'f) server_states res" where
  "server_states_new E cfg addr =
     (case svc_certificates cfg of
        [] \<Rightarrow> Inl ErrInvalidCertificate
      | cert # _ \<Rightarrow>
          (case get_fingerprints (lib_sha256 E) cert of
             [] \<Rightarrow> Inl ErrInvalidCertificate
           | _ \<Rightarrow> Inr \<lparr>st_server_config = cfg, st_local_addr = addr, st_sessions = [],
                       st_candidates = [], st_endpoints = []\<rparr>))"

section \<open>Tables\<close>

definition create_or_get_session ::
  "session_id \<Rightarrow> ('x, 'f) server_states \<Rightarrow> ('x, 'f) session \<times> ('x, 'f) server_states" where
  "create_or_get_session sid st =
     (case hm_get (st_sessions st) sid of
        Some s \<Rightarrow> (s, st)
      | None \<Rightarrow>
          (let s = session_new_empty \<lparr>scf_server_config = st_server_config st,
                                      scf_local_addr = st_local_addr st\<rparr> sid
           in (s, st\<lparr>st_sessions := hm_insert sid s (st_sessions st)\<rparr>)))"

definition put_session ::
  "session_id \<Rightarrow> ('x, 'f) session \<Rightarrow> ('x, 'f) server_states \<Rightarrow> ('x, 'f) server_states" where
  "put_session sid s st = st\<lparr>st_sessions := hm_modify sid (\<lambda>_. s) (st_sessions st)\<rparr>"

definition remove_session :: "session_id \<Rightarrow> ('x, 'f) server_states \<Rightarrow> ('x, 'f) server_states" where
  "remove_session sid st = st\<lparr>st_sessions := hm_remove sid (st_sessions st)\<rparr>"

definition add_candidate :: "candidate \<Rightarrow> ('x, 'f) server_states \<Rightarrow> ('x, 'f) server_states" where
  "add_candidate c st = st\<lparr>st_candidates := hm_insert (candidate_username c) c (st_candidates st)\<rparr>"

definition remove_candidate :: "user_name \<Rightarrow> ('x, 'f) server_states \<Rightarrow> ('x, 'f) server_states" where
  "remove_candidate u st = st\<lparr>st_candidates := hm_remove u (st_candidates st)\<rparr>"

definition find_candidate :: "user_name \<Rightarrow> ('x, 'f) server_states \<Rightarrow> candidate option" where
  "find_candidate u st = hm_get (st_candidates st) u"

definition states_add_endpoint ::
  "four_tuple \<Rightarrow> session_id \<Rightarrow> endpoint_id \<Rightarrow> ('x, 'f) server_states \<Rightarrow> ('x, 'f) server_states" where
  "states_add_endpoint ft sid eid st = st\<lparr>st_endpoints := hm_insert ft (sid, eid) (st_endpoints st)\<rparr>"

definition states_remove_endpoint :: "four_tuple \<Rightarrow> ('x, 'f) server_states \<Rightarrow> ('x, 'f) server_states" where
  "states_remove_endpoint ft st = st\<lparr>st_endpoints := hm_remove ft (st_endpoints st)\<rparr>"

definition find_endpoint :: "four_tuple \<Rightarrow> ('x, 'f) server_states \<Rightarrow> (session_id \<times> endpoint_id) option" where
  "find_endpoint ft st = hm_get (st_endpoints st) ft"

definition locate_endpoint ::
  "four_tuple \<Rightarrow> ('x, 'f) server_states \<Rightarrow> (session_id \<times> endpoint_id \<times> ('x, 'f) endpoint) res" where
  "locate_endpoint ft st =
     and_then (ok_or (Other ''can't find endpoint with four_tuple {:?}'' [ArgTuple ft]) (find_endpoint ft st))
       (\<lambda>(sid, eid).
     and_then (ok_or (Other ''can't find session id {:?}'' [ArgId sid]) (hm_get (st_sessions st) sid)) (\<lambda>s.
     and_then (ok_or (Other ''can't find endpoint id {:?}'' [ArgId eid]) (hm_get (ss_endpoints s) eid)) (\<lambda>ep.
       Inr (sid, eid, ep))))"

definition modify_endpoint ::
  "session_id \<Rightarrow> endpoint_id \<Rightarrow> (('x, 'f) endpoint \<Rightarrow> ('x, 'f) endpoint)
     \<Rightarrow> ('x, 'f) server_states \<Rightarrow> ('x, 'f) server_states" where
  "modify_endpoint sid eid f st =
     st\<lparr>st_sessions := hm_modify sid (\<lambda>s. s\<lparr>ss_endpoints := hm_modify eid f (ss_endpoints s)\<rparr>) (st_sessions st)\<rparr>"

text \<open>\<open>get_mut_endpoint\<close> and \<open>get_mut_transport\<close> hand out a reference; here they take the change to
  make and return the state with it.\<close>

definition with_endpoint ::
  "four_tuple \<Rightarrow> (('x, 'f) endpoint \<Rightarrow> ('x, 'f) endpoint) \<Rightarrow> ('x, 'f) server_states
     \<Rightarrow> unit res \<times> ('x, 'f) server_states" where
  "with_endpoint ft f st =
     (case locate_endpoint ft st of
        Inl e \<Rightarrow> (Inl e, st)
      | Inr (sid, eid, _) \<Rightarrow> (Inr (), modify_endpoint sid eid f st))"

definition locate_transport ::
  "four_tuple \<Rightarrow> ('x, 'f) server_states \<Rightarrow> (session_id \<times> endpoint_id \<times> 'x transport) res" where
  "locate_transport ft st =
     and_then (locate_endpoint ft st) (\<lambda>(sid, eid, ep).
     and_then (ok_or (Other ''can't find transport with four_tuple {:?} for endpoint id {}''
                        [ArgTuple ft, ArgId eid]) (hm_get (ep_transports ep) ft)) (\<lambda>t.
       Inr (sid, eid, t)))"

definition modify_transport :: "four_tuple \<Rightarrow> ('x transport \<Rightarrow> 'x transport) \<Rightarrow> ('x, 'f) endpoint \<Rightarrow> ('x, 'f) endpoint" where
  "modify_transport ft f ep = ep\<lparr>ep_transports := hm_modify ft f (ep_transports ep)\<rparr>"

definition with_transport ::
  "four_tuple \<Rightarrow> ('x transport \<Rightarrow> 'x transport) \<Rightarrow> ('x, 'f) server_states
     \<Rightarrow> unit res \<times> ('x, 'f) server_states" where
  "with_transport ft f st =
     (case locate_transport ft st of
        Inl e \<Rightarrow> (Inl e, st)
      | Inr (sid, eid, _) \<Rightarrow> (Inr (), modify_endpoint sid eid (modify_transport ft f) st))"

section \<open>Offers and answers\<close>

text \<open>
  The fingerprints of the first certificate; \<open>unwrap\<close> cannot fail because \<open>server_states_new\<close>
  accepts no configuration without a certificate and the configuration never changes.
\<close>

definition first_fingerprints :: "sfu_lib \<Rightarrow> 'x server_config \<Rightarrow> dtls_fingerprint list" where
  "first_fingerprints E cfg =
     (case svc_certificates cfg of cert # _ \<Rightarrow> get_fingerprints (lib_sha256 E) cert | [] \<Rightarrow> [])"

text \<open>The credentials an endpoint's transport was set up with.\<close>

definition endpoint_credentials ::
  "endpoint_id \<Rightarrow> four_tuple option \<Rightarrow> ('x, 'f) session \<Rightarrow> connection_credentials res" where
  "endpoint_credentials eid four s =
     and_then (ok_or (Other ''can't find endpoint id {}'' [ArgId eid]) (hm_get (ss_endpoints s) eid)) (\<lambda>ep.
     and_then (ok_or (Other ''missing FourTuple'' []) four) (\<lambda>ft.
     and_then (ok_or (Other ''can't find transport for endpoint id {} with {:?}'' [ArgId eid, ArgTuple ft])
                 (hm_get (ep_transports ep) ft)) (\<lambda>t.
       Inr (cd_local_cred (tp_candidate t)))))"

definition local_credentials ::
  "sfu_lib \<Rightarrow> ice_parameters \<Rightarrow> dtls_fingerprint list \<Rightarrow> connection_credentials \<Rightarrow> endpoint_id
     \<Rightarrow> four_tuple option \<Rightarrow> rtc_description \<Rightarrow> ('x, 'f) session
     \<Rightarrow> connection_credentials res \<times> ('x, 'f) session" where
  "local_credentials E fresh fps remote_cred eid four offer s =
     (if session_has_endpoint s eid then
        (case set_remote_description (lib_sdp E) eid offer s of
           (Inl e, s') \<Rightarrow> (Inl e, s')
         | (Inr _, s') \<Rightarrow> (endpoint_credentials eid four s', s'))
      else (Inr (credentials_new fresh fps (cc_role remote_cred)), s))"

definition accept_parsed_offer ::
  "sfu_lib \<Rightarrow> ice_parameters \<Rightarrow> instant \<Rightarrow> session_id \<Rightarrow> endpoint_id \<Rightarrow> four_tuple option
     \<Rightarrow> connection_credentials \<Rightarrow> rtc_description \<Rightarrow> ('x, 'f) server_states
     \<Rightarrow> rtc_description res \<times> ('x, 'f) server_states" where
  "accept_parsed_offer E fresh now sid eid four remote_cred offer st =
     (let fps = first_fingerprints E (st_server_config st);
          (s, st1) = create_or_get_session sid st;
          has_endpoint = session_has_endpoint s eid
      in case local_credentials E fresh fps remote_cred eid four offer s of
           (Inl e, s1) \<Rightarrow> (Inl e, put_session sid s1 st1)
         | (Inr local_cred, s1) \<Rightarrow>
             (case create_answer (lib_sdp E) (lib_sha256 E) eid offer (cc_ice local_cred) s1 of
                Inl e \<Rightarrow> (Inl e, put_session sid s1 st1)
              | Inr answer \<Rightarrow>
                  if has_endpoint then
                    (case set_local_description eid answer s1 of
                       (Inl e, s2) \<Rightarrow> (Inl e, put_session sid s2 st1)
                     | (Inr _, s2) \<Rightarrow> (Inr answer, put_session sid s2 st1))
                  else
                    (Inr answer,
                     add_candidate
                       (candidate_new sid eid remote_cred local_cred offer answer
                          (now + int (svc_idle_timeout (st_server_config st))))
                       (put_session sid s1 st1))))"

definition accept_offer ::
  "sfu_lib \<Rightarrow> ice_parameters \<Rightarrow> instant \<Rightarrow> session_id \<Rightarrow> endpoint_id \<Rightarrow> four_tuple option
     \<Rightarrow> rtc_description \<Rightarrow> ('x, 'f) server_states \<Rightarrow> rtc_description res \<times> ('x, 'f) server_states" where
  "accept_offer E fresh now sid eid four offer st =
     (case unmarshal (lib_sdp E) offer of
        Inl e \<Rightarrow> (Inl e, st)
      | Inr parsed \<Rightarrow>
          (case credentials_from_sdp (lib_sdp E) parsed of
             Inl e \<Rightarrow> (Inl e, st)
           | Inr remote_cred \<Rightarrow>
               accept_parsed_offer E fresh now sid eid four remote_cred
                 (offer\<lparr>rd_parsed := Some parsed\<rparr>) st))"

definition accept_answer ::
  "sfu_lib \<Rightarrow> session_id \<Rightarrow> endpoint_id \<Rightarrow> rtc_description \<Rightarrow> ('x, 'f) server_states
     \<Rightarrow> unit res \<times> ('x, 'f) server_states" where
  "accept_answer E sid eid answer st =
     (case unmarshal (lib_sdp E) answer of
        Inl e \<Rightarrow> (Inl e, st)
      | Inr parsed \<Rightarrow>
          (let (s, st1) = create_or_get_session sid st
           in if session_has_endpoint s eid then
                (case set_remote_description (lib_sdp E) eid (answer\<lparr>rd_parsed := Some parsed\<rparr>) s of
                   (r, s') \<Rightarrow> (r, put_session sid s' st1))
              else (Inr (), st1)))"

section \<open>Removing transports\<close>

definition remove_transport :: "four_tuple \<Rightarrow> ('x, 'f) server_states \<Rightarrow> ('x, 'f) server_states" where
  "remove_transport ft st =
     (case find_endpoint ft st of
        None \<Rightarrow> st
      | Some (sid, eid) \<Rightarrow>
          (case hm_get (st_sessions st) sid of
             None \<Rightarrow> st
           | Some s \<Rightarrow>
               (case hm_get (ss_endpoints s) eid of
                  None \<Rightarrow> st
                | Some ep \<Rightarrow>
                    (let (t, ep') = endpoint_remove_transport ft ep;
                         st1 =
                           (if ep_transports ep' = [] then
                              (let s' = s\<lparr>ss_endpoints := hm_remove eid (ss_endpoints s)\<rparr>;
                                   st' = (if ss_endpoints s' = [] then remove_session sid st
                                          else put_session sid s' st)
                               in states_remove_endpoint ft st')
                            else
                              put_session sid
                                (s\<lparr>ss_endpoints := hm_modify eid (\<lambda>_. ep') (ss_endpoints s)\<rparr>) st)
                     in case t of
                          Some t \<Rightarrow> remove_candidate (candidate_username (tp_candidate t)) st1
                        | None \<Rightarrow> st1))))"

end
