(* ===== verification/Gateway.thy ===== *)
theory Gateway
  imports Server_States
begin

text \<open>
  \<open>vendor/sfu/src/handler/gateway.rs\<close> and \<open>audio_callback.rs\<close>: the last stage of the pipeline,
  which answers STUN, negotiates over the data channel and forwards media.

  The functions of the \<open>stun\<close> crate are the record \<open>stun_lib\<close> over its messages \<open>'m\<close>, those of
  \<open>serde_json\<close> the record \<open>json_lib\<close>.  A handler takes the server states and returns them with the
  messages to send; \<open>clk\<close> is what \<open>Instant::now()\<close> reads.
\<close>

section \<open>Audio\<close>

record audio_packet_info =
  ai_ssrc :: u32
  ai_timestamp :: u32
  ai_sequence_number :: u16
  ai_payload_type :: u8
  ai_payload :: "u8 list"

definition opus_payload_types :: "u8 list" where
  "opus_payload_types = [111, 109, 96]"

definition is_audio_payload_type :: "u8 \<Rightarrow> bool" where
  "is_audio_payload_type pt \<longleftrightarrow> pt \<in> set opus_payload_types"

definition audio_info_of :: "rtp_packet \<Rightarrow> audio_packet_info" where
  "audio_info_of p =
     \<lparr>ai_ssrc = rtp_ssrc p, ai_timestamp = rtp_timestamp p,
      ai_sequence_number = rtp_sequence_number p, ai_payload_type = rtp_payload_type p,
      ai_payload = rtp_payload p\<rparr>"

section \<open>Libraries and UTF-8\<close>

record 'm stun_lib =
  su_username :: "'m \<Rightarrow> string option"
  su_has_priority :: "'m \<Rightarrow> bool"
  su_has_controlling :: "'m \<Rightarrow> bool"
  su_has_controlled :: "'m \<Rightarrow> bool"
  su_has_use_candidate :: "'m \<Rightarrow> bool"
  su_has_network_cost :: "'m \<Rightarrow> bool"
  su_transaction_id :: "'m \<Rightarrow> u8 list"
  su_check_integrity :: "string \<Rightarrow> 'm \<Rightarrow> unit res \<times> 'm"
  su_binding_success :: "u8 list \<Rightarrow> socket_addr \<Rightarrow> 'm res"
  su_add_integrity :: "string \<Rightarrow> 'm \<Rightarrow> 'm res"
  su_add_fingerprint :: "'m \<Rightarrow> 'm res"

record json_lib =
  js_parse_description :: "string \<Rightarrow> string + rtc_description"
  js_show_description :: "rtc_description \<Rightarrow> string + string"

text \<open>\<open>String::from_utf8\<close>: well-formed sequences of one to four bytes.\<close>

definition cont_byte :: "u8 \<Rightarrow> bool" where
  "cont_byte b \<longleftrightarrow> 0x80 \<le> b \<and> b \<le> 0xBF"

fun utf8_valid :: "u8 list \<Rightarrow> bool" where
  "utf8_valid [] = True"
| "utf8_valid (b # bs) =
     (if b \<le> 0x7F then utf8_valid bs
      else if 0xC2 \<le> b \<and> b \<le> 0xDF then
        (case bs of c1 # bs1 \<Rightarrow> cont_byte c1 \<and> utf8_valid bs1 | _ \<Rightarrow> False)
      else if 0xE0 \<le> b \<and> b \<le> 0xEF then
        (case bs of
           c1 # c2 # bs2 \<Rightarrow>
             cont_byte c1 \<and> cont_byte c2 \<and> (b = 0xE0 \<longrightarrow> 0xA0 \<le> c1) \<and> (b = 0xED \<longrightarrow> c1 \<le> 0x9F) \<and>
             utf8_valid bs2
         | _ \<Rightarrow> False)
      else if 0xF0 \<le> b \<and> b \<le> 0xF4 then
        (case bs of
           c1 # c2 # c3 # bs3 \<Rightarrow>
             cont_byte c1 \<and> cont_byte c2 \<and> cont_byte c3 \<and> (b = 0xF0 \<longrightarrow> 0x90 \<le> c1) \<and>
             (b = 0xF4 \<longrightarrow> c1 \<le> 0x8F) \<and> utf8_valid bs3
         | _ \<Rightarrow> False)
      else False)"

definition from_utf8 :: "u8 list \<Rightarrow> string res" where
  "from_utf8 bs = (if utf8_valid bs then Inr (map (\<lambda>b. char_of (unat b)) bs) else Inl ErrUtf8)"

definition to_bytes :: "string \<Rightarrow> u8 list" where
  "to_bytes s = map (\<lambda>c. of_nat (of_char c)) s"

section \<open>STUN\<close>

definition check_stun_message ::
  "'m stun_lib \<Rightarrow> ('x, 'f) server_states \<Rightarrow> 'm \<Rightarrow> candidate option res \<times> 'm" where
  "check_stun_message S st req =
     (case su_username S req of
        Some username \<Rightarrow>
          if \<not> su_has_priority S req then
            (Inl (Other ''invalid STUN message without ATTR_PRIORITY'' []), req)
          else if su_has_controlling S req \<and> su_has_controlled S req then
            (Inl (Other ''invalid STUN message with both ATTR_ICE_CONTROLLING and ATTR_ICE_CONTROLLED'' []), req)
          else if \<not> su_has_controlling S req \<and> su_has_controlled S req \<and> su_has_use_candidate S req then
            (Inl (Other ''invalid STUN message with both ATTR_USE_CANDIDATE and ATTR_ICE_CONTROLLED'' []), req)
          else if \<not> su_has_controlling S req \<and> \<not> su_has_controlled S req then
            (Inl (Other ''invalid STUN message without ATTR_ICE_CONTROLLING or ATTR_ICE_CONTROLLED'' []), req)
          else
            (case find_candidate username st of
               Some c \<Rightarrow>
                 (case su_check_integrity S (ip_password (cc_ice (cd_local_cred c))) req of
                    (Inl e, req') \<Rightarrow> (Inl e, req')
                  | (Inr _, req') \<Rightarrow> (Inr (Some c), req'))
             | None \<Rightarrow> (Inl (Other ''username not found'' []), req))
      | None \<Rightarrow>
          if su_has_controlled S req \<or> su_has_controlling S req \<or> su_has_network_cost S req \<or>
             su_has_priority S req \<or> su_has_use_candidate S req
          then (Inl (Other ''unexpected attribute'' []), req)
          else (Inr None, req))"

definition gateway_add_endpoint ::
  "'m stun_lib \<Rightarrow> instant \<Rightarrow> 'm \<Rightarrow> candidate \<Rightarrow> transport_context \<Rightarrow> ('x, 'f) server_states
     \<Rightarrow> bool res \<times> ('x, 'f) server_states" where
  "gateway_add_endpoint S clk req c tc st =
     (let sid = cd_session_id c; eid = cd_endpoint_id c; ft = four_tuple_of tc
      in case hm_get (st_sessions st) sid of
           None \<Rightarrow> (Inl (Other ''session {} not found'' [ArgId sid]), st)
         | Some s \<Rightarrow>
             (let (is_new, has_transport) =
                    (case hm_get (ss_endpoints s) eid of
                       Some ep \<Rightarrow> (False, hm_contains (ep_transports ep) ft)
                     | None \<Rightarrow> (True, False))
              in if \<not> su_has_use_candidate S req \<or> has_transport then (Inr is_new, st)
                 else
                   (let (is_new', s') = session_add_endpoint clk c tc s
                    in (Inr is_new', states_add_endpoint ft sid eid (put_session sid s' st)))))"

definition stun_tagged :: "instant \<Rightarrow> transport_context \<Rightarrow> 'm \<Rightarrow> 'm tagged" where
  "stun_tagged now tc m = \<lparr>tg_now = now, tg_transport = tc, tg_message = EvStun (StunMsg m)\<rparr>"

definition create_server_reflective_address_message_event ::
  "'m stun_lib \<Rightarrow> instant \<Rightarrow> transport_context \<Rightarrow> u8 list \<Rightarrow> 'm tagged list res" where
  "create_server_reflective_address_message_event S now tc tid =
     and_then (su_binding_success S tid (tc_peer_addr tc)) (\<lambda>r. Inr [stun_tagged now tc r])"

definition handle_stun_message ::
  "'m stun_lib \<Rightarrow> instant \<Rightarrow> instant \<Rightarrow> transport_context \<Rightarrow> 'm \<Rightarrow> ('x, 'f) server_states
     \<Rightarrow> 'm tagged list res \<times> ('x, 'f) server_states" where
  "handle_stun_message S clk now tc req0 st =
     (case check_stun_message S st req0 of
        (Inl e, _) \<Rightarrow> (Inl e, st)
      | (Inr None, req) \<Rightarrow>
          (create_server_reflective_address_message_event S now tc (su_transaction_id S req), st)
      | (Inr (Some c), req) \<Rightarrow>
          (case gateway_add_endpoint S clk req c tc st of
             (Inl e, st') \<Rightarrow> (Inl e, st')
           | (Inr _, st') \<Rightarrow>
               (and_then (su_binding_success S (su_transaction_id S req) (tc_peer_addr tc)) (\<lambda>r1.
                and_then (su_add_integrity S (ip_password (cc_ice (cd_local_cred c))) r1) (\<lambda>r2.
                and_then (su_add_fingerprint S r2) (\<lambda>r3.
                  Inr [stun_tagged now tc r3]))), st')))"

section \<open>Negotiation over the data channel\<close>

definition data_channel_tagged ::
  "instant \<Rightarrow> transport_context \<Rightarrow> nat \<Rightarrow> u16 \<Rightarrow> string \<Rightarrow> 'm tagged" where
  "data_channel_tagged now tc h sid text =
     \<lparr>tg_now = now, tg_transport = tc,
      tg_message = EvDtls (DtlsDataChannel
        \<lparr>am_association_handle = h, am_stream_id = sid, am_event = DcMessage (to_bytes text)\<rparr>)\<rparr>"

definition show_json :: "json_lib \<Rightarrow> rtc_description \<Rightarrow> string res" where
  "show_json J d = (case js_show_description J d of Inl e \<Rightarrow> Inl (Other e []) | Inr s \<Rightarrow> Inr s)"

definition set_renegotiation_needed :: "bool \<Rightarrow> ('x, 'f) endpoint \<Rightarrow> ('x, 'f) endpoint" where
  "set_renegotiation_needed b ep = ep\<lparr>ep_renegotiation_needed := b\<rparr>"

definition create_offer_message_event ::
  "sfu_lib \<Rightarrow> json_lib \<Rightarrow> instant \<Rightarrow> transport_context \<Rightarrow> nat \<Rightarrow> u16 \<Rightarrow> ('x, 'f) server_states
     \<Rightarrow> 'm tagged res \<times> ('x, 'f) server_states" where
  "create_offer_message_event E J now tc h sid st =
     (let ft = four_tuple_of tc
      in case and_then (ok_or ErrClientTransportNotSet (find_endpoint ft st)) (\<lambda>(ssid, eid).
              and_then (ok_or (Other ''can't find session id {}'' [ArgId ssid]) (hm_get (st_sessions st) ssid)) (\<lambda>s.
              and_then (ok_or (Other ''can't find endpoint id {}'' [ArgId eid]) (hm_get (ss_endpoints s) eid)) (\<lambda>ep.
                Inr (ssid, eid, s, ep)))) of
           Inl e \<Rightarrow> (Inl e, st)
         | Inr (ssid, eid, s, ep) \<Rightarrow>
             (let s1 = s\<lparr>ss_endpoints := hm_modify eid (set_renegotiation_needed False) (ss_endpoints s)\<rparr>;
                  st1 = put_session ssid s1 st
              in case and_then (ok_or (Other ''remote_description is not set'' []) (ep_remote_description ep)) (\<lambda>remote.
                      and_then (ok_or (Other ''can't find transport for endpoint id {} with {:?}''
                                         [ArgId eid, ArgTuple ft]) (hm_get (ep_transports ep) ft)) (\<lambda>t.
                        create_offer (lib_sdp E) (lib_sha256 E) eid remote
                          (cc_ice (cd_local_cred (tp_candidate t))) s1)) of
                   Inl e \<Rightarrow> (Inl e, st1)
                 | Inr offer \<Rightarrow>
                     (case set_local_description eid offer s1 of
                        (Inl e, s2) \<Rightarrow> (Inl e, put_session ssid s2 st1)
                      | (Inr _, s2) \<Rightarrow>
                          (and_then (show_json J offer) (\<lambda>text. Inr (data_channel_tagged now tc h sid text)),
                           put_session ssid s2 st1))))"

text \<open>The transceivers a newcomer is offered: what every other endpoint receives from its client.\<close>

definition transceivers_to_offer ::
  "endpoint_id \<Rightarrow> (endpoint_id, ('x, 'f) endpoint) hmap \<Rightarrow> transceiver list" where
  "transceivers_to_offer eid eps =
     concat (map (\<lambda>(oid, oep).
       if oid \<noteq> eid then
         map (\<lambda>(omid, t). t\<lparr>tr_mid := peer_mid oid omid, tr_direction := Sendonly\<rparr>)
           (filter (\<lambda>(omid, t). tr_direction t = Recvonly) (ep_transceivers oep))
       else []) eps)"

definition handle_datachannel_open ::
  "sfu_lib \<Rightarrow> json_lib \<Rightarrow> instant \<Rightarrow> transport_context \<Rightarrow> nat \<Rightarrow> u16 \<Rightarrow> ('x, 'f) server_states
     \<Rightarrow> 'm tagged list res \<times> ('x, 'f) server_states" where
  "handle_datachannel_open E J now tc h sid st =
     (let ft = four_tuple_of tc
      in case and_then (ok_or ErrClientTransportNotSet (find_endpoint ft st)) (\<lambda>(ssid, eid).
              and_then (ok_or (Other ''can't find session id {}'' [ArgId ssid]) (hm_get (st_sessions st) ssid)) (\<lambda>s.
              and_then (ok_or (Other ''can't find endpoint id {}'' [ArgId eid]) (hm_get (ss_endpoints s) eid)) (\<lambda>ep.
              and_then (ok_or (Other ''can't find transport for endpoint id {} with {:?}''
                                 [ArgId eid, ArgTuple ft]) (hm_get (ep_transports ep) ft)) (\<lambda>_.
                Inr (ssid, eid, transceivers_to_offer eid (ss_endpoints s)))))) of
           Inl e \<Rightarrow> (Inl e, st)
         | Inr (ssid, eid, fresh) \<Rightarrow>
             (let st1 = modify_endpoint ssid eid
                    (\<lambda>ep. foldl (\<lambda>ep t. add_transceiver t ep)
                            (set_renegotiation_needed (fresh \<noteq> [])
                               (modify_transport ft (set_association_handle_and_stream_id h sid) ep)) fresh) st
              in if fresh \<noteq> [] then
                   (case create_offer_message_event E J now tc h sid st1 of
                      (Inl e, st2) \<Rightarrow> (Inl e, st2)
                    | (Inr m, st2) \<Rightarrow> (Inr [m], st2))
                 else (Inr [], st1)))"

definition handle_datachannel_close :: "('x, 'f) server_states \<Rightarrow> 'm tagged list res \<times> ('x, 'f) server_states" where
  "handle_datachannel_close st = (Inr [], st)"

text \<open>The other endpoints of the sender's session, with their identifiers.\<close>

definition other_endpoints ::
  "transport_context \<Rightarrow> ('x, 'f) server_states \<Rightarrow> ('x, 'f) endpoint list res" where
  "other_endpoints tc st =
     and_then (ok_or ErrClientTransportNotSet (find_endpoint (four_tuple_of tc) st)) (\<lambda>(sid, eid).
     and_then (ok_or (Other ''can't find session id {}'' [ArgId sid]) (hm_get (st_sessions st) sid)) (\<lambda>s.
       Inr (map snd (filter (\<lambda>(oid, _). oid \<noteq> eid) (ss_endpoints s)))))"

definition get_other_datachannel_transport_contexts ::
  "transport_context \<Rightarrow> ('x, 'f) server_states \<Rightarrow> (transport_context \<times> nat \<times> u16 \<times> bool) list res" where
  "get_other_datachannel_transport_contexts tc st =
     and_then (other_endpoints tc st) (\<lambda>eps.
       Inr (concat (map (\<lambda>oep.
              List.map_filter (\<lambda>(oft, t).
                case (tp_association_handle t, tp_stream_id t) of
                  (Some h, Some sid) \<Rightarrow> Some (context_of oft (tc_ecn tc), h, sid, ep_renegotiation_needed oep)
                | _ \<Rightarrow> None) (ep_transports oep)) eps)))"

definition get_other_media_transport_contexts ::
  "transport_context \<Rightarrow> ('x, 'f) server_states \<Rightarrow> transport_context list res" where
  "get_other_media_transport_contexts tc st =
     and_then (other_endpoints tc st) (\<lambda>eps.
       Inr (concat (map (\<lambda>oep.
              map (\<lambda>(oft, t). context_of oft (tc_ecn tc))
                (filter (\<lambda>(oft, t). is_local_srtp_context_ready t) (ep_transports oep))) eps)))"

fun offer_peers ::
  "sfu_lib \<Rightarrow> json_lib \<Rightarrow> instant \<Rightarrow> (transport_context \<times> nat \<times> u16 \<times> bool) list
     \<Rightarrow> ('x, 'f) server_states \<Rightarrow> 'm tagged list res \<times> ('x, 'f) server_states" where
  "offer_peers E J now [] st = (Inr [], st)"
| "offer_peers E J now ((tc, h, sid, needed) # ps) st =
     (if needed then
        (case create_offer_message_event E J now tc h sid st of
           (Inl e, st') \<Rightarrow> (Inl e, st')
         | (Inr m, st') \<Rightarrow>
             (case offer_peers E J now ps st' of
                (Inl e, st'') \<Rightarrow> (Inl e, st'')
              | (Inr ms, st'') \<Rightarrow> (Inr (m # ms), st'')))
      else offer_peers E J now ps st)"

definition handle_datachannel_message ::
  "sfu_lib \<Rightarrow> json_lib \<Rightarrow> ice_parameters \<Rightarrow> instant \<Rightarrow> instant \<Rightarrow> transport_context \<Rightarrow> nat \<Rightarrow> u16
     \<Rightarrow> u8 list \<Rightarrow> ('x, 'f) server_states \<Rightarrow> 'm tagged list res \<times> ('x, 'f) server_states" where
  "handle_datachannel_message E J fresh clk now tc h sid payload st =
     (let ft = four_tuple_of tc
      in case and_then (from_utf8 payload) (\<lambda>text.
              and_then (case js_parse_description J text of Inl e \<Rightarrow> Inl (Other e []) | Inr d \<Rightarrow> Inr d) (\<lambda>desc.
              and_then (ok_or ErrClientTransportNotSet (find_endpoint ft st)) (\<lambda>(ssid, eid).
                Inr (desc, ssid, eid)))) of
           Inl e \<Rightarrow> (Inl e, st)
         | Inr (desc, ssid, eid) \<Rightarrow>
             (case rd_sdp_type desc of
                SdpOffer \<Rightarrow>
                  (case accept_offer E fresh clk ssid eid (Some ft) desc st of
                     (Inl e, st1) \<Rightarrow> (Inl e, st1)
                   | (Inr answer, st1) \<Rightarrow>
                       (case and_then (show_json J answer) (\<lambda>text.
                             and_then (get_other_datachannel_transport_contexts tc st1) (\<lambda>peers.
                               Inr (text, peers))) of
                          Inl e \<Rightarrow> (Inl e, st1)
                        | Inr (text, peers) \<Rightarrow>
                            (case offer_peers E J now peers st1 of
                               (Inl e, st2) \<Rightarrow> (Inl e, st2)
                             | (Inr offers, st2) \<Rightarrow>
                                 (Inr (data_channel_tagged now tc h sid text # offers), st2))))
              | SdpAnswer \<Rightarrow>
                  (case accept_answer E ssid eid desc st of
                     (Inl e, st1) \<Rightarrow> (Inl e, st1)
                   | (Inr _, st1) \<Rightarrow> (Inr [], st1))
              | t \<Rightarrow> (Inl (Other ''Unsupported SDP type {}'' [ArgSdpType t]), st)))"

definition handle_dtls_message ::
  "sfu_lib \<Rightarrow> json_lib \<Rightarrow> ice_parameters \<Rightarrow> instant \<Rightarrow> instant \<Rightarrow> transport_context
     \<Rightarrow> application_message \<Rightarrow> ('x, 'f) server_states \<Rightarrow> 'm tagged list res \<times> ('x, 'f) server_states" where
  "handle_dtls_message E J fresh clk now tc m st =
     (case am_event m of
        DcOpen \<Rightarrow> handle_datachannel_open E J now tc (am_association_handle m) (am_stream_id m) st
      | DcMessage payload \<Rightarrow>
          handle_datachannel_message E J fresh clk now tc (am_association_handle m) (am_stream_id m) payload st
      | DcClose \<Rightarrow> handle_datachannel_close st)"

section \<open>Media\<close>

definition forward_to :: "instant \<Rightarrow> 'm message_event \<Rightarrow> transport_context list \<Rightarrow> 'm tagged list" where
  "forward_to now ev tcs = map (\<lambda>t. \<lparr>tg_now = now, tg_transport = t, tg_message = ev\<rparr>) tcs"

text \<open>\<open>audio\<close> tells whether a callback is configured; the list returned is what was sent to it.\<close>

definition handle_rtp_message ::
  "bool \<Rightarrow> instant \<Rightarrow> instant \<Rightarrow> transport_context \<Rightarrow> rtp_packet \<Rightarrow> ('x, 'f) server_states
     \<Rightarrow> 'm tagged list res \<times> ('x, 'f) server_states \<times> audio_packet_info list" where
  "handle_rtp_message audio clk now tc pkt st =
     (case with_transport (four_tuple_of tc) (keep_alive clk) st of
        (Inl e, st') \<Rightarrow> (Inl e, st', [])
      | (Inr _, st') \<Rightarrow>
          (and_then (get_other_media_transport_contexts tc st')
             (\<lambda>peers. Inr (forward_to now (EvRtp (RtpRtp pkt)) peers)),
           st',
           if audio \<and> is_audio_payload_type (rtp_payload_type pkt) then [audio_info_of pkt] else []))"

definition handle_rtcp_message ::
  "instant \<Rightarrow> instant \<Rightarrow> transport_context \<Rightarrow> rtcp_packet list \<Rightarrow> ('x, 'f) server_states
     \<Rightarrow> 'm tagged list res \<times> ('x, 'f) server_states" where
  "handle_rtcp_message clk now tc pkts st =
     (case with_transport (four_tuple_of tc) (keep_alive clk) st of
        (Inl e, st') \<Rightarrow> (Inl e, st')
      | (Inr _, st') \<Rightarrow>
          (and_then (get_other_media_transport_contexts tc st')
             (\<lambda>peers. Inr (forward_to now (EvRtp (RtpRtcp pkts)) peers)), st'))"

section \<open>The handler\<close>

record 'm gateway =
  gw_transmits :: "'m tagged list"
  gw_next_timeout :: instant
  gw_idle_timeout :: duration
  gw_audio :: bool

definition gateway_new :: "bool \<Rightarrow> instant \<Rightarrow> 'x server_config \<Rightarrow> 'm gateway" where
  "gateway_new audio clk cfg =
     \<lparr>gw_transmits = [], gw_next_timeout = clk + int (svc_idle_timeout cfg),
      gw_idle_timeout = svc_idle_timeout cfg, gw_audio = audio\<rparr>"

text \<open>The message dispatch of \<open>handle_read\<close>.\<close>

definition gateway_dispatch ::
  "sfu_lib \<Rightarrow> 'm stun_lib \<Rightarrow> json_lib \<Rightarrow> ice_parameters \<Rightarrow> instant \<Rightarrow> bool \<Rightarrow> 'm tagged
     \<Rightarrow> ('x, 'f) server_states \<Rightarrow> 'm tagged list res \<times> ('x, 'f) server_states \<times> audio_packet_info list" where
  "gateway_dispatch E S J fresh clk audio msg st =
     (case tg_message msg of
        EvStun (StunMsg m) \<Rightarrow>
          (let (r, st') = handle_stun_message S clk (tg_now msg) (tg_transport msg) m st in (r, st', []))
      | EvDtls (DtlsDataChannel m) \<Rightarrow>
          (let (r, st') = handle_dtls_message E J fresh clk (tg_now msg) (tg_transport msg) m st
           in (r, st', []))
      | EvRtp (RtpRtp p) \<Rightarrow> handle_rtp_message audio clk (tg_now msg) (tg_transport msg) p st
      | EvRtp (RtpRtcp ps) \<Rightarrow>
          (let (r, st') = handle_rtcp_message clk (tg_now msg) (tg_transport msg) ps st in (r, st', []))
      | _ \<Rightarrow> (Inr [], st, []))"

text \<open>What \<open>handle_read\<close> hands on: the exception it fires, if any, and the audio it sends.\<close>

definition gateway_handle_read ::
  "sfu_lib \<Rightarrow> 'm stun_lib \<Rightarrow> json_lib \<Rightarrow> ice_parameters \<Rightarrow> instant \<Rightarrow> 'm tagged
     \<Rightarrow> 'm gateway \<Rightarrow> ('x, 'f) server_states
     \<Rightarrow> 'm gateway \<times> ('x, 'f) server_states \<times> error option \<times> audio_packet_info list" where
  "gateway_handle_read E S J fresh clk msg gw st =
     (case gateway_dispatch E S J fresh clk (gw_audio gw) msg st of
        (Inr ms, st', au) \<Rightarrow> (gw\<lparr>gw_transmits := gw_transmits gw @ ms\<rparr>, st', None, au)
      | (Inl e, st', au) \<Rightarrow> (gw, st', Some e, au))"

definition idle_transports :: "instant \<Rightarrow> ('x, 'f) server_states \<Rightarrow> four_tuple list" where
  "idle_transports limit st =
     concat (map (\<lambda>(_, s). concat (map (\<lambda>(_, ep).
       map (\<lambda>(_, t). tp_four_tuple t) (filter (\<lambda>(_, t). tp_last_activity t \<le> limit) (ep_transports ep)))
       (ss_endpoints s))) (st_sessions st))"

definition gateway_handle_timeout ::
  "instant \<Rightarrow> 'm gateway \<Rightarrow> ('x, 'f) server_states \<Rightarrow> 'm gateway \<times> ('x, 'f) server_states" where
  "gateway_handle_timeout now gw st =
     (if gw_next_timeout gw \<le> now then
        (gw\<lparr>gw_next_timeout := gw_next_timeout gw + int (gw_idle_timeout gw)\<rparr>,
         foldl (\<lambda>st ft. remove_transport ft st) st (idle_transports (now - int (gw_idle_timeout gw)) st))
      else (gw, st))"

definition gateway_poll_timeout :: "instant \<Rightarrow> 'm gateway \<Rightarrow> instant" where
  "gateway_poll_timeout eto gw = (if gw_next_timeout gw < eto then gw_next_timeout gw else eto)"

text \<open>\<open>next_msg\<close> is what the next handler's \<open>poll_write\<close> returned.\<close>

definition gateway_poll_write :: "'m tagged option \<Rightarrow> 'm gateway \<Rightarrow> 'm tagged option \<times> 'm gateway" where
  "gateway_poll_write next_msg gw =
     (let q = (case next_msg of Some m \<Rightarrow> gw_transmits gw @ [m] | None \<Rightarrow> gw_transmits gw)
      in case q of [] \<Rightarrow> (None, gw\<lparr>gw_transmits := []\<rparr>) | m # ms \<Rightarrow> (Some m, gw\<lparr>gw_transmits := ms\<rparr>))"

end
