(* ===== verification/Rtp_Extractor.thy ===== *)
theory Rtp_Extractor
  imports Net_Types
begin

unbundle bit_operations_syntax

text \<open>
  \<open>src/transcription/handler.rs\<close>, first half: the commands of the transcription worker and the
  lightweight RTP parser \<open>RtpAudioExtractor\<close> with its table from synchronization sources to
  sessions.  The three tables of the extractor are only looked up, so they are HOL maps.
\<close>

section \<open>Data\<close>

record audio_packet =
  ap_session_id :: session_id
  ap_endpoint_id :: endpoint_id
  ap_opus_data :: "u8 list"
  ap_timestamp :: u32
  ap_ssrc :: u32

type_synonym stream_key = "session_id \<times> endpoint_id"

record extractor =
  ssrc_map :: "u32 \<rightharpoonup> stream_key"
  audio_payload_types :: "u8 list"
  default_session :: "stream_key option"
  auto_learn :: bool
  transcription_sessions :: "stream_key \<rightharpoonup> bool"

definition ext_new :: extractor where
  "ext_new = \<lparr>ssrc_map = Map.empty, audio_payload_types = [111, 109], default_session = None,
     auto_learn = False, transcription_sessions = Map.empty\<rparr>"

definition ext_default :: extractor where
  "ext_default = ext_new"

definition with_auto_learn :: "session_id \<Rightarrow> endpoint_id \<Rightarrow> extractor" where
  "with_auto_learn sid eid = \<lparr>ssrc_map = Map.empty, audio_payload_types = [111, 109],
     default_session = Some (sid, eid), auto_learn = True, transcription_sessions = Map.empty\<rparr>"

section \<open>Operations\<close>

definition set_auto_learn :: "session_id \<Rightarrow> endpoint_id \<Rightarrow> extractor \<Rightarrow> extractor" where
  "set_auto_learn sid eid x = x\<lparr>default_session := Some (sid, eid), auto_learn := True\<rparr>"

definition enable_transcription_for_session :: "session_id \<Rightarrow> endpoint_id \<Rightarrow> extractor \<Rightarrow> extractor" where
  "enable_transcription_for_session sid eid x =
     x\<lparr>transcription_sessions := (transcription_sessions x)((sid, eid) \<mapsto> True),
       default_session := Some (sid, eid), auto_learn := True\<rparr>"

definition disable_transcription_for_session :: "session_id \<Rightarrow> endpoint_id \<Rightarrow> extractor \<Rightarrow> extractor" where
  "disable_transcription_for_session sid eid x =
     x\<lparr>transcription_sessions := (transcription_sessions x)((sid, eid) := None)\<rparr>"

definition is_transcription_enabled :: "extractor \<Rightarrow> session_id \<Rightarrow> endpoint_id \<Rightarrow> bool" where
  "is_transcription_enabled x sid eid =
     (case transcription_sessions x (sid, eid) of None \<Rightarrow> False | Some b \<Rightarrow> b)"

definition register_ssrc :: "u32 \<Rightarrow> session_id \<Rightarrow> endpoint_id \<Rightarrow> extractor \<Rightarrow> extractor" where
  "register_ssrc s sid eid x = x\<lparr>ssrc_map := (ssrc_map x)(s \<mapsto> (sid, eid))\<rparr>"

definition unregister_ssrc :: "u32 \<Rightarrow> extractor \<Rightarrow> extractor" where
  "unregister_ssrc s x = x\<lparr>ssrc_map := (ssrc_map x)(s := None)\<rparr>"

definition ext_is_audio_payload_type :: "extractor \<Rightarrow> u8 \<Rightarrow> bool" where
  "ext_is_audio_payload_type x pt \<longleftrightarrow> pt \<in> set (audio_payload_types x)"

text \<open>\<open>u16::from_be_bytes\<close> and \<open>u32::from_be_bytes\<close>.\<close>

definition u16_from_be :: "u8 \<Rightarrow> u8 \<Rightarrow> u16" where
  "u16_from_be a b = push_bit 8 (ucast a) OR ucast b"

definition u32_from_be :: "u8 \<Rightarrow> u8 \<Rightarrow> u8 \<Rightarrow> u8 \<Rightarrow> u32" where
  "u32_from_be a b c d =
     push_bit 24 (ucast a) OR push_bit 16 (ucast b) OR push_bit 8 (ucast c) OR ucast d"

text \<open>The lookup of the session of a source, which learns an unknown source when enabled.\<close>

definition ext_lookup :: "extractor \<Rightarrow> u32 \<Rightarrow> extractor \<times> stream_key option" where
  "ext_lookup x s =
     (case ssrc_map x s of
        Some ids \<Rightarrow> (x, Some ids)
      | None \<Rightarrow>
          if auto_learn x then
            (case default_session x of
               Some d \<Rightarrow> (x\<lparr>ssrc_map := (ssrc_map x)(s \<mapsto> d)\<rparr>, Some d)
             | None \<Rightarrow> (x, None))
          else (x, None))"

text \<open>
  \<open>extract_audio\<close>: header checks, session lookup, then the payload bounds with the extension and
  padding rules of the source.  Offsets are \<open>usize\<close> values far below the machine bound: the
  largest is \<open>12 + 60 + 4 + 4 * 65535\<close>.
\<close>

definition payload_bounds :: "u8 list \<Rightarrow> (nat \<times> nat) option" where
  "payload_bounds d =
     (let padding = drop_bit 5 (d ! 0) AND 1;
          extension = drop_bit 4 (d ! 0) AND 1;
          csrc_count = d ! 0 AND 0x0F;
          offset = 12 + unat csrc_count * 4;
          offset = (if extension = 1 \<and> length d > offset + 4
                    then offset + (4 + unat (u16_from_be (d ! (offset + 2)) (d ! (offset + 3))) * 4)
                    else offset)
      in if offset \<ge> length d then None
         else let payload_end = (if padding = 1 \<and> d \<noteq> []
                                 then length d - unat (d ! (length d - 1))
                                 else length d)
              in if offset \<ge> payload_end then None else Some (offset, payload_end))"

definition extract_audio :: "extractor \<Rightarrow> u8 list \<Rightarrow> extractor \<times> audio_packet option" where
  "extract_audio x d =
     (if length d < 12 then (x, None)
      else if drop_bit 6 (d ! 0) AND 3 \<noteq> 2 then (x, None)
      else
        let pt = d ! 1 AND 0x7F;
            ts = u32_from_be (d ! 4) (d ! 5) (d ! 6) (d ! 7);
            s = u32_from_be (d ! 8) (d ! 9) (d ! 10) (d ! 11)
        in if \<not> ext_is_audio_payload_type x pt then (x, None)
           else case ext_lookup x s of
                  (x', None) \<Rightarrow> (x', None)
                | (x', Some (sid, eid)) \<Rightarrow>
                    (case payload_bounds d of
                       None \<Rightarrow> (x', None)
                     | Some (a, b) \<Rightarrow>
                         (x', Some \<lparr>ap_session_id = sid, ap_endpoint_id = eid,
                                    ap_opus_data = take (b - a) (drop a d),
                                    ap_timestamp = ts, ap_ssrc = s\<rparr>)))"

end
