(* ===== verification/Transcription_Manager.thy ===== *)
theory Transcription_Manager
  imports Rtp_Extractor
begin

text \<open>
  \<open>src/transcription/manager.rs\<close> and the worker of \<open>src/transcription/handler.rs\<close>.

  The Opus decoder and the network connections are library objects: a decoder has the type \<open>'d\<close>,
  a boxed backend (\<open>Box<dyn SyncTranscriptionBackend>\<close>) the type \<open>'b\<close>, and the record \<open>tlib\<close>
  holds the functions the code calls on them.  The locale \<open>sync_backend\<close> is the contract of the
  backend trait; \<open>Backends\<close> interprets it on the models of the two implementations.

  The manager is shared behind locks; each method takes its locks for one table access at a time.
  The model runs the methods one after the other, as the single worker thread does.
\<close>

section \<open>Configuration\<close>

record transcription_segment =
  start_ms :: u64
  end_ms :: u64
  seg_text :: string

datatype backend_config =
    NoBackend
  | SimulStreaming (addresses: "string list")
  | OpenAi string "string option" "string option"

record transcription_config =
  backend_cfg :: backend_config
  connect_timeout :: duration
  auto_reconnect :: bool
  max_reconnect_attempts :: u32

definition default_backend_config :: backend_config where
  "default_backend_config = NoBackend"

declare default_backend_config_def [simp]

definition default_config :: transcription_config where
  "default_config = \<lparr>backend_cfg = default_backend_config, connect_timeout = 10000000000,
     auto_reconnect = True, max_reconnect_attempts = 3\<rparr>"

definition config_new :: "string \<Rightarrow> transcription_config" where
  "config_new server_addr = default_config\<lparr>backend_cfg := SimulStreaming [server_addr]\<rparr>"

definition with_servers :: "string list \<Rightarrow> transcription_config" where
  "with_servers addrs = default_config\<lparr>backend_cfg := SimulStreaming addrs\<rparr>"

definition with_openai :: "string \<Rightarrow> string option \<Rightarrow> string option \<Rightarrow> transcription_config" where
  "with_openai api_key base_url model = default_config\<lparr>backend_cfg := OpenAi api_key base_url model\<rparr>"

definition config_none :: transcription_config where
  "config_none = default_config\<lparr>backend_cfg := NoBackend\<rparr>"

section \<open>Library functions\<close>

record ('d, 'b) tlib =
  decoder_new :: "'d res"
  decoder_decode :: "'d \<Rightarrow> u8 list \<Rightarrow> 'd \<times> i16 list res"
  connect_with_timeout :: "string \<Rightarrow> duration \<Rightarrow> 'b res"
  openai_new :: "string \<Rightarrow> string option \<Rightarrow> string option \<Rightarrow> 'b"
  backend_send_audio :: "'b \<Rightarrow> i16 list \<Rightarrow> 'b \<times> unit res"
  backend_try_recv :: "'b \<Rightarrow> 'b \<times> transcription_segment option"

section \<open>Sessions\<close>

record ('d, 'b) transcription_session =
  ts_session_id :: session_id
  ts_endpoint_id :: endpoint_id
  ts_decoder :: 'd
  ts_backend :: 'b

definition session_new ::
  "('d, 'b) tlib \<Rightarrow> session_id \<Rightarrow> endpoint_id \<Rightarrow> transcription_config \<Rightarrow> nat
    \<Rightarrow> ('d, 'b) transcription_session res" where
  "session_new L sid eid cfg server_index =
     and_then (decoder_new L) (\<lambda>d.
     and_then
       (case backend_cfg cfg of
          NoBackend \<Rightarrow> Inl (Other ''No transcription backend configured for this session'' [])
        | SimulStreaming addrs \<Rightarrow>
            if addrs = [] then Inl (Other ''No SimulStreaming addresses configured'' [])
            else connect_with_timeout L (addrs ! (server_index mod length addrs)) (connect_timeout cfg)
        | OpenAi api_key base_url model \<Rightarrow> Inr (openai_new L api_key base_url model))
       (\<lambda>b. Inr \<lparr>ts_session_id = sid, ts_endpoint_id = eid, ts_decoder = d, ts_backend = b\<rparr>))"

definition session_process_audio ::
  "('d, 'b) tlib \<Rightarrow> ('d, 'b) transcription_session \<Rightarrow> u8 list
    \<Rightarrow> ('d, 'b) transcription_session \<times> unit res" where
  "session_process_audio L s opus =
     (case decoder_decode L (ts_decoder s) opus of
        (d, Inl e) \<Rightarrow> (s\<lparr>ts_decoder := d\<rparr>, Inl e)
      | (d, Inr pcm) \<Rightarrow>
          (case backend_send_audio L (ts_backend s) pcm of
             (b, r) \<Rightarrow> (s\<lparr>ts_decoder := d, ts_backend := b\<rparr>, r)))"

definition session_process_raw_pcm ::
  "('d, 'b) tlib \<Rightarrow> ('d, 'b) transcription_session \<Rightarrow> i16 list
    \<Rightarrow> ('d, 'b) transcription_session \<times> unit res" where
  "session_process_raw_pcm L s pcm =
     (case backend_send_audio L (ts_backend s) pcm of (b, r) \<Rightarrow> (s\<lparr>ts_backend := b\<rparr>, r))"

definition session_try_recv ::
  "('d, 'b) tlib \<Rightarrow> ('d, 'b) transcription_session
    \<Rightarrow> ('d, 'b) transcription_session \<times> transcription_segment option" where
  "session_try_recv L s =
     (case backend_try_recv L (ts_backend s) of (b, r) \<Rightarrow> (s\<lparr>ts_backend := b\<rparr>, r))"

text \<open>The variants that should wait do not: they are \<open>try_recv\<close>.\<close>

definition session_recv ::
  "('d, 'b) tlib \<Rightarrow> ('d, 'b) transcription_session
    \<Rightarrow> ('d, 'b) transcription_session \<times> transcription_segment option" where
  "session_recv L s = session_try_recv L s"

definition session_recv_timeout ::
  "('d, 'b) tlib \<Rightarrow> duration \<Rightarrow> ('d, 'b) transcription_session
    \<Rightarrow> ('d, 'b) transcription_session \<times> transcription_segment option" where
  "session_recv_timeout L timeout s = session_try_recv L s"

section \<open>The manager\<close>

record ('d, 'b) manager =
  mg_config :: transcription_config
  mg_sessions :: "(stream_key, ('d, 'b) transcription_session) hmap"
  next_server_index :: nat

definition manager_new :: "transcription_config \<Rightarrow> ('d, 'b) manager" where
  "manager_new cfg = \<lparr>mg_config = cfg, mg_sessions = [], next_server_index = 0\<rparr>"

definition advance_index :: "('d, 'b) manager \<Rightarrow> ('d, 'b) manager" where
  "advance_index m =
     (case backend_cfg (mg_config m) of
        SimulStreaming addrs \<Rightarrow>
          if addrs \<noteq> []
          then m\<lparr>next_server_index := (next_server_index m + 1) mod length addrs\<rparr> else m
      | _ \<Rightarrow> m)"

definition start_session ::
  "('d, 'b) tlib \<Rightarrow> ('d, 'b) manager \<Rightarrow> session_id \<Rightarrow> endpoint_id \<Rightarrow> transcription_config option
    \<Rightarrow> ('d, 'b) manager \<times> unit res" where
  "start_session L m sid eid config_override =
     (let key = (sid, eid) in
      if hm_contains (mg_sessions m) key then (m, Inr ())
      else
        let cfg = (case config_override of None \<Rightarrow> mg_config m | Some c \<Rightarrow> c);
            server_index = next_server_index m;
            m1 = advance_index m
        in case session_new L sid eid cfg server_index of
             Inl e \<Rightarrow> (m1, Inl e)
           | Inr s \<Rightarrow> (m1\<lparr>mg_sessions := hm_insert key s (mg_sessions m1)\<rparr>, Inr ()))"

definition stop_session :: "('d, 'b) manager \<Rightarrow> session_id \<Rightarrow> endpoint_id \<Rightarrow> ('d, 'b) manager" where
  "stop_session m sid eid = m\<lparr>mg_sessions := hm_remove (sid, eid) (mg_sessions m)\<rparr>"

definition manager_process_audio ::
  "('d, 'b) tlib \<Rightarrow> ('d, 'b) manager \<Rightarrow> session_id \<Rightarrow> endpoint_id \<Rightarrow> u8 list
    \<Rightarrow> ('d, 'b) manager \<times> unit res" where
  "manager_process_audio L m sid eid opus =
     (case hm_get (mg_sessions m) (sid, eid) of
        Some s \<Rightarrow>
          (case session_process_audio L s opus of
             (s', r) \<Rightarrow> (m\<lparr>mg_sessions := hm_modify (sid, eid) (\<lambda>_. s') (mg_sessions m)\<rparr>, r))
      | None \<Rightarrow> (m, Inr ()))"

definition active_session_count :: "('d, 'b) manager \<Rightarrow> nat" where
  "active_session_count m = length (mg_sessions m)"

definition has_session :: "('d, 'b) manager \<Rightarrow> session_id \<Rightarrow> endpoint_id \<Rightarrow> bool" where
  "has_session m sid eid \<longleftrightarrow> hm_contains (mg_sessions m) (sid, eid)"

text \<open>
  \<open>while let Some(segment) = session.try_recv()\<close>: the loop ends when the backend has nothing more
  to deliver; \<open>None\<close> is the loop that never ends.
\<close>

partial_function (option) drain ::
  "('b \<Rightarrow> 'b \<times> transcription_segment option) \<Rightarrow> 'b \<Rightarrow> ('b \<times> transcription_segment list) option" where
  "drain recv b =
     (case recv b of
        (b', None) \<Rightarrow> Some (b', [])
      | (b', Some seg) \<Rightarrow>
          Option.bind (drain recv b') (\<lambda>(b'', segs). Some (b'', seg # segs)))"

fun poll_sessions ::
  "('d, 'b) tlib \<Rightarrow> (stream_key, ('d, 'b) transcription_session) hmap
    \<Rightarrow> ((stream_key, ('d, 'b) transcription_session) hmap
        \<times> (session_id \<times> endpoint_id \<times> transcription_segment) list) option" where
  "poll_sessions L [] = Some ([], [])"
| "poll_sessions L ((k, s) # rest) =
     Option.bind (drain (session_try_recv L) s) (\<lambda>(s', segs).
     Option.bind (poll_sessions L rest) (\<lambda>(rest', out).
       Some ((k, s') # rest', map (\<lambda>seg. (fst k, snd k, seg)) segs @ out)))"

definition poll_results ::
  "('d, 'b) tlib \<Rightarrow> ('d, 'b) manager
    \<Rightarrow> (('d, 'b) manager \<times> (session_id \<times> endpoint_id \<times> transcription_segment) list) option" where
  "poll_results L m =
     Option.bind (poll_sessions L (mg_sessions m)) (\<lambda>(ss, out). Some (m\<lparr>mg_sessions := ss\<rparr>, out))"

section \<open>The worker\<close>

datatype transcription_command =
    StartSession session_id endpoint_id "transcription_config option"
  | StopSession session_id endpoint_id
  | Audio audio_packet
  | Shutdown

record ('d, 'b) worker =
  wk_manager :: "('d, 'b) manager"
  wk_decoders :: "stream_key \<rightharpoonup> 'd"

text \<open>One turn of the worker's loop continues, leaves the loop, or panics (\<open>expect\<close>).\<close>

datatype 'w turn = Continue 'w | Break 'w | Panic

definition process_audio_packet :: "('d, 'b) tlib \<Rightarrow> ('d, 'b) worker \<Rightarrow> audio_packet \<Rightarrow> ('d, 'b) worker turn" where
  "process_audio_packet L w p =
     (let key = (ap_session_id p, ap_endpoint_id p) in
      case (case wk_decoders w key of Some d \<Rightarrow> Inr d | None \<Rightarrow> decoder_new L) of
        Inl e \<Rightarrow> Panic
      | Inr d \<Rightarrow>
          (case decoder_decode L d (ap_opus_data p) of
             (d', Inl e) \<Rightarrow> Continue (w\<lparr>wk_decoders := (wk_decoders w)(key \<mapsto> d')\<rparr>)
           | (d', Inr pcm) \<Rightarrow>
               (case manager_process_audio L (wk_manager w) (ap_session_id p) (ap_endpoint_id p)
                       (ap_opus_data p) of
                  (m', r) \<Rightarrow> Continue (w\<lparr>wk_manager := m', wk_decoders := (wk_decoders w)(key \<mapsto> d')\<rparr>))))"

fun worker_step :: "('d, 'b) tlib \<Rightarrow> ('d, 'b) worker \<Rightarrow> transcription_command \<Rightarrow> ('d, 'b) worker turn" where
  "worker_step L w (StartSession sid eid cfg) =
     (let m' = fst (start_session L (wk_manager w) sid eid cfg) in
      case decoder_new L of
        Inr d \<Rightarrow> Continue (w\<lparr>wk_manager := m', wk_decoders := (wk_decoders w)((sid, eid) \<mapsto> d)\<rparr>)
      | Inl e \<Rightarrow> Continue (w\<lparr>wk_manager := m'\<rparr>))"
| "worker_step L w (StopSession sid eid) =
     Continue (w\<lparr>wk_manager := stop_session (wk_manager w) sid eid,
                 wk_decoders := (wk_decoders w)((sid, eid) := None)\<rparr>)"
| "worker_step L w (Audio p) = process_audio_packet L w p"
| "worker_step L w Shutdown = Break w"

text \<open>The loop over the commands of the channel; an exhausted list is a closed channel.\<close>

fun worker_run :: "('d, 'b) tlib \<Rightarrow> ('d, 'b) worker \<Rightarrow> transcription_command list \<Rightarrow> ('d, 'b) worker turn" where
  "worker_run L w [] = Break w"
| "worker_run L w (c # cs) =
     (case worker_step L w c of
        Continue w' \<Rightarrow> worker_run L w' cs
      | Break w' \<Rightarrow> Break w'
      | Panic \<Rightarrow> Panic)"

definition worker_new :: "('d, 'b) manager \<Rightarrow> ('d, 'b) worker" where
  "worker_new m = \<lparr>wk_manager = m, wk_decoders = Map.empty\<rparr>"

declare worker_new_def [simp]

definition create_transcription_channel :: "('d, 'b) manager \<Rightarrow> ('d, 'b) worker" where
  "create_transcription_channel m = worker_new m"

section \<open>Contract of a backend: polling drains it\<close>

text \<open>
  What the manager relies on: \<open>try_recv\<close> hands out the pending segments in order, one per call,
  and then answers \<open>None\<close> without inventing new ones.
\<close>

locale sync_backend =
  fixes recv :: "'b \<Rightarrow> 'b \<times> transcription_segment option"
    and pending :: "'b \<Rightarrow> transcription_segment list"
  assumes recv_empty: "pending b = [] \<Longrightarrow> snd (recv b) = None \<and> pending (fst (recv b)) = []"
    and recv_next: "pending b = seg # segs \<Longrightarrow> snd (recv b) = Some seg \<and> pending (fst (recv b)) = segs"
begin

lemma drain_pending: "\<exists>b'. drain recv b = Some (b', pending b) \<and> pending b' = []"
proof (induction "pending b" arbitrary: b)
  case Nil
  then show ?case
    using recv_empty [of b] by (subst drain.simps) (auto split: prod.splits)
next
  case (Cons seg segs)
  obtain b1 where r: "recv b = (b1, Some seg)" and p: "pending b1 = segs"
    using recv_next [of b seg segs] Cons.hyps(2) by (cases "recv b") auto
  obtain b' where "drain recv b1 = Some (b', segs)" and "pending b' = []"
    using Cons.hyps(1) [of b1] p by auto
  with r show ?case
    using Cons.hyps(2) [symmetric] by (subst drain.simps) simp
qed

end

text \<open>A manager whose library's backends satisfy the contract: so do its sessions.\<close>

locale polled_manager =
  sync_backend "backend_try_recv L" pending
  for L :: "('d, 'b) tlib" and pending :: "'b \<Rightarrow> transcription_segment list"
begin

sublocale sess: sync_backend "session_try_recv L" "\<lambda>s. pending (ts_backend s)"
proof
  fix s :: "('d, 'b) transcription_session" and seg segs
  show "pending (ts_backend s) = [] \<Longrightarrow>
      snd (session_try_recv L s) = None \<and> pending (ts_backend (fst (session_try_recv L s))) = []"
    using recv_empty [of "ts_backend s"] by (auto simp: session_try_recv_def split: prod.splits)
  show "pending (ts_backend s) = seg # segs \<Longrightarrow>
      snd (session_try_recv L s) = Some seg \<and> pending (ts_backend (fst (session_try_recv L s))) = segs"
    using recv_next [of "ts_backend s" seg segs]
    by (auto simp: session_try_recv_def split: prod.splits)
qed

lemma poll_sessions_delivers:
  "\<exists>ss'. poll_sessions L ss =
      Some (ss', concat (map (\<lambda>(k, s). map (\<lambda>seg. (fst k, snd k, seg)) (pending (ts_backend s))) ss))
    \<and> map fst ss' = map fst ss \<and> (\<forall>(k, s) \<in> set ss'. pending (ts_backend s) = [])"
proof (induction ss)
  case Nil
  show ?case by simp
next
  case (Cons x ss)
  obtain k s where x: "x = (k, s)" by (cases x)
  obtain s' where d: "drain (session_try_recv L) s = Some (s', pending (ts_backend s))"
    and e: "pending (ts_backend s') = []"
    using sess.drain_pending [of s] by auto
  show ?case
    using Cons.IH d e by (auto simp: x)
qed

lemma poll_results_delivers:
  "\<exists>m'. poll_results L m =
      Some (m', concat (map (\<lambda>(k, s). map (\<lambda>seg. (fst k, snd k, seg)) (pending (ts_backend s)))
                  (mg_sessions m)))
    \<and> map fst (mg_sessions m') = map fst (mg_sessions m)
    \<and> (\<forall>(k, s) \<in> set (mg_sessions m'). pending (ts_backend s) = [])"
  using poll_sessions_delivers [of "mg_sessions m"]
  by (auto simp: poll_results_def)

end

section \<open>Invariant of the manager\<close>

fun index_ok :: "backend_config \<Rightarrow> nat \<Rightarrow> bool" where
  "index_ok (SimulStreaming addrs) i \<longleftrightarrow> (if addrs = [] then i = 0 else i < length addrs)"
| "index_ok _ i \<longleftrightarrow> i = 0"

definition manager_ok :: "('d, 'b) manager \<Rightarrow> bool" where
  "manager_ok m \<longleftrightarrow>
     hm_wf (mg_sessions m) \<and>
     (\<forall>k s. hm_get (mg_sessions m) k = Some s \<longrightarrow> k = (ts_session_id s, ts_endpoint_id s)) \<and>
     index_ok (backend_cfg (mg_config m)) (next_server_index m)"

lemma index_ok_0 [simp]: "index_ok c 0"
  by (cases c) auto

lemma manager_ok_new: "manager_ok (manager_new cfg)"
  by (simp add: manager_ok_def manager_new_def)

lemma advance_index_fields [simp]:
  "mg_config (advance_index m) = mg_config m"
  "mg_sessions (advance_index m) = mg_sessions m"
  by (auto simp: advance_index_def split: backend_config.splits)

lemma manager_ok_advance: "manager_ok m \<Longrightarrow> manager_ok (advance_index m)"
  by (cases "backend_cfg (mg_config m)") (auto simp: manager_ok_def advance_index_def)

lemma session_new_ids:
  "session_new L sid eid cfg i = Inr s \<Longrightarrow> ts_session_id s = sid \<and> ts_endpoint_id s = eid"
  by (auto simp: session_new_def result_simps)

lemma session_process_audio_ids:
  "session_process_audio L s d = (s', r) \<Longrightarrow>
     ts_session_id s' = ts_session_id s \<and> ts_endpoint_id s' = ts_endpoint_id s"
  by (auto simp: session_process_audio_def split: prod.splits sum.splits)

lemma manager_ok_insert:
  "manager_ok m \<Longrightarrow> ts_session_id s = sid \<Longrightarrow> ts_endpoint_id s = eid \<Longrightarrow>
     manager_ok (m\<lparr>mg_sessions := hm_insert (sid, eid) s (mg_sessions m)\<rparr>)"
  by (auto simp: manager_ok_def)

lemma manager_ok_start: "manager_ok m \<Longrightarrow> manager_ok (fst (start_session L m sid eid cfg))"
  unfolding start_session_def Let_def
  using manager_ok_insert [OF manager_ok_advance, of m]
  by (auto simp: manager_ok_advance dest: session_new_ids split: sum.splits)

lemma manager_ok_stop: "manager_ok m \<Longrightarrow> manager_ok (stop_session m sid eid)"
  by (auto simp: manager_ok_def stop_session_def)

lemma manager_ok_process_audio:
  "manager_ok m \<Longrightarrow> manager_ok (fst (manager_process_audio L m sid eid d))"
  by (auto simp: manager_ok_def manager_process_audio_def split: option.splits prod.splits
        dest!: session_process_audio_ids)

section \<open>Behaviour of single operations\<close>

lemma start_session_existing:
  "hm_contains (mg_sessions m) (sid, eid) \<Longrightarrow> start_session L m sid eid cfg = (m, Inr ())"
  by (simp add: start_session_def)

lemma start_session_other:
  "k \<noteq> (sid, eid) \<Longrightarrow>
     hm_get (mg_sessions (fst (start_session L m sid eid cfg))) k = hm_get (mg_sessions m) k"
  by (auto simp: start_session_def Let_def split: sum.splits)

lemma stop_session_get:
  "hm_get (mg_sessions (stop_session m sid eid)) k =
     (if k = (sid, eid) then None else hm_get (mg_sessions m) k)"
  by (simp add: stop_session_def)

lemma process_audio_other:
  "k \<noteq> (sid, eid) \<Longrightarrow>
     hm_get (mg_sessions (fst (manager_process_audio L m sid eid d))) k = hm_get (mg_sessions m) k"
  by (auto simp: manager_process_audio_def split: option.splits prod.splits)

lemma process_audio_absent:
  "hm_get (mg_sessions m) (sid, eid) = None \<Longrightarrow> manager_process_audio L m sid eid d = (m, Inr ())"
  by (simp add: manager_process_audio_def)

lemma start_session_fresh_simul:
  assumes "backend_cfg (mg_config m) = SimulStreaming addrs" and "addrs \<noteq> []"
    and "\<not> hm_contains (mg_sessions m) (sid, eid)"
    and "decoder_new L = Inr d"
    and "connect_with_timeout L (addrs ! (next_server_index m mod length addrs))
           (connect_timeout (mg_config m)) = Inr b"
  shows "start_session L m sid eid None =
     (m\<lparr>next_server_index := (next_server_index m + 1) mod length addrs,
        mg_sessions := hm_insert (sid, eid)
          \<lparr>ts_session_id = sid, ts_endpoint_id = eid, ts_decoder = d, ts_backend = b\<rparr>
          (mg_sessions m)\<rparr>, Inr ())"
  using assms by (simp add: start_session_def session_new_def advance_index_def)

end
