(* ===== verification/Socket_Parse.thy ===== *)
theory Socket_Parse
  imports Net_Types
begin

text \<open>
  \<open>addr.parse::<SocketAddr>()\<close>, the address parser of the standard library that
  \<open>SimulStreamingClient::connect_with_timeout\<close> calls: a literal IPv4 address or an IPv6 address in
  brackets (with an optional scope identifier), a colon and a port.  A host name is not an address.
  A parser returns its value and the rest of the input; \<open>None\<close> leaves the input unread.
\<close>

type_synonym 'a parser = "string \<Rightarrow> ('a \<times> string) option"

definition read_given_char :: "char \<Rightarrow> unit parser" where
  "read_given_char c s = (case s of x # xs \<Rightarrow> if x = c then Some ((), xs) else None | [] \<Rightarrow> None)"

definition hex_digit :: "char \<Rightarrow> nat option" where
  "hex_digit c =
     (let n = (of_char c :: nat) in
      if 48 \<le> n \<and> n \<le> 57 then Some (n - 48)
      else if 97 \<le> n \<and> n \<le> 102 then Some (n - 87)
      else if 65 \<le> n \<and> n \<le> 70 then Some (n - 55)
      else None)"

definition digit_in :: "nat \<Rightarrow> char \<Rightarrow> bool" where
  "digit_in radix c \<longleftrightarrow> (case hex_digit c of None \<Rightarrow> False | Some d \<Rightarrow> d < radix)"

text \<open>\<open>read_number(radix, max_digits, allow_zero_prefix)\<close> at an unsigned type with maximum \<open>m\<close>.\<close>

definition read_number :: "nat \<Rightarrow> nat \<Rightarrow> nat option \<Rightarrow> bool \<Rightarrow> nat parser" where
  "read_number m radix max_digits allow_zero_prefix s =
     (let ds = takeWhile (digit_in radix) s;
          v = foldl (\<lambda>acc c. acc * radix + (case hex_digit c of Some d \<Rightarrow> d | None \<Rightarrow> 0)) 0 ds
      in if ds = [] \<or> m < v
            \<or> (case max_digits of None \<Rightarrow> False | Some k \<Rightarrow> k < length ds)
            \<or> (\<not> allow_zero_prefix \<and> hd ds = CHR ''0'' \<and> 1 < length ds)
         then None
         else Some (v, dropWhile (digit_in radix) s))"

definition read_separator :: "char \<Rightarrow> nat \<Rightarrow> 'a parser \<Rightarrow> 'a parser" where
  "read_separator c i inner s =
     (if 0 < i then Option.bind (read_given_char c s) (\<lambda>(_, s'). inner s') else inner s)"

definition read_octet :: "nat parser" where
  "read_octet = read_number 255 10 (Some 3) False"

definition read_ipv4_addr :: "u32 parser" where
  "read_ipv4_addr s =
     Option.bind (read_octet s) (\<lambda>(a, s).
     Option.bind (read_separator CHR ''.'' 1 read_octet s) (\<lambda>(b, s).
     Option.bind (read_separator CHR ''.'' 2 read_octet s) (\<lambda>(c, s).
     Option.bind (read_separator CHR ''.'' 3 read_octet s) (\<lambda>(d, s).
       Some (of_nat (((a * 256 + b) * 256 + c) * 256 + d), s)))))"

text \<open>\<open>read_groups\<close>: up to \<open>limit\<close> groups of 16 bits, an embedded IPv4 address counting for two and
  ending the sequence.  \<open>fuel\<close> is \<open>limit - i\<close>.\<close>

fun read_groups :: "nat \<Rightarrow> nat \<Rightarrow> nat \<Rightarrow> string \<Rightarrow> nat list \<times> bool \<times> string" where
  "read_groups limit i 0 s = ([], False, s)"
| "read_groups limit i (Suc fuel) s =
     (case (if i + 1 < limit then read_separator CHR '':'' i read_ipv4_addr s else None) of
        Some (a, s') \<Rightarrow> ([unat a div 65536, unat a mod 65536], True, s')
      | None \<Rightarrow>
          (case read_separator CHR '':'' i (read_number 65535 16 (Some 4) True) s of
             None \<Rightarrow> ([], False, s)
           | Some (g, s') \<Rightarrow>
               (case read_groups limit (i + 1) fuel s' of
                  (gs, v4, s'') \<Rightarrow> (g # gs, v4, s''))))"

definition ipv6_of_groups :: "nat list \<Rightarrow> 128 word" where
  "ipv6_of_groups gs = of_nat (foldl (\<lambda>acc g. acc * 65536 + g) 0 gs)"

definition read_ipv6_addr :: "128 word parser" where
  "read_ipv6_addr s =
     (case read_groups 8 0 8 s of
        (hs, v4, s1) \<Rightarrow>
          if length hs = 8 then Some (ipv6_of_groups hs, s1)
          else if v4 then None
          else
            Option.bind (read_given_char CHR '':'' s1) (\<lambda>(_, s2).
            Option.bind (read_given_char CHR '':'' s2) (\<lambda>(_, s3).
              let limit = 8 - (length hs + 1) in
              case read_groups limit 0 limit s3 of
                (ts, _, s4) \<Rightarrow>
                  Some (ipv6_of_groups (hs @ replicate (8 - length hs - length ts) 0 @ ts), s4))))"

definition read_port :: "u16 parser" where
  "read_port s =
     Option.bind (read_given_char CHR '':'' s) (\<lambda>(_, s').
     Option.bind (read_number 65535 10 None True s') (\<lambda>(p, s''). Some (of_nat p, s'')))"

definition read_scope_id :: "u32 parser" where
  "read_scope_id s =
     Option.bind (read_given_char CHR ''%'' s) (\<lambda>(_, s').
     Option.bind (read_number (2 ^ 32 - 1) 10 None True s') (\<lambda>(p, s''). Some (of_nat p, s'')))"

definition read_socket_addr_v4 :: "(socket_addr \<times> u32) parser" where
  "read_socket_addr_v4 s =
     Option.bind (read_ipv4_addr s) (\<lambda>(a, s1).
     Option.bind (read_port s1) (\<lambda>(p, s2).
       Some ((\<lparr>sa_ip = IpV4 a, sa_port = p\<rparr>, 0), s2)))"

definition read_socket_addr_v6 :: "(socket_addr \<times> u32) parser" where
  "read_socket_addr_v6 s =
     Option.bind (read_given_char CHR ''['' s) (\<lambda>(_, s1).
     Option.bind (read_ipv6_addr s1) (\<lambda>(a, s2).
     (case (case read_scope_id s2 of Some r \<Rightarrow> r | None \<Rightarrow> (0, s2)) of
        (scope, s3) \<Rightarrow>
          Option.bind (read_given_char CHR '']'' s3) (\<lambda>(_, s4).
          Option.bind (read_port s4) (\<lambda>(p, s5).
            Some ((\<lparr>sa_ip = IpV6 a, sa_port = p\<rparr>, scope), s5))))))"

text \<open>The address with its scope identifier; the whole input has to be read.\<close>

definition parse_socket_addr :: "string \<Rightarrow> (socket_addr \<times> u32) option" where
  "parse_socket_addr s =
     (case (case read_socket_addr_v4 s of Some r \<Rightarrow> Some r | None \<Rightarrow> read_socket_addr_v6 s) of
        None \<Rightarrow> None
      | Some (a, rest) \<Rightarrow> if rest = [] then Some a else None)"

lemma parse_loopback:
  "parse_socket_addr ''127.0.0.1:43007'' =
     Some (\<lparr>sa_ip = IpV4 2130706433, sa_port = 43007\<rparr>, 0)"
  by (simp add: parse_socket_addr_def read_socket_addr_v4_def read_ipv4_addr_def read_octet_def
        read_number_def digit_in_def hex_digit_def read_separator_def read_given_char_def read_port_def
        Let_def)

text \<open>A literal address starts with a digit or a bracket.\<close>

lemma read_number_starts:
  "\<not> digit_in radix c \<Longrightarrow> read_number m radix k z (c # cs) = None"
  by (simp add: read_number_def)

lemma host_name_is_no_address:
  assumes "\<not> digit_in 10 c" and "c \<noteq> CHR ''[''"
  shows "parse_socket_addr (c # cs) = None"
  using assms
  by (simp add: parse_socket_addr_def read_socket_addr_v4_def read_ipv4_addr_def read_octet_def
        read_number_starts read_socket_addr_v6_def read_given_char_def)

end
