(* ===== verification/Float_Literal.thy ===== *)
theory Float_Literal
  imports Prelude "HOL-Library.Log_Nat"
begin

text \<open>
  \<open>s.parse::<f64>()\<close> followed by \<open>as u64\<close>, as the parsers of transcription results use it:
  the grammar of floating-point literals of the standard library, the value of a literal as an
  exact fraction, its rounding to the nearest double (ties to even), and the cast, which
  truncates towards zero, saturates at the bounds of \<open>u64\<close> and sends NaN to 0.
\<close>

section \<open>Literals\<close>

datatype f64_literal =
    F64NaN
  | F64Inf bool
  | F64Num bool nat nat  \<comment> \<open>sign, numerator, denominator of the exact decimal value\<close>

definition digits_val :: "string \<Rightarrow> nat" where
  "digits_val ds = (case parse_digits 0 ds of Some n \<Rightarrow> n | None \<Rightarrow> 0)"

fun split_sign :: "string \<Rightarrow> bool \<times> string" where
  "split_sign [] = (False, [])"
| "split_sign (c # cs) =
     (if c = CHR ''-'' then (True, cs) else if c = CHR ''+'' then (False, cs) else (False, c # cs))"

definition parse_exponent :: "string \<Rightarrow> int option" where
  "parse_exponent s =
     (case s of
        [] \<Rightarrow> Some 0
      | c # cs \<Rightarrow>
          if c = CHR ''e'' \<or> c = CHR ''E'' then
            (case split_sign cs of
               (neg, ds) \<Rightarrow>
                 if ds \<noteq> [] \<and> list_all is_digit ds
                 then Some (if neg then - int (digits_val ds) else int (digits_val ds))
                 else None)
          else None)"

definition parse_number :: "bool \<Rightarrow> string \<Rightarrow> f64_literal option" where
  "parse_number neg t =
     (let ip = takeWhile is_digit t;
          r = dropWhile is_digit t;
          fp = (case r of c # r' \<Rightarrow> if c = CHR ''.'' then takeWhile is_digit r' else [] | [] \<Rightarrow> []);
          r2 = (case r of c # r' \<Rightarrow> if c = CHR ''.'' then dropWhile is_digit r' else r | [] \<Rightarrow> [])
      in if ip = [] \<and> fp = [] then None
         else case parse_exponent r2 of
                None \<Rightarrow> None
              | Some e \<Rightarrow>
                  let m = digits_val (ip @ fp); x = e - int (length fp)
                  in Some (F64Num neg (if 0 \<le> x then m * 10 ^ nat x else m)
                                      (if 0 \<le> x then 1 else 10 ^ nat (- x))))"

definition parse_f64 :: "string \<Rightarrow> f64_literal option" where
  "parse_f64 s =
     (case split_sign s of
        (neg, t) \<Rightarrow>
          if to_lowercase t = ''nan'' then Some F64NaN
          else if to_lowercase t = ''inf'' \<or> to_lowercase t = ''infinity'' then Some (F64Inf neg)
          else parse_number neg t)"

section \<open>Rounding and the cast\<close>

definition round_half_even :: "nat \<Rightarrow> nat \<Rightarrow> nat" where
  "round_half_even a b =
     (let q = a div b; r = a mod b
      in if 2 * r < b then q else if b < 2 * r then q + 1 else q + q mod 2)"

text \<open>
  The integral part of the floating-point number with \<open>p\<close> bits of precision nearest to \<open>n / d\<close>.
  A value of at least 1 lies between \<open>2 ^ k\<close> and \<open>2 ^ Suc k\<close> and is rounded to a multiple of
  \<open>2 ^ k / 2 ^ (p - 1)\<close>; a smaller one has the integral part 0 unless it rounds up to 1, which
  multiples of \<open>2 ^ - p\<close> decide.
\<close>

definition float_floor :: "nat \<Rightarrow> nat \<Rightarrow> nat \<Rightarrow> nat" where
  "float_floor p n d =
     (if n div d = 0 then (if round_half_even (n * 2 ^ p) d = 2 ^ p then 1 else 0)
      else let k = floorlog 2 (n div d) - 1
           in round_half_even (n * 2 ^ (p - 1)) (d * 2 ^ k) * 2 ^ k div 2 ^ (p - 1))"

definition f64_floor :: "nat \<Rightarrow> nat \<Rightarrow> nat" where
  "f64_floor n d = float_floor 53 n d"

definition f64_as_u64 :: "f64_literal \<Rightarrow> u64" where
  "f64_as_u64 x =
     (case x of
        F64NaN \<Rightarrow> 0
      | F64Inf neg \<Rightarrow> if neg then 0 else - 1
      | F64Num neg n d \<Rightarrow> if neg then 0 else of_nat (min (f64_floor n d) (2 ^ 64 - 1)))"

section \<open>Integers are read exactly up to \<open>2 ^ 53\<close>\<close>

lemma digits_val_dec [simp]: "digits_val (dec n) = n"
  by (simp add: digits_val_def parse_digits_dec)

lemma takeWhile_dec [simp]: "takeWhile is_digit (dec n) = dec n"
  using dec_digits by (metis takeWhile_eq_all_conv)

lemma dropWhile_dec [simp]: "dropWhile is_digit (dec n) = []"
  using dec_digits by (metis dropWhile_eq_Nil_conv)

lemma digit_bounds: "is_digit c \<Longrightarrow> c \<noteq> CHR ''-'' \<and> c \<noteq> CHR ''+'' \<and> lower_char c = c"
  by (auto simp: is_digit_def lower_char_def Let_def)

lemma split_sign_dec [simp]: "split_sign (dec n) = (False, dec n)"
proof -
  obtain c cs where d: "dec n = c # cs" using dec_not_Nil by (cases "dec n") auto
  then have "is_digit c" using dec_digits [of c n] by simp
  then show ?thesis using digit_bounds [of c] by (simp add: d)
qed

lemma to_lowercase_dec: "to_lowercase (dec n) = dec n"
  unfolding to_lowercase_def by (rule map_idI) (metis dec_digits digit_bounds)

lemma dec_no_letter: "\<not> is_digit c \<Longrightarrow> dec n \<noteq> c # cs"
  using dec_digits [of c n] by auto

lemma parse_f64_dec: "parse_f64 (dec n) = Some (F64Num False n 1)"
  by (simp add: parse_f64_def to_lowercase_dec parse_number_def parse_exponent_def dec_no_letter
        is_digit_def)

lemma round_half_even_exact: "0 < b \<Longrightarrow> round_half_even (a * b) b = a"
  by (simp add: round_half_even_def)

lemma float_floor_exact:
  assumes "n < 2 ^ p" and "0 < p" shows "float_floor p n 1 = n"
proof (cases "n = 0")
  case True
  then show ?thesis by (simp add: float_floor_def round_half_even_def)
next
  case False
  define k where "k = floorlog 2 n - 1"
  have "floorlog 2 n \<le> p" using assms by (intro floorlog_leI) auto
  then have k: "k \<le> p - 1" by (simp add: k_def)
  have p: "(2::nat) ^ (p - 1) = 2 ^ (p - 1 - k) * 2 ^ k"
    using k by (simp flip: power_add)
  have "round_half_even (n * 2 ^ (p - 1)) (1 * 2 ^ k) = n * 2 ^ (p - 1 - k)"
    using round_half_even_exact [of "2 ^ k" "n * 2 ^ (p - 1 - k)"] p by (simp add: mult.assoc)
  then have "float_floor p n 1 = n * 2 ^ (p - 1 - k) * 2 ^ k div 2 ^ (p - 1)"
    using False by (simp add: float_floor_def Let_def k_def)
  also have "\<dots> = n * 2 ^ (p - 1) div 2 ^ (p - 1)"
    unfolding p by (simp add: mult.assoc)
  finally show ?thesis by simp
qed

lemma f64_floor_exact: "n < 2 ^ 53 \<Longrightarrow> f64_floor n 1 = n"
  unfolding f64_floor_def by (rule float_floor_exact) auto

lemma f64_as_u64_dec:
  "n < 2 ^ 53 \<Longrightarrow> map_option f64_as_u64 (parse_f64 (dec n)) = Some (of_nat n)"
  using f64_floor_exact [of n] by (simp add: parse_f64_dec f64_as_u64_def)

lemma f64_floor_rounds: "f64_floor (2 ^ 53 + 1) 1 = 2 ^ 53"
proof -
  have "floorlog 2 (2 ^ 53 + 1 :: nat) = 54"
    by (intro antisym floorlog_leI floorlog_geI) auto
  then show ?thesis
    by (simp add: f64_floor_def float_floor_def round_half_even_def)
qed

section \<open>Rounding stays between integers\<close>

lemma round_half_even_between:
  assumes "a * b \<le> n" and "n \<le> c * b" and "0 < b"
  shows "a \<le> round_half_even n b" and "round_half_even n b \<le> c"
proof -
  have q: "a \<le> n div b" using assms(1,3) by (simp add: less_eq_div_iff_mult_less_eq)
  then show "a \<le> round_half_even n b" by (simp add: round_half_even_def Let_def)
  have le: "n div b \<le> c"
    using assms(2,3) by (metis div_le_mono div_mult_self_is_m)
  have "n div b < c" if "0 < n mod b"
  proof -
    have "n div b * b < n" using that by (metis add.right_neutral div_mult_mod_eq nat_add_left_cancel_less)
    with assms(2) have "n div b * b < c * b" by linarith
    then show ?thesis by simp
  qed
  then show "round_half_even n b \<le> c"
    using le assms(3) by (cases "n mod b = 0") (auto simp: round_half_even_def Let_def mod2_eq_if)
qed

lemma float_floor_between:
  assumes "m * d \<le> n" and "n \<le> (m + 1) * d" and "m + 1 < 2 ^ p" and "0 < d"
  shows "m \<le> float_floor p n d \<and> float_floor p n d \<le> m + 1"
proof (cases "n div d = 0")
  case True
  then have "n < d" using assms(4) by (simp add: div_eq_0_iff)
  then have "m = 0" using assms(1) by (metis le_less_trans mult_is_0 mult_le_mono1 neq0_conv nat_mult_1 One_nat_def Suc_leI not_le)
  with True show ?thesis by (simp add: float_floor_def)
next
  case False
  define x k where "x = n div d" and "k = floorlog 2 x - 1"
  have "x \<le> m + 1" using assms(2,4) unfolding x_def by (metis div_le_mono div_mult_self_is_m)
  then have "x < 2 ^ p" using assms(3) by simp
  then have "floorlog 2 x \<le> p" by (intro floorlog_leI) auto
  then have k: "k \<le> p - 1" by (simp add: k_def)
  define e where "e = p - 1 - k"
  have p: "(2::nat) ^ (p - 1) = 2 ^ e * 2 ^ k"
    using k by (simp add: e_def flip: power_add)
  have swap: "a * 2 ^ e * (d * 2 ^ k) = a * d * 2 ^ (p - 1)" for a
    unfolding p by (simp add: ac_simps)
  have "m * 2 ^ e * (d * 2 ^ k) \<le> n * 2 ^ (p - 1)"
    "n * 2 ^ (p - 1) \<le> (m + 1) * 2 ^ e * (d * 2 ^ k)" "0 < d * 2 ^ k"
    unfolding swap using assms by (auto intro: mult_le_mono1)
  note round_half_even_between [OF this]
  then have "m * 2 ^ e * 2 ^ k div 2 ^ (p - 1) \<le> float_floor p n d"
    "float_floor p n d \<le> (m + 1) * 2 ^ e * 2 ^ k div 2 ^ (p - 1)"
    using False unfolding float_floor_def Let_def x_def [symmetric] k_def [symmetric]
    by (auto intro!: div_le_mono mult_le_mono1)
  moreover have cancel: "a * 2 ^ e * 2 ^ k div 2 ^ (p - 1) = a" for a :: nat
    unfolding p by (simp add: mult.assoc)
  ultimately show ?thesis unfolding cancel by blast
qed

end
