(* ===== verification/Backends.thy ===== *)
theory Backends
  imports Transcription_Manager Socket_Parse Float_Literal
begin

text \<open>
  \<open>src/transcription/backends\<close>: the two implementations of \<open>SyncTranscriptionBackend\<close>.
  \<open>SimulStreamingClient\<close> writes little-endian samples to a TCP stream, and a reader thread parses
  the lines of the server into a channel.  \<open>OpenAiSyncBackend\<close> hands the samples to a worker thread
  that collects them, wraps them in a WAV file and posts it.

  A thread is a step function on the state it shares with its owner: \<open>reader_step\<close> for one line
  read, \<open>openai_turn\<close> for one turn of the worker's loop.  The socket and the HTTP client are
  libraries: the type \<open>'c\<close> is a connected TCP stream and the records \<open>netlib\<close> and \<open>httplib\<close> hold
  the calls.  The channel is unbounded, its content is the list of the unread segments.
\<close>

section \<open>Samples and WAV files\<close>

definition le16 :: "u16 \<Rightarrow> u8 list" where
  "le16 w = [ucast w, ucast (drop_bit 8 w)]"

definition le32 :: "u32 \<Rightarrow> u8 list" where
  "le32 w = [ucast w, ucast (drop_bit 8 w), ucast (drop_bit 16 w), ucast (drop_bit 24 w)]"

definition bytes_of_string :: "string \<Rightarrow> u8 list" where
  "bytes_of_string s = map (\<lambda>c. of_nat (of_char c)) s"

definition pcm_bytes :: "i16 list \<Rightarrow> u8 list" where
  "pcm_bytes pcm = concat (map le16 pcm)"

definition sample_rate :: u32 where
  "sample_rate = 16000"

definition create_wav :: "i16 list \<Rightarrow> u32 \<Rightarrow> u16 \<Rightarrow> u8 list" where
  "create_wav pcm rate channels =
     (let data_len = of_nat (length pcm * 2) :: u32;
          total_len = 36 + data_len
      in bytes_of_string ''RIFF'' @ le32 total_len @ bytes_of_string ''WAVE''
         @ bytes_of_string ''fmt '' @ le32 16 @ le16 1 @ le16 channels @ le32 rate
         @ le32 (rate * 2 * ucast channels) @ le16 (2 * channels) @ le16 16
         @ bytes_of_string ''data'' @ le32 data_len
         @ pcm_bytes pcm)"

section \<open>The SimulStreaming client\<close>

record 'c netlib =
  tcp_connect :: "socket_addr \<times> u32 \<Rightarrow> duration \<Rightarrow> 'c res"
  tcp_configure :: "'c \<Rightarrow> 'c res"      \<comment> \<open>\<open>set_nodelay\<close>, \<open>set_write_timeout\<close>, \<open>try_clone\<close>\<close>
  tcp_write_all :: "'c \<Rightarrow> u8 list \<Rightarrow> 'c \<times> unit res"
  tcp_flush :: "'c \<Rightarrow> 'c \<times> unit res"
  tcp_shutdown_write :: "'c \<Rightarrow> 'c"

record 'c simul_client =
  sc_stream :: 'c
  sc_results :: "transcription_segment list"   \<comment> \<open>the channel\<close>
  sc_reading :: bool                            \<comment> \<open>the reader thread runs\<close>

definition simul_connect_with_timeout ::
  "'c netlib \<Rightarrow> string \<Rightarrow> duration \<Rightarrow> 'c simul_client res" where
  "simul_connect_with_timeout N addr timeout =
     and_then (ok_or (ErrLib ''AddrParseError'') (parse_socket_addr addr)) (\<lambda>a.
     and_then (tcp_connect N a timeout) (\<lambda>stream.
     and_then (tcp_configure N stream) (\<lambda>stream'.
       Inr \<lparr>sc_stream = stream', sc_results = [], sc_reading = True\<rparr>)))"

definition simul_connect :: "'c netlib \<Rightarrow> string \<Rightarrow> 'c simul_client res" where
  "simul_connect N addr = simul_connect_with_timeout N addr (10 * 10 ^ 9)"

definition simul_send_audio :: "'c netlib \<Rightarrow> 'c simul_client \<Rightarrow> i16 list \<Rightarrow> 'c simul_client \<times> unit res" where
  "simul_send_audio N c pcm =
     (case tcp_write_all N (sc_stream c) (pcm_bytes pcm) of
        (s, Inl e) \<Rightarrow> (c\<lparr>sc_stream := s\<rparr>, Inl e)
      | (s, Inr _) \<Rightarrow>
          (case tcp_flush N s of (s', r) \<Rightarrow> (c\<lparr>sc_stream := s'\<rparr>, r)))"

definition simul_try_recv :: "'c simul_client \<Rightarrow> 'c simul_client \<times> transcription_segment option" where
  "simul_try_recv c =
     (case sc_results c of
        [] \<Rightarrow> (c, None)
      | seg # segs \<Rightarrow> (c\<lparr>sc_results := segs\<rparr>, Some seg))"

text \<open>\<open>has_results\<close> asks with \<open>try_recv\<close>, so a positive answer consumes the segment.\<close>

definition simul_has_results :: "'c simul_client \<Rightarrow> 'c simul_client \<times> bool" where
  "simul_has_results c = (case simul_try_recv c of (c', r) \<Rightarrow> (c', r \<noteq> None))"

definition simul_drop :: "'c netlib \<Rightarrow> 'c simul_client \<Rightarrow> 'c" where
  "simul_drop N c = tcp_shutdown_write N (sc_stream c)"

definition segment_of_parts :: "string list \<Rightarrow> transcription_segment option" where
  "segment_of_parts parts =
     (if 3 \<le> length parts then
        Option.bind (parse_f64 (parts ! 0)) (\<lambda>a.
        Option.bind (parse_f64 (parts ! 1)) (\<lambda>b.
          Some \<lparr>start_ms = f64_as_u64 a, end_ms = f64_as_u64 b, seg_text = parts ! 2\<rparr>))
      else None)"

definition parse_line :: "string \<Rightarrow> transcription_segment option" where
  "parse_line line = segment_of_parts (splitn_on 3 CHR '' '' line)"

text \<open>\<open>BufRead::lines\<close> removes the line feed and a carriage return before it.\<close>

definition chomp :: "string \<Rightarrow> string" where
  "chomp raw =
     (if ends_with raw [CHR 0x0A] then
        (let l = butlast raw in if ends_with l [CHR 0x0D] then butlast l else l)
      else raw)"

definition reader_step :: "'c simul_client \<Rightarrow> string res \<Rightarrow> 'c simul_client" where
  "reader_step c input =
     (if \<not> sc_reading c then c
      else case input of
        Inl e \<Rightarrow> c\<lparr>sc_reading := False\<rparr>
      | Inr raw \<Rightarrow>
          (let line = chomp raw in
           if line = [] then c
           else case parse_line line of
             Some seg \<Rightarrow> c\<lparr>sc_results := sc_results c @ [seg]\<rparr>
           | None \<Rightarrow> c))"

definition read_results :: "'c simul_client \<Rightarrow> string res list \<Rightarrow> 'c simul_client" where
  "read_results c inputs = foldl reader_step c inputs"

text \<open>The waiting receives, with what the reader thread gets meanwhile: \<open>recv\<close> waits until there is a
  segment or the thread has ended (\<open>None\<close> outside: it still waits), \<open>recv_timeout\<close> only for what
  arrives before its deadline.\<close>

fun simul_recv ::
  "'c simul_client \<Rightarrow> string res list \<Rightarrow> ('c simul_client \<times> transcription_segment option) option" where
  "simul_recv c [] =
     (if sc_results c = [] \<and> sc_reading c then None else Some (simul_try_recv c))"
| "simul_recv c (input # inputs) =
     (if sc_results c = [] \<and> sc_reading c then simul_recv (reader_step c input) inputs
      else Some (simul_try_recv c))"

fun simul_recv_timeout ::
  "'c simul_client \<Rightarrow> string res list \<Rightarrow> 'c simul_client \<times> transcription_segment option" where
  "simul_recv_timeout c [] = simul_try_recv c"
| "simul_recv_timeout c (input # inputs) =
     (if sc_results c = [] \<and> sc_reading c then simul_recv_timeout (reader_step c input) inputs
      else simul_try_recv c)"

lemma simul_recv_timeout_eq:
  "simul_recv_timeout c inputs =
     (case simul_recv c inputs of Some r \<Rightarrow> r | None \<Rightarrow> (read_results c inputs, None))"
proof (induction inputs arbitrary: c)
  case (Cons input inputs)
  then show ?case by (cases "sc_results c = [] \<and> sc_reading c") (auto simp: read_results_def split: option.splits)
qed (auto simp: read_results_def simul_try_recv_def)

text \<open>The asynchronous client trims the line instead and rejects an empty one in the parser.\<close>

definition async_parse_line :: "string \<Rightarrow> transcription_segment option" where
  "async_parse_line line =
     (let trimmed = trim line in
      if trimmed = [] then None else segment_of_parts (splitn_on 3 CHR '' '' trimmed))"

section \<open>The OpenAI client\<close>

text \<open>\<open>trim_end_matches\<close> removes the suffix as often as it occurs.\<close>

function trim_end_matches :: "string \<Rightarrow> string \<Rightarrow> string" where
  "trim_end_matches pat s =
     (if pat \<noteq> [] \<and> ends_with s pat
      then trim_end_matches pat (take (length s - length pat) s) else s)"
  by auto
termination
  by (relation "measure (\<lambda>(pat, s). length s)") (auto simp: ends_with_def diff_less_mono2 length_greater_0_conv intro!: diff_less)

declare trim_end_matches.simps [simp del]

record http_request =
  rq_url :: string
  rq_headers :: "(string \<times> string) list"
  rq_file_name :: string
  rq_mime :: string
  rq_file :: "u8 list"
  rq_model :: string

text \<open>A response is its success flag and its body; \<open>json_text\<close> parses the body and looks up the
  string under the key \<open>text\<close>.\<close>

record httplib =
  http_post :: "http_request \<Rightarrow> (bool \<times> string) res"
  json_text :: "string \<Rightarrow> string option res"

record openai_backend =
  ob_api_key :: string
  ob_base_url :: string
  ob_model :: string
  ob_connected :: bool                 \<comment> \<open>the sender of the audio channel lives\<close>
  ob_audio :: "i16 list list"          \<comment> \<open>the audio channel\<close>
  ob_results :: "transcription_segment list"
  ob_running :: bool                   \<comment> \<open>the worker thread runs\<close>
  ob_buffer :: "i16 list"
  ob_last_send :: instant
  ob_stream_time :: u64

definition openai_base_url :: "string option \<Rightarrow> string" where
  "openai_base_url base_url =
     (let url = (case base_url of Some u \<Rightarrow> u | None \<Rightarrow> ''https://api.openai.com/v1'')
      in if ends_with url ''/models'' then trim_end_matches ''/models'' url else url)"

definition openai_backend_new ::
  "instant \<Rightarrow> string \<Rightarrow> string option \<Rightarrow> string option \<Rightarrow> openai_backend" where
  "openai_backend_new now api_key base_url model =
     \<lparr>ob_api_key = api_key, ob_base_url = openai_base_url base_url,
      ob_model = (case model of Some m \<Rightarrow> m | None \<Rightarrow> ''whisper-1''),
      ob_connected = True, ob_audio = [], ob_results = [], ob_running = True,
      ob_buffer = [], ob_last_send = now, ob_stream_time = 0\<rparr>"

definition openai_send_audio :: "openai_backend \<Rightarrow> i16 list \<Rightarrow> openai_backend \<times> unit res" where
  "openai_send_audio b pcm =
     (if ob_running b then (b\<lparr>ob_audio := ob_audio b @ [pcm]\<rparr>, Inr ())
      else (b, Inl (Other ''Worker thread dead'' [])))"

definition openai_try_recv :: "openai_backend \<Rightarrow> openai_backend \<times> transcription_segment option" where
  "openai_try_recv b =
     (case ob_results b of
        [] \<Rightarrow> (b, None)
      | seg # segs \<Rightarrow> (b\<lparr>ob_results := segs\<rparr>, Some seg))"

definition openai_drop :: "openai_backend \<Rightarrow> openai_backend" where
  "openai_drop b = b\<lparr>ob_connected := False\<rparr>"

text \<open>The length of a chunk in milliseconds, computed at \<open>u64\<close>.\<close>

definition duration_ms :: "i16 list \<Rightarrow> u64" where
  "duration_ms pcm = of_nat (length pcm) * 1000 div ucast sample_rate"

definition transcription_request :: "openai_backend \<Rightarrow> i16 list \<Rightarrow> http_request" where
  "transcription_request b pcm =
     \<lparr>rq_url = trim_end_matches ''/'' (ob_base_url b) @ ''/audio/transcriptions'',
      rq_headers = [(''Authorization'', ''Bearer '' @ ob_api_key b), (''X-Title'', ''SFU Server'')],
      rq_file_name = ''audio.wav'', rq_mime = ''audio/wav'',
      rq_file = create_wav pcm sample_rate 1, rq_model = ob_model b\<rparr>"

definition transcribe_chunk_sync ::
  "httplib \<Rightarrow> openai_backend \<Rightarrow> i16 list \<Rightarrow> u64 \<Rightarrow> openai_backend \<times> unit res" where
  "transcribe_chunk_sync H b pcm start =
     (if pcm = [] then (b, Inr ())
      else case http_post H (transcription_request b pcm) of
        Inl e \<Rightarrow> (b, Inl e)
      | Inr (success, body) \<Rightarrow>
          if \<not> success then (b, Inl (Other ''API Error: {}'' []))
          else case json_text H body of
            Inl e \<Rightarrow> (b, Inl e)
          | Inr t \<Rightarrow>
              let transcript = (case t of Some s \<Rightarrow> s | None \<Rightarrow> '''')
              in if trim transcript \<noteq> []
                 then (b\<lparr>ob_results := ob_results b @
                          [\<lparr>start_ms = start, end_ms = start + duration_ms pcm, seg_text = transcript\<rparr>]\<rparr>,
                       Inr ())
                 else (b, Inr ()))"

definition should_flush :: "instant \<Rightarrow> openai_backend \<Rightarrow> bool" where
  "should_flush now b \<longleftrightarrow>
     unat sample_rate * 5 < length (ob_buffer b) \<or>
     (unat (sample_rate div 10) \<le> length (ob_buffer b) \<and> 5 * 10 ^ 9 \<le> now - ob_last_send b)"

text \<open>
  One turn of \<open>worker_loop\<close>: \<open>now\<close> is the time after \<open>recv_timeout\<close>, \<open>later\<close> the time when the
  request has been answered.  The turn also yields the chunk it sent.
\<close>

definition flush_turn ::
  "httplib \<Rightarrow> instant \<Rightarrow> instant \<Rightarrow> openai_backend \<Rightarrow> openai_backend \<times> i16 list" where
  "flush_turn H now later b =
     (if should_flush now b then
        (let chunk = ob_buffer b;
             start = ob_stream_time b;
             b1 = b\<lparr>ob_buffer := [], ob_stream_time := start + duration_ms chunk\<rparr>;
             b2 = fst (transcribe_chunk_sync H b1 chunk start)
         in (b2\<lparr>ob_last_send := later\<rparr>, chunk))
      else (b, []))"

definition openai_turn ::
  "httplib \<Rightarrow> instant \<Rightarrow> instant \<Rightarrow> openai_backend \<Rightarrow> openai_backend \<times> i16 list" where
  "openai_turn H now later b =
     (if \<not> ob_running b then (b, [])
      else case ob_audio b of
        pcm # rest \<Rightarrow> flush_turn H now later (b\<lparr>ob_audio := rest, ob_buffer := ob_buffer b @ pcm\<rparr>)
      | [] \<Rightarrow> if ob_connected b then flush_turn H now later b
              else (b\<lparr>ob_running := False\<rparr>, []))"

fun openai_run ::
  "httplib \<Rightarrow> (instant \<times> instant) list \<Rightarrow> openai_backend \<Rightarrow> openai_backend \<times> i16 list list" where
  "openai_run H [] b = (b, [])"
| "openai_run H ((now, later) # ts) b =
     (case openai_turn H now later b of
        (b1, chunk) \<Rightarrow> (case openai_run H ts b1 of (b2, chunks) \<Rightarrow> (b2, chunk # chunks)))"


section \<open>Boxed backends\<close>

text \<open>\<open>Box<dyn SyncTranscriptionBackend>\<close>: the call goes to the implementation in the box.\<close>

datatype 'c boxed_backend = BoxSimul "'c simul_client" | BoxOpenAi openai_backend

fun boxed_send_audio ::
  "'c netlib \<Rightarrow> 'c boxed_backend \<Rightarrow> i16 list \<Rightarrow> 'c boxed_backend \<times> unit res" where
  "boxed_send_audio N (BoxSimul c) pcm = map_prod BoxSimul id (simul_send_audio N c pcm)"
| "boxed_send_audio N (BoxOpenAi b) pcm = map_prod BoxOpenAi id (openai_send_audio b pcm)"

fun boxed_try_recv :: "'c boxed_backend \<Rightarrow> 'c boxed_backend \<times> transcription_segment option" where
  "boxed_try_recv (BoxSimul c) = map_prod BoxSimul id (simul_try_recv c)"
| "boxed_try_recv (BoxOpenAi b) = map_prod BoxOpenAi id (openai_try_recv b)"

fun boxed_pending :: "'c boxed_backend \<Rightarrow> transcription_segment list" where
  "boxed_pending (BoxSimul c) = sc_results c"
| "boxed_pending (BoxOpenAi b) = ob_results b"

text \<open>The calls of the transcription system at time \<open>now\<close>, with a decoder library and a network.\<close>

record 'd declib =
  dl_new :: "'d res"
  dl_decode :: "'d \<Rightarrow> u8 list \<Rightarrow> 'd \<times> i16 list res"

definition transcription_lib :: "'d declib \<Rightarrow> 'c netlib \<Rightarrow> instant \<Rightarrow> ('d, 'c boxed_backend) tlib" where
  "transcription_lib D N now =
     \<lparr>decoder_new = dl_new D, decoder_decode = dl_decode D,
      connect_with_timeout = (\<lambda>addr timeout.
        and_then (simul_connect_with_timeout N addr timeout) (\<lambda>c. Inr (BoxSimul c))),
      openai_new = (\<lambda>api_key base_url model. BoxOpenAi (openai_backend_new now api_key base_url model)),
      backend_send_audio = boxed_send_audio N,
      backend_try_recv = boxed_try_recv\<rparr>"

section \<open>The implementations satisfy the contract\<close>

interpretation simul: sync_backend simul_try_recv sc_results
  by unfold_locales (auto simp: simul_try_recv_def)

interpretation openai: sync_backend openai_try_recv ob_results
  by unfold_locales (auto simp: openai_try_recv_def)

interpretation boxed: sync_backend boxed_try_recv boxed_pending
proof
  fix b :: "'c boxed_backend" and seg segs
  show "boxed_pending b = [] \<Longrightarrow>
      snd (boxed_try_recv b) = None \<and> boxed_pending (fst (boxed_try_recv b)) = []"
    by (cases b) (auto simp: simul.recv_empty openai.recv_empty)
  show "boxed_pending b = seg # segs \<Longrightarrow>
      snd (boxed_try_recv b) = Some seg \<and> boxed_pending (fst (boxed_try_recv b)) = segs"
    by (cases b) (auto simp: simul.recv_next openai.recv_next)
qed

lemma lib_try_recv [simp]: "backend_try_recv (transcription_lib D N now) = boxed_try_recv"
  by (simp add: transcription_lib_def)

interpretation polled: polled_manager "transcription_lib D N now" boxed_pending
  for D :: "'d declib" and N :: "'c netlib" and now
  by (simp add: polled_manager_def boxed.sync_backend_axioms)


end
