(* ===== verification/Signaling.thy ===== *)
theory Signaling
  imports Gateway Backends
begin

text \<open>
  \<open>src/signal/mod.rs\<close>: the messages between the gRPC service and a media worker, how a worker
  answers them, and the part of its loop that turns decrypted audio into commands of the
  transcription worker.

  Each message carries the sender of a channel for one response; \<open>alive\<close> tells whether the other end
  still exists.  A handler yields its result, the response it has sent, and the new state.  The
  texts of errors come from the libraries that raise them, through \<open>show_err\<close>.
\<close>

section \<open>Messages\<close>

datatype signaling_protocol_message =
    SigOk session_id endpoint_id
  | SigErr session_id endpoint_id "u8 list"
  | SigOffer session_id endpoint_id "u8 list"
  | SigAnswer session_id endpoint_id "u8 list"
  | SigLeave session_id endpoint_id
  | SigRegisterSsrc u32 session_id endpoint_id
  | SigEnableTranscription session_id endpoint_id
  | SigDisableTranscription session_id endpoint_id

definition send_response ::
  "bool \<Rightarrow> signaling_protocol_message \<Rightarrow> unit res \<times> signaling_protocol_message option" where
  "send_response alive m =
     (if alive then (Inr (), Some m)
      else (Inl (Other ''failed to send back signaling message response'' []), None))"

definition try_offer ::
  "sfu_lib \<Rightarrow> json_lib \<Rightarrow> ice_parameters \<Rightarrow> instant \<Rightarrow> session_id \<Rightarrow> endpoint_id \<Rightarrow> u8 list
     \<Rightarrow> ('x, 'f) server_states \<Rightarrow> u8 list res \<times> ('x, 'f) server_states" where
  "try_offer E J fresh now sid eid offer st =
     (case from_utf8 offer of
        Inl e \<Rightarrow> (Inl e, st)
      | Inr offer_str \<Rightarrow>
          (case js_parse_description J offer_str of
             Inl e \<Rightarrow> (Inl (ErrLib e), st)
           | Inr offer_sdp \<Rightarrow>
               (case accept_offer E fresh now sid eid None offer_sdp st of
                  (Inl e, st') \<Rightarrow> (Inl e, st')
                | (Inr ans, st') \<Rightarrow>
                    (case js_show_description J ans of
                       Inl e \<Rightarrow> (Inl (ErrLib e), st')
                     | Inr answer_str \<Rightarrow> (Inr (bytes_of_string answer_str), st')))))"

definition handle_offer_message ::
  "sfu_lib \<Rightarrow> json_lib \<Rightarrow> (error \<Rightarrow> string) \<Rightarrow> ice_parameters \<Rightarrow> instant \<Rightarrow> session_id \<Rightarrow> endpoint_id
     \<Rightarrow> u8 list \<Rightarrow> bool \<Rightarrow> ('x, 'f) server_states
     \<Rightarrow> (unit res \<times> signaling_protocol_message option) \<times> ('x, 'f) server_states" where
  "handle_offer_message E J show_err fresh now sid eid offer alive st =
     (case try_offer E J fresh now sid eid offer st of
        (Inr ans, st') \<Rightarrow> (send_response alive (SigAnswer sid eid ans), st')
      | (Inl e, st') \<Rightarrow> (send_response alive (SigErr sid eid (bytes_of_string (show_err e))), st'))"

text \<open>\<open>handle_leave_message\<close> only logs: its closure never fails and touches no state.\<close>

definition handle_leave_message ::
  "session_id \<Rightarrow> endpoint_id \<Rightarrow> bool \<Rightarrow> ('x, 'f) server_states
     \<Rightarrow> (unit res \<times> signaling_protocol_message option) \<times> ('x, 'f) server_states" where
  "handle_leave_message sid eid alive st = (send_response alive (SigOk sid eid), st)"

fun handle_signaling_message_with_extractor ::
  "sfu_lib \<Rightarrow> json_lib \<Rightarrow> (error \<Rightarrow> string) \<Rightarrow> ice_parameters \<Rightarrow> instant \<Rightarrow> bool
     \<Rightarrow> signaling_protocol_message \<Rightarrow> extractor option \<Rightarrow> ('x, 'f) server_states
     \<Rightarrow> (unit res \<times> signaling_protocol_message option) \<times> extractor option \<times> ('x, 'f) server_states" where
  "handle_signaling_message_with_extractor E J show_err fresh now alive (SigOffer sid eid offer) x st =
     (case handle_offer_message E J show_err fresh now sid eid offer alive st of (r, st') \<Rightarrow> (r, x, st'))"
| "handle_signaling_message_with_extractor E J show_err fresh now alive (SigLeave sid eid) x st =
     (case handle_leave_message sid eid alive st of (r, st') \<Rightarrow> (r, x, st'))"
| "handle_signaling_message_with_extractor E J show_err fresh now alive (SigRegisterSsrc s sid eid) x st =
     ((Inr (), None), map_option (register_ssrc s sid eid) x, st)"
| "handle_signaling_message_with_extractor E J show_err fresh now alive (SigEnableTranscription sid eid) x st =
     ((Inr (), None), map_option (enable_transcription_for_session sid eid) x, st)"
| "handle_signaling_message_with_extractor E J show_err fresh now alive (SigDisableTranscription sid eid) x st =
     ((Inr (), None), map_option (disable_transcription_for_session sid eid) x, st)"
| "handle_signaling_message_with_extractor E J show_err fresh now alive (SigOk sid eid) x st =
     (send_response alive (SigErr sid eid (bytes_of_string ''Invalid Request'')), x, st)"
| "handle_signaling_message_with_extractor E J show_err fresh now alive (SigErr sid eid reason) x st =
     (send_response alive (SigErr sid eid (bytes_of_string ''Invalid Request'')), x, st)"
| "handle_signaling_message_with_extractor E J show_err fresh now alive (SigAnswer sid eid ans) x st =
     (send_response alive (SigErr sid eid (bytes_of_string ''Invalid Request'')), x, st)"

definition handle_signaling_message ::
  "sfu_lib \<Rightarrow> json_lib \<Rightarrow> (error \<Rightarrow> string) \<Rightarrow> ice_parameters \<Rightarrow> instant \<Rightarrow> bool
     \<Rightarrow> signaling_protocol_message \<Rightarrow> ('x, 'f) server_states
     \<Rightarrow> (unit res \<times> signaling_protocol_message option) \<times> ('x, 'f) server_states" where
  "handle_signaling_message E J show_err fresh now alive m st =
     (case handle_signaling_message_with_extractor E J show_err fresh now alive m None st of
        (r, _, st') \<Rightarrow> (r, st'))"

section \<open>Decrypted audio\<close>

text \<open>
  The body of the loop \<open>while let Ok(audio_info) = sfu_audio_rx.try_recv()\<close>: the session of the
  source, from the table or the default session (learned even when \<open>auto_learn\<close> is off), and the
  command, unless the session identifier is 0.
\<close>

definition resolve_source :: "extractor \<Rightarrow> u32 \<Rightarrow> extractor \<times> stream_key" where
  "resolve_source x s =
     (case ssrc_map x s of
        Some ids \<Rightarrow> (x, ids)
      | None \<Rightarrow>
          (case default_session x of
             Some d \<Rightarrow> (x\<lparr>ssrc_map := (ssrc_map x)(s \<mapsto> d)\<rparr>, d)
           | None \<Rightarrow> (x, (0, 0))))"

definition route_audio :: "extractor \<Rightarrow> audio_packet_info \<Rightarrow> extractor \<times> transcription_command list" where
  "route_audio x info =
     (case resolve_source x (ai_ssrc info) of
        (x', (sid, eid)) \<Rightarrow>
          (x', if sid \<noteq> 0
               then [Audio \<lparr>ap_session_id = sid, ap_endpoint_id = eid, ap_opus_data = ai_payload info,
                            ap_timestamp = ai_timestamp info, ap_ssrc = ai_ssrc info\<rparr>]
               else []))"

fun route_all :: "extractor \<Rightarrow> audio_packet_info list \<Rightarrow> extractor \<times> transcription_command list" where
  "route_all x [] = (x, [])"
| "route_all x (info # infos) =
     (case route_audio x info of
        (x1, cs) \<Rightarrow> (case route_all x1 infos of (x2, cs') \<Rightarrow> (x2, cs @ cs')))"

text \<open>
  The signaling and audio phases of one turn of \<open>sync_run_with_transcription\<close>.  A signaling message
  whose handling fails skips the rest of the turn (\<open>continue\<close>), so the audio stays queued; audio is
  forwarded only with a transcription channel.
\<close>

record ('x, 'f) media_worker =
  mw_states :: "('x, 'f) server_states"
  mw_extractor :: extractor
  mw_audio :: "audio_packet_info list"
  mw_transcription :: bool
  mw_commands :: "transcription_command list"
  mw_responses :: "signaling_protocol_message list"

definition signaling_phase ::
  "sfu_lib \<Rightarrow> json_lib \<Rightarrow> (error \<Rightarrow> string) \<Rightarrow> ice_parameters \<Rightarrow> instant
     \<Rightarrow> (signaling_protocol_message \<times> bool) option \<Rightarrow> ('x, 'f) media_worker
     \<Rightarrow> bool \<times> ('x, 'f) media_worker" where
  "signaling_phase E J show_err fresh now msg w =
     (case msg of
        None \<Rightarrow> (True, w)
      | Some (m, alive) \<Rightarrow>
          (case handle_signaling_message_with_extractor E J show_err fresh now alive m
                  (Some (mw_extractor w)) (mw_states w) of
             ((r, resp), x, st) \<Rightarrow>
               (case r of Inr _ \<Rightarrow> True | Inl _ \<Rightarrow> False,
                w\<lparr>mw_states := st,
                  mw_extractor := (case x of Some x' \<Rightarrow> x' | None \<Rightarrow> mw_extractor w),
                  mw_responses := mw_responses w @ (case resp of Some a \<Rightarrow> [a] | None \<Rightarrow> [])\<rparr>)))"

definition audio_phase :: "('x, 'f) media_worker \<Rightarrow> ('x, 'f) media_worker" where
  "audio_phase w =
     (if mw_transcription w then
        (case route_all (mw_extractor w) (mw_audio w) of
           (x, cs) \<Rightarrow> w\<lparr>mw_extractor := x, mw_audio := [], mw_commands := mw_commands w @ cs\<rparr>)
      else w)"

definition media_turn ::
  "sfu_lib \<Rightarrow> json_lib \<Rightarrow> (error \<Rightarrow> string) \<Rightarrow> ice_parameters \<Rightarrow> instant
     \<Rightarrow> (signaling_protocol_message \<times> bool) option \<Rightarrow> ('x, 'f) media_worker \<Rightarrow> ('x, 'f) media_worker" where
  "media_turn E J show_err fresh now msg w =
     (case signaling_phase E J show_err fresh now msg w of
        (True, w') \<Rightarrow> audio_phase w'
      | (False, w') \<Rightarrow> w')"

end
