(* ===== verification/Grpc_Service.thy ===== *)
theory Grpc_Service
  imports Signaling
begin

text \<open>
  \<open>src/bin/sfu.rs\<close>: the gRPC service \<open>SignalingSvc\<close>, which chooses the media worker of a session,
  forwards its requests to it, controls the transcription worker and distributes its results.

  Channels are the lists of what has been sent, with a flag for the receiver: \<open>sv_messages\<close> holds
  the signaling messages sent to the media workers, \<open>sv_commands\<close> the commands sent to the
  transcription worker.  The answer of a media worker is an argument: \<open>None\<close> is a worker that
  dropped the response channel.  A request is the record of its protobuf fields.
\<close>

section \<open>State\<close>

datatype grpc_status = Unavailable string | Internal string

record transcription_update =
  tu_session_id :: session_id
  tu_endpoint_id :: endpoint_id
  tu_text :: string
  tu_start_ms :: u64
  tu_end_ms :: u64

text \<open>A subscriber is the sending side of a bounded channel of 100 updates.\<close>

record subscriber =
  sb_open :: bool
  sb_queue :: "transcription_update list"

definition sb_capacity :: nat where
  "sb_capacity = 100"

record ('d, 'b) service =
  sv_workers :: "(u16 \<times> bool) list"        \<comment> \<open>media port, and whether its worker still receives\<close>
  sv_manager :: "('d, 'b) manager option"
  sv_tx :: "bool option"                    \<comment> \<open>the command channel and whether the worker receives\<close>
  sv_subscribers :: "(session_id, subscriber list) hmap"
  sv_messages :: "(u16 \<times> signaling_protocol_message) list"
  sv_commands :: "transcription_command list"

definition service_new :: "(u16 \<times> bool) list \<Rightarrow> ('d, 'b) manager option \<Rightarrow> bool option \<Rightarrow> ('d, 'b) service" where
  "service_new workers m tx =
     \<lparr>sv_workers = workers, sv_manager = m, sv_tx = tx, sv_subscribers = [], sv_messages = [],
      sv_commands = []\<rparr>"

section \<open>Choosing and reaching a media worker\<close>

definition choose_port :: "('d, 'b) service \<Rightarrow> session_id \<Rightarrow> u16 option" where
  "choose_port sv sid =
     (let sorted_ports = sort (map fst (sv_workers sv))
      in if sorted_ports = [] then None
         else Some (sorted_ports ! (unat sid mod length sorted_ports)))"

definition send_to_worker ::
  "u16 \<Rightarrow> signaling_protocol_message \<Rightarrow> ('d, 'b) service \<Rightarrow> bool \<times> ('d, 'b) service" where
  "send_to_worker port m sv =
     (if map_of (sv_workers sv) port = Some True
      then (True, sv\<lparr>sv_messages := sv_messages sv @ [(port, m)]\<rparr>)
      else (False, sv))"

section \<open>The transcription worker\<close>

definition start_transcription_session ::
  "('d, 'b) tlib \<Rightarrow> session_id \<Rightarrow> endpoint_id \<Rightarrow> transcription_config option \<Rightarrow> ('d, 'b) service
     \<Rightarrow> unit res \<times> ('d, 'b) service" where
  "start_transcription_session L sid eid cfg sv =
     (case sv_tx sv of
        Some True \<Rightarrow> (Inr (), sv\<lparr>sv_commands := sv_commands sv @ [StartSession sid eid cfg]\<rparr>)
      | Some False \<Rightarrow> (Inl (Other ''Failed to send start session command: {}'' []), sv)
      | None \<Rightarrow>
          (case sv_manager sv of
             Some m \<Rightarrow> (case start_session L m sid eid cfg of (m', r) \<Rightarrow> (r, sv\<lparr>sv_manager := Some m'\<rparr>))
           | None \<Rightarrow> (Inl (Other ''Transcription not enabled'' []), sv)))"

definition stop_transcription_session :: "session_id \<Rightarrow> endpoint_id \<Rightarrow> ('d, 'b) service \<Rightarrow> ('d, 'b) service" where
  "stop_transcription_session sid eid sv =
     (case sv_tx sv of
        Some True \<Rightarrow> sv\<lparr>sv_commands := sv_commands sv @ [StopSession sid eid]\<rparr>
      | Some False \<Rightarrow> sv
      | None \<Rightarrow> sv\<lparr>sv_manager := map_option (\<lambda>m. stop_session m sid eid) (sv_manager sv)\<rparr>)"

section \<open>Requests\<close>

record offer_response =
  or_session_id :: session_id
  or_endpoint_id :: endpoint_id
  or_answer_sdp :: string
  or_error :: string

record status_response =
  sr_ok :: bool
  sr_error :: string

definition offer_reply ::
  "(error \<Rightarrow> string) \<Rightarrow> session_id \<Rightarrow> endpoint_id \<Rightarrow> signaling_protocol_message \<Rightarrow> offer_response" where
  "offer_reply show_err sid eid response =
     (case response of
        SigAnswer s e ans \<Rightarrow>
          \<lparr>or_session_id = s, or_endpoint_id = e,
           or_answer_sdp = (case from_utf8 ans of Inr t \<Rightarrow> t | Inl _ \<Rightarrow> ''''), or_error = ''''\<rparr>
      | SigErr s e reason \<Rightarrow>
          \<lparr>or_session_id = sid, or_endpoint_id = eid, or_answer_sdp = '''',
           or_error = (case from_utf8 reason of Inr t \<Rightarrow> t | Inl err \<Rightarrow> show_err err)\<rparr>
      | _ \<Rightarrow>
          \<lparr>or_session_id = sid, or_endpoint_id = eid, or_answer_sdp = '''', or_error = ''invalid response''\<rparr>)"

definition service_offer ::
  "('d, 'b) tlib \<Rightarrow> (error \<Rightarrow> string) \<Rightarrow> signaling_protocol_message option \<Rightarrow> session_id \<Rightarrow> endpoint_id
     \<Rightarrow> string \<Rightarrow> bool \<Rightarrow> ('d, 'b) service \<Rightarrow> (grpc_status + offer_response) \<times> ('d, 'b) service" where
  "service_offer L show_err worker_answer sid eid offer_sdp enable sv =
     (case choose_port sv sid of
        None \<Rightarrow>
          (Inr \<lparr>or_session_id = sid, or_endpoint_id = eid, or_answer_sdp = '''', or_error = ''No media ports''\<rparr>, sv)
      | Some port \<Rightarrow>
          (case send_to_worker port (SigOffer sid eid (bytes_of_string offer_sdp)) sv of
             (False, sv1) \<Rightarrow> (Inl (Internal ''failed to send signaling message''), sv1)
           | (True, sv1) \<Rightarrow>
               (case worker_answer of
                  None \<Rightarrow> (Inl (Internal ''failed to receive answer''), sv1)
                | Some response \<Rightarrow>
                    let sv2 =
                      (if enable then
                         (case start_transcription_session L sid eid None sv1 of
                            (Inl e, sv') \<Rightarrow> sv'
                          | (Inr _, sv') \<Rightarrow> snd (send_to_worker port (SigEnableTranscription sid eid) sv'))
                       else sv1)
                    in (Inr (offer_reply show_err sid eid response), sv2))))"

definition service_leave ::
  "session_id \<Rightarrow> endpoint_id \<Rightarrow> ('d, 'b) service \<Rightarrow> (grpc_status + status_response) \<times> ('d, 'b) service" where
  "service_leave sid eid sv =
     (let sv1 = stop_transcription_session sid eid sv in
      case choose_port sv1 sid of
        None \<Rightarrow> (Inr \<lparr>sr_ok = False, sr_error = ''No media ports''\<rparr>, sv1)
      | Some port \<Rightarrow>
          (case send_to_worker port (SigLeave sid eid) sv1 of
             (False, sv2) \<Rightarrow> (Inl (Internal ''failed to send leave message''), sv2)
           | (True, sv2) \<Rightarrow> (Inr \<lparr>sr_ok = True, sr_error = ''''\<rparr>, sv2)))"

definition subscribe_transcription ::
  "session_id \<Rightarrow> ('d, 'b) service \<Rightarrow> (grpc_status + unit) \<times> ('d, 'b) service" where
  "subscribe_transcription sid sv =
     (case sv_manager sv of
        None \<Rightarrow> (Inl (Unavailable ''Transcription is not enabled on this server''), sv)
      | Some m \<Rightarrow>
          (let subs = (case hm_get (sv_subscribers sv) sid of Some xs \<Rightarrow> xs | None \<Rightarrow> [])
           in (Inr (), sv\<lparr>sv_subscribers :=
                  hm_insert sid (subs @ [\<lparr>sb_open = True, sb_queue = []\<rparr>]) (sv_subscribers sv)\<rparr>)))"

record enable_request =
  er_session_id :: session_id
  er_endpoint_id :: endpoint_id
  er_language :: string
  er_backend :: string
  er_simul_streaming_addr :: string
  er_openai_api_key :: string
  er_openai_base_url :: string
  er_openai_model :: string

definition non_empty :: "string \<Rightarrow> string option" where
  "non_empty s = (if s = [] then None else Some s)"

definition server_list :: "string \<Rightarrow> string list" where
  "server_list s = map trim (split_on CHR '','' s)"

definition config_override :: "enable_request \<Rightarrow> string + transcription_config option" where
  "config_override req =
     (if er_backend req = ''openai'' then
        (if er_openai_api_key req = [] then Inl ''OpenAI API Key is required''
         else Inr (Some (with_openai (er_openai_api_key req) (non_empty (er_openai_base_url req))
                           (non_empty (er_openai_model req)))))
      else if er_backend req = ''simul-streaming'' then
        (if er_simul_streaming_addr req = [] then Inl ''SimulStreaming address is required''
         else Inr (Some (with_servers (server_list (er_simul_streaming_addr req)))))
      else Inr None)"

text \<open>The notification of the media worker; a failure to send it is ignored.\<close>

definition notify_worker ::
  "session_id \<Rightarrow> signaling_protocol_message \<Rightarrow> ('d, 'b) service \<Rightarrow> ('d, 'b) service" where
  "notify_worker sid m sv =
     (case choose_port sv sid of None \<Rightarrow> sv | Some port \<Rightarrow> snd (send_to_worker port m sv))"

definition enable_transcription ::
  "('d, 'b) tlib \<Rightarrow> (error \<Rightarrow> string) \<Rightarrow> enable_request \<Rightarrow> ('d, 'b) service
     \<Rightarrow> status_response \<times> ('d, 'b) service" where
  "enable_transcription L show_err req sv =
     (let sid = er_session_id req; eid = er_endpoint_id req in
      case sv_manager sv of
        None \<Rightarrow> (\<lparr>sr_ok = False, sr_error = ''Transcription is not initialized on this server''\<rparr>, sv)
      | Some m \<Rightarrow>
          (case config_override req of
             Inl msg \<Rightarrow> (\<lparr>sr_ok = False, sr_error = msg\<rparr>, sv)
           | Inr cfg \<Rightarrow>
               (case start_transcription_session L sid eid cfg sv of
                  (Inl e, sv1) \<Rightarrow>
                    (\<lparr>sr_ok = False, sr_error = ''Failed to start transcription: '' @ show_err e\<rparr>, sv1)
                | (Inr _, sv1) \<Rightarrow>
                    (\<lparr>sr_ok = True, sr_error = ''''\<rparr>,
                     notify_worker sid (SigEnableTranscription sid eid) sv1))))"

definition disable_transcription ::
  "session_id \<Rightarrow> endpoint_id \<Rightarrow> ('d, 'b) service \<Rightarrow> status_response \<times> ('d, 'b) service" where
  "disable_transcription sid eid sv =
     (case sv_manager sv of
        None \<Rightarrow> (\<lparr>sr_ok = False, sr_error = ''Transcription is not enabled on this server''\<rparr>, sv)
      | Some m \<Rightarrow>
          (\<lparr>sr_ok = True, sr_error = ''''\<rparr>,
           notify_worker sid (SigDisableTranscription sid eid) (stop_transcription_session sid eid sv)))"

section \<open>Distributing results\<close>

definition try_send :: "transcription_update \<Rightarrow> subscriber \<Rightarrow> subscriber" where
  "try_send u sb =
     (if sb_open sb \<and> length (sb_queue sb) < sb_capacity then sb\<lparr>sb_queue := sb_queue sb @ [u]\<rparr> else sb)"

definition update_of :: "session_id \<times> endpoint_id \<times> transcription_segment \<Rightarrow> transcription_update" where
  "update_of r =
     (case r of (sid, eid, seg) \<Rightarrow>
        \<lparr>tu_session_id = sid, tu_endpoint_id = eid, tu_text = seg_text seg, tu_start_ms = start_ms seg,
         tu_end_ms = end_ms seg\<rparr>)"

definition distribute ::
  "session_id \<times> endpoint_id \<times> transcription_segment \<Rightarrow> (session_id, subscriber list) hmap
     \<Rightarrow> (session_id, subscriber list) hmap" where
  "distribute r subs = hm_modify (fst r) (map (try_send (update_of r))) subs"

definition poll_and_distribute_transcriptions ::
  "('d, 'b) tlib \<Rightarrow> ('d, 'b) service \<Rightarrow> ('d, 'b) service option" where
  "poll_and_distribute_transcriptions L sv =
     (case sv_manager sv of
        None \<Rightarrow> Some sv
      | Some m \<Rightarrow>
          map_option (\<lambda>(m', results).
              sv\<lparr>sv_manager := Some m', sv_subscribers := fold distribute results (sv_subscribers sv)\<rparr>)
            (poll_results L m))"

section \<open>Start-up\<close>

text \<open>The backend chosen on the command line; \<open>None\<close> is the panic of \<open>expect\<close>.\<close>

definition cli_config ::
  "string \<Rightarrow> string option \<Rightarrow> string option \<Rightarrow> string option \<Rightarrow> string \<Rightarrow> transcription_config option" where
  "cli_config backend api_key base_url model simul_addr =
     (if backend = ''openai'' then map_option (\<lambda>k. with_openai k base_url model) api_key
      else if backend = ''none'' then Some config_none
      else Some (with_servers (server_list simul_addr)))"

definition media_ports :: "u16 \<Rightarrow> u16 \<Rightarrow> u16 list" where
  "media_ports lo hi = map of_nat [unat lo..<Suc (unat hi)]"

end
