(* ===== verification/Transcription_Facts.thy ===== *)
theory Transcription_Facts
  imports Backends
begin

text \<open>
  The properties of the transcription side: the extractor of audio from RTP packets, the manager
  and its worker thread, and the two backends.
\<close>

section \<open>Bytes of integers\<close>

lemma drop_bit_byte: "ucast (drop_bit k w) = (of_nat (unat w div 2 ^ k) :: u8)"
  unfolding drop_bit_eq_div [of k "unat w", symmetric] unat_drop_bit_eq [symmetric]
  by (rule of_nat_unat [symmetric])

lemma le16_bytes: "le16 w = le_bytes 2 (unat w)"
proof -
  have "le_bytes 2 n = [of_nat n, of_nat (n div 256)]" for n
    by (simp add: numeral_2_eq_2)
  then show ?thesis using drop_bit_byte [of 8 w] by (simp add: le16_def)
qed

lemma le32_bytes: "le32 w = le_bytes 4 (unat w)"
proof -
  have "le_bytes 4 n = [of_nat n, of_nat (n div 256), of_nat (n div 65536), of_nat (n div 16777216)]" for n
  proof -
    have four: "(4::nat) = Suc (Suc (Suc (Suc 0)))" by simp
    show ?thesis unfolding four le_bytes.simps by (simp flip: div_mult2_eq)
  qed
  then show ?thesis
    using drop_bit_byte [of 8 w] drop_bit_byte [of 16 w] drop_bit_byte [of 24 w] by (simp add: le32_def)
qed

lemma unat_bound16: "unat (w :: u16) < 65536"
proof -
  have "unat w < 2 ^ LENGTH(16)" by (rule unsigned_less)
  then show ?thesis by simp
qed

lemma unat_bound32: "unat (w :: u32) < 4294967296"
proof -
  have "unat w < 2 ^ LENGTH(32)" by (rule unsigned_less)
  then show ?thesis by simp
qed

lemma from_le_le16 [simp]: "from_le (le16 w) = unat w"
proof -
  have "unat w < 256 ^ 2" using unat_bound16 [of w] by simp
  then show ?thesis unfolding le16_bytes from_le_bytes by (rule mod_less)
qed

lemma from_le_le32 [simp]: "from_le (le32 w) = unat w"
proof -
  have "unat w < 256 ^ 4" using unat_bound32 [of w] by simp
  then show ?thesis unfolding le32_bytes from_le_bytes by (rule mod_less)
qed

section \<open>WAV files\<close>

text \<open>A reader of mono or multichannel 16-bit PCM files in the canonical 44-byte header layout, which
  checks every field of the header: the specification of \<open>create_wav\<close>.\<close>

definition field_at :: "nat \<Rightarrow> nat \<Rightarrow> u8 list \<Rightarrow> u8 list" where
  "field_at i n bs = take n (drop i bs)"

fun samples_of :: "u8 list \<Rightarrow> i16 list" where
  "samples_of (a # b # bs) = of_nat (from_le [a, b]) # samples_of bs"
| "samples_of _ = []"

definition wav_read :: "u8 list \<Rightarrow> (u16 \<times> u32 \<times> i16 list) option" where
  "wav_read bs =
     (let num = (\<lambda>i n. from_le (field_at i n bs)); tag = (\<lambda>i. field_at i 4 bs)
      in if 44 \<le> length bs \<and> tag 0 = bytes_of_string ''RIFF'' \<and> num 4 4 + 8 = length bs
            \<and> tag 8 = bytes_of_string ''WAVE'' \<and> tag 12 = bytes_of_string ''fmt ''
            \<and> num 16 4 = 16 \<and> num 20 2 = 1
            \<and> num 32 2 = 2 * num 22 2 \<and> num 28 4 = num 24 4 * num 32 2 \<and> num 34 2 = 16
            \<and> tag 36 = bytes_of_string ''data'' \<and> num 40 4 + 44 = length bs
         then Some (of_nat (num 22 2), of_nat (num 24 4), samples_of (drop 44 bs))
         else None)"

lemma length_bytes [simp]:
  "length (le16 w) = 2" "length (le32 v) = 4" "length (bytes_of_string s) = length s"
  by (simp_all add: le16_def le32_def bytes_of_string_def)

lemma length_pcm_bytes [simp]: "length (pcm_bytes pcm) = 2 * length pcm"
  by (induction pcm) (auto simp: pcm_bytes_def)

lemma samples_of_pcm_bytes [simp]: "samples_of (pcm_bytes pcm) = pcm"
proof (induction pcm)
  case (Cons w pcm)
  have "pcm_bytes (w # pcm) = le16 w @ pcm_bytes pcm" by (simp add: pcm_bytes_def)
  moreover have "le16 w = [ucast w, ucast (drop_bit 8 w)]" by (rule le16_def)
  moreover have "of_nat (from_le [ucast w, ucast (drop_bit 8 w)]) = w"
    using from_le_le16 [of w] by (simp add: le16_def)
  ultimately show ?case using Cons by simp
qed (simp add: pcm_bytes_def)

lemma unat_of_small32: "n < 4294967296 \<Longrightarrow> unat (of_nat n :: u32) = n"
  by (simp add: unsigned_of_nat take_bit_nat_eq_self)

lemma unat_of_small16: "n < 65536 \<Longrightarrow> unat (of_nat n :: u16) = n"
  by (simp add: unsigned_of_nat take_bit_nat_eq_self)

text \<open>C34: A WAV file made by \<open>create_wav\<close> is a well-formed 16-bit PCM file (every size and rate
  field of the header consistent with the data), and reading it back gives the channels, the
  sample rate and exactly the samples, as long as the sizes fit their 32-bit and 16-bit fields.\<close>

theorem wav_roundtrip:
  assumes "36 + 2 * length pcm < 2 ^ 32" and "unat rate * 2 * unat channels < 2 ^ 32"
    and "2 * unat channels < 2 ^ 16"
  shows "wav_read (create_wav pcm rate channels) = Some (channels, rate, pcm)"
proof -
  have d: "unat (of_nat (length pcm * 2) :: u32) = 2 * length pcm"
    using assms(1) by (subst unat_of_small32) auto
  have t: "unat (36 + of_nat (length pcm * 2) :: u32) = 36 + 2 * length pcm"
    using assms(1) unat_of_small32 [of "36 + length pcm * 2"] by simp
  have b: "unat (2 * channels) = 2 * unat channels"
    using assms(3) unat_of_small16 [of "2 * unat channels"] by simp
  have r: "unat (rate * 2 * ucast channels) = unat rate * (2 * unat channels)"
    using assms(2) unat_of_small32 [of "unat rate * 2 * unat channels"] by (simp add: mult.assoc)
  show ?thesis
    using d t unfolding wav_read_def create_wav_def field_at_def Let_def
    by (simp add: b r)
qed

theorem wav_roundtrip_witness:
  "wav_read (create_wav [1, 0xFFFF, 7] sample_rate 1) = Some (1, sample_rate, [1, 0xFFFF, 7])"
  by (rule wav_roundtrip) (simp_all add: sample_rate_def)


section \<open>Transcription lines\<close>

lemma splitn_2_sep:
  "c \<notin> set w \<Longrightarrow> splitn_on (Suc (Suc n)) c (w @ c # s) = w # splitn_on (Suc n) c s"
proof -
  assume c: "c \<notin> set w"
  have "takeWhile (\<lambda>x. x \<noteq> c) (w @ c # s) = w" using c by (induction w) auto
  moreover have "dropWhile (\<lambda>x. x \<noteq> c) (w @ c # s) = c # s" using c by (induction w) auto
  ultimately show ?thesis by simp
qed

lemma space_not_in_dec [simp]: "CHR '' '' \<notin> set (dec n)"
  using dec_digits [of "CHR '' ''" n] by (auto simp: is_digit_def)

lemma splitn_line:
  "splitn_on 3 CHR '' '' (dec a @ '' '' @ dec b @ '' '' @ t) = [dec a, dec b, t]"
proof -
  have three: "3 = Suc (Suc (Suc 0))" by simp
  show ?thesis
    unfolding three using splitn_2_sep [of "CHR '' ''" "dec a" "Suc 0"] splitn_2_sep [of "CHR '' ''" "dec b" 0]
    by (simp del: splitn_on.simps(3))
qed

lemma parse_f64_dec_u64:
  "n < 2 ^ 53 \<Longrightarrow> \<exists>x. parse_f64 (dec n) = Some x \<and> f64_as_u64 x = of_nat n"
  using f64_as_u64_dec [of n] by (cases "parse_f64 (dec n)") auto

text \<open>C35: A line with two integral timestamps below \<open>2 ^ 53\<close> and any text parses to the segment with
  exactly these timestamps and this text, spaces of the text included; although the timestamps go
  through floating point, nothing is lost.\<close>

theorem parse_line_roundtrip:
  assumes "a < 2 ^ 53" and "b < 2 ^ 53"
  shows "parse_line (dec a @ '' '' @ dec b @ '' '' @ t) =
           Some \<lparr>start_ms = of_nat a, end_ms = of_nat b, seg_text = t\<rparr>"
  using parse_f64_dec_u64 [OF assms(1)] parse_f64_dec_u64 [OF assms(2)]
  unfolding parse_line_def splitn_line segment_of_parts_def by auto

theorem parse_line_roundtrip_witness:
  "parse_line (dec 0 @ '' '' @ dec 1200 @ '' '' @ '' And so'') =
     Some \<lparr>start_ms = 0, end_ms = 1200, seg_text = '' And so''\<rparr>"
  using parse_line_roundtrip [of 0 1200 "'' And so''"] by simp

section \<open>Connecting\<close>

text \<open>C35: A SimulStreaming address that begins with neither a decimal digit nor an opening bracket is
  refused before any connection is attempted: a host name, as in the command line's default
  \<open>localhost:43007\<close>, never connects, whatever the network does.\<close>

theorem host_name_never_connects:
  assumes "\<not> digit_in 10 c" and "c \<noteq> CHR ''[''"
  shows "simul_connect_with_timeout N (c # cs) timeout = Inl (ErrLib ''AddrParseError'')"
  using host_name_is_no_address [OF assms, of cs] by (simp add: simul_connect_with_timeout_def)

definition demo_net :: "u8 list netlib" where
  "demo_net = \<lparr>tcp_connect = (\<lambda>a t. Inr []), tcp_configure = Inr,
     tcp_write_all = (\<lambda>s bs. (s @ bs, Inr ())), tcp_flush = (\<lambda>s. (s, Inr ())),
     tcp_shutdown_write = id\<rparr>"

theorem host_name_never_connects_witness:
  "simul_connect demo_net ''localhost:43007'' = Inl (ErrLib ''AddrParseError'') \<and>
   (\<exists>c. simul_connect demo_net ''127.0.0.1:43007'' = Inr c)"
  using host_name_never_connects [of "CHR ''l''" demo_net "''ocalhost:43007''" "10 * 10 ^ 9"]
  by (simp add: simul_connect_def digit_in_def hex_digit_def simul_connect_with_timeout_def [of _ "''127.0.0.1:43007''"]
        parse_loopback demo_net_def)

section \<open>The OpenAI worker\<close>

lemma transcribe_keeps [simp]:
  "ob_buffer (fst (transcribe_chunk_sync H b pcm start)) = ob_buffer b"
  "ob_audio (fst (transcribe_chunk_sync H b pcm start)) = ob_audio b"
  "ob_stream_time (fst (transcribe_chunk_sync H b pcm start)) = ob_stream_time b"
  "ob_running (fst (transcribe_chunk_sync H b pcm start)) = ob_running b"
  by (auto simp: transcribe_chunk_sync_def Let_def split: sum.splits prod.splits)

lemma duration_ms_Nil [simp]: "duration_ms [] = 0"
  by (simp add: duration_ms_def)

lemma flush_turn_conserves:
  "flush_turn H now later b = (b', chunk) \<Longrightarrow>
     chunk @ ob_buffer b' = ob_buffer b \<and> ob_audio b' = ob_audio b \<and>
     ob_stream_time b' = ob_stream_time b + duration_ms chunk"
  by (auto simp: flush_turn_def Let_def split: if_splits)

lemma openai_turn_conserves:
  "openai_turn H now later b = (b', chunk) \<Longrightarrow>
     chunk @ ob_buffer b' @ concat (ob_audio b') = ob_buffer b @ concat (ob_audio b) \<and>
     ob_stream_time b' = ob_stream_time b + duration_ms chunk"
  by (auto simp: openai_turn_def split: if_splits list.splits dest!: flush_turn_conserves
        simp flip: append_assoc)

lemma openai_turn_conserves':
  "fst (openai_turn H now later b) = b' \<Longrightarrow> snd (openai_turn H now later b) = chunk \<Longrightarrow>
     chunk @ ob_buffer b' @ concat (ob_audio b') = ob_buffer b @ concat (ob_audio b)"
  using openai_turn_conserves by (metis prod.collapse)



text \<open>After a turn of the OpenAI worker the buffer holds at most five seconds of audio: a longer
  one has been sent.\<close>

theorem openai_buffer_bounded:
  assumes "length (ob_buffer b) \<le> 80000"
  shows "length (ob_buffer (fst (openai_turn H now later b))) \<le> 80000"
  using assms by (auto simp: openai_turn_def flush_turn_def should_flush_def sample_rate_def Let_def
      split: list.splits)

definition demo_http :: httplib where
  "demo_http = \<lparr>http_post = (\<lambda>r. Inr (True, ''hello'')), json_text = (\<lambda>s. Inr (Some s))\<rparr>"

theorem openai_buffer_bounded_witness:
  "length (ob_buffer (fst (openai_turn demo_http 0 0
     ((openai_backend_new 0 ''key'' None None)\<lparr>ob_audio := [[1, 2, 3]]\<rparr>)))) \<le> 80000"
  by (rule openai_buffer_bounded) (simp add: openai_backend_new_def)

section \<open>Polling\<close>

text \<open>C12: Polling the manager returns, after finitely many calls of the backends, exactly the pending
  segments of every session, each tagged with the identifiers of its session and in the order the
  backend received them; it keeps all sessions and leaves nothing pending.\<close>

theorem polling_delivers_all:
  "\<exists>m'. poll_results (transcription_lib D N now) m =
      Some (m', concat (map (\<lambda>(k, s). map (\<lambda>seg. (fst k, snd k, seg)) (boxed_pending (ts_backend s)))
                  (mg_sessions m)))
    \<and> map fst (mg_sessions m') = map fst (mg_sessions m)
    \<and> list_all (\<lambda>(k, s). boxed_pending (ts_backend s) = []) (mg_sessions m')"
  using polled.poll_results_delivers [of D N now m] by (auto simp: list_all_iff)

section \<open>The worker\<close>

inductive worker_turn :: "('d, 'b) tlib \<Rightarrow> ('d, 'b) worker \<Rightarrow> ('d, 'b) worker \<Rightarrow> bool" for L where
  turn_command: "worker_step L w c = Continue w' \<Longrightarrow> worker_turn L w w'"
| turn_poll: "poll_results L (wk_manager w) = Some (m', out) \<Longrightarrow> worker_turn L w (w\<lparr>wk_manager := m'\<rparr>)"

text \<open>What every call of the backend keeps, draining it keeps.\<close>

lemma drain_keeps:
  assumes "\<And>b. f (fst (recv b)) = f b" and "drain recv b = Some y"
  shows "f (fst y) = f b"
proof -
  have "(\<forall>b. f (fst (recv b)) = f b) \<longrightarrow> f (fst y) = f b"
  proof (rule drain.raw_induct [OF _ assms(2), where P = "\<lambda>recv b y. (\<forall>b. f (fst (recv b)) = f b) \<longrightarrow> f (fst y) = f b"])
    fix drain' recv b y
    assume ih: "\<And>recv b y. drain' recv b = Some y \<Longrightarrow> (\<forall>b. f (fst (recv b)) = f b) \<longrightarrow> f (fst y) = f b"
      and body: "(case recv b of (b', None) \<Rightarrow> Some (b', [])
        | (b', Some seg) \<Rightarrow> Option.bind (drain' recv b') (\<lambda>(b'', segs). Some (b'', seg # segs))) = Some y"
    show "(\<forall>b. f (fst (recv b)) = f b) \<longrightarrow> f (fst y) = f b"
    proof
      assume all: "\<forall>b. f (fst (recv b)) = f b"
      obtain b' r where r: "recv b = (b', r)" by (cases "recv b")
      have b': "f b' = f b" using all r by (metis fst_conv)
      show "f (fst y) = f b"
        using body r b' ih [of recv b'] all by (cases r) (auto simp: bind_eq_Some_conv)
    qed
  qed
  with assms(1) show ?thesis by blast
qed

lemma poll_sessions_get:
  assumes "poll_sessions L ss = Some (ss', out)"
  shows "map fst ss' = map fst ss \<and>
    (\<forall>k s'. hm_get ss' k = Some s' \<longrightarrow>
       (\<exists>s. hm_get ss k = Some s \<and> ts_session_id s' = ts_session_id s \<and> ts_endpoint_id s' = ts_endpoint_id s
          \<and> ts_decoder s' = ts_decoder s))"
  using assms
proof (induction L ss arbitrary: ss' out rule: poll_sessions.induct)
  case (2 L k s rest)
  obtain s1 segs rest' out' where d: "drain (session_try_recv L) s = Some (s1, segs)"
    and p: "poll_sessions L rest = Some (rest', out')" and ss': "ss' = (k, s1) # rest'"
    using 2(2) by (auto simp: bind_eq_Some_conv)
  have "ts_session_id s1 = ts_session_id s" "ts_endpoint_id s1 = ts_endpoint_id s" "ts_decoder s1 = ts_decoder s"
    using drain_keeps [OF _ d, of ts_session_id] drain_keeps [OF _ d, of ts_endpoint_id]
      drain_keeps [OF _ d, of ts_decoder]
    by (auto simp: session_try_recv_def split: prod.splits)
  with 2(1) [OF d _ p] show ?case by (auto simp: ss')
qed auto

lemma manager_ok_poll:
  assumes "manager_ok m" and "poll_results L m = Some (m', out)"
  shows "manager_ok m'"
proof -
  obtain ss' where p: "poll_sessions L (mg_sessions m) = Some (ss', out)"
    and m': "m' = m\<lparr>mg_sessions := ss'\<rparr>"
    using assms(2) by (auto simp: poll_results_def bind_eq_Some_conv)
  show ?thesis
    using poll_sessions_get [OF p] assms(1) unfolding manager_ok_def m' hm_wf_def
    by (simp, metis prod.inject)
qed

lemma manager_ok_process_audio':
  "manager_process_audio L m sid eid d = (m', r) \<Longrightarrow> manager_ok m \<Longrightarrow> manager_ok m'"
  using manager_ok_process_audio by (metis fst_conv)

lemma worker_turn_ok:
  assumes "manager_ok (wk_manager w)" and "worker_turn L w w'"
  shows "manager_ok (wk_manager w')"
  using assms(2)
proof cases
  case (turn_command c)
  then show ?thesis
    using assms(1)
    by (cases c)
       (auto simp: Let_def process_audio_packet_def manager_ok_start manager_ok_stop
         split: sum.splits prod.splits option.splits dest: manager_ok_process_audio')
next
  case (turn_poll m' out)
  then show ?thesis using manager_ok_poll [OF assms(1)] by simp
qed

interpretation transcription: state_machine "\<lambda>w. w = create_transcription_channel (manager_new cfg)"
  "worker_turn L" "\<lambda>w. manager_ok (wk_manager w)" for cfg and L :: "('d, 'b) tlib"
  by unfold_locales (simp add: create_transcription_channel_def manager_ok_new, rule worker_turn_ok)

text \<open>Whatever commands reach the worker and whenever its results are polled, each session of the
  manager stays filed under its own pair of identifiers, no pair has two sessions, and the
  round-robin index always names a configured server.\<close>

theorem worker_keeps_manager_ok:
  assumes "(worker_turn L)\<^sup>*\<^sup>* (create_transcription_channel (manager_new cfg)) w"
  shows "manager_ok (wk_manager w)"
  using transcription.run_inv [OF refl assms] .

definition demo_declib :: "unit declib" where
  "demo_declib = \<lparr>dl_new = Inr (), dl_decode = (\<lambda>d bs. (d, Inr (map ucast bs)))\<rparr>"

definition demo_tlib :: "(unit, u8 list boxed_backend) tlib" where
  "demo_tlib = transcription_lib demo_declib demo_net 0"

lemma demo_connect:
  "connect_with_timeout demo_tlib ''127.0.0.1:43007'' t =
     Inr (BoxSimul \<lparr>sc_stream = [], sc_results = [], sc_reading = True\<rparr>)"
  by (simp add: demo_tlib_def transcription_lib_def simul_connect_with_timeout_def parse_loopback demo_net_def)

theorem worker_keeps_manager_ok_witness:
  "\<exists>w. worker_step demo_tlib
      (create_transcription_channel (manager_new (config_new ''127.0.0.1:43007''))) (StartSession 7 1 None)
        = Continue w \<and> has_session (wk_manager w) 7 1 \<and> manager_ok (wk_manager w)"
proof -
  let ?w0 = "create_transcription_channel (manager_new (config_new ''127.0.0.1:43007''))"
  obtain w where w: "worker_step demo_tlib ?w0 (StartSession 7 1 None) = Continue w"
    "has_session (wk_manager w) 7 1"
    by (auto simp: Let_def create_transcription_channel_def manager_new_def start_session_def
        hm_contains_def config_new_def default_config_def advance_index_def session_new_def demo_connect
        has_session_def hm_insert_def split: sum.splits) 
       (simp_all add: demo_tlib_def transcription_lib_def demo_declib_def hm_insert_def)
  have "(worker_turn demo_tlib)\<^sup>*\<^sup>* ?w0 w" using w(1) by (blast intro: turn_command)
  from worker_keeps_manager_ok [OF this] w show ?thesis by blast
qed

fun command_key :: "transcription_command \<Rightarrow> stream_key option" where
  "command_key (StartSession sid eid _) = Some (sid, eid)"
| "command_key (StopSession sid eid) = Some (sid, eid)"
| "command_key (Audio p) = Some (ap_session_id p, ap_endpoint_id p)"
| "command_key Shutdown = None"

lemma worker_step_other:
  assumes "worker_step L w c = Continue w'" and "command_key c \<noteq> Some k"
  shows "hm_get (mg_sessions (wk_manager w')) k = hm_get (mg_sessions (wk_manager w)) k
       \<and> wk_decoders w' k = wk_decoders w k"
proof (cases c)
  case (StartSession sid eid cfg)
  then show ?thesis
    using assms start_session_other [of k sid eid L "wk_manager w" cfg]
    by (auto simp: Let_def split: sum.splits)
next
  case (StopSession sid eid)
  then show ?thesis using assms by (auto simp: stop_session_get)
next
  case (Audio p)
  then show ?thesis
    using assms process_audio_other [of k "ap_session_id p" "ap_endpoint_id p" L "wk_manager w" "ap_opus_data p"]
    by (auto simp: process_audio_packet_def Let_def split: sum.splits prod.splits option.splits)
qed (use assms in auto)

text \<open>Streams are isolated: a sequence of commands that concern other streams leaves a stream's
  session (its decoder state and its backend connection) and the worker's decoder for it untouched,
  whatever fails on the way.\<close>

theorem worker_isolates_streams:
  assumes "worker_run L w cs = Break w'" and "Some k \<notin> set (map command_key cs)"
  shows "hm_get (mg_sessions (wk_manager w')) k = hm_get (mg_sessions (wk_manager w)) k
       \<and> wk_decoders w' k = wk_decoders w k"
  using assms
proof (induction L w cs rule: worker_run.induct)
  case (2 L w c cs)
  show ?case
  proof (cases "worker_step L w c")
    case (Continue w1)
    then show ?thesis using 2 worker_step_other [OF Continue, of k] by auto
  next
    case (Break w1)
    then have "c = Shutdown" "w1 = w"
      by (cases c; auto simp: Let_def process_audio_packet_def split: sum.splits prod.splits option.splits)+
    then show ?thesis using 2(2) Break by simp
  qed (use 2(2) in simp)
qed simp

theorem worker_isolates_streams_witness:
  "\<exists>w'. worker_run demo_tlib
      \<lparr>wk_manager = manager_new config_none, wk_decoders = [(7, 1) \<mapsto> ()]\<rparr>
      [Audio \<lparr>ap_session_id = 7, ap_endpoint_id = 2, ap_opus_data = [1], ap_timestamp = 0, ap_ssrc = 9\<rparr>,
       StopSession 7 2, Shutdown] = Break w' \<and> wk_decoders w' (7, 1) = Some ()"
proof -
  let ?w = "\<lparr>wk_manager = manager_new config_none, wk_decoders = [(7, 1) \<mapsto> ()]\<rparr>"
  let ?cs = "[Audio \<lparr>ap_session_id = 7, ap_endpoint_id = 2, ap_opus_data = [1], ap_timestamp = 0, ap_ssrc = 9\<rparr>,
       StopSession 7 2, Shutdown]"
  obtain w' where w': "worker_run demo_tlib ?w ?cs = Break w'"
    by (auto simp: process_audio_packet_def Let_def demo_tlib_def transcription_lib_def demo_declib_def
        manager_process_audio_def manager_new_def)
  from worker_isolates_streams [OF this, of "(7, 1)"] w' show ?thesis by auto
qed


section \<open>Load balancing\<close>

definition start_all :: "('d, 'b) tlib \<Rightarrow> stream_key list \<Rightarrow> ('d, 'b) manager \<Rightarrow> ('d, 'b) manager" where
  "start_all L ks m = foldl (\<lambda>m (sid, eid). fst (start_session L m sid eid None)) m ks"

lemma start_all_other: "k \<notin> set ks \<Longrightarrow> hm_get (mg_sessions (start_all L ks m)) k = hm_get (mg_sessions m) k"
proof (induction ks arbitrary: m)
  case (Cons kv ks)
  obtain sid eid where "kv = (sid, eid)" by (cases kv)
  then show ?case
    using Cons start_session_other [of k sid eid L m None] by (simp add: start_all_def)
qed (simp add: start_all_def)

text \<open>C27: Sessions started without a configuration of their own are spread over the configured
  servers in rotation: the \<open>i\<close>-th of them is connected to the server \<open>i\<close> places after the current
  index, modulo their number, as long as the connections succeed.\<close>

theorem round_robin:
  assumes "manager_ok m" and "backend_cfg (mg_config m) = SimulStreaming addrs" and "addrs \<noteq> []"
    and "decoder_new L = Inr d" and "\<And>a. connect_with_timeout L a (connect_timeout (mg_config m)) = Inr (conn a)"
    and "distinct ks" and "\<And>k. k \<in> set ks \<Longrightarrow> hm_get (mg_sessions m) k = None"
    and "i < length ks"
  shows "\<exists>s. hm_get (mg_sessions (start_all L ks m)) (ks ! i) = Some s \<and>
             ts_backend s = conn (addrs ! ((next_server_index m + i) mod length addrs))"
  using assms
proof (induction ks arbitrary: m i)
  case (Cons kv ks)
  obtain sid eid where kv: "kv = (sid, eid)" by (cases kv)
  define m1 where "m1 = fst (start_session L m sid eid None)"
  have "\<not> hm_contains (mg_sessions m) (sid, eid)"
    using Cons.prems(7) [of kv] kv by (auto simp: hm_contains_get)
  from start_session_fresh_simul [OF Cons.prems(2,3) this Cons.prems(4,5)]
  have st: "next_server_index m1 = (next_server_index m + 1) mod length addrs"
    "mg_config m1 = mg_config m" "mg_sessions m1 = hm_insert (sid, eid)
       \<lparr>ts_session_id = sid, ts_endpoint_id = eid, ts_decoder = d,
        ts_backend = conn (addrs ! (next_server_index m mod length addrs))\<rparr> (mg_sessions m)"
    by (simp_all add: m1_def)
  have all: "start_all L (kv # ks) m = start_all L ks m1"
    by (simp add: start_all_def kv m1_def)
  show ?case
  proof (cases i)
    case 0
    then show ?thesis
      using start_all_other [of kv ks L m1] Cons.prems(6) kv by (simp add: all [unfolded kv] st)
  next
    case (Suc j)
    have "\<exists>s. hm_get (mg_sessions (start_all L ks m1)) (ks ! j) = Some s \<and>
        ts_backend s = conn (addrs ! ((next_server_index m1 + j) mod length addrs))"
      using Cons.prems kv st Suc manager_ok_start [OF Cons.prems(1), of L sid eid None]
      by (intro Cons.IH) (auto simp: m1_def)
    then show ?thesis by (simp add: all Suc st mod_simps add.commute add.left_commute)
  qed
qed simp

text \<open>A library whose connections succeed and remember their address.\<close>

definition robin_conn :: "string \<Rightarrow> u8 list boxed_backend" where
  "robin_conn a = BoxSimul \<lparr>sc_stream = bytes_of_string a, sc_results = [], sc_reading = True\<rparr>"

definition robin_lib :: "(unit, u8 list boxed_backend) tlib" where
  "robin_lib = \<lparr>decoder_new = Inr (), decoder_decode = (\<lambda>d bs. (d, Inr [])),
     connect_with_timeout = (\<lambda>a t. Inr (robin_conn a)),
     openai_new = (\<lambda>k u m. robin_conn k), backend_send_audio = (\<lambda>b pcm. (b, Inr ())),
     backend_try_recv = boxed_try_recv\<rparr>"

theorem round_robin_witness:
  "\<exists>s. hm_get (mg_sessions (start_all robin_lib [(7, 1), (7, 2)] (manager_new (with_servers [''a'', ''b''])))) (7, 2)
        = Some s \<and> ts_backend s = robin_conn ''b''"
  using round_robin [of "manager_new (with_servers [''a'', ''b''])" "[''a'', ''b'']" robin_lib "()"
      robin_conn "[(7, 1), (7, 2)]" 1, OF manager_ok_new]
  by (simp add: manager_new_def with_servers_def default_config_def robin_lib_def)

end
