(* ===== verification/Service_Facts.thy ===== *)
theory Service_Facts
  imports Grpc_Service Transcription_Facts
begin

text \<open>
  The properties of signaling: which media worker serves a session, what a worker answers, how
  transcription is switched on and off, and who receives its results.
\<close>

section \<open>The worker of a session\<close>

lemma sort_empty_iff: "sort xs = [] \<longleftrightarrow> xs = []" for xs :: "'a::linorder list"
  by (metis length_0_conv length_sort)

lemma choose_port_in:
  "case choose_port sv sid of None \<Rightarrow> sv_workers sv = [] | Some port \<Rightarrow> port \<in> fst ` set (sv_workers sv)"
proof (cases "sv_workers sv = []")
  case False
  let ?ps = "sort (map fst (sv_workers sv))"
  have "unat sid mod length ?ps < length ?ps" using False by simp
  then have "?ps ! (unat sid mod length ?ps) \<in> set ?ps" by (rule nth_mem)
  with False show ?thesis by (simp add: choose_port_def Let_def sort_empty_iff)
qed (simp add: choose_port_def)

text \<open>The media worker of a session is one of the configured ports and depends only on the set of
  ports and the session, not on the iteration order of the table of workers: two services with the
  same ports send every request of a session to the same worker.\<close>

theorem port_choice_stable:
  assumes "mset (map fst (sv_workers sv)) = mset (map fst (sv_workers sv'))"
  shows "choose_port sv sid = choose_port sv' sid \<and>
    (case choose_port sv sid of
       None \<Rightarrow> sv_workers sv = [] | Some port \<Rightarrow> port \<in> fst ` set (sv_workers sv))"
proof -
  have "sort (map fst (sv_workers sv)) = sort (map fst (sv_workers sv'))"
    by (rule properties_for_sort) (use assms in simp_all)
  then have "choose_port sv sid = choose_port sv' sid"
    by (simp add: choose_port_def)
  with choose_port_in [of sv sid] show ?thesis by simp
qed

definition demo_service :: "(unit, u8 list boxed_backend) service" where
  "demo_service = service_new [(3479, True), (3478, True)] (Some (manager_new config_none)) (Some True)"

theorem port_choice_stable_witness:
  "choose_port demo_service 7 = choose_port (service_new [(3478, True), (3479, True)] None None :: (unit, unit) service) 7"
  using port_choice_stable [of demo_service "service_new [(3478, True), (3479, True)] None None :: (unit, unit) service" 7]
  by (simp add: demo_service_def service_new_def)

section \<open>Answers of a media worker\<close>

text \<open>An offer is always answered, and with exactly one message carrying the identifiers of the
  request: the JSON text of the answer if the offer was accepted, the reason otherwise.  An offer
  that is not UTF-8 text or not a session description leaves the server states alone.\<close>

theorem offer_answered:
  "handle_signaling_message E J show_err fresh now True (SigOffer sid eid offer) st =
     (case try_offer E J fresh now sid eid offer st of
        (Inr text, st') \<Rightarrow> ((Inr (), Some (SigAnswer sid eid text)), st')
      | (Inl e, st') \<Rightarrow> ((Inr (), Some (SigErr sid eid (bytes_of_string (show_err e)))), st')) \<and>
   (case from_utf8 offer of
      Inl e \<Rightarrow> try_offer E J fresh now sid eid offer st = (Inl e, st)
    | Inr text \<Rightarrow>
        (case js_parse_description J text of
           Inl e \<Rightarrow> try_offer E J fresh now sid eid offer st = (Inl (ErrLib e), st)
         | Inr d \<Rightarrow> snd (try_offer E J fresh now sid eid offer st) = snd (accept_offer E fresh now sid eid None d st)))"
  by (auto simp: handle_signaling_message_def handle_offer_message_def send_response_def try_offer_def
      split: sum.splits prod.splits)

text \<open>C33: Leaving changes nothing in the SFU: a media worker that handles \<open>Leave\<close> keeps its server
  states and its extractor, so the endpoint keeps its transports and goes on receiving media, and
  its audio goes on being attributed.\<close>

theorem leave_keeps_media:
  "mw_states (snd (signaling_phase E J show_err fresh now (Some (SigLeave sid eid, alive)) w)) = mw_states w \<and>
   mw_extractor (snd (signaling_phase E J show_err fresh now (Some (SigLeave sid eid, alive)) w)) = mw_extractor w"
  by (auto simp: signaling_phase_def handle_leave_message_def send_response_def)

text \<open>C38: After transcription is enabled for an endpoint, audio from every source the worker has not
  seen before is attributed to that endpoint, whoever sends it, unless the session identifier is 0,
  and sent to the transcription worker.\<close>

theorem unknown_source_goes_to_last_enabled:
  assumes "ssrc_map (mw_extractor w) (ai_ssrc info) = None" and "sid \<noteq> 0" and "mw_transcription w"
    and "mw_audio w = [info]"
  shows "mw_commands (media_turn E J show_err fresh now (Some (SigEnableTranscription sid eid, alive)) w) =
    mw_commands w @
      [Audio \<lparr>ap_session_id = sid, ap_endpoint_id = eid, ap_opus_data = ai_payload info,
              ap_timestamp = ai_timestamp info, ap_ssrc = ai_ssrc info\<rparr>]"
  using assms
  by (simp add: media_turn_def signaling_phase_def audio_phase_def route_audio_def resolve_source_def
      enable_transcription_for_session_def)

definition demo_audio :: audio_packet_info where
  "demo_audio = \<lparr>ai_ssrc = 9, ai_timestamp = 960, ai_sequence_number = 1, ai_payload_type = 111, ai_payload = [1, 2]\<rparr>"

definition demo_media_worker :: "(nat, unit) server_states \<Rightarrow> (nat, unit) media_worker" where
  "demo_media_worker st = \<lparr>mw_states = st, mw_extractor = ext_new, mw_audio = [demo_audio],
     mw_transcription = True, mw_commands = [], mw_responses = []\<rparr>"

theorem unknown_source_goes_to_last_enabled_witness:
  "\<forall>E J st. mw_commands (media_turn E J (\<lambda>_. '''') \<lparr>ip_username_fragment = '''', ip_password = ''''\<rparr> 0
       (Some (SigEnableTranscription 7 2, False)) (demo_media_worker st)) =
     [Audio \<lparr>ap_session_id = 7, ap_endpoint_id = 2, ap_opus_data = [1, 2], ap_timestamp = 960, ap_ssrc = 9\<rparr>]"
  using unknown_source_goes_to_last_enabled [of "demo_media_worker _" demo_audio 7]
  by (simp add: demo_media_worker_def ext_new_def demo_audio_def)

text \<open>A media worker routes audio by its source: packets of sources registered for other sessions
  never become audio of this one, and a source without a session produces no command.\<close>

theorem routed_to_registered_session:
  "snd (route_audio x info) =
     (case (case ssrc_map x (ai_ssrc info) of Some k \<Rightarrow> Some k | None \<Rightarrow> default_session x) of
        None \<Rightarrow> []
      | Some (sid, eid) \<Rightarrow>
          if sid = 0 then []
          else [Audio \<lparr>ap_session_id = sid, ap_endpoint_id = eid, ap_opus_data = ai_payload info,
                       ap_timestamp = ai_timestamp info, ap_ssrc = ai_ssrc info\<rparr>])"
  by (auto simp: route_audio_def resolve_source_def split: option.splits)

section \<open>Switching transcription on\<close>

text \<open>When enabling transcription succeeds on a server whose transcription worker runs, exactly one
  start command has been queued for the endpoint, with the configuration the request asks for,
  and the media worker of the session has been told if it is reachable; when it does not, nothing
  has been queued and nobody has been told.\<close>

theorem enable_transcription_effect:
  assumes "sv_tx sv = Some True" and "enable_transcription L show_err req sv = (r, sv')"
  shows "(sr_ok r \<longleftrightarrow> (\<exists>m cfg. sv_manager sv = Some m \<and> config_override req = Inr cfg)) \<and>
    (if sr_ok r
     then (\<exists>cfg. config_override req = Inr cfg \<and>
             sv_commands sv' = sv_commands sv @ [StartSession (er_session_id req) (er_endpoint_id req) cfg]) \<and>
          sv_messages sv' = sv_messages sv @
            (case choose_port sv (er_session_id req) of
               None \<Rightarrow> []
             | Some port \<Rightarrow>
                 if map_of (sv_workers sv) port = Some True
                 then [(port, SigEnableTranscription (er_session_id req) (er_endpoint_id req))] else [])
     else sv' = sv)"
  using assms
  by (auto simp: enable_transcription_def Let_def start_transcription_session_def notify_worker_def
      send_to_worker_def choose_port_def split: option.splits sum.splits if_splits)

theorem enable_transcription_effect_witness:
  "\<exists>sv'. enable_transcription robin_lib (\<lambda>_. '''')
     \<lparr>er_session_id = 7, er_endpoint_id = 2, er_language = '''', er_backend = ''simul-streaming'',
      er_simul_streaming_addr = ''a, b'', er_openai_api_key = '''', er_openai_base_url = '''',
      er_openai_model = ''''\<rparr> demo_service = (\<lparr>sr_ok = True, sr_error = ''''\<rparr>, sv') \<and>
     sv_commands sv' = [StartSession 7 2 (Some (with_servers [''a'', ''b'']))]"
proof -
  let ?req = "\<lparr>er_session_id = 7, er_endpoint_id = 2, er_language = '''', er_backend = ''simul-streaming'',
      er_simul_streaming_addr = ''a, b'', er_openai_api_key = '''', er_openai_base_url = '''',
      er_openai_model = ''''\<rparr> :: enable_request"
  have c: "config_override ?req = Inr (Some (with_servers [''a'', ''b'']))"
    by (simp add: config_override_def server_list_def trim_def is_ws_def Let_def)
  obtain sv' where e: "enable_transcription robin_lib (\<lambda>_. '''') ?req demo_service = (\<lparr>sr_ok = True, sr_error = ''''\<rparr>, sv')"
    by (simp add: enable_transcription_def c Let_def demo_service_def service_new_def
        start_transcription_session_def)
  have "sv_tx demo_service = Some True" "sv_commands demo_service = []"
    by (simp_all add: demo_service_def service_new_def)
  with enable_transcription_effect [OF this(1) e] c e show ?thesis by simp
qed

section \<open>Results\<close>

lemma distribute_get:
  "hm_get (distribute r subs) sid =
     (if sid = fst r then map_option (map (try_send (update_of r))) (hm_get subs sid) else hm_get subs sid)"
  by (auto simp: distribute_def)

lemma fold_distribute_get:
  "hm_get (fold distribute rs subs) sid =
     map_option (map (fold (\<lambda>r. try_send (update_of r)) (filter (\<lambda>r. fst r = sid) rs))) (hm_get subs sid)"
proof (induction rs arbitrary: subs)
  case Nil
  show ?case by (cases "hm_get subs sid") (auto simp: map_idI)
next
  case (Cons r rs)
  show ?case
    by (cases "hm_get subs sid") (auto simp: Cons distribute_get comp_def)
qed

lemma fold_try_send:
  "fold (\<lambda>r. try_send (update_of r)) rs sb =
     (if sb_open sb then sb\<lparr>sb_queue := sb_queue sb @ take (sb_capacity - length (sb_queue sb)) (map update_of rs)\<rparr>
      else sb)"
proof (induction rs arbitrary: sb)
  case (Cons r rs)
  show ?case
    using Cons by (cases "sb_capacity - length (sb_queue sb)")
      (auto simp: try_send_def Suc_diff_Suc [symmetric] take_Cons')
qed simp

definition pending_results ::
  "('d, 'c boxed_backend) manager \<Rightarrow> (session_id \<times> endpoint_id \<times> transcription_segment) list" where
  "pending_results m =
     concat (map (\<lambda>(k, s). map (\<lambda>seg. (fst k, snd k, seg)) (boxed_pending (ts_backend s))) (mg_sessions m))"

text \<open>C13: One round of distribution always ends, and it gives each open subscriber of a session exactly
  the updates the backends of that session had pending, in order, up to the capacity of its
  channel, and nothing to a closed one; what does not fit is dropped for that subscriber alone.\<close>

theorem distribution_per_session:
  assumes "sv_manager sv = Some m"
  shows "\<exists>sv'. poll_and_distribute_transcriptions (transcription_lib D N now) sv = Some sv' \<and>
    hm_get (sv_subscribers sv') sid =
      map_option (map (\<lambda>sb.
          if sb_open sb
          then sb\<lparr>sb_queue := sb_queue sb @
                 take (sb_capacity - length (sb_queue sb))
                   (map update_of (filter (\<lambda>r. fst r = sid) (pending_results m)))\<rparr>
          else sb)) (hm_get (sv_subscribers sv) sid)"
proof -
  obtain m' where "poll_results (transcription_lib D N now) m = Some (m', pending_results m)"
    using polled.poll_results_delivers [of D N now m] by (auto simp: pending_results_def)
  then show ?thesis
    using assms by (simp add: poll_and_distribute_transcriptions_def fold_distribute_get fold_try_send
        cong: option.map_cong list.map_cong)
qed

definition demo_client :: "u8 list simul_client" where
  "demo_client = \<lparr>sc_stream = [], sc_results = [\<lparr>start_ms = 0, end_ms = 5, seg_text = ''hi''\<rparr>], sc_reading = True\<rparr>"

definition demo_results_service :: "(unit, u8 list boxed_backend) service" where
  "demo_results_service =
     (service_new [(3478, True)]
       (Some ((manager_new config_none)\<lparr>mg_sessions := [((7, 2),
          \<lparr>ts_session_id = 7, ts_endpoint_id = 2, ts_decoder = (), ts_backend = BoxSimul demo_client\<rparr>)]\<rparr>))
       (Some True))\<lparr>sv_subscribers := [(7, [\<lparr>sb_open = True, sb_queue = []\<rparr>]), (8, [\<lparr>sb_open = True, sb_queue = []\<rparr>])]\<rparr>"

theorem distribution_per_session_witness:
  "\<exists>sv'. poll_and_distribute_transcriptions demo_tlib demo_results_service = Some sv' \<and>
     hm_get (sv_subscribers sv') 7 = Some [\<lparr>sb_open = True, sb_queue =
       [\<lparr>tu_session_id = 7, tu_endpoint_id = 2, tu_text = ''hi'', tu_start_ms = 0, tu_end_ms = 5\<rparr>]\<rparr>]"
  using distribution_per_session [of demo_results_service _ demo_declib demo_net 0 7]
  by (simp add: demo_results_service_def service_new_def demo_tlib_def pending_results_def demo_client_def
      sb_capacity_def update_of_def)

end
