(* ===== verification/Extractor_Facts.thy ===== *)
theory Extractor_Facts
  imports Rtp_Extractor
begin

text \<open>
  The properties of \<open>RtpAudioExtractor\<close>: it reads back every well-formed RTP packet, it only hands
  out bytes of the packet, and how it finds and learns the session of a source.
\<close>

section \<open>A writer of RTP packets\<close>

text \<open>The wire format of RFC 3550: fixed header, contributing sources, optional header extension,
  payload, and padding whose last byte is its length.\<close>

definition be16 :: "u16 \<Rightarrow> u8 list" where
  "be16 w = [ucast (drop_bit 8 w), ucast w]"

definition be32 :: "u32 \<Rightarrow> u8 list" where
  "be32 w = [ucast (drop_bit 24 w), ucast (drop_bit 16 w), ucast (drop_bit 8 w), ucast w]"

record rtp_wire =
  rw_marker :: bool
  rw_payload_type :: u8
  rw_sequence :: u16
  rw_timestamp :: u32
  rw_ssrc :: u32
  rw_csrcs :: "u32 list"
  rw_extension :: "(u16 \<times> u32 list) option"
  rw_payload :: "u8 list"
  rw_padding :: "u8 list"   \<comment> \<open>the padding bytes before the last one\<close>
  rw_padded :: bool

definition first_byte :: "bool \<Rightarrow> bool \<Rightarrow> nat \<Rightarrow> u8" where
  "first_byte padded extended n = 128 + (if padded then 32 else 0) + (if extended then 16 else 0) + of_nat n"

definition extension_bytes :: "(u16 \<times> u32 list) option \<Rightarrow> u8 list" where
  "extension_bytes x =
     (case x of None \<Rightarrow> []
      | Some (profile, ws) \<Rightarrow> be16 profile @ be16 (of_nat (length ws)) @ concat (map be32 ws))"

definition rtp_header :: "rtp_wire \<Rightarrow> u8 list" where
  "rtp_header p =
     first_byte (rw_padded p) (rw_extension p \<noteq> None) (length (rw_csrcs p))
     # (rw_payload_type p + (if rw_marker p then 128 else 0))
     # be16 (rw_sequence p) @ be32 (rw_timestamp p) @ be32 (rw_ssrc p) @ concat (map be32 (rw_csrcs p))"

definition rtp_bytes :: "rtp_wire \<Rightarrow> u8 list" where
  "rtp_bytes p =
     rtp_header p @ extension_bytes (rw_extension p) @ rw_payload p
     @ (if rw_padded p then rw_padding p @ [of_nat (length (rw_padding p) + 1)] else [])"

definition rtp_wire_ok :: "rtp_wire \<Rightarrow> bool" where
  "rtp_wire_ok p \<longleftrightarrow>
     rw_payload_type p < 128 \<and> length (rw_csrcs p) < 16 \<and> rw_payload p \<noteq> [] \<and>
     length (rw_padding p) < 255 \<and>
     (case rw_extension p of None \<Rightarrow> True | Some (_, ws) \<Rightarrow> length ws < 65536)"

section \<open>Reading integers and bits back\<close>

lemma u16_from_be_be16 [simp]: "u16_from_be (ucast (drop_bit 8 w)) (ucast w) = w"
proof (rule bit_eqI)
  fix i assume "possible_bit TYPE(16 word) i"
  then show "bit (u16_from_be (ucast (drop_bit 8 w)) (ucast w)) i \<longleftrightarrow> bit w i"
    by (auto simp: u16_from_be_def bit_or_iff bit_push_bit_iff bit_ucast_iff bit_drop_bit_eq)
qed

lemma u32_from_be_be32 [simp]:
  "u32_from_be (ucast (drop_bit 24 w)) (ucast (drop_bit 16 w)) (ucast (drop_bit 8 w)) (ucast w) = w"
proof (rule bit_eqI)
  fix i assume "possible_bit TYPE(32 word) i"
  then show "bit (u32_from_be (ucast (drop_bit 24 w)) (ucast (drop_bit 16 w)) (ucast (drop_bit 8 w)) (ucast w)) i
      \<longleftrightarrow> bit w i"
    by (cases "i < 8"; cases "i < 16"; cases "i < 24") (auto simp: u32_from_be_def bit_or_iff bit_push_bit_iff bit_ucast_iff bit_drop_bit_eq)
qed

lemma first_byte_bits:
  assumes "n < 16"
  shows "drop_bit 6 (first_byte p x n) AND 3 = 2"
    and "drop_bit 5 (first_byte p x n) AND 1 = (if p then 1 else 0)"
    and "drop_bit 4 (first_byte p x n) AND 1 = (if x then 1 else 0)"
    and "unat (first_byte p x n AND 0x0F) = n"
proof -
  have "n \<in> set [0..<16]" using assms by simp
  then show "drop_bit 6 (first_byte p x n) AND 3 = 2"
    "drop_bit 5 (first_byte p x n) AND 1 = (if p then 1 else 0)"
    "drop_bit 4 (first_byte p x n) AND 1 = (if x then 1 else 0)"
    "unat (first_byte p x n AND 0x0F) = n"
    by (auto simp: upt_rec first_byte_def)
qed

lemma second_byte_bits: "pt < 128 \<Longrightarrow> (pt + (if m then 128 else 0)) AND 0x7F = (pt :: u8)"
proof -
  assume pt: "pt < 128"
  have m: "(0x7F :: u8) = mask 7" by (simp add: mask_eq_exp_minus_1)
  have "unat pt < 2 ^ 7" using pt by (simp add: word_less_nat_alt)
  then have t: "take_bit 7 pt = pt"
    by (simp add: word_unat_eq_iff unsigned_take_bit_eq take_bit_nat_eq_self)
  have "unat (of_nat (unat pt + 128) :: u8) = unat pt + 128"
    unfolding unsigned_of_nat using \<open>unat pt < 2 ^ 7\<close> by (simp add: take_bit_nat_eq_self)
  then have "take_bit 7 (pt + 128) = pt"
    using \<open>unat pt < 2 ^ 7\<close> unfolding word_unat_eq_iff unsigned_take_bit_eq
    by (simp add: take_bit_eq_mod)
  then show ?thesis unfolding m using t by (simp flip: take_bit_eq_mask)
qed

lemma length_be [simp]: "length (be16 w) = 2" "length (be32 v) = 4"
  by (simp_all add: be16_def be32_def)

lemma length_words [simp]: "length (concat (map be32 ws)) = 4 * length ws"
  by (induction ws) auto

lemma length_rtp_header [simp]: "length (rtp_header p) = 12 + 4 * length (rw_csrcs p)"
  by (simp add: rtp_header_def)

lemma rtp_header_nth:
  "rtp_header p ! 0 = first_byte (rw_padded p) (rw_extension p \<noteq> None) (length (rw_csrcs p))"
  "rtp_header p ! 1 = rw_payload_type p + (if rw_marker p then 128 else 0)"
  "u32_from_be (rtp_header p ! 4) (rtp_header p ! 5) (rtp_header p ! 6) (rtp_header p ! 7) = rw_timestamp p"
  "u32_from_be (rtp_header p ! 8) (rtp_header p ! 9) (rtp_header p ! 10) (rtp_header p ! 11) = rw_ssrc p"
  by (simp_all add: rtp_header_def be16_def be32_def)

lemma rtp_bytes_nth: "i < 12 \<Longrightarrow> rtp_bytes p ! i = rtp_header p ! i"
  by (simp add: rtp_bytes_def nth_append)

section \<open>The payload\<close>

definition trailer :: "rtp_wire \<Rightarrow> u8 list" where
  "trailer p = (if rw_padded p then rw_padding p @ [of_nat (length (rw_padding p) + 1)] else [])"

lemma rtp_bytes_parts: "rtp_bytes p = (rtp_header p @ extension_bytes (rw_extension p)) @ rw_payload p @ trailer p"
  by (simp add: rtp_bytes_def trailer_def)

lemma trailer_length:
  assumes "rw_padded p" and "length (rw_padding p) < 255"
  shows "unat (last (rtp_bytes p)) = length (trailer p)"
proof -
  have "unat (of_nat (length (rw_padding p) + 1) :: u8) = length (rw_padding p) + 1"
    using assms(2) unfolding unsigned_of_nat by (simp add: take_bit_nat_eq_self)
  moreover have "last (rtp_bytes p) = of_nat (length (rw_padding p) + 1)"
    using assms(1) by (simp add: rtp_bytes_def)
  ultimately show ?thesis using assms(1) by (simp add: trailer_def)
qed

lemma extension_length:
  assumes "rtp_wire_ok p" and "rw_extension p = Some (profile, ws)"
  defines "o1 \<equiv> 12 + 4 * length (rw_csrcs p)"
  shows "unat (u16_from_be (rtp_bytes p ! (o1 + 2)) (rtp_bytes p ! (o1 + 3))) = length ws"
proof -
  have nth: "rtp_bytes p ! (o1 + i) = extension_bytes (rw_extension p) ! i" if "i < 4" for i
  proof -
    have "i < length (extension_bytes (rw_extension p))"
      using that assms(2) by (simp add: extension_bytes_def)
    then show ?thesis
      unfolding rtp_bytes_def o1_def length_rtp_header [symmetric] nth_append_length_plus
      by (simp add: nth_append)
  qed
  define w where "w = (of_nat (length ws) :: u16)"
  have "length ws < 65536" using assms by (simp add: rtp_wire_ok_def)
  then have w: "unat w = length ws"
    unfolding w_def unsigned_of_nat by (simp add: take_bit_nat_eq_self)
  have "extension_bytes (rw_extension p) = be16 profile @ be16 w @ concat (map be32 ws)"
    using assms(2) by (simp add: extension_bytes_def w_def)
  then show ?thesis
    using nth [of 2] nth [of 3] w by (simp add: be16_def)
qed

lemma payload_bounds_rtp:
  assumes ok: "rtp_wire_ok p"
  defines "a \<equiv> length (rtp_header p @ extension_bytes (rw_extension p))"
  shows "payload_bounds (rtp_bytes p) = Some (a, a + length (rw_payload p))"
proof -
  let ?d = "rtp_bytes p"
  define o1 where "o1 = 12 + length (rw_csrcs p) * 4"
  have csrcs: "length (rw_csrcs p) < 16" and pl: "rw_payload p \<noteq> []"
    and pad: "length (rw_padding p) < 255"
    using ok by (auto simp: rtp_wire_ok_def)
  note b = first_byte_bits [OF csrcs, of "rw_padded p" "rw_extension p \<noteq> None"]
  have d0: "?d ! 0 = first_byte (rw_padded p) (rw_extension p \<noteq> None) (length (rw_csrcs p))"
    by (simp add: rtp_bytes_nth rtp_header_nth)
  have len: "length ?d = a + length (rw_payload p) + length (trailer p)"
    by (simp add: rtp_bytes_parts a_def)
  have off: "(if (if rw_extension p \<noteq> None then 1 else 0 :: u8) = 1 \<and> length ?d > o1 + 4
      then o1 + (4 + unat (u16_from_be (?d ! (o1 + 2)) (?d ! (o1 + 3))) * 4) else o1) = a"
    using extension_length [OF ok] pl len
    by (cases "rw_extension p") (auto simp: a_def o1_def extension_bytes_def mult.commute)
  have fin: "(if (if rw_padded p then 1 else 0 :: u8) = 1 \<and> ?d \<noteq> []
      then length ?d - unat (?d ! (length ?d - 1)) else length ?d) = a + length (rw_payload p)"
  proof (cases "rw_padded p")
    case True
    have ne: "?d \<noteq> []" by (simp add: rtp_bytes_def rtp_header_def)
    have "unat (?d ! (length ?d - 1)) = length (trailer p)"
      using trailer_length [OF True pad] ne by (simp add: last_conv_nth)
    then show ?thesis using True ne len by simp
  next
    case False
    then show ?thesis using len by (simp add: trailer_def)
  qed
  have "0 < length (rw_payload p)" using pl by simp
  then show ?thesis
    unfolding payload_bounds_def Let_def d0 b o1_def [symmetric]
    unfolding off fin by (simp add: len)
qed


section \<open>Properties\<close>

lemma extract_audio_reads:
  assumes "rtp_wire_ok p" and "rw_payload_type p \<in> set (audio_payload_types x)"
    and "ext_lookup x (rw_ssrc p) = (x', Some (sid, eid))"
  shows "extract_audio x (rtp_bytes p) =
    (x', Some \<lparr>ap_session_id = sid, ap_endpoint_id = eid, ap_opus_data = rw_payload p,
              ap_timestamp = rw_timestamp p, ap_ssrc = rw_ssrc p\<rparr>)"
proof -
  let ?d = "rtp_bytes p"
  have csrcs: "length (rw_csrcs p) < 16" and pt: "rw_payload_type p < 128"
    using assms(1) by (auto simp: rtp_wire_ok_def)
  have len: "\<not> length ?d < 12" by (simp add: rtp_bytes_def)
  have nth: "?d ! 0 = rtp_header p ! 0" "?d ! 1 = rtp_header p ! 1" "?d ! 4 = rtp_header p ! 4"
    "?d ! 5 = rtp_header p ! 5" "?d ! 6 = rtp_header p ! 6" "?d ! 7 = rtp_header p ! 7"
    "?d ! 8 = rtp_header p ! 8" "?d ! 9 = rtp_header p ! 9" "?d ! 10 = rtp_header p ! 10"
    "?d ! 11 = rtp_header p ! 11"
    by (rule rtp_bytes_nth, simp)+
  have hdr: "drop_bit 6 (?d ! 0) AND 3 = 2" "?d ! 1 AND 0x7F = rw_payload_type p"
    "u32_from_be (?d ! 4) (?d ! 5) (?d ! 6) (?d ! 7) = rw_timestamp p"
    "u32_from_be (?d ! 8) (?d ! 9) (?d ! 10) (?d ! 11) = rw_ssrc p"
    using first_byte_bits(1) [OF csrcs] second_byte_bits [OF pt] by (simp_all only: nth rtp_header_nth)
  have data: "take (length (rw_payload p)) (drop (length (rtp_header p @ extension_bytes (rw_extension p))) ?d)
      = rw_payload p"
    unfolding rtp_bytes_parts by (simp del: append_assoc)
  show ?thesis
    using assms(2,3) data
    unfolding extract_audio_def Let_def hdr
    by (simp add: len ext_is_audio_payload_type_def payload_bounds_rtp [OF assms(1)])
qed

text \<open>C9: The extractor reads back every well-formed RTP packet of an audio payload type whose source
  has a session: whatever the marker, the contributing sources, the header extension and the
  padding, it returns exactly the payload, the timestamp and the source, for that session, and
  changes nothing.\<close>

theorem extract_audio_roundtrip:
  assumes "rtp_wire_ok p" and "rw_payload_type p \<in> set (audio_payload_types x)"
    and "ssrc_map x (rw_ssrc p) = Some (sid, eid)"
  shows "extract_audio x (rtp_bytes p) =
    (x, Some \<lparr>ap_session_id = sid, ap_endpoint_id = eid, ap_opus_data = rw_payload p,
              ap_timestamp = rw_timestamp p, ap_ssrc = rw_ssrc p\<rparr>)"
  by (rule extract_audio_reads [OF assms(1,2)]) (simp add: ext_lookup_def assms(3))

definition demo_wire :: rtp_wire where
  "demo_wire = \<lparr>rw_marker = True, rw_payload_type = 111, rw_sequence = 1, rw_timestamp = 960,
     rw_ssrc = 0x12345678, rw_csrcs = [5], rw_extension = Some (0xBEDE, [7]),
     rw_payload = [0xFC, 1, 2, 3], rw_padding = [0, 0], rw_padded = True\<rparr>"

theorem extract_audio_roundtrip_witness:
  "extract_audio (register_ssrc 0x12345678 1 2 ext_new) (rtp_bytes demo_wire) =
    (register_ssrc 0x12345678 1 2 ext_new,
     Some \<lparr>ap_session_id = 1, ap_endpoint_id = 2, ap_opus_data = [0xFC, 1, 2, 3],
           ap_timestamp = 960, ap_ssrc = 0x12345678\<rparr>)"
  using extract_audio_roundtrip [of demo_wire "register_ssrc 0x12345678 1 2 ext_new" 1 2]
  by (simp add: demo_wire_def rtp_wire_ok_def register_ssrc_def ext_new_def)

lemma payload_bounds_range:
  "payload_bounds d = Some (a, b) \<Longrightarrow> 12 \<le> a \<and> a < b \<and> b \<le> length d"
  by (auto simp: payload_bounds_def Let_def split: if_splits)

text \<open>Whatever bytes arrive, what the extractor hands out is a nonempty run of bytes of the packet
  behind its fixed header, and it belongs to the session registered for the source or, for an
  unknown source, to the default session, which it has then learned; no other entry of the table
  changes.\<close>

theorem extract_audio_sound:
  assumes "extract_audio x d = (x', Some p)"
  shows "(\<exists>a. 12 \<le> a \<and> ap_opus_data p = take (length (ap_opus_data p)) (drop a d) \<and>
              a + length (ap_opus_data p) \<le> length d) \<and> ap_opus_data p \<noteq> [] \<and>
    (case ssrc_map x (ap_ssrc p) of
       Some k \<Rightarrow> k = (ap_session_id p, ap_endpoint_id p) \<and> x' = x
     | None \<Rightarrow> default_session x = Some (ap_session_id p, ap_endpoint_id p) \<and>
               x' = register_ssrc (ap_ssrc p) (ap_session_id p) (ap_endpoint_id p) x)"
proof -
  obtain s sid eid where l: "ext_lookup x s = (x', Some (sid, eid))" and ps: "ap_ssrc p = s"
    "ap_session_id p = sid" "ap_endpoint_id p = eid"
    and b: "\<exists>a b. payload_bounds d = Some (a, b) \<and> ap_opus_data p = take (b - a) (drop a d)"
    using assms by (auto simp: extract_audio_def Let_def split: if_splits prod.splits option.splits)
  then obtain a b where ab: "payload_bounds d = Some (a, b)" "ap_opus_data p = take (b - a) (drop a d)"
    by blast
  have "12 \<le> a \<and> a < b \<and> b \<le> length d" by (rule payload_bounds_range [OF ab(1)])
  then have "length (ap_opus_data p) = b - a" "ap_opus_data p \<noteq> []" "12 \<le> a" "b \<le> length d" "a < b"
    using ab(2) by auto
  moreover have "case ssrc_map x s of Some k \<Rightarrow> k = (sid, eid) \<and> x' = x
      | None \<Rightarrow> default_session x = Some (sid, eid) \<and> x' = register_ssrc s sid eid x"
    using l by (auto simp: ext_lookup_def register_ssrc_def split: option.splits if_splits)
  ultimately show ?thesis using ab(2) ps by (auto intro!: exI [of _ a])
qed

theorem extract_audio_sound_witness:
  "\<exists>p. extract_audio (enable_transcription_for_session 1 2 ext_new) (rtp_bytes demo_wire) =
      (register_ssrc 0x12345678 1 2 (enable_transcription_for_session 1 2 ext_new), Some p)
    \<and> ap_opus_data p \<noteq> []"
proof -
  let ?x = "enable_transcription_for_session 1 2 ext_new"
  obtain p where p: "extract_audio ?x (rtp_bytes demo_wire) = (register_ssrc 0x12345678 1 2 ?x, Some p)"
    using extract_audio_reads [of demo_wire ?x "register_ssrc 0x12345678 1 2 ?x" 1 2]
    by (simp add: demo_wire_def rtp_wire_ok_def register_ssrc_def ext_new_def ext_lookup_def
        enable_transcription_for_session_def)
  with extract_audio_sound [OF p] show ?thesis by blast
qed

text \<open>Disabling transcription for a session removes its flag and nothing else: the extractor goes on
  extracting, learning and attributing audio as before.\<close>

theorem disable_keeps_extracting:
  "is_transcription_enabled (disable_transcription_for_session sid eid x) sid eid = False \<and>
   snd (extract_audio (disable_transcription_for_session sid eid x) d) = snd (extract_audio x d)"
  by (auto simp: is_transcription_enabled_def disable_transcription_for_session_def extract_audio_def
      ext_lookup_def ext_is_audio_payload_type_def Let_def split: option.splits prod.splits if_splits)


end
