(* ===== verification/Media_Facts.thy ===== *)
theory Media_Facts
  imports Media_Negotiation
begin

text \<open>
  What negotiation guarantees: the tables stay functions from identifiers to URIs, codec lists stay
  free of duplicates, only codecs the SFU supports are negotiated, and proposals get identifiers of
  their own when they are recorded.
\<close>

section \<open>Codec lists\<close>

definition codec_key :: "codec_parameters \<Rightarrow> string \<times> u8" where
  "codec_key c = (mime_type (capability c), cp_payload_type c)"

lemma add_codec_alt: "add_codec cs c = (if codec_key c \<in> codec_key ` set cs then cs else cs @ [c])"
proof -
  have "(\<exists>d \<in> set cs. mime_type (capability d) = mime_type (capability c) \<and>
                      cp_payload_type d = cp_payload_type c) \<longleftrightarrow> codec_key c \<in> codec_key ` set cs"
    unfolding codec_key_def image_iff by (metis prod.inject)
  then show ?thesis by (simp add: add_codec_def)
qed

lemma add_codec_distinct:
  "distinct (map codec_key cs) \<Longrightarrow> distinct (map codec_key (add_codec cs c))"
  by (auto simp: add_codec_alt)

lemma set_add_codec: "set cs \<subseteq> set (add_codec cs c)" "set (add_codec cs c) \<subseteq> insert c (set cs)"
  by (auto simp: add_codec_def)

lemma foldl_add_codec_distinct:
  "distinct (map codec_key cs) \<Longrightarrow> distinct (map codec_key (foldl add_codec cs ds))"
  by (induction ds arbitrary: cs) (simp_all add: add_codec_distinct)

lemma set_foldl_add_codec: "set (foldl add_codec cs ds) \<subseteq> set cs \<union> set ds"
proof (induction ds arbitrary: cs)
  case (Cons d ds)
  then have "set (foldl add_codec (add_codec cs d) ds) \<subseteq> set (add_codec cs d) \<union> set ds" by blast
  then show ?case using set_add_codec(2) [of cs d] by auto
qed simp

lemma register_codecs_audio:
  "register_codecs KindAudio cs mc = (Inr (), mc\<lparr>mc_audio_codecs := foldl add_codec (mc_audio_codecs mc) cs\<rparr>)"
  by (induction cs arbitrary: mc) (simp_all add: register_codec_def)

lemma register_codecs_video:
  "register_codecs KindVideo cs mc = (Inr (), mc\<lparr>mc_video_codecs := foldl add_codec (mc_video_codecs mc) cs\<rparr>)"
  by (induction cs arbitrary: mc) (simp_all add: register_codec_def)

lemma register_default_codecs_eq:
  "register_default_codecs mc =
     (Inr (), mc\<lparr>mc_audio_codecs := foldl add_codec (mc_audio_codecs mc) default_audio_codecs,
                 mc_video_codecs := foldl add_codec (mc_video_codecs mc) default_video_codecs\<rparr>)"
  by (simp add: register_default_codecs_def register_codecs_audio register_codecs_video)

lemma default_audio_codec_keys:
  "map codec_key (foldl add_codec [] default_audio_codecs) =
     [(''audio/opus'', 111), (''audio/G722'', 9), (''audio/PCMU'', 0), (''audio/PCMA'', 8)]"
  by code_simp

lemma default_video_codec_keys:
  "map codec_key (foldl add_codec [] default_video_codecs) =
     [(''video/VP8'', 96), (''video/VP9'', 98), (''video/VP9'', 100), (''video/H264'', 102),
      (''video/H264'', 127), (''video/H264'', 125), (''video/H264'', 108), (''video/H264'', 123),
      (''video/AV1'', 41), (''video/ulpfec'', 116)]"
  by code_simp

lemmas media_config_default_simps =
  media_config_default_def register_default_codecs_eq empty_media_config_def configure_rtcp_reports_def

text \<open>A payloader depends on the MIME type up to case; of the default codecs only the forward error
  correction has none.\<close>

lemma payloader_lowercase:
  "to_lowercase (mime_type c) = to_lowercase (mime_type d) \<Longrightarrow> payloader_for_codec c = payloader_for_codec d"
  by (simp add: payloader_for_codec_def)

lemma default_payloaders:
  "filter (\<lambda>c. payloader_for_codec (capability c) = Inl (Other ''ErrNoPayloaderForCodec'' []))
     (default_audio_codecs @ default_video_codecs) = [codec_of ''video/ulpfec'' 90000 0 '''' 116]"
  by code_simp

section \<open>The invariant\<close>

definition mc_ok :: "media_config \<Rightarrow> bool" where
  "mc_ok mc \<longleftrightarrow>
     hm_wf (mc_negotiated mc) \<and> distinct (map (he_uri \<circ> snd) (mc_negotiated mc)) \<and>
     hm_wf (mc_proposed mc) \<and>
     distinct (map codec_key (mc_audio_codecs mc)) \<and> distinct (map codec_key (mc_video_codecs mc)) \<and>
     distinct (map codec_key (mc_negotiated_audio_codecs mc)) \<and>
     distinct (map codec_key (mc_negotiated_video_codecs mc))"

lemma hm_insert_fresh: "hm_get m k = None \<Longrightarrow> hm_insert k v m = m @ [(k, v)]"
  unfolding hm_insert_def hm_get_def by (induction m) (auto split: if_splits)

lemma hm_modify_uris:
  "(\<And>e. he_uri (f e) = he_uri e) \<Longrightarrow> map (he_uri \<circ> snd) (hm_modify k f m) = map (he_uri \<circ> snd) m"
  by (auto simp: hm_modify_def)

definition tables_ok :: "(int, header_extension) hmap \<Rightarrow> bool" where
  "tables_ok t \<longleftrightarrow> hm_wf t \<and> distinct (map (he_uri \<circ> snd) t)"

lemma tables_ok_insert:
  assumes "tables_ok t" and "hm_get t i = None" and "find (\<lambda>(_, e). he_uri e = he_uri x) t = None"
  shows "tables_ok (hm_insert i x t)"
proof -
  have "he_uri x \<notin> set (map (he_uri \<circ> snd) t)"
    using assms(3) by (fastforce simp: find_None_iff)
  then show ?thesis
    using assms(1,2) hm_wf_insert [of t i x] by (simp add: tables_ok_def hm_insert_fresh)
qed

lemma tables_ok_modify:
  "(\<And>e. he_uri (f e) = he_uri e) \<Longrightarrow> tables_ok t \<Longrightarrow> tables_ok (hm_modify k f t)"
  by (simp add: tables_ok_def hm_modify_uris)

lemma mc_ok_alt:
  "mc_ok mc \<longleftrightarrow> tables_ok (mc_negotiated mc) \<and> hm_wf (mc_proposed mc) \<and>
     distinct (map codec_key (mc_audio_codecs mc)) \<and> distinct (map codec_key (mc_video_codecs mc)) \<and>
     distinct (map codec_key (mc_negotiated_audio_codecs mc)) \<and>
     distinct (map codec_key (mc_negotiated_video_codecs mc))"
  by (simp add: mc_ok_def tables_ok_def)

lemma negotiate_extension_ok:
  assumes "mc_ok mc"
  shows "mc_ok (negotiate_extension i uri ty mc e)"
proof (cases "he_uri e = uri")
  case True
  show ?thesis
  proof (cases "find (\<lambda>(_, e). he_uri e = uri) (mc_negotiated mc)")
    case None
    then show ?thesis
      using assms True tables_ok_insert [of "mc_negotiated mc" i]
      by (cases "hm_get (mc_negotiated mc) i") (simp_all add: negotiate_extension_def mc_ok_alt)
  next
    case (Some p)
    then show ?thesis
      using assms True
      by (cases p) (simp add: negotiate_extension_def mc_ok_alt tables_ok_modify)
  qed
qed (use assms in \<open>simp add: negotiate_extension_def\<close>)

lemma update_header_extension_ok: "mc_ok mc \<Longrightarrow> mc_ok (update_header_extension i uri ty mc)"
proof -
  have "mc_ok mc \<Longrightarrow> mc_ok (foldl (negotiate_extension i uri ty) mc es)"
    for es :: "header_extension list" and mc
    by (induction es arbitrary: mc) (simp_all add: negotiate_extension_ok)
  then show "mc_ok mc \<Longrightarrow> mc_ok (update_header_extension i uri ty mc)"
    by (simp add: update_header_extension_def)
qed

lemma update_extensions_ok:
  "mc_ok mc \<Longrightarrow> mc_ok (foldl (\<lambda>mc x. update_header_extension (hx_id x) (hx_uri x) ty mc) mc xs)"
  by (induction xs arbitrary: mc) (simp_all add: update_header_extension_ok)

lemma push_codecs_ok: "mc_ok mc \<Longrightarrow> mc_ok (push_codecs cs ty mc)"
  by (cases ty) (simp_all add: push_codecs_def mc_ok_def foldl_add_codec_distinct)

lemma negotiated_kind_ok: "negotiated_kind mc m = Some (ty, mc') \<Longrightarrow> mc_ok mc \<Longrightarrow> mc_ok mc'"
  by (auto simp: negotiated_kind_def mc_ok_def split: if_splits)

lemma negotiate_media_ok: "mc_ok mc \<Longrightarrow> mc_ok (snd (negotiate_media L hexd m mc))"
  by (auto simp: negotiate_media_def Let_def intro!: update_extensions_ok push_codecs_ok
      dest: negotiated_kind_ok split: option.splits sum.splits)

lemma negotiate_all_ok: "mc_ok mc \<Longrightarrow> mc_ok (snd (negotiate_all L hexd ms mc))"
proof (induction ms arbitrary: mc)
  case (Cons m ms)
  then show ?case
    using negotiate_media_ok [of mc L hexd m] by (auto split: prod.splits sum.splits)
qed simp

section \<open>Negotiated codecs are supported\<close>

definition offers_mime :: "codec_parameters list \<Rightarrow> codec_parameters \<Rightarrow> bool" where
  "offers_mime cs c \<longleftrightarrow>
     (\<exists>l \<in> set cs. to_uppercase (mime_type (capability l)) = to_uppercase (mime_type (capability c)))"

definition supported :: "media_config \<Rightarrow> bool" where
  "supported mc \<longleftrightarrow>
     (\<forall>c \<in> set (mc_negotiated_audio_codecs mc). offers_mime (mc_audio_codecs mc) c) \<and>
     (\<forall>c \<in> set (mc_negotiated_video_codecs mc). offers_mime (mc_video_codecs mc) c)"

definition local_codecs :: "codec_type \<Rightarrow> media_config \<Rightarrow> codec_parameters list" where
  "local_codecs ty mc = (if ty = KindAudio then mc_audio_codecs mc else mc_video_codecs mc)"

lemma match_remote_codec_supported:
  assumes "match_remote_codec hexd mc c ty ex pa = Inr t" and "t \<noteq> MatchNone"
  shows "offers_mime (local_codecs ty mc) c"
proof -
  let ?s = "codec_parameters_fuzzy_search hexd c (local_codecs ty mc)"
  have "snd ?s \<noteq> MatchNone"
    using assms by (auto simp: match_remote_codec_def local_codecs_def Let_def result_simps
        split: option.splits if_splits)
  then show ?thesis
    using fuzzy_search_mime [of hexd c "local_codecs ty mc" "fst ?s" "snd ?s"]
    by (auto simp: offers_mime_def)
qed

lemma match_codecs_supported:
  assumes "match_codecs hexd mc ty cs ex pa = Inr (ex', pa')"
    and "\<forall>c \<in> set (ex @ pa). offers_mime (local_codecs ty mc) c"
  shows "\<forall>c \<in> set (ex' @ pa'). offers_mime (local_codecs ty mc) c"
  using assms
proof (induction hexd mc ty cs ex pa rule: match_codecs.induct)
  case (2 hexd mc ty c cs ex pa)
  from "2.prems"(1) obtain t where t: "match_remote_codec hexd mc c ty ex pa = Inr t"
    and r: "(if t = MatchExact then match_codecs hexd mc ty cs (ex @ [c]) pa
             else if t = MatchPartial then match_codecs hexd mc ty cs ex (pa @ [c])
             else match_codecs hexd mc ty cs ex pa) = Inr (ex', pa')"
    by (auto simp: result_simps)
  have "t \<noteq> MatchNone \<Longrightarrow> offers_mime (local_codecs ty mc) c"
    by (rule match_remote_codec_supported [OF t])
  then show ?case
    using "2.IH" "2.prems"(2) r by (cases t) auto
qed auto

lemma update_header_extension_codecs [simp]:
  "mc_audio_codecs (update_header_extension i uri ty mc) = mc_audio_codecs mc"
  "mc_video_codecs (update_header_extension i uri ty mc) = mc_video_codecs mc"
  "mc_negotiated_audio_codecs (update_header_extension i uri ty mc) = mc_negotiated_audio_codecs mc"
  "mc_negotiated_video_codecs (update_header_extension i uri ty mc) = mc_negotiated_video_codecs mc"
  "mc_negotiated_audio (update_header_extension i uri ty mc) = mc_negotiated_audio mc"
  "mc_negotiated_video (update_header_extension i uri ty mc) = mc_negotiated_video mc"
proof -
  let ?f = "\<lambda>mc. (mc_audio_codecs mc, mc_video_codecs mc, mc_negotiated_audio_codecs mc,
                 mc_negotiated_video_codecs mc, mc_negotiated_audio mc, mc_negotiated_video mc)"
  have one: "?f (negotiate_extension i uri ty mc e) = ?f mc" for mc e
    by (auto simp: negotiate_extension_def Let_def split: option.splits prod.splits)
  have "?f (foldl (negotiate_extension i uri ty) mc es) = ?f mc" for es
    using one by (induction es arbitrary: mc) simp_all
  then have "?f (update_header_extension i uri ty mc) = ?f mc"
    by (simp only: update_header_extension_def)
  then show
    "mc_audio_codecs (update_header_extension i uri ty mc) = mc_audio_codecs mc"
    "mc_video_codecs (update_header_extension i uri ty mc) = mc_video_codecs mc"
    "mc_negotiated_audio_codecs (update_header_extension i uri ty mc) = mc_negotiated_audio_codecs mc"
    "mc_negotiated_video_codecs (update_header_extension i uri ty mc) = mc_negotiated_video_codecs mc"
    "mc_negotiated_audio (update_header_extension i uri ty mc) = mc_negotiated_audio mc"
    "mc_negotiated_video (update_header_extension i uri ty mc) = mc_negotiated_video mc"
    by simp_all
qed

lemma update_extensions_codecs:
  "supported (foldl (\<lambda>mc x. update_header_extension (hx_id x) (hx_uri x) ty mc) mc xs) = supported mc"
  by (induction xs arbitrary: mc) (simp_all add: supported_def)

lemma push_codecs_supported:
  assumes "supported mc" and "\<forall>c \<in> set cs. offers_mime (local_codecs ty mc) c"
  shows "supported (push_codecs cs ty mc)"
  using assms set_foldl_add_codec [of "mc_negotiated_audio_codecs mc" cs]
    set_foldl_add_codec [of "mc_negotiated_video_codecs mc" cs]
  by (cases ty) (auto simp: push_codecs_def supported_def local_codecs_def)

lemma negotiated_kind_supported:
  "negotiated_kind mc m = Some (ty, mc') \<Longrightarrow> supported mc' = supported mc"
  by (auto simp: negotiated_kind_def supported_def split: if_splits)

lemma negotiate_media_supported:
  assumes "supported mc"
  shows "supported (snd (negotiate_media L hexd m mc))"
proof (cases "negotiated_kind mc m")
  case (Some p)
  then obtain ty mc1 where k: "negotiated_kind mc m = Some (ty, mc1)" by (cases p) auto
  have s: "supported mc1" using negotiated_kind_supported [OF k] assms by simp
  show ?thesis
  proof (cases "and_then (codecs_from_media_description L m) (\<lambda>cs. match_codecs hexd mc1 ty cs [] [])")
    case (Inr r)
    then obtain ex pa cs where r: "match_codecs hexd mc1 ty cs [] [] = Inr (ex, pa)" "r = (ex, pa)"
      by (cases r) (auto simp: result_simps)
    have "\<forall>c \<in> set (if ex \<noteq> [] then ex else pa). offers_mime (local_codecs ty mc1) c"
      using match_codecs_supported [OF r(1)] by simp
    from push_codecs_supported [OF s this] show ?thesis
      using k s Inr r by (auto simp: negotiate_media_def Let_def update_extensions_codecs
          split: sum.splits)
  qed (use k s in \<open>simp add: negotiate_media_def\<close>)
qed (use assms in \<open>simp add: negotiate_media_def\<close>)

lemma negotiate_all_supported: "supported mc \<Longrightarrow> supported (snd (negotiate_all L hexd ms mc))"
proof (induction ms arbitrary: mc)
  case (Cons m ms)
  then show ?case
    using negotiate_media_supported [of mc L hexd m] by (auto split: prod.splits sum.splits)
qed simp

section \<open>Proposals\<close>

definition ext_of_id :: "media_config \<Rightarrow> int \<Rightarrow> header_extension \<Rightarrow> bool" where
  "ext_of_id mc i e \<longleftrightarrow> hm_get (mc_negotiated mc) i = Some e \<or> hm_get (mc_proposed mc) i = Some e"

definition ids_disjoint :: "media_config \<Rightarrow> bool" where
  "ids_disjoint mc \<longleftrightarrow> hm_wf (mc_negotiated mc) \<and> hm_wf (mc_proposed mc) \<and>
     (\<forall>i. hm_get (mc_negotiated mc) i = None \<or> hm_get (mc_proposed mc) i = None)"

definition proposals_ok :: "string set \<Rightarrow> header_extension_parameters list \<times> media_config \<Rightarrow> bool" where
  "proposals_ok uris st \<longleftrightarrow>
     ids_disjoint (snd st) \<and> distinct (map hx_uri (fst st)) \<and> hx_uri ` set (fst st) \<subseteq> uris \<and>
     (\<forall>x \<in> set (fst st). \<exists>e. ext_of_id (snd st) (hx_id x) e \<and> he_uri e = hx_uri x)"

lemma proposals_ok_distinct_ids:
  assumes "proposals_ok uris (out, mc)"
  shows "distinct (map hx_id out)"
proof -
  have one: "hx_uri x = hx_uri y" if xy: "x \<in> set out" "y \<in> set out" "hx_id x = hx_id y" for x y
  proof -
    obtain e where e: "ext_of_id mc (hx_id x) e" "he_uri e = hx_uri x"
      using assms xy(1) by (auto simp: proposals_ok_def)
    obtain f where f: "ext_of_id mc (hx_id x) f" "he_uri f = hx_uri y"
      using assms xy(2,3) by (auto simp: proposals_ok_def)
    have "hm_get (mc_negotiated mc) (hx_id x) = None \<or> hm_get (mc_proposed mc) (hx_id x) = None"
      using assms by (auto simp: proposals_ok_def ids_disjoint_def)
    then have "e = f" using e(1) f(1) by (auto simp: ext_of_id_def)
    with e(2) f(2) show ?thesis by simp
  qed
  have d: "distinct (map hx_uri out)" using assms by (simp add: proposals_ok_def)
  have "inj_on hx_id (set out)"
  proof (rule inj_onI)
    fix x y assume xy: "x \<in> set out" "y \<in> set out" "hx_id x = hx_id y"
    have "inj_on hx_uri (set out)" using d by (simp add: distinct_map)
    then show "x = y" using one [OF xy] xy by (auto dest: inj_onD)
  qed
  then show ?thesis using d by (simp add: distinct_map)
qed

lemma unused_ext_idD:
  "unused_ext_id mc = Some i \<Longrightarrow> hm_get (mc_negotiated mc) i = None \<and> hm_get (mc_proposed mc) i = None \<and> 1 \<le> i \<and> i \<le> 14"
  by (auto simp: unused_ext_id_def find_Some_iff hm_contains_get valid_ext_ids_def in_set_conv_nth
      simp del: upto_rec_numeral)

lemma hm_find_get:
  "hm_wf m \<Longrightarrow> find (\<lambda>(_, x). P x) m = Some (i, x) \<Longrightarrow> hm_get m i = Some x \<and> P x"
  by (auto simp: find_Some_iff hm_in_set_get [symmetric]) (metis nth_mem)

lemma propose_parameter_ok:
  assumes "proposals_ok uris st" and "he_uri e \<notin> uris"
  shows "proposals_ok (insert (he_uri e) uris) (propose_parameter ty dir st e)"
proof -
  obtain out mc where st: "st = (out, mc)" by (cases st)
  have ok: "ids_disjoint mc" "distinct (map hx_uri out)" "hx_uri ` set out \<subseteq> uris"
    "\<forall>x \<in> set out. \<exists>e. ext_of_id mc (hx_id x) e \<and> he_uri e = hx_uri x"
    using assms(1) by (auto simp: proposals_ok_def st)
  have fresh: "he_uri e \<notin> hx_uri ` set out" using ok(3) assms(2) by blast
  have skip: "proposals_ok (insert (he_uri e) uris) st"
    using ok by (auto simp: proposals_ok_def st)
  have push: "proposals_ok (insert (he_uri e) uris) (out @ [\<lparr>hx_uri = he_uri e, hx_id = i\<rparr>], mc')"
    if "ids_disjoint mc'" "\<exists>x. ext_of_id mc' i x \<and> he_uri x = he_uri e"
      "\<forall>j x. ext_of_id mc j x \<longrightarrow> (\<exists>y. ext_of_id mc' j y \<and> he_uri y = he_uri x)" for i mc'
    using that ok fresh by (fastforce simp: proposals_ok_def)
  show ?thesis
  proof (cases "is_matching_direction e dir \<and> extension_for_kind e ty")
    case rel: True
    show ?thesis
    proof (cases "find (\<lambda>(_, x). he_uri x = he_uri e) (mc_negotiated mc)")
      case (Some p)
      then obtain i x where p: "p = (i, x)" by (cases p)
      have g: "hm_get (mc_negotiated mc) i = Some x" "he_uri x = he_uri e"
        using hm_find_get [of "mc_negotiated mc"] Some p ok(1) by (auto simp: ids_disjoint_def)
      have dj: "hm_get (mc_proposed mc) i = None"
        using ok(1) g(1) unfolding ids_disjoint_def by (metis option.distinct(1))
      let ?f = "\<lambda>x. x\<lparr>he_is_audio := he_is_audio x \<or> ty = KindAudio, he_is_video := he_is_video x \<or> ty = KindVideo\<rparr>"
      have "proposals_ok (insert (he_uri e) uris) (out @ [\<lparr>hx_uri = he_uri e, hx_id = i\<rparr>],
              mc\<lparr>mc_negotiated := hm_modify i ?f (mc_negotiated mc)\<rparr>)"
        using ok(1) g dj by (intro push) (auto simp: ids_disjoint_def ext_of_id_def)
      then show ?thesis using rel Some p g by (simp add: propose_parameter_def st)
    next
      case neg: None
      show ?thesis
      proof (cases "find (\<lambda>(_, x). he_uri x = he_uri e) (mc_proposed mc)")
        case (Some p)
        then obtain i x where p: "p = (i, x)" by (cases p)
        have g: "hm_get (mc_proposed mc) i = Some x" "he_uri x = he_uri e"
          using hm_find_get [of "mc_proposed mc"] Some p ok(1) by (auto simp: ids_disjoint_def)
        have "proposals_ok (insert (he_uri e) uris) (out @ [\<lparr>hx_uri = he_uri e, hx_id = i\<rparr>], mc)"
          using ok(1) g by (intro push) (auto simp: ids_disjoint_def ext_of_id_def)
        then show ?thesis using rel neg Some p g by (simp add: propose_parameter_def st)
      next
        case None
        show ?thesis
        proof (cases "unused_ext_id mc")
          case (Some i)
          have "proposals_ok (insert (he_uri e) uris) (out @ [\<lparr>hx_uri = he_uri e, hx_id = i\<rparr>],
                  mc\<lparr>mc_proposed := hm_insert i e (mc_proposed mc)\<rparr>)"
            using ok(1) unused_ext_idD [OF Some]
            by (intro push) (auto simp: ids_disjoint_def ext_of_id_def)
          then show ?thesis using rel neg None Some by (simp add: propose_parameter_def st)
        qed (use rel neg None skip in \<open>simp add: propose_parameter_def st\<close>)
      qed
    qed
  qed (use skip in \<open>auto simp: propose_parameter_def st\<close>)
qed

lemma propose_parameters_ok:
  "proposals_ok uris st \<Longrightarrow> distinct (map he_uri es) \<Longrightarrow> uris \<inter> he_uri ` set es = {} \<Longrightarrow>
   \<exists>uris'. proposals_ok uris' (foldl (propose_parameter ty dir) st es)"
proof (induction es arbitrary: uris st)
  case (Cons e es)
  have ok: "proposals_ok (insert (he_uri e) uris) (propose_parameter ty dir st e)"
    using Cons.prems by (intro propose_parameter_ok) auto
  have "insert (he_uri e) uris \<inter> he_uri ` set es = {}"
    using Cons.prems by simp
  with Cons.IH [OF ok] Cons.prems show ?case by simp
qed auto

section \<open>Properties\<close>

text \<open>A fresh configuration supports exactly the ten documented codecs, audio first Opus (111)
  and video first VP8 (96); the second H264 entry for payload type 127 is dropped, registration
  succeeds and nothing is negotiated yet.\<close>

theorem default_codecs:
  "fst (register_default_codecs empty_media_config) = Inr () \<and>
   map codec_key (get_codecs_by_kind KindAudio media_config_default) =
     [(''audio/opus'', 111), (''audio/G722'', 9), (''audio/PCMU'', 0), (''audio/PCMA'', 8)] \<and>
   map codec_key (get_codecs_by_kind KindVideo media_config_default) =
     [(''video/VP8'', 96), (''video/VP9'', 98), (''video/VP9'', 100), (''video/H264'', 102),
      (''video/H264'', 127), (''video/H264'', 125), (''video/H264'', 108), (''video/H264'', 123),
      (''video/AV1'', 41), (''video/ulpfec'', 116)] \<and>
   mc_registry media_config_default = [SenderReportBuilder, ReceiverReportBuilder] \<and>
   mc_negotiated media_config_default = []"
  by (simp add: media_config_default_simps get_codecs_by_kind_def default_audio_codec_keys
      default_video_codec_keys del: map_eq_Cons_conv)

lemma default_media_config_ok: "mc_ok media_config_default"
  by (simp add: mc_ok_def media_config_default_simps foldl_add_codec_distinct)

text \<open>C33: Negotiating a remote description, whether it succeeds or stops with an error, keeps the
  configuration well formed: every identifier has one extension, every extension URI one
  identifier, and no codec list holds the same MIME type and payload type twice.\<close>

theorem negotiation_keeps_tables:
  assumes "mc_ok mc"
  shows "mc_ok (snd (update_from_remote_description L hexd d mc))"
  using negotiate_all_ok [OF assms] by (simp add: update_from_remote_description_def)

theorem negotiation_keeps_tables_witness:
  "mc_ok (snd (update_from_remote_description plain_sdp (\<lambda>_. None)
     (plain_session\<lparr>sd_media_descriptions := [plain_media ''audio'', plain_media ''video'']\<rparr>)
     media_config_default))"
  by (rule negotiation_keeps_tables [OF default_media_config_ok])


definition opus_sdp :: sdp_lib where
  "opus_sdp = plain_sdp\<lparr>sl_codec_for_payload_type := (\<lambda>m pt.
     Inr \<lparr>sc_name = ''OPUS'', sc_clock_rate = 48000, sc_encoding_parameters = ''2'', sc_fmtp = [],
          sc_rtcp_feedback = [''nack pli'']\<rparr>)\<rparr>"

definition opus_config :: media_config where
  "opus_config = empty_media_config\<lparr>mc_audio_codecs := [codec_of ''audio/opus'' 48000 2 '''' 111]\<rparr>"

definition opus_media :: media_description where
  "opus_media = (plain_media ''audio'')\<lparr>md_formats := [''109'']\<rparr>"

definition opus_offer :: session_description where
  "opus_offer = plain_session\<lparr>sd_media_descriptions := [opus_media]\<rparr>"

definition opus_codec :: codec_parameters where
  "opus_codec = (let c = codec_of ''audio/OPUS'' 48000 2 '''' 109
     in push_feedback \<lparr>fb_typ = ''nack'', fb_parameter = ''pli''\<rparr> c)"

lemma opus_codec_read: "codecs_from_media_description opus_sdp opus_media = Inr [opus_codec]"
proof -
  have n: "parse_uint 255 ''109'' = Some 109" "parse_uint 65535 ''2'' = Some 2"
    by (simp_all add: parse_uint_def is_digit_def digit_val_def)
  have f: "feedback_of ''nack pli'' = \<lparr>fb_typ = ''nack'', fb_parameter = ''pli''\<rparr>" by code_simp
  show ?thesis
    by (simp add: codecs_from_media_description_def opus_media_def plain_media_def parse_u8_def n f
        opus_sdp_def codec_from_sdp_def opus_codec_def codec_of_def push_feedback_def)
qed

lemma opus_negotiation:
  "update_from_remote_description opus_sdp (\<lambda>_. None) opus_offer opus_config =
     (Inr (), opus_config\<lparr>mc_negotiated_audio := True, mc_negotiated_audio_codecs := [opus_codec]\<rparr>)"
proof -
  let ?mc = "opus_config\<lparr>mc_negotiated_audio := True\<rparr>"
  have l: "to_lowercase ''audio'' = ''audio''" by code_simp
  have k: "negotiated_kind opus_config opus_media = Some (KindAudio, ?mc)"
    using l by (simp add: negotiated_kind_def opus_media_def plain_media_def opus_config_def
        empty_media_config_def)
  have t: "match_remote_codec (\<lambda>_. None) ?mc opus_codec KindAudio [] [] = Inr MatchExact" by code_simp
  have p: "push_codecs [opus_codec] KindAudio ?mc = ?mc\<lparr>mc_negotiated_audio_codecs := [opus_codec]\<rparr>"
    by (simp add: push_codecs_def opus_config_def empty_media_config_def add_codec_def)
  have x: "rtp_extensions_from_media_description opus_sdp opus_media = Inr []"
    by (simp add: rtp_extensions_from_media_description_def opus_media_def plain_media_def)
  show ?thesis
    by (simp add: update_from_remote_description_def opus_offer_def negotiate_media_def k
        opus_codec_read t p x)
qed


definition two_extensions :: media_config where
  "two_extensions =
     snd (register_header_extension ''urn:b'' KindAudio None
       (snd (register_header_extension ''urn:a'' KindAudio None empty_media_config)))"

lemma two_extensions_simps:
  "mc_negotiated two_extensions = []" "mc_proposed two_extensions = []"
  "map he_uri (mc_extensions two_extensions) = [''urn:a'', ''urn:b'']"
  "kind_negotiated two_extensions KindAudio = False"
  "length (filter (\<lambda>e. is_matching_direction e Sendrecv \<and> extension_for_kind e KindAudio)
     (mc_extensions two_extensions)) = 2"
  by code_simp+


text \<open>The variant that records its proposals never gives two header extensions of a
  transceiver the same identifier.\<close>

theorem recorded_proposals_distinct:
  assumes "ids_disjoint mc" and "distinct (map he_uri (mc_extensions mc))"
  shows "distinct (map hx_id (rp_header_extensions (fst (get_mut_rtp_parameters_by_kind mc ty dir))))"
proof (cases "kind_negotiated mc ty")
  case True
  have "distinct (map fst (filter P (mc_negotiated mc)))" for P
    using assms(1) by (simp add: ids_disjoint_def hm_wf_def distinct_map_filter)
  then show ?thesis
    using True by (simp add: get_mut_rtp_parameters_by_kind_def negotiated_parameters_def
        comp_def case_prod_beta)
next
  case False
  have "proposals_ok {} ([], mc)" using assms(1) by (simp add: proposals_ok_def)
  then obtain uris where "proposals_ok uris (foldl (propose_parameter ty dir) ([], mc) (mc_extensions mc))"
    using propose_parameters_ok [of "{}" "([], mc)" "mc_extensions mc"] assms(2) by auto
  then show ?thesis
    using proposals_ok_distinct_ids False
    by (cases "foldl (propose_parameter ty dir) ([], mc) (mc_extensions mc)")
       (auto simp: get_mut_rtp_parameters_by_kind_def)
qed

theorem recorded_proposals_distinct_witness:
  "map hx_id (rp_header_extensions
     (fst (get_mut_rtp_parameters_by_kind two_extensions KindAudio Sendrecv))) = [1, 2] \<and>
   distinct (map hx_id (rp_header_extensions
     (fst (get_mut_rtp_parameters_by_kind two_extensions KindAudio Sendrecv))))"
proof
  show "map hx_id (rp_header_extensions
     (fst (get_mut_rtp_parameters_by_kind two_extensions KindAudio Sendrecv))) = [1, 2]"
    by code_simp
  show "distinct (map hx_id (rp_header_extensions
     (fst (get_mut_rtp_parameters_by_kind two_extensions KindAudio Sendrecv))))"
    by (rule recorded_proposals_distinct) (simp_all add: ids_disjoint_def two_extensions_simps)
qed


text \<open>C28: The variant \<open>add_transceiver_sdp\<close> uses does not record what it proposes: before anything
  is negotiated or proposed, every header extension of every transceiver is offered with the same
  identifier 1, so two registered extensions collide.\<close>

theorem unrecorded_proposals_collide:
  assumes "mc_negotiated mc = []" and "mc_proposed mc = []"
  shows "map hx_id (rp_header_extensions (get_rtp_parameters_by_kind mc ty dir)) =
         (if kind_negotiated mc ty then []
          else replicate (length (filter (\<lambda>e. is_matching_direction e dir \<and> extension_for_kind e ty)
                            (mc_extensions mc))) 1)"
proof -
  have u: "unused_ext_id mc = Some 1"
    using assms by (simp add: unused_ext_id_def valid_ext_ids_def hm_contains_def upto_rec1)
  have "map hx_id (concat (map (proposed_parameter mc ty dir) es)) =
      replicate (length (filter (\<lambda>e. is_matching_direction e dir \<and> extension_for_kind e ty) es)) 1" for es
    using assms u by (induction es) (simp_all add: proposed_parameter_def)
  then show ?thesis
    using assms(1) by (simp add: get_rtp_parameters_by_kind_def negotiated_parameters_def)
qed

theorem unrecorded_proposals_collide_witness:
  "map hx_id (rp_header_extensions (get_rtp_parameters_by_kind two_extensions KindAudio Sendrecv)) = [1, 1]"
  using unrecorded_proposals_collide [OF two_extensions_simps(1,2), of KindAudio Sendrecv]
  by (simp add: two_extensions_simps numeral_2_eq_2 del: is_matching_direction.simps)


end
