(* ===== verification/Sdp_Facts.thy ===== *)
theory Sdp_Facts
  imports Sdp_Build
begin

text \<open>
  What a built description says to the readers of \<open>Sdp_Types\<close>: its media sections carry the
  identifiers asked for, in order, the bundle group lists them, only the first has a candidate,
  and the direction is the negotiated one.
\<close>

section \<open>Observing a media section\<close>

definition mid_attr :: "media_description \<Rightarrow> string option option" where
  "mid_attr m = first_attr (\<lambda>a. if a_key a = ''mid'' then Some (a_value a) else None) (md_attributes m)"

definition dir_attr :: "media_description \<Rightarrow> direction option" where
  "dir_attr m =
     first_attr (\<lambda>a. let d = direction_of_str (a_key a)
                     in if d \<noteq> DirUnspecified then Some d else None) (md_attributes m)"

definition has_candidate :: "media_description \<Rightarrow> bool" where
  "has_candidate m \<longleftrightarrow> (\<exists>a \<in> set (md_attributes m). a_key a = ''candidate'')"

definition has_value :: "string \<Rightarrow> media_description \<Rightarrow> bool" where
  "has_value v m \<longleftrightarrow> (\<exists>a \<in> set (md_attributes m). a_value a = Some v)"

definition extends :: "media_description \<Rightarrow> media_description \<Rightarrow> bool" where
  "extends m m' \<longleftrightarrow>
     (\<exists>as. md_attributes m' = md_attributes m @ as \<and> (\<forall>a \<in> set as. inert_key (a_key a)) \<and>
           md_media m' = md_media m)"

named_theorems inert_steps

lemma extends_refl [simp]: "extends m m"
  by (simp add: extends_def)

lemma extends_trans [trans]: "extends a b \<Longrightarrow> extends b c \<Longrightarrow> extends a c"
  by (auto simp: extends_def)

lemma extends_foldl: "(\<And>m x. extends m (f m x)) \<Longrightarrow> extends m (foldl f m xs)"
  by (induction xs arbitrary: m) (auto intro: extends_trans)

lemma appends_extends: "appends inert_key f \<Longrightarrow> extends m (f m)"
  by (auto simp: appends_def extends_def)

lemma extends_value: "sdp_laws L \<Longrightarrow> inert_key k \<Longrightarrow> extends m (sl_value_attribute L k v m)"
  by (simp add: sdp_laws_def extends_def)

lemma extends_property: "sdp_laws L \<Longrightarrow> inert_key k \<Longrightarrow> extends m (sl_property_attribute L k m)"
  by (simp add: sdp_laws_def extends_def)

lemma extends_lib:
  assumes "sdp_laws L"
  shows "extends m (sl_ice_credentials L u p m)" "extends m (sl_fingerprint L al v m)"
    "extends m (sl_codec L pt n r c f m)" "extends m (sl_extmap L e m)"
    "extends m (sl_media_source L s cn i t m)"
  using assms by (auto simp: sdp_laws_def intro: appends_extends)

lemma extends_observe:
  assumes "extends m m'"
  shows "mid_attr m' = mid_attr m" "dir_attr m' = dir_attr m" "has_candidate m' = has_candidate m"
    "md_media m' = md_media m" "has_value v m \<Longrightarrow> has_value v m'"
proof -
  obtain as where as: "md_attributes m' = md_attributes m @ as" "\<forall>a \<in> set as. inert_key (a_key a)"
    "md_media m' = md_media m" using assms by (auto simp: extends_def)
  have "first_attr (\<lambda>a. if a_key a = ''mid'' then Some (a_value a) else None) as = None"
    using as(2) by (auto simp: first_attr_None inert_key_def)
  then show "mid_attr m' = mid_attr m" by (simp add: mid_attr_def as first_attr_append split: option.splits)
  have "first_attr (\<lambda>a. let d = direction_of_str (a_key a)
                     in if d \<noteq> DirUnspecified then Some d else None) as = None"
    using as(2) by (auto simp: first_attr_None inert_key_def Let_def)
  then show "dir_attr m' = dir_attr m" by (simp add: dir_attr_def as first_attr_append split: option.splits)
  show "has_candidate m' = has_candidate m" using as by (auto simp: has_candidate_def inert_key_def)
  show "md_media m' = md_media m" by (rule as(3))
  show "has_value v m \<Longrightarrow> has_value v m'" by (auto simp: has_value_def as)
qed

lemma inert_literals [simp]:
  "inert_key ''rtcp-fb''" "inert_key ''rid''" "inert_key ''simulcast''" "inert_key ''sctp-port''"
  "inert_key ''max-message-size''" "inert_key ''end-of-candidates''" "inert_key ''Unspecified''"
  "inert_key (CHR ''m'' # CHR ''s'' # s)" "inert_key (CHR ''s'' # CHR ''s'' # s)"
  "direction_of_str unspecified_str = DirUnspecified"
  by (simp_all add: inert_key_def direction_of_str_def unspecified_str_def)

lemma laws_keys:
  assumes "sdp_laws L"
  shows "sl_key_mid L = ''mid''" "inert_key (sl_key_setup L)" "inert_key (sl_key_rtcpmux L)"
    "inert_key (sl_key_rtcprsize L)"
  using assms by (simp_all add: sdp_laws_def)

lemma observe_mid_step:
  assumes "sdp_laws L"
  shows "mid_attr (sl_value_attribute L ''mid'' v m) = (case mid_attr m of Some x \<Rightarrow> Some x | None \<Rightarrow> Some (Some v))"
    "dir_attr (sl_value_attribute L ''mid'' v m) = dir_attr m"
    "has_candidate (sl_value_attribute L ''mid'' v m) = has_candidate m"
    "md_media (sl_value_attribute L ''mid'' v m) = md_media m"
  using assms
  by (auto simp: sdp_laws_def mid_attr_def dir_attr_def has_candidate_def first_attr_append
      direction_of_str_def Let_def split: option.splits)

lemma observe_direction_step:
  assumes "sdp_laws L"
  shows "mid_attr (sl_property_attribute L (direction_str d) m) = mid_attr m"
    "dir_attr (sl_property_attribute L (direction_str d) m) =
       (case dir_attr m of Some x \<Rightarrow> Some x | None \<Rightarrow> if d = DirUnspecified then None else Some d)"
    "has_candidate (sl_property_attribute L (direction_str d) m) = has_candidate m"
    "md_media (sl_property_attribute L (direction_str d) m) = md_media m"
    "has_value v m \<Longrightarrow> has_value v (sl_property_attribute L (direction_str d) m)"
proof -
  have a: "md_attributes (sl_property_attribute L (direction_str d) m) =
      md_attributes m @ [\<lparr>a_key = direction_str d, a_value = None\<rparr>]"
    "md_media (sl_property_attribute L (direction_str d) m) = md_media m"
    using assms by (simp_all add: sdp_laws_def)
  have k: "direction_str d \<noteq> ''mid''" "direction_str d \<noteq> ''candidate''"
    by (cases d; simp add: unspecified_str_def)+
  show "mid_attr (sl_property_attribute L (direction_str d) m) = mid_attr m"
    by (simp add: mid_attr_def a first_attr_append k split: option.splits)
  show "dir_attr (sl_property_attribute L (direction_str d) m) =
       (case dir_attr m of Some x \<Rightarrow> Some x | None \<Rightarrow> if d = DirUnspecified then None else Some d)"
    by (simp add: dir_attr_def a first_attr_append Let_def split: option.splits)
  show "has_candidate (sl_property_attribute L (direction_str d) m) = has_candidate m"
    by (simp add: has_candidate_def a k)
  show "md_media (sl_property_attribute L (direction_str d) m) = md_media m" by (rule a)
  show "has_value v m \<Longrightarrow> has_value v (sl_property_attribute L (direction_str d) m)"
    by (auto simp: has_value_def a)
qed

section \<open>Steps of the builders\<close>

lemma extends_fingerprints: "sdp_laws L \<Longrightarrow> extends m (add_fingerprints L fps m)"
  unfolding add_fingerprints_def by (rule extends_foldl) (rule extends_lib)

lemma extends_codecs:
  assumes "sdp_laws L"
  shows "extends m (foldl (add_codec_to_media L) m cs)"
proof (rule extends_foldl)
  fix m c
  show "extends m (add_codec_to_media L m c)"
    unfolding add_codec_to_media_def
    by (rule extends_trans [OF extends_lib(3) [OF assms] extends_foldl]) (rule extends_value [OF assms], simp)
qed

lemma extends_extmaps: "sdp_laws L \<Longrightarrow> add_extmaps L xs m = Inr m' \<Longrightarrow> extends m m'"
proof (induction xs arbitrary: m)
  case (Cons x xs)
  then obtain u where "add_extmaps L xs (sl_extmap L \<lparr>em_value = hx_id x, em_uri = Some u\<rparr> m) = Inr m'"
    by (auto simp: result_simps)
  from Cons.IH [OF Cons.prems(1) this] show ?case
    by (rule extends_trans [OF extends_lib(4) [OF Cons.prems(1)]])
qed simp

lemma extends_rids:
  assumes "sdp_laws L"
  shows "extends m (add_rids L rids m)"
proof -
  have "extends m (foldl (\<lambda>m r. sl_value_attribute L ''rid'' (r @ '' recv'') m) m (map fst rids))"
    by (rule extends_foldl) (rule extends_value [OF assms], simp)
  then show ?thesis
    unfolding add_rids_def using extends_trans extends_value [OF assms, of "''simulcast''"] by auto
qed

lemma extends_sender:
  assumes "sdp_laws L"
  shows "extends m (add_sender L s m)"
  unfolding add_sender_def Let_def
  by (rule extends_trans [OF extends_trans [OF extends_property [OF assms] extends_foldl] extends_foldl])
     (simp_all add: extends_property extends_lib assms)

lemma candidate_step:
  assumes "sdp_laws L"
  shows "mid_attr (add_candidate_to_media_descriptions L c m g) = mid_attr m"
    "dir_attr (add_candidate_to_media_descriptions L c m g) = dir_attr m"
    "md_media (add_candidate_to_media_descriptions L c m g) = md_media m"
    "has_value (candidate_value c 1) (add_candidate_to_media_descriptions L c m g)"
proof -
  let ?m = "append_candidate_if_new L c 1 m"
  have v: "md_attributes (sl_value_attribute L k v m) = md_attributes m @ [\<lparr>a_key = k, a_value = Some v\<rparr>]"
    "md_media (sl_value_attribute L k v m) = md_media m" for k v m
    using assms by (simp_all add: sdp_laws_def)
  have one: "mid_attr ?m = mid_attr m" "dir_attr ?m = dir_attr m" "md_media ?m = md_media m"
    "has_value (candidate_value c 1) ?m"
    by (auto simp: append_candidate_if_new_def mid_attr_def dir_attr_def v has_value_def
        first_attr_append direction_of_str_def Let_def split: option.splits)
  have two: "extends ?m (add_candidate_to_media_descriptions L c m g)"
    by (simp add: add_candidate_to_media_descriptions_def Let_def extends_property [OF assms])
  show "mid_attr (add_candidate_to_media_descriptions L c m g) = mid_attr m"
    "dir_attr (add_candidate_to_media_descriptions L c m g) = dir_attr m"
    "md_media (add_candidate_to_media_descriptions L c m g) = md_media m"
    "has_value (candidate_value c 1) (add_candidate_to_media_descriptions L c m g)"
    using extends_observe [OF two] one by simp_all
qed

section \<open>Sections and the whole description\<close>

lemma fresh_media [simp]:
  "mid_attr data_media_base = None" "dir_attr data_media_base = None" "\<not> has_candidate data_media_base"
  "md_media data_media_base = media_section_application"
  by (simp_all add: mid_attr_def dir_attr_def has_candidate_def data_media_base_def)

lemma fresh_jsep_media:
  assumes "sdp_laws L"
  shows "mid_attr (sl_new_media L k) = None" "dir_attr (sl_new_media L k) = None"
    "\<not> has_candidate (sl_new_media L k)" "md_media (sl_new_media L k) = k"
  using assms by (simp_all add: sdp_laws_def mid_attr_def dir_attr_def has_candidate_def)

lemmas inert_observed =
  extends_observe(1-4) [OF extends_value] extends_observe(1-4) [OF extends_property]
  extends_observe(1-4) [OF extends_lib(1)] extends_observe(1-4) [OF extends_fingerprints]

lemma data_media_observed:
  assumes "sdp_laws L"
  shows "mid_attr (data_media L fps bc add v ice role g) = Some (Some v)"
    "dir_attr (data_media L fps bc add v ice role g) = Some Sendrecv"
    "\<not> add \<Longrightarrow> \<not> has_candidate (data_media L fps bc add v ice role g)"
    "add \<Longrightarrow> has_value (candidate_value (bc_local_addr bc) 1) (data_media L fps bc add v ice role g)"
    "md_media (data_media L fps bc add v ice role g) = media_section_application"
  unfolding data_media_def Let_def
  by (simp_all add: inert_observed observe_mid_step observe_direction_step candidate_step
      laws_keys assms del: direction_str.simps)

lemma transceiver_base_observed:
  assumes "sdp_laws L"
  shows "mid_attr (transceiver_base L fps ice bc t add v role g) = Some (Some v)"
    "dir_attr (transceiver_base L fps ice bc t add v role g) = None"
    "\<not> add \<Longrightarrow> \<not> has_candidate (transceiver_base L fps ice bc t add v role g)"
    "add \<Longrightarrow> has_value (candidate_value (bc_local_addr bc) 1)
               (transceiver_base L fps ice bc t add v role g)"
    "md_media (transceiver_base L fps ice bc t add v role g) = codec_type_str (tr_kind t)"
  unfolding transceiver_base_def Let_def
  by (simp_all add: inert_observed observe_mid_step fresh_jsep_media candidate_step
      laws_keys assms)

lemma transceiver_media_observed:
  assumes L: "sdp_laws L" and m: "transceiver_media L fps ice bc ms t add v role g offered = Inr m"
  shows "mid_attr m = Some (Some v)"
    "get_peer_direction m = answer_direction offered (tr_direction t)"
    "\<not> add \<Longrightarrow> \<not> has_candidate m"
    "add \<Longrightarrow> has_value (candidate_value (bc_local_addr bc) 1) m"
    "md_media m = codec_type_str (tr_kind t)"
proof -
  let ?b = "transceiver_base L fps ice bc t add v role g"
  let ?d = "answer_direction offered (tr_direction t)"
  let ?xs = "rp_header_extensions (get_rtp_parameters_by_kind (bc_media_config bc) (tr_kind t) (tr_direction t))"
  let ?m2 = "foldl (add_codec_to_media L) ?b (get_codecs_by_kind (tr_kind t) (bc_media_config bc))"
  obtain m3 m5 where x: "add_extmaps L ?xs ?m2 = Inr m3"
    and m5: "m5 = sl_property_attribute L (direction_str ?d) (add_rids L (ms_rid_map ms) m3)"
    and rest: "(if ?d = Sendonly then
              (case tr_sender t of
                 Some s \<Rightarrow> Inr (add_sender L s m5)
               | None \<Rightarrow> Inl (Other ''Sendonly transceiver doesn't have sender set'' []))
            else Inr m5) = (Inr m :: media_description res)"
    using m unfolding transceiver_media_def Let_def and_then_eq by blast
  have m3: "extends ?b m3"
    by (rule extends_trans [OF extends_codecs [OF L] extends_extmaps [OF L x]])
  have e: "extends m5 m"
    using rest extends_sender [OF L] by (auto split: if_splits option.splits)
  have r: "extends ?b (add_rids L (ms_rid_map ms) m3)"
    by (rule extends_trans [OF m3 extends_rids [OF L]])
  note o = extends_observe [OF e] extends_observe [OF r] transceiver_base_observed [OF L]
    observe_direction_step [OF L]
  show "mid_attr m = Some (Some v)" "\<not> add \<Longrightarrow> \<not> has_candidate m"
    "md_media m = codec_type_str (tr_kind t)"
    by (simp_all add: o m5)
  show "add \<Longrightarrow> has_value (candidate_value (bc_local_addr bc) 1) m"
    by (intro o(5)) (simp add: m5 o)
  have "dir_attr m = (if ?d = DirUnspecified then None else Some ?d)"
    by (simp add: o m5)
  then show "get_peer_direction m = ?d"
    by (auto simp: get_peer_direction_def dir_attr_def [symmetric])
qed

text \<open>What is known of the media section built for one entry of the section list.\<close>

definition section_built ::
  "build_config \<Rightarrow> (mid, transceiver) hmap \<Rightarrow> nat \<Rightarrow> media_section \<Rightarrow> media_description \<Rightarrow> bool" where
  "section_built bc ts i ms m \<longleftrightarrow>
     get_mid_value m = Some (ms_mid ms) \<and>
     (if i = 0 then has_value (candidate_value (bc_local_addr bc) 1) m else \<not> has_candidate m) \<and>
     (if ms_data ms then md_media m = media_section_application \<and> hm_get ts (ms_mid ms) = None
      else \<exists>t. hm_get ts (ms_mid ms) = Some t \<and> md_media m = codec_type_str (tr_kind t) \<and>
               get_peer_direction m = answer_direction (ms_offered_direction ms) (tr_direction t))"

lemma get_mid_value_attr: "mid_attr m = Some x \<Longrightarrow> get_mid_value m = x"
  by (simp add: get_mid_value_def mid_attr_def)

lemma populate_section_built:
  assumes L: "sdp_laws L"
    and r: "populate_section L fps bc ice role ts i d grp ms = Inr (d', grp')"
  shows "\<exists>m. sd_media_descriptions d' = sd_media_descriptions d @ [m] \<and> section_built bc ts i ms m \<and>
             grp' = grp @ '' '' @ ms_mid ms"
proof -
  have w: "sd_media_descriptions (sl_with_media L m d) = sd_media_descriptions d @ [m]" for m d
    using L by (simp add: sdp_laws_def)
  show ?thesis
  proof (cases "ms_data ms")
    case True
    then have "hm_get ts (ms_mid ms) = None" "grp' = grp @ '' '' @ ms_mid ms"
      "d' = sl_with_media L (data_media L fps bc (i = 0) (ms_mid ms) ice role GatherComplete) d"
      using r by (auto simp: populate_section_def Let_def add_data_media_section_def split: if_splits)
    then show ?thesis
      using True
      by (intro exI [of _ "data_media L fps bc (i = 0) (ms_mid ms) ice role GatherComplete"])
         (simp add: w section_built_def get_mid_value_attr data_media_observed [OF L])
  next
    case False
    then obtain t m where t: "hm_get ts (ms_mid ms) = Some t"
      and m: "transceiver_media L fps ice bc ms t (i = 0) (ms_mid ms) role GatherComplete
                (ms_offered_direction ms) = Inr m"
      and d': "d' = sl_with_media L m d" "grp' = grp @ '' '' @ ms_mid ms"
      using r by (auto simp: populate_section_def Let_def add_transceiver_sdp_def result_simps)
    then show ?thesis
      using transceiver_media_observed [OF L m] False
      by (auto simp: w section_built_def intro!: get_mid_value_attr)
  qed
qed

lemma populate_sections_built:
  assumes "sdp_laws L"
    and "populate_sections L fps bc ice role ts i d grp secs = Inr (d', grp')"
  shows "\<exists>ms. sd_media_descriptions d' = sd_media_descriptions d @ ms \<and>
              length ms = length secs \<and>
              (\<forall>j < length secs. section_built bc ts (i + j) (secs ! j) (ms ! j)) \<and>
              grp' = grp @ concat (map (\<lambda>s. '' '' @ ms_mid s) secs)"
  using assms(2)
proof (induction secs arbitrary: i d grp)
  case (Cons s ss)
  from Cons.prems obtain d1 b1 where
    one: "populate_section L fps bc ice role ts i d grp s = Inr (d1, b1)" and
    rest: "populate_sections L fps bc ice role ts (Suc i) d1 b1 ss = Inr (d', grp')"
    by (auto simp: result_simps)
  obtain m where m: "sd_media_descriptions d1 = sd_media_descriptions d @ [m]"
    "section_built bc ts i s m" "b1 = grp @ '' '' @ ms_mid s"
    using populate_section_built [OF assms(1) one] by blast
  obtain ms where ms: "sd_media_descriptions d' = sd_media_descriptions d1 @ ms"
    "length ms = length ss" "\<forall>j < length ss. section_built bc ts (Suc i + j) (ss ! j) (ms ! j)"
    "grp' = b1 @ concat (map (\<lambda>s. '' '' @ ms_mid s) ss)"
    using Cons.IH [OF rest] by blast
  have "section_built bc ts (i + j) ((s # ss) ! j) ((m # ms) ! j)" if "j < length (s # ss)" for j
    using that m(2) ms(3) by (cases j) auto
  then show ?case using m ms by (intro exI [of _ "m # ms"]) simp
qed simp

lemma populate_sdp_built:
  assumes L: "sdp_laws L"
    and "populate_sdp L (sl_new_session L b) fps bc ice role secs ts media_fp = Inr d"
  shows "length (sd_media_descriptions d) = length secs \<and>
         (\<forall>i < length secs. section_built bc ts i (secs ! i) (sd_media_descriptions d ! i)) \<and>
         \<lparr>a_key = sl_key_group L, a_value = Some (''BUNDLE'' @ concat (map (\<lambda>s. '' '' @ ms_mid s) secs))\<rparr>
           \<in> set (sd_attributes d)"
proof -
  obtain d1 grp where p: "populate_sections L (if media_fp then fps else []) bc ice role ts 0
      (sl_new_session L b) ''BUNDLE'' secs = Inr (d1, grp)"
    and d: "d = sl_session_value L (sl_key_group L) grp
              (sl_session_property L (sl_key_icelite L)
                (if media_fp then d1
                 else foldl (\<lambda>d f. sl_session_fingerprint L (fp_algorithm f) (to_uppercase (fp_value f)) d) d1 fps))"
    using assms(2) by (auto simp: populate_sdp_def result_simps)
  have f: "sd_media_descriptions
      (foldl (\<lambda>d f. sl_session_fingerprint L (fp_algorithm f) (to_uppercase (fp_value f)) d) d1 fps)
      = sd_media_descriptions d1" for d1
    using L by (induction fps arbitrary: d1) (simp_all add: sdp_laws_def)
  have "sd_media_descriptions d = sd_media_descriptions d1"
    and "\<lparr>a_key = sl_key_group L, a_value = Some grp\<rparr> \<in> set (sd_attributes d)"
    using L by (simp_all add: d f sdp_laws_def)
  moreover have "sd_media_descriptions (sl_new_session L b) = []"
    using L by (simp add: sdp_laws_def)
  ultimately show ?thesis
    using populate_sections_built [OF L p] by auto
qed


end
