(* ===== verification/Session_Facts.thy ===== *)
theory Session_Facts
  imports Server_States Sdp_Facts
begin

text \<open>
  The invariant of the server states and its preservation by every operation of \<open>Session\<close> and
  \<open>Server_States\<close>; the algebra of peer identifiers.
\<close>

section \<open>Entries of a table\<close>

definition hm_all :: "('k \<Rightarrow> 'v \<Rightarrow> bool) \<Rightarrow> ('k, 'v) hmap \<Rightarrow> bool" where
  "hm_all P m \<longleftrightarrow> (\<forall>k v. (k, v) \<in> set m \<longrightarrow> P k v)"

lemma hm_all_Nil [simp]: "hm_all P []"
  by (simp add: hm_all_def)

lemma hm_all_get: "hm_all P m \<Longrightarrow> hm_get m k = Some v \<Longrightarrow> P k v"
  by (auto simp: hm_all_def dest: hm_get_in_set)

lemma hm_insert_set: "set (hm_insert k v m) \<subseteq> insert (k, v) (set m)"
  unfolding hm_insert_def by (induction m) auto

lemma hm_all_insert: "hm_all P m \<Longrightarrow> P k v \<Longrightarrow> hm_all P (hm_insert k v m)"
  using hm_insert_set [of k v m] by (auto simp: hm_all_def)

lemma hm_all_remove: "hm_all P m \<Longrightarrow> hm_all P (hm_remove k m)"
  by (auto simp: hm_all_def hm_remove_set)

lemma hm_all_modify:
  "hm_all P m \<Longrightarrow> (\<And>v. P k v \<Longrightarrow> P k (f v)) \<Longrightarrow> hm_all P (hm_modify k f m)"
  by (auto simp: hm_all_def hm_modify_def)

lemma hm_all_map_values:
  "hm_all P m \<Longrightarrow> (\<And>k v. P k v \<Longrightarrow> P k (f k v)) \<Longrightarrow> hm_all P (hm_map_values f m)"
  by (auto simp: hm_all_def hm_map_values_def)

section \<open>Peer identifiers\<close>

lemma peer_mid_inject [simp]: "peer_mid a v = peer_mid b w \<longleftrightarrow> a = b \<and> v = w"
proof
  assume eq: "peer_mid a v = peer_mid b w"
  have dash: "CHR ''-'' \<notin> set (dec n)" for n
    using dec_digits dash_not_digit by blast
  have "dec (unat a) = dec (unat b) \<and> v = w"
    by (rule take_append_prefix_inject [OF dash dash]) (use eq in \<open>simp add: peer_mid_def\<close>)
  then show "a = b \<and> v = w" by (simp add: word_unat_eq_iff)
qed simp

section \<open>The invariant\<close>

definition transceivers_ok :: "('x, 'f) endpoint \<Rightarrow> bool" where
  "transceivers_ok ep \<longleftrightarrow>
     hm_wf (ep_transceivers ep) \<and> hm_all (\<lambda>v t. tr_mid t = v) (ep_transceivers ep) \<and>
     set (ep_mids ep) = fst ` set (ep_transceivers ep)"

definition transports_ok :: "session_id \<Rightarrow> endpoint_id \<Rightarrow> ('x, 'f) endpoint \<Rightarrow> bool" where
  "transports_ok sid eid ep \<longleftrightarrow>
     hm_wf (ep_transports ep) \<and> ep_transports ep \<noteq> [] \<and>
     hm_all (\<lambda>ft t. tp_four_tuple t = ft \<and> cd_session_id (tp_candidate t) = sid \<and>
                    cd_endpoint_id (tp_candidate t) = eid) (ep_transports ep)"

definition endpoint_ok :: "session_id \<Rightarrow> endpoint_id \<Rightarrow> ('x, 'f) endpoint \<Rightarrow> bool" where
  "endpoint_ok sid eid ep \<longleftrightarrow> ep_id ep = eid \<and> transports_ok sid eid ep \<and> transceivers_ok ep"

definition session_ok :: "'x session_config \<Rightarrow> session_id \<Rightarrow> ('x, 'f) session \<Rightarrow> bool" where
  "session_ok cfg sid s \<longleftrightarrow>
     ss_config s = cfg \<and> ss_id s = sid \<and> hm_wf (ss_endpoints s) \<and>
     hm_all (endpoint_ok sid) (ss_endpoints s)"

definition states_config :: "('x, 'f) server_states \<Rightarrow> 'x session_config" where
  "states_config st = \<lparr>scf_server_config = st_server_config st, scf_local_addr = st_local_addr st\<rparr>"

definition states_ok :: "('x, 'f) server_states \<Rightarrow> bool" where
  "states_ok st \<longleftrightarrow>
     svc_certificates (st_server_config st) \<noteq> [] \<and>
     hm_wf (st_sessions st) \<and> hm_all (session_ok (states_config st)) (st_sessions st) \<and>
     hm_wf (st_candidates st) \<and> hm_all (\<lambda>u c. candidate_username c = u) (st_candidates st) \<and>
     hm_wf (st_endpoints st)"

lemma states_okD:
  assumes "states_ok st"
  shows "hm_wf (st_sessions st)" "hm_wf (st_candidates st)" "hm_wf (st_endpoints st)"
    "hm_get (st_sessions st) sid = Some s \<Longrightarrow> session_ok (states_config st) sid s"
  using assms by (auto simp: states_ok_def dest: hm_all_get)

lemma session_okD:
  assumes "session_ok cfg sid s"
  shows "hm_wf (ss_endpoints s)" "ss_config s = cfg" "ss_id s = sid"
    "hm_get (ss_endpoints s) eid = Some ep \<Longrightarrow> endpoint_ok sid eid ep"
  using assms by (auto simp: session_ok_def dest: hm_all_get)

section \<open>Endpoints\<close>

lemma add_transceiver_ok: "transceivers_ok ep \<Longrightarrow> transceivers_ok (add_transceiver t ep)"
proof -
  have "fst ` set (hm_insert k v m) = insert k (fst ` set m)" for k :: mid and v :: transceiver and m
    by (simp add: hm_insert_def dom_update [symmetric] dom_map_of_conv_image_fst [symmetric] update_conv')
  then show "transceivers_ok ep \<Longrightarrow> transceivers_ok (add_transceiver t ep)"
    by (auto simp: transceivers_ok_def add_transceiver_def intro: hm_all_insert)
qed

lemma modify_transceiver_ok:
  "(\<And>t. tr_mid (f t) = tr_mid t) \<Longrightarrow> transceivers_ok ep \<Longrightarrow>
   transceivers_ok (ep\<lparr>ep_transceivers := hm_modify v f (ep_transceivers ep)\<rparr>)"
proof -
  assume f: "\<And>t. tr_mid (f t) = tr_mid t" and ok: "transceivers_ok ep"
  have "fst ` set (hm_modify v f m) = fst ` set m" for m
    by (metis hm_modify_keys set_map)
  then show ?thesis using f ok by (auto simp: transceivers_ok_def intro: hm_all_modify)
qed

lemma endpoint_ok_flag [simp]:
  "endpoint_ok sid eid (ep\<lparr>ep_renegotiation_needed := b\<rparr>) = endpoint_ok sid eid ep"
  by (simp add: endpoint_ok_def transports_ok_def transceivers_ok_def)

lemma endpoint_ok_add_transceiver:
  "endpoint_ok sid eid ep \<Longrightarrow> endpoint_ok sid eid (add_transceiver t ep)"
  using add_transceiver_ok [of ep t]
  by (simp add: endpoint_ok_def transports_ok_def) (simp add: add_transceiver_def)

lemma endpoint_ok_modify_transceiver:
  "(\<And>t. tr_mid (f t) = tr_mid t) \<Longrightarrow> endpoint_ok sid eid ep \<Longrightarrow>
   endpoint_ok sid eid (ep\<lparr>ep_transceivers := hm_modify v f (ep_transceivers ep)\<rparr>)"
  using modify_transceiver_ok [of f ep v]
  by (simp add: endpoint_ok_def transports_ok_def)

lemma share_transceiver_ok:
  assumes "endpoint_ok sid oid ep"
  shows "endpoint_ok sid oid (share_transceiver eid v kind dir sender params ep)"
  using assms
  by (auto simp: share_transceiver_def Let_def intro!: endpoint_ok_add_transceiver
      endpoint_ok_modify_transceiver split: option.splits)

lemma endpoint_ok_add_transport:
  "endpoint_ok sid eid ep \<Longrightarrow> cd_session_id c = sid \<Longrightarrow> cd_endpoint_id c = eid \<Longrightarrow>
   endpoint_ok sid eid (add_transport (transport_new cfg now ft c) ep)"
  by (auto simp: endpoint_ok_def transports_ok_def transceivers_ok_def add_transport_def transport_new_def
      hm_empty_iff intro!: hm_all_insert)

lemma endpoint_ok_new:
  "cd_session_id c = sid \<Longrightarrow> cd_endpoint_id c = eid \<Longrightarrow>
   endpoint_ok sid eid ((add_transport (transport_new cfg now ft c) (endpoint_new eid i))
     \<lparr>ep_local_description := l, ep_remote_description := r\<rparr>)"
  by (auto simp: endpoint_ok_def transports_ok_def transceivers_ok_def add_transport_def transport_new_def
      endpoint_new_def hm_empty_iff intro!: hm_all_insert)

lemma endpoint_ok_modify_transport:
  assumes "endpoint_ok sid eid ep"
    and "\<And>t. tp_four_tuple (f t) = tp_four_tuple t" and "\<And>t. tp_candidate (f t) = tp_candidate t"
  shows "endpoint_ok sid eid (modify_transport ft f ep)"
proof -
  have "hm_modify ft f m \<noteq> []" if "m \<noteq> []" for m
    using that by (simp add: hm_modify_def)
  then show ?thesis
    using assms by (auto simp: endpoint_ok_def transports_ok_def transceivers_ok_def modify_transport_def
        intro!: hm_all_modify)
qed

section \<open>Sessions\<close>

lemma session_ok_modify:
  "session_ok cfg sid s \<Longrightarrow> (\<And>ep. endpoint_ok sid eid ep \<Longrightarrow> endpoint_ok sid eid (f ep)) \<Longrightarrow>
   session_ok cfg sid (s\<lparr>ss_endpoints := hm_modify eid f (ss_endpoints s)\<rparr>)"
  by (simp add: session_ok_def hm_all_modify)

lemma session_add_endpoint_ok:
  "session_ok cfg (cd_session_id c) s \<Longrightarrow> session_ok cfg (cd_session_id c) (snd (session_add_endpoint now c tc s))"
  by (auto simp: session_add_endpoint_def Let_def session_ok_def split: option.splits
      intro!: hm_all_modify hm_all_insert endpoint_ok_add_transport endpoint_ok_new)

lemma set_endpoint_direction_ok:
  assumes "session_ok cfg sid s"
  shows "session_ok cfg sid (set_endpoint_direction eid v d s)"
  using assms unfolding set_endpoint_direction_def
  by (intro session_ok_modify endpoint_ok_modify_transceiver) (simp_all add: set_current_direction_def)

lemma offered_media_ok:
  assumes "session_ok cfg sid s"
  shows "session_ok cfg sid (snd (offered_media L eid m kind dir v s))"
  using assms unfolding offered_media_def Let_def
  by (auto simp: session_ok_def split: option.splits sum.splits
      intro!: hm_all_map_values hm_all_modify endpoint_ok_add_transceiver share_transceiver_ok)

lemma remote_media_ok:
  "session_ok cfg sid s \<Longrightarrow> session_ok cfg sid (snd (remote_media L eid we_offer ms s))"
proof (induction L eid we_offer ms s rule: remote_media.induct)
  case (2 L eid we_offer m ms s)
  show ?case
  proof (cases "media_target m")
    case (Inr x)
    show ?thesis
    proof (cases x)
      case (Some y)
      obtain kind dir v where y: "y = (kind, dir, v)" by (cases y)
      show ?thesis
      proof (cases we_offer)
        case True
        then show ?thesis
          using "2.IH"(2) "2.prems" Inr Some y by (simp add: set_endpoint_direction_ok)
      next
        case False
        obtain r s' where o: "offered_media L eid m kind dir v s = (r, s')" by (cases "offered_media L eid m kind dir v s")
        have "session_ok cfg sid s'" using offered_media_ok [OF "2.prems", of L eid m kind dir v] o by simp
        then show ?thesis
          using "2.IH"(3) Inr Some y False o by (cases r) auto
      qed
    qed (use 2 Inr in simp)
  qed (use 2 in simp)
qed simp

lemma set_remote_description_ok:
  "session_ok cfg sid s \<Longrightarrow> session_ok cfg sid (snd (set_remote_description L eid d s))"
  by (auto simp: set_remote_description_def remote_media_ok split: option.splits)

lemma local_media_ok: "session_ok cfg sid s \<Longrightarrow> session_ok cfg sid (snd (local_media eid ms s))"
  by (induction eid ms s rule: local_media.induct)
     (auto simp: set_endpoint_direction_ok split: sum.splits option.splits)

lemma set_local_description_ok:
  "session_ok cfg sid s \<Longrightarrow> session_ok cfg sid (snd (set_local_description eid d s))"
  by (auto simp: set_local_description_def local_media_ok split: option.splits)

section \<open>Server states\<close>

lemma put_session_ok:
  "states_ok st \<Longrightarrow> session_ok (states_config st) sid s \<Longrightarrow> states_ok (put_session sid s st)"
  by (simp add: states_ok_def put_session_def states_config_def hm_all_modify)

lemma create_or_get_session_ok:
  assumes "states_ok st" and "create_or_get_session sid st = (s, st')"
  shows "states_ok st'" "session_ok (states_config st') sid s" "states_config st' = states_config st"
  using assms
  by (auto simp: create_or_get_session_def Let_def states_ok_def states_config_def session_ok_def
      session_new_empty_def dest: hm_all_get split: option.splits intro!: hm_all_insert)

lemma add_candidate_ok: "states_ok st \<Longrightarrow> states_ok (add_candidate c st)"
  by (auto simp: states_ok_def add_candidate_def states_config_def intro: hm_all_insert)

lemma remove_candidate_ok: "states_ok st \<Longrightarrow> states_ok (remove_candidate u st)"
  by (auto simp: states_ok_def remove_candidate_def states_config_def intro: hm_all_remove)

lemma states_add_endpoint_ok: "states_ok st \<Longrightarrow> states_ok (states_add_endpoint ft sid eid st)"
  by (auto simp: states_ok_def states_add_endpoint_def states_config_def)

lemma states_remove_endpoint_ok: "states_ok st \<Longrightarrow> states_ok (states_remove_endpoint ft st)"
  by (auto simp: states_ok_def states_remove_endpoint_def states_config_def)

lemma remove_session_ok: "states_ok st \<Longrightarrow> states_ok (remove_session sid st)"
  by (auto simp: states_ok_def remove_session_def states_config_def intro: hm_all_remove)

lemma states_config_simps [simp]:
  "states_config (put_session sid s st) = states_config st"
  "states_config (add_candidate c st) = states_config st"
  "states_config (remove_candidate u st) = states_config st"
  "states_config (states_add_endpoint ft sid eid st) = states_config st"
  "states_config (states_remove_endpoint ft st) = states_config st"
  "states_config (remove_session sid st) = states_config st"
  "states_config (modify_endpoint sid eid f st) = states_config st"
  by (simp_all add: states_config_def put_session_def add_candidate_def remove_candidate_def
      states_add_endpoint_def states_remove_endpoint_def remove_session_def modify_endpoint_def)

lemma modify_endpoint_ok:
  assumes "states_ok st" and "\<And>ep. endpoint_ok sid eid ep \<Longrightarrow> endpoint_ok sid eid (f ep)"
  shows "states_ok (modify_endpoint sid eid f st)"
  using assms unfolding states_ok_def modify_endpoint_def states_config_def
  by (auto intro!: hm_all_modify session_ok_modify)

lemma accept_answer_ok: "states_ok st \<Longrightarrow> states_ok (snd (accept_answer E sid eid answer st))"
proof -
  assume ok: "states_ok st"
  obtain s st1 where c: "create_or_get_session sid st = (s, st1)" by (cases "create_or_get_session sid st")
  note c1 = create_or_get_session_ok [OF ok c]
  show ?thesis
  proof (cases "unmarshal (lib_sdp E) answer")
    case (Inr p)
    let ?r = "set_remote_description (lib_sdp E) eid (answer\<lparr>rd_parsed := Some p\<rparr>) s"
    have "session_ok (states_config st1) sid (snd ?r)"
      using c1 by (intro set_remote_description_ok) simp
    then show ?thesis
      using c c1 Inr by (cases ?r) (auto simp: accept_answer_def intro: put_session_ok)
  qed (simp add: accept_answer_def ok)
qed

lemma local_credentials_ok:
  "session_ok cfg sid s \<Longrightarrow> session_ok cfg sid (snd (local_credentials E fresh fps rc eid four offer s))"
  using set_remote_description_ok [of cfg sid s "lib_sdp E" eid offer]
  by (auto simp: local_credentials_def split: prod.splits sum.splits)

lemma accept_parsed_offer_ok:
  assumes "states_ok st"
  shows "states_ok (snd (accept_parsed_offer E fresh now sid eid four rc offer st))"
proof -
  obtain s st1 where c: "create_or_get_session sid st = (s, st1)" by (cases "create_or_get_session sid st")
  note c1 = create_or_get_session_ok [OF assms c]
  let ?fps = "first_fingerprints E (st_server_config st)"
  obtain r s1 where l: "local_credentials E fresh ?fps rc eid four offer s = (r, s1)"
    by (cases "local_credentials E fresh ?fps rc eid four offer s")
  have s1: "session_ok (states_config st1) sid s1"
    using local_credentials_ok [of "states_config st1" sid s E fresh ?fps rc eid four offer] c1 l by simp
  have p1: "states_ok (put_session sid s1 st1)" using c1 s1 by (simp add: put_session_ok)
  have p2: "states_ok (put_session sid (snd (set_local_description eid a s1)) st1)" for a
    using c1 s1 by (simp add: put_session_ok set_local_description_ok)
  show ?thesis
    using p1 p2 by (auto simp: accept_parsed_offer_def c l Let_def intro: add_candidate_ok
        split: sum.splits prod.splits) (metis snd_conv)+
qed

lemma accept_offer_ok:
  "states_ok st \<Longrightarrow> states_ok (snd (accept_offer E fresh now sid eid four offer st))"
  by (auto simp: accept_offer_def accept_parsed_offer_ok split: sum.splits)

lemma remove_transport_ok:
  assumes "states_ok st"
  shows "states_ok (remove_transport ft st)"
proof (cases "find_endpoint ft st")
  case (Some p)
  obtain sid eid where p: "p = (sid, eid)" by (cases p)
  show ?thesis
  proof (cases "hm_get (st_sessions st) sid")
    case s: (Some s)
    have sok: "session_ok (states_config st) sid s" using states_okD(4) [OF assms s] .
    show ?thesis
    proof (cases "hm_get (ss_endpoints s) eid")
      case e: (Some ep)
      have eok: "endpoint_ok sid eid ep" using session_okD(4) [OF sok e] .
      let ?ep' = "ep\<lparr>ep_transports := hm_remove ft (ep_transports ep)\<rparr>"
      have "endpoint_ok sid eid ?ep'" if "ep_transports ?ep' \<noteq> []"
        using eok that by (auto simp: endpoint_ok_def transports_ok_def transceivers_ok_def intro: hm_all_remove)
      then have keep: "session_ok (states_config st) sid (s\<lparr>ss_endpoints := hm_modify eid (\<lambda>_. ?ep') (ss_endpoints s)\<rparr>)"
        if "ep_transports ?ep' \<noteq> []"
        using sok that by (intro session_ok_modify) auto
      have drop: "session_ok (states_config st) sid (s\<lparr>ss_endpoints := hm_remove eid (ss_endpoints s)\<rparr>)"
        using sok by (simp add: session_ok_def hm_all_remove hm_wf_remove)
      show ?thesis
        using assms keep drop Some p s e
        by (auto simp: remove_transport_def endpoint_remove_transport_def Let_def
            intro!: remove_candidate_ok states_remove_endpoint_ok put_session_ok remove_session_ok
            split: option.splits)
    qed (use assms Some p s in \<open>simp add: remove_transport_def\<close>)
  qed (use assms Some p in \<open>simp add: remove_transport_def\<close>)
qed (use assms in \<open>simp add: remove_transport_def\<close>)

lemma server_states_new_ok: "server_states_new E cfg addr = Inr st \<Longrightarrow> states_ok st"
  by (auto simp: server_states_new_def states_ok_def split: list.splits)

end
