(* ===== verification/Sfu_Properties.thy ===== *)
theory Sfu_Properties
  imports Gateway_Facts
begin

text \<open>
  The properties of the selective forwarding unit: what a reachable server state looks like, who may
  change it, where media goes, how negotiation answers, and what a timeout removes.
\<close>

section \<open>Runs\<close>

text \<open>
  The server states change when a message reaches the gateway, when signaling accepts an offer or an
  answer, when the idle timer fires, and when an earlier stage of the pipeline updates a transport
  or an endpoint's interceptor.
\<close>

inductive sfu_step ::
  "sfu_lib \<Rightarrow> 'm stun_lib \<Rightarrow> json_lib \<Rightarrow> ('x, 'f) server_states \<Rightarrow> ('x, 'f) server_states \<Rightarrow> bool"
  for E S J where
  step_message: "gateway_handle_read E S J fresh clk msg gw st = (gw', st', err, au) \<Longrightarrow> sfu_step E S J st st'"
| step_offer: "accept_offer E fresh clk sid eid four offer st = (r, st') \<Longrightarrow> sfu_step E S J st st'"
| step_answer: "accept_answer E sid eid answer st = (r, st') \<Longrightarrow> sfu_step E S J st st'"
| step_timeout: "gateway_handle_timeout now (gw :: 'm gateway) st = (gw', st') \<Longrightarrow> sfu_step E S J st st'"
| step_transport: "(\<And>t. tp_four_tuple (f t) = tp_four_tuple t) \<Longrightarrow> (\<And>t. tp_candidate (f t) = tp_candidate t) \<Longrightarrow>
    with_transport ft f st = (r, st') \<Longrightarrow> sfu_step E S J st st'"
| step_interceptor: "with_endpoint ft (ep_interceptor_update i) st = (r, st') \<Longrightarrow> sfu_step E S J st st'"

inductive_cases sfu_stepE: "sfu_step E S J st st'"

lemma endpoint_ok_interceptor [simp]:
  "endpoint_ok sid eid (ep_interceptor_update i ep) = endpoint_ok sid eid ep"
  by (simp add: endpoint_ok_def transports_ok_def transceivers_ok_def)

lemma gateway_handle_read_ok:
  assumes "states_ok st" and "gateway_handle_read E S J fresh clk msg gw st = (gw', st', err, au)"
  shows "states_ok st'"
  using gateway_dispatch_ok [OF assms(1), of E S J fresh clk "gw_audio gw" msg] assms(2)
  by (auto simp: gateway_handle_read_def split: prod.splits sum.splits)

lemma sfu_step_ok:
  fixes S :: "'m stun_lib"
  shows "states_ok st \<Longrightarrow> sfu_step E S J st st' \<Longrightarrow> states_ok st'"
proof (erule sfu_stepE)
  fix fresh clk sid eid four offer r
  assume "states_ok st" "accept_offer E fresh clk sid eid four offer st = (r, st')"
  then show "states_ok st'" using accept_offer_ok by (metis snd_conv)
next
  fix sid eid answer r
  assume "states_ok st" "accept_answer E sid eid answer st = (r, st')"
  then show "states_ok st'" using accept_answer_ok by (metis snd_conv)
next
  fix now and gw gw' :: "'m gateway"
  assume "states_ok st" "gateway_handle_timeout now gw st = (gw', st')"
  then show "states_ok st'" using gateway_handle_timeout_ok by (metis snd_conv)
next
  fix f ft r
  assume "states_ok st" "\<And>t. tp_four_tuple (f t) = tp_four_tuple t" "\<And>t. tp_candidate (f t) = tp_candidate t"
    "with_transport ft f st = (r, st')"
  then show "states_ok st'" using with_transport_ok by (metis snd_conv)
next
  fix ft i r
  assume "states_ok st" "with_endpoint ft (ep_interceptor_update i) st = (r, st')"
  then show "states_ok st'"
    using with_endpoint_ok [of st "ep_interceptor_update i" ft] by simp
qed (erule gateway_handle_read_ok)

interpretation sfu: state_machine "\<lambda>st. server_states_new E cfg addr = Inr st" "sfu_step E S J" states_ok
  for E cfg addr S J
  by unfold_locales (erule server_states_new_ok, erule sfu_step_ok)

section \<open>A small server\<close>

text \<open>A server with one session of two endpoints, each connected by one transport whose SRTP context
  is ready; the library objects are numbers.\<close>

definition demo_config :: "nat server_config" where
  "demo_config = server_config_new 5000 65536 0 0 [[[1, 2, 3]]]"

definition demo_addr :: socket_addr where
  "demo_addr = \<lparr>sa_ip = IpV4 0x7F000001, sa_port = 4000\<rparr>"

definition demo_tuple :: "u32 \<Rightarrow> four_tuple" where
  "demo_tuple i = \<lparr>ft_local_addr = demo_addr, ft_peer_addr = \<lparr>sa_ip = IpV4 i, sa_port = 5000\<rparr>\<rparr>"

definition demo_cred :: "string \<Rightarrow> connection_credentials" where
  "demo_cred u = \<lparr>cc_ice = \<lparr>ip_username_fragment = u, ip_password = ''secret''\<rparr>, cc_role = DtlsServer,
                  cc_fingerprints = []\<rparr>"

definition demo_description :: rtc_description where
  "demo_description = \<lparr>rd_sdp_type = SdpOffer, rd_sdp = [], rd_parsed = Some plain_session\<rparr>"

definition demo_candidate :: "endpoint_id \<Rightarrow> candidate" where
  "demo_candidate eid = candidate_new 7 eid (demo_cred ''peer'') (demo_cred ''sfu'') demo_description demo_description 0"

definition demo_transport :: "endpoint_id \<Rightarrow> nat transport" where
  "demo_transport eid =
     (transport_new demo_config 0 (demo_tuple (ucast eid)) (demo_candidate eid))\<lparr>tp_local_srtp := Some 1\<rparr>"

definition demo_endpoint :: "endpoint_id \<Rightarrow> (nat, unit) endpoint" where
  "demo_endpoint eid = add_transport (demo_transport eid) (endpoint_new eid NoOp)"

definition demo_session :: "(nat, unit) session" where
  "demo_session = \<lparr>ss_config = \<lparr>scf_server_config = demo_config, scf_local_addr = demo_addr\<rparr>, ss_id = 7,
                   ss_endpoints = [(1, demo_endpoint 1), (2, demo_endpoint 2)]\<rparr>"

definition demo_states :: "(nat, unit) server_states" where
  "demo_states = \<lparr>st_server_config = demo_config, st_local_addr = demo_addr, st_sessions = [(7, demo_session)],
                  st_candidates = [(''sfu:peer'', demo_candidate 3)],
                  st_endpoints = [(demo_tuple 1, (7, 1)), (demo_tuple 2, (7, 2))]\<rparr>"

definition demo_context :: "u32 \<Rightarrow> transport_context" where
  "demo_context i = context_of (demo_tuple i) None"

lemma demo_tuple_inject [simp]: "demo_tuple i = demo_tuple j \<longleftrightarrow> i = j"
  by (simp add: demo_tuple_def)

lemma demo_lookup [simp]:
  "four_tuple_of (demo_context i) = demo_tuple i"
  "tc_ecn (demo_context i) = None"
  "find_endpoint (demo_tuple 1) demo_states = Some (7, 1)"
  "hm_get (st_sessions demo_states) 7 = Some demo_session"
  "hm_get (ss_endpoints demo_session) 1 = Some (demo_endpoint 1)"
  "hm_get (ss_endpoints demo_session) 2 = Some (demo_endpoint 2)"
  "ep_transports (demo_endpoint eid) = [(demo_tuple (ucast eid), demo_transport eid)]"
  by (simp add: demo_context_def)
     (simp_all add: demo_context_def context_of_def demo_states_def find_endpoint_def demo_session_def
      demo_endpoint_def add_transport_def endpoint_new_def hm_insert_def demo_transport_def transport_new_def)

lemma demo_endpoint_ok: "endpoint_ok 7 eid (demo_endpoint eid)"
  by (simp add: endpoint_ok_def transports_ok_def transceivers_ok_def demo_endpoint_def add_transport_def
      endpoint_new_def hm_insert_def demo_transport_def transport_new_def demo_candidate_def
      candidate_new_def hm_all_def)

lemma demo_states_ok: "states_ok demo_states"
  using demo_endpoint_ok [of 1] demo_endpoint_ok [of 2]
  by (auto simp: states_ok_def demo_states_def session_ok_def demo_session_def states_config_def hm_all_def
      demo_config_def server_config_new_def candidate_username_def demo_candidate_def candidate_new_def
      demo_cred_def)

section \<open>Invariant\<close>

text \<open>In every server state reachable from a fresh server, through any sequence of pipeline
  messages, signaling offers and answers, timeouts and updates by the earlier stages, each session,
  endpoint and transport is filed under its own identifier, every endpoint has a transport whose
  candidate names that session and endpoint, the list of media identifiers of an endpoint lists
  exactly its transceivers, and a candidate is filed under its user name.\<close>

theorem reachable_states_ok:
  assumes "server_states_new E cfg addr = Inr st0" and "(sfu_step E S J)\<^sup>*\<^sup>* st0 st"
  shows "states_ok st"
  using assms by (rule sfu.run_inv)

definition demo_lib :: sfu_lib where
  "demo_lib = \<lparr>lib_sdp = plain_sdp, lib_sha256 = (\<lambda>bs. take 2 bs)\<rparr>"

lemma demo_lib_simps [simp]:
  "lib_sdp demo_lib = plain_sdp" "unmarshal plain_sdp desc = Inr plain_session"
  by (simp_all add: demo_lib_def unmarshal_def plain_sdp_def)

definition demo_json :: json_lib where
  "demo_json = \<lparr>js_parse_description = (\<lambda>s. Inl ''syntax error''), js_show_description = (\<lambda>d. Inr ''{}'')\<rparr>"

text \<open>STUN messages as their user name, whether they nominate, and whether their integrity holds.\<close>

definition demo_stun :: "(string option \<times> bool \<times> bool) stun_lib" where
  "demo_stun =
     \<lparr>su_username = fst, su_has_priority = (\<lambda>m. fst m \<noteq> None), su_has_controlling = (\<lambda>m. fst m \<noteq> None),
      su_has_controlled = (\<lambda>m. False), su_has_use_candidate = (\<lambda>m. fst (snd m)),
      su_has_network_cost = (\<lambda>m. False), su_transaction_id = (\<lambda>m. [1, 2, 3]),
      su_check_integrity = (\<lambda>p m. (if snd (snd m) then Inr () else Inl (ErrLib ''integrity''), m)),
      su_binding_success = (\<lambda>t a. Inr (None, False, True)),
      su_add_integrity = (\<lambda>p m. Inr m), su_add_fingerprint = (\<lambda>m. Inr m)\<rparr>"

theorem reachable_states_ok_witness:
  "\<exists>st0 st :: (nat, unit) server_states.
     server_states_new demo_lib demo_config demo_addr = Inr st0 \<and>
     accept_answer demo_lib 7 1 demo_description st0 = (Inr (), st) \<and> st \<noteq> st0 \<and> states_ok st"
proof -
  define st0 :: "(nat, unit) server_states" where
    "st0 = \<lparr>st_server_config = demo_config, st_local_addr = demo_addr, st_sessions = [],
            st_candidates = [], st_endpoints = []\<rparr>"
  have n: "server_states_new demo_lib demo_config demo_addr = Inr st0"
    by (simp add: server_states_new_def demo_config_def server_config_new_def get_fingerprints_def st0_def)
  obtain st where a: "accept_answer demo_lib 7 1 demo_description st0 = (Inr (), st)" "st \<noteq> st0"
    by (auto simp: accept_answer_def create_or_get_session_def Let_def
        st0_def session_has_endpoint_def session_new_empty_def hm_contains_def hm_insert_def)
  have "(sfu_step demo_lib demo_stun demo_json)\<^sup>*\<^sup>* st0 st"
    using a(1) by (blast intro: step_answer)
  from reachable_states_ok [OF n this] show ?thesis using n a by blast
qed

section \<open>Authentication\<close>

text \<open>A STUN request is accepted for a candidate exactly when it names the candidate's user,
  carries a priority, plays exactly one ICE role, does not nominate from the controlled side, and
  its integrity checks under the candidate's password.\<close>

theorem stun_request_accepted_iff:
  "fst (check_stun_message S st req) = Inr (Some c) \<longleftrightarrow>
     (\<exists>u. su_username S req = Some u \<and> su_has_priority S req \<and>
          (su_has_controlling S req \<longleftrightarrow> \<not> su_has_controlled S req) \<and>
          (su_has_controlled S req \<longrightarrow> \<not> su_has_use_candidate S req) \<and>
          find_candidate u st = Some c \<and>
          fst (su_check_integrity S (ip_password (cc_ice (cd_local_cred c))) req) = Inr ())"
  by (cases "su_username S req")
     (auto simp: check_stun_message_def split: option.splits prod.splits sum.splits)

theorem stun_request_accepted_iff_witness:
  "fst (check_stun_message demo_stun demo_states (Some ''sfu:peer'', True, True)) = Inr (Some (demo_candidate 3)) \<and>
   fst (check_stun_message demo_stun demo_states (Some ''sfu:peer'', True, False)) \<noteq> Inr (Some (demo_candidate 3))"
  using stun_request_accepted_iff [of demo_stun demo_states "(Some ''sfu:peer'', True, True)" "demo_candidate 3"]
    stun_request_accepted_iff [of demo_stun demo_states "(Some ''sfu:peer'', True, False)" "demo_candidate 3"]
  by (simp add: demo_stun_def find_candidate_def demo_states_def)


text \<open>C3: A STUN request changes the server only if it nominates and its integrity was checked
  with the password of the candidate it names: nothing an unauthenticated peer sends creates or
  moves an endpoint.\<close>

theorem stun_changes_only_authenticated:
  assumes "handle_stun_message S clk now tc req st = (r, st')" and "st' \<noteq> st"
  shows "\<exists>u c req'. su_username S req = Some u \<and> find_candidate u st = Some c \<and>
           su_check_integrity S (ip_password (cc_ice (cd_local_cred c))) req = (Inr (), req') \<and>
           su_has_use_candidate S req' \<and> find_endpoint (four_tuple_of tc) st' = Some (cd_session_id c, cd_endpoint_id c)"
proof -
  obtain c req' where c: "check_stun_message S st req = (Inr (Some c), req')"
    using assms by (auto simp: handle_stun_message_def split: prod.splits sum.splits option.splits)
  obtain u where u: "su_username S req = Some u" "find_candidate u st = Some c"
    "su_check_integrity S (ip_password (cc_ice (cd_local_cred c))) req = (Inr (), req')"
    using c by (auto simp: check_stun_message_def split: option.splits if_splits prod.splits sum.splits)
  obtain r' where "gateway_add_endpoint S clk req' c tc st = (r', st')"
    using assms(1) c by (auto simp: handle_stun_message_def split: prod.splits sum.splits)
  with assms(2) have "su_has_use_candidate S req' \<and> find_endpoint (four_tuple_of tc) st' = Some (cd_session_id c, cd_endpoint_id c)"
    by (auto simp: gateway_add_endpoint_def Let_def find_endpoint_def states_add_endpoint_def
        split: option.splits if_splits prod.splits)
  with u show ?thesis by blast
qed

theorem stun_changes_only_authenticated_witness:
  "\<exists>st'. handle_stun_message demo_stun 5 5 (demo_context 3) (Some ''sfu:peer'', True, True) demo_states
           = (Inr [stun_tagged 5 (demo_context 3) (None, False, True)], st') \<and>
         find_endpoint (demo_tuple 3) st' = Some (7, 3) \<and>
         (\<exists>req'. su_check_integrity demo_stun ''secret'' (Some ''sfu:peer'', True, True) = (Inr (), req'))"
proof -
  let ?req = "(Some ''sfu:peer'', True, True)"
  obtain st' where h: "handle_stun_message demo_stun 5 5 (demo_context 3) ?req demo_states
      = (Inr [stun_tagged 5 (demo_context 3) (None, False, True)], st')"
    "find_endpoint (demo_tuple 3) st' \<noteq> None"
    by (simp add: handle_stun_message_def check_stun_message_def demo_stun_def find_candidate_def
        demo_states_def gateway_add_endpoint_def demo_candidate_def candidate_new_def demo_session_def
        session_add_endpoint_def states_add_endpoint_def find_endpoint_def put_session_def Let_def)
  then have "st' \<noteq> demo_states" by (auto simp: demo_states_def find_endpoint_def)
  with stun_changes_only_authenticated [OF h(1)] h show ?thesis
    by (auto simp: find_candidate_def demo_states_def demo_stun_def demo_candidate_def candidate_new_def
        demo_cred_def)
qed


end
