(* ===== verification/Forwarding.thy ===== *)
theory Forwarding
  imports Sfu_Properties
begin

text \<open>
  What the gateway does with an authenticated client: its endpoint is registered, its media goes to
  the other endpoints of its session, and its idle transports are removed.
\<close>

section \<open>Registration\<close>

lemma hm_get_put_session [simp]:
  "hm_get (st_sessions (put_session sid s st)) k =
     (if k = sid then map_option (\<lambda>_. s) (hm_get (st_sessions st) sid) else hm_get (st_sessions st) k)"
  by (simp add: put_session_def)

text \<open>When an authenticated client nominates a path it does not have yet, its endpoint gets a
  transport for that path holding the candidate, the four-tuple leads to the endpoint, a new
  endpoint starts with the candidate's descriptions, and no other endpoint of the session and no
  other session changes.  The flag returned says that the endpoint existed before.\<close>

theorem nomination_registers:
  assumes s: "hm_get (st_sessions st) (cd_session_id c) = Some s"
    and use: "su_has_use_candidate S req"
    and fresh: "\<And>ep. hm_get (ss_endpoints s) (cd_endpoint_id c) = Some ep \<Longrightarrow>
                  hm_get (ep_transports ep) (four_tuple_of tc) = None"
    and r: "gateway_add_endpoint S clk req c tc st = (r, st')"
  shows "r = Inr (session_has_endpoint s (cd_endpoint_id c)) \<and>
    find_endpoint (four_tuple_of tc) st' = Some (cd_session_id c, cd_endpoint_id c) \<and>
    (\<exists>s' ep. hm_get (st_sessions st') (cd_session_id c) = Some s' \<and>
       hm_get (ss_endpoints s') (cd_endpoint_id c) = Some ep \<and>
       hm_get (ep_transports ep) (four_tuple_of tc) =
         Some (transport_new (scf_server_config (ss_config s)) clk (four_tuple_of tc) c) \<and>
       (\<not> session_has_endpoint s (cd_endpoint_id c) \<longrightarrow>
          ep_remote_description ep = Some (cd_remote_description c) \<and>
          ep_local_description ep = Some (cd_local_description c) \<and> ep_transceivers ep = []) \<and>
       (\<forall>eid. eid \<noteq> cd_endpoint_id c \<longrightarrow> hm_get (ss_endpoints s') eid = hm_get (ss_endpoints s) eid)) \<and>
    (\<forall>sid. sid \<noteq> cd_session_id c \<longrightarrow> hm_get (st_sessions st') sid = hm_get (st_sessions st) sid)"
proof (cases "hm_get (ss_endpoints s) (cd_endpoint_id c)")
  case None
  then show ?thesis
    using s use r
    by (auto simp: gateway_add_endpoint_def Let_def session_add_endpoint_def find_endpoint_def
        states_add_endpoint_def session_has_endpoint_def hm_contains_get add_transport_def
        transport_new_def endpoint_new_def)
next
  case (Some ep)
  then show ?thesis
    using s use r fresh [OF Some]
    by (auto simp: gateway_add_endpoint_def Let_def session_add_endpoint_def find_endpoint_def
        states_add_endpoint_def session_has_endpoint_def hm_contains_get add_transport_def
        transport_new_def)
qed

theorem nomination_registers_witness:
  "find_endpoint (demo_tuple 3)
     (snd (gateway_add_endpoint demo_stun 5 (Some ''sfu:peer'', True, True) (demo_candidate 3)
             (demo_context 3) demo_states)) = Some (7, 3)"
proof -
  let ?c = "demo_candidate 3" and ?req = "(Some ''sfu:peer'', True, True)"
  have k: "cd_session_id ?c = 7" "cd_endpoint_id ?c = 3"
    by (simp_all add: demo_candidate_def candidate_new_def)
  have f: "hm_get (ss_endpoints demo_session) 3 = None" by (simp add: demo_session_def)
  have s: "hm_get (st_sessions demo_states) (cd_session_id ?c) = Some demo_session" by (simp add: k)
  have u: "su_has_use_candidate demo_stun ?req" by (simp add: demo_stun_def)
  show ?thesis
    using nomination_registers [OF s u, of "demo_context 3" 5
        "fst (gateway_add_endpoint demo_stun 5 ?req ?c (demo_context 3) demo_states)"
        "snd (gateway_add_endpoint demo_stun 5 ?req ?c (demo_context 3) demo_states)"]
    by (simp add: k f)
qed

section \<open>Forwarding\<close>

definition media_targets :: "('x, 'f) session \<Rightarrow> endpoint_id \<Rightarrow> four_tuple set" where
  "media_targets s eid =
     {ft. \<exists>oid oep t. oid \<noteq> eid \<and> hm_get (ss_endpoints s) oid = Some oep \<and>
            hm_get (ep_transports oep) ft = Some t \<and> tp_local_srtp t \<noteq> None}"

lemma media_contexts_targets:
  assumes ok: "states_ok st"
    and r: "get_other_media_transport_contexts tc st = Inr tcs"
  shows "\<exists>sid eid s. find_endpoint (four_tuple_of tc) st = Some (sid, eid) \<and>
           hm_get (st_sessions st) sid = Some s \<and>
           set tcs = (\<lambda>ft. context_of ft (tc_ecn tc)) ` media_targets s eid"
proof -
  obtain sid eid s where f: "find_endpoint (four_tuple_of tc) st = Some (sid, eid)"
    "hm_get (st_sessions st) sid = Some s"
    and tcs: "tcs = concat (map (\<lambda>oep. map (\<lambda>(oft, t). context_of oft (tc_ecn tc))
                (filter (\<lambda>(oft, t). is_local_srtp_context_ready t) (ep_transports oep)))
                (map snd (filter (\<lambda>(oid, _). oid \<noteq> eid) (ss_endpoints s))))"
    using r by (auto simp: get_other_media_transport_contexts_def other_endpoints_def result_simps)
  have sok: "session_ok (states_config st) sid s" using states_okD(4) [OF ok f(2)] .
  have mem: "(oid, oep) \<in> set (ss_endpoints s) \<longleftrightarrow> hm_get (ss_endpoints s) oid = Some oep" for oid oep
    by (rule hm_in_set_get) (rule session_okD(1) [OF sok])
  have tmem: "(ft, t) \<in> set (ep_transports oep) \<longleftrightarrow> hm_get (ep_transports oep) ft = Some t"
    if "hm_get (ss_endpoints s) oid = Some oep" for oid oep ft t
    using session_okD(4) [OF sok that] by (intro hm_in_set_get) (simp add: endpoint_ok_def transports_ok_def)
  have "set tcs = (\<lambda>ft. context_of ft (tc_ecn tc)) ` media_targets s eid"
  proof (intro equalityI subsetI)
    fix x assume "x \<in> set tcs"
    then obtain oid oep ft t where "oid \<noteq> eid" "(oid, oep) \<in> set (ss_endpoints s)"
      "(ft, t) \<in> set (ep_transports oep)" "is_local_srtp_context_ready t" "x = context_of ft (tc_ecn tc)"
      by (auto simp: tcs)
    then have "ft \<in> media_targets s eid"
      using mem tmem by (auto simp: media_targets_def is_local_srtp_context_ready_def)
    then show "x \<in> (\<lambda>ft. context_of ft (tc_ecn tc)) ` media_targets s eid"
      using \<open>x = context_of ft (tc_ecn tc)\<close> by blast
  next
    fix x assume "x \<in> (\<lambda>ft. context_of ft (tc_ecn tc)) ` media_targets s eid"
    then obtain oid oep ft t where x: "oid \<noteq> eid" "hm_get (ss_endpoints s) oid = Some oep"
      "hm_get (ep_transports oep) ft = Some t" "tp_local_srtp t \<noteq> None" "x = context_of ft (tc_ecn tc)"
      by (auto simp: media_targets_def)
    then have "(oid, oep) \<in> set (ss_endpoints s)" "(ft, t) \<in> set (ep_transports oep)"
      using mem tmem by auto
    with x show "x \<in> set tcs"
      by (force simp: tcs is_local_srtp_context_ready_def)
  qed
  with f show ?thesis by blast
qed

definition demo_packet :: rtp_packet where
  "demo_packet = \<lparr>rtp_payload_type = 111, rtp_sequence_number = 1, rtp_timestamp = 960, rtp_ssrc = 42,
                  rtp_payload = [1, 2]\<rparr>"

section \<open>Idle transports\<close>

definition transport_at ::
  "('x, 'f) server_states \<Rightarrow> session_id \<Rightarrow> endpoint_id \<Rightarrow> four_tuple \<Rightarrow> 'x transport option" where
  "transport_at st sid eid ft =
     (case hm_get (st_sessions st) sid of
        Some s \<Rightarrow> (case hm_get (ss_endpoints s) eid of
                     Some ep \<Rightarrow> hm_get (ep_transports ep) ft | None \<Rightarrow> None)
      | None \<Rightarrow> None)"

lemma transport_at_Some:
  "transport_at st sid eid ft = Some t \<longleftrightarrow>
     (\<exists>s ep. hm_get (st_sessions st) sid = Some s \<and> hm_get (ss_endpoints s) eid = Some ep \<and>
             hm_get (ep_transports ep) ft = Some t)"
  by (simp add: transport_at_def split: option.splits)

text \<open>Every transport can be found by its four-tuple: no path was taken over by another endpoint.\<close>

definition routed :: "('x, 'f) server_states \<Rightarrow> bool" where
  "routed st \<longleftrightarrow> (\<forall>sid eid ft t. transport_at st sid eid ft = Some t \<longrightarrow> find_endpoint ft st = Some (sid, eid))"

lemma remove_candidate_tables [simp]:
  "transport_at (remove_candidate u st) sid eid ft = transport_at st sid eid ft"
  "find_endpoint ft (remove_candidate u st) = find_endpoint ft st"
  by (simp_all add: transport_at_def remove_candidate_def find_endpoint_def)

lemma transport_at_put:
  assumes "hm_get (st_sessions st) sid = Some s"
  shows "transport_at (put_session sid s' st) sid' eid ft =
    (if sid' = sid then (case hm_get (ss_endpoints s') eid of
                           Some ep \<Rightarrow> hm_get (ep_transports ep) ft | None \<Rightarrow> None)
     else transport_at st sid' eid ft)"
  using assms by (simp add: transport_at_def)

lemma transport_at_remove_session:
  "transport_at (remove_session sid st) sid' eid ft = (if sid' = sid then None else transport_at st sid' eid ft)"
  by (simp add: transport_at_def remove_session_def)

lemma transport_at_remove_endpoint [simp]:
  "transport_at (states_remove_endpoint ft st) sid eid ft' = transport_at st sid eid ft'"
  by (simp add: transport_at_def states_remove_endpoint_def)

lemma find_endpoint_simps [simp]:
  "find_endpoint ft (put_session sid s st) = find_endpoint ft st"
  "find_endpoint ft (remove_session sid st) = find_endpoint ft st"
  "find_endpoint ft' (states_remove_endpoint ft st) = (if ft' = ft then None else find_endpoint ft' st)"
  by (simp_all add: find_endpoint_def put_session_def remove_session_def states_remove_endpoint_def)

text \<open>Removal where the table leads to an endpoint that exists.\<close>

lemma transport_at_remove_found:
  assumes f: "find_endpoint ft st = Some (sid, eid)" and s: "hm_get (st_sessions st) sid = Some s"
    and e: "hm_get (ss_endpoints s) eid = Some ep"
  shows "transport_at (remove_transport ft st) sid' eid' ft' =
           (if sid' = sid \<and> eid' = eid \<and> ft' = ft then None else transport_at st sid' eid' ft') \<and>
         (find_endpoint ft' (remove_transport ft st) =
           (if ft' = ft \<and> hm_remove ft (ep_transports ep) = [] then None else find_endpoint ft' st))"
proof -
  let ?ep' = "ep\<lparr>ep_transports := hm_remove ft (ep_transports ep)\<rparr>"
  have at: "transport_at st sid eid' ft' = (case hm_get (ss_endpoints s) eid' of
      Some ep \<Rightarrow> hm_get (ep_transports ep) ft' | None \<Rightarrow> None)" for eid' ft'
    using s by (simp add: transport_at_def)
  have last_one: "hm_get (ep_transports ep) ft' = None"
    if "hm_remove ft (ep_transports ep) = []" "ft' \<noteq> ft" for ft'
    using hm_get_remove [of ft "ep_transports ep" ft'] that by simp
  have only: "hm_get (ss_endpoints s) eid' = None"
    if "hm_remove eid (ss_endpoints s) = []" "eid' \<noteq> eid" for eid'
    using hm_get_remove [of eid "ss_endpoints s" eid'] that by simp
  show ?thesis
    using assms last_one only
    by (auto simp: remove_transport_def endpoint_remove_transport_def Let_def at transport_at_put [OF s]
        transport_at_remove_session split: option.splits)
qed

lemma remove_transport_at:
  assumes "routed st"
  shows "transport_at (remove_transport ft st) sid eid ft' = (if ft' = ft then None else transport_at st sid eid ft') \<and>
         routed (remove_transport ft st)"
proof (cases "\<exists>sid0 eid0 s ep. find_endpoint ft st = Some (sid0, eid0) \<and> hm_get (st_sessions st) sid0 = Some s \<and>
                hm_get (ss_endpoints s) eid0 = Some ep")
  case True
  then obtain sid0 eid0 s ep where f: "find_endpoint ft st = Some (sid0, eid0)"
    "hm_get (st_sessions st) sid0 = Some s" "hm_get (ss_endpoints s) eid0 = Some ep" by blast
  have only: "transport_at st sid eid ft = None" if "\<not> (sid = sid0 \<and> eid = eid0)" for sid eid
    using assms f(1) that unfolding routed_def by (metis not_Some_eq option.inject prod.inject)
  have at: "transport_at (remove_transport ft st) sid eid ft' = (if ft' = ft then None else transport_at st sid eid ft')"
    for sid eid ft'
    using transport_at_remove_found [OF f] only by auto
  moreover have "routed (remove_transport ft st)"
    unfolding routed_def
  proof (intro allI impI)
    fix sid eid ft' t
    assume "transport_at (remove_transport ft st) sid eid ft' = Some t"
    then have "ft' \<noteq> ft" "transport_at st sid eid ft' = Some t" by (simp_all add: at split: if_splits)
    then have "ft' \<noteq> ft" "find_endpoint ft' st = Some (sid, eid)" using assms by (simp_all add: routed_def)
    then show "find_endpoint ft' (remove_transport ft st) = Some (sid, eid)"
      using transport_at_remove_found [OF f, of sid eid ft'] by simp
  qed
  ultimately show ?thesis by blast
next
  case False
  then have same: "remove_transport ft st = st"
    by (auto simp: remove_transport_def split: option.splits)
  have "transport_at st sid eid ft = None" for sid eid
  proof (rule ccontr)
    assume "transport_at st sid eid ft \<noteq> None"
    then obtain t where t: "transport_at st sid eid ft = Some t" by blast
    then have "find_endpoint ft st = Some (sid, eid)" using assms by (simp add: routed_def)
    with t False show False by (auto simp: transport_at_def split: option.splits)
  qed
  then show ?thesis using same assms by simp
qed

lemma remove_transports_at:
  "routed st \<Longrightarrow>
   transport_at (foldl (\<lambda>st ft. remove_transport ft st) st fts) sid eid ft =
     (if ft \<in> set fts then None else transport_at st sid eid ft) \<and>
   routed (foldl (\<lambda>st ft. remove_transport ft st) st fts)"
proof (induction fts arbitrary: st)
  case (Cons x xs)
  then show ?case using remove_transport_at [OF Cons.prems, of x] by simp
qed simp

lemma idle_transports_iff:
  assumes "states_ok st"
  shows "ft \<in> set (idle_transports limit st) \<longleftrightarrow>
         (\<exists>sid eid t. transport_at st sid eid ft = Some t \<and> tp_last_activity t \<le> limit)"
proof -
  have s: "(sid, s) \<in> set (st_sessions st) \<longleftrightarrow> hm_get (st_sessions st) sid = Some s" for sid s
    by (rule hm_in_set_get) (rule states_okD(1) [OF assms])
  have e: "(eid, ep) \<in> set (ss_endpoints s) \<longleftrightarrow> hm_get (ss_endpoints s) eid = Some ep"
    if "hm_get (st_sessions st) sid = Some s" for sid s eid ep
    by (rule hm_in_set_get) (rule session_okD(1) [OF states_okD(4) [OF assms that]])
  have t: "((ft, t) \<in> set (ep_transports ep) \<longleftrightarrow> hm_get (ep_transports ep) ft = Some t) \<and>
           (hm_get (ep_transports ep) ft = Some t \<longrightarrow> tp_four_tuple t = ft)"
    if "hm_get (st_sessions st) sid = Some s" "hm_get (ss_endpoints s) eid = Some ep" for sid s eid ep ft t
  proof -
    have "transports_ok sid eid ep"
      using session_okD(4) [OF states_okD(4) [OF assms that(1)] that(2)] by (simp add: endpoint_ok_def)
    then show ?thesis by (auto simp: transports_ok_def hm_in_set_get dest: hm_all_get)
  qed
  show ?thesis
  proof
    assume "ft \<in> set (idle_transports limit st)"
    then obtain sid s eid ep ft' t' where "(sid, s) \<in> set (st_sessions st)" "(eid, ep) \<in> set (ss_endpoints s)"
      "(ft', t') \<in> set (ep_transports ep)" "tp_last_activity t' \<le> limit" "ft = tp_four_tuple t'"
      by (auto simp: idle_transports_def)
    moreover from this have "hm_get (st_sessions st) sid = Some s" "hm_get (ss_endpoints s) eid = Some ep"
      using s e by blast+
    ultimately have "transport_at st sid eid ft = Some t'" "tp_last_activity t' \<le> limit"
      using t [of sid s eid ep ft' t'] by (auto simp: transport_at_def)
    then show "\<exists>sid eid t. transport_at st sid eid ft = Some t \<and> tp_last_activity t \<le> limit" by blast
  next
    assume "\<exists>sid eid t. transport_at st sid eid ft = Some t \<and> tp_last_activity t \<le> limit"
    then obtain sid s eid ep t' where g: "hm_get (st_sessions st) sid = Some s"
      "hm_get (ss_endpoints s) eid = Some ep" "hm_get (ep_transports ep) ft = Some t'" "tp_last_activity t' \<le> limit"
      by (auto simp: transport_at_Some)
    then have "(sid, s) \<in> set (st_sessions st)" "(eid, ep) \<in> set (ss_endpoints s)" "(ft, t') \<in> set (ep_transports ep)"
      "tp_four_tuple t' = ft"
      using s e t [OF g(1,2), of ft t'] by blast+
    with g(4) show "ft \<in> set (idle_transports limit st)"
      unfolding idle_transports_def by force
  qed
qed

lemma timeout_removes:
  assumes "states_ok st" and "routed st" and "gateway_handle_timeout now gw st = (gw', st')"
  shows "transport_at st' sid eid ft =
           (case transport_at st sid eid ft of
              Some t \<Rightarrow> if gw_next_timeout gw \<le> now \<and> tp_last_activity t \<le> now - int (gw_idle_timeout gw)
                       then None else Some t
            | None \<Rightarrow> None) \<and>
         gw_next_timeout gw' = (if gw_next_timeout gw \<le> now then gw_next_timeout gw + int (gw_idle_timeout gw)
                                else gw_next_timeout gw)"
proof (cases "gw_next_timeout gw \<le> now")
  case True
  let ?limit = "now - int (gw_idle_timeout gw)"
  have st': "st' = foldl (\<lambda>st ft. remove_transport ft st) st (idle_transports ?limit st)"
    and gw': "gw_next_timeout gw' = gw_next_timeout gw + int (gw_idle_timeout gw)"
    using assms(3) True by (auto simp: gateway_handle_timeout_def)
  have at: "transport_at st' sid eid ft = (if ft \<in> set (idle_transports ?limit st) then None else transport_at st sid eid ft)"
    using remove_transports_at [OF assms(2)] by (simp add: st')
  show ?thesis
  proof (cases "transport_at st sid eid ft")
    case (Some t)
    have "ft \<in> set (idle_transports ?limit st) \<longleftrightarrow> tp_last_activity t \<le> ?limit"
    proof
      assume "ft \<in> set (idle_transports ?limit st)"
      then obtain sid' eid' t' where t': "transport_at st sid' eid' ft = Some t'" "tp_last_activity t' \<le> ?limit"
        using idle_transports_iff [OF assms(1)] by blast
      have "sid' = sid" "eid' = eid"
        using assms(2) Some t'(1) unfolding routed_def by (metis option.inject prod.inject)+
      with Some t' show "tp_last_activity t \<le> ?limit" by simp
    next
      assume "tp_last_activity t \<le> ?limit"
      then show "ft \<in> set (idle_transports ?limit st)"
        using idle_transports_iff [OF assms(1)] Some by blast
    qed
    then show ?thesis using at Some True gw' by simp
  qed (use at True gw' in simp)
next
  case False
  then show ?thesis using assms(3) by (auto simp: gateway_handle_timeout_def split: option.splits)
qed


lemma demo_routed: "routed demo_states"
  unfolding routed_def
proof (intro allI impI)
  fix sid eid ft t assume "transport_at demo_states sid eid ft = Some t"
  moreover have "ss_endpoints demo_session = [(1, demo_endpoint 1), (2, demo_endpoint 2)]"
    "st_sessions demo_states = [(7, demo_session)]"
    "st_endpoints demo_states = [(demo_tuple 1, (7, 1)), (demo_tuple 2, (7, 2))]"
    by (simp_all add: demo_session_def demo_states_def)
  ultimately show "find_endpoint ft demo_states = Some (sid, eid)"
    by (auto simp: transport_at_def find_endpoint_def split: if_splits)
qed



end
