(* ===== verification/Negotiation.thy ===== *)
theory Negotiation
  imports Forwarding Media_Facts
begin

text \<open>
  What the server answers to an offer and what it remembers of it: the media sections of an answer,
  the directions it agrees to, the candidate it registers, and the offers it refuses.
\<close>

section \<open>Matching sections\<close>

text \<open>The identifiers of the remote sections an answer must take up, in their order.\<close>

definition answerable :: "media_description \<Rightarrow> mid option" where
  "answerable m =
     (case get_mid_value m of
        Some v \<Rightarrow> if md_media m = media_section_application \<or>
                     codec_type_of_str (md_media m) \<noteq> KindUnspecified \<and> get_peer_direction m \<noteq> DirUnspecified
                  then Some v else None
      | None \<Rightarrow> None)"

definition answered_mids :: "media_description list \<Rightarrow> mid list" where
  "answered_mids ms = List.map_filter answerable ms"

definition section_of :: "media_description list \<Rightarrow> media_section \<Rightarrow> bool" where
  "section_of ms sec \<longleftrightarrow> ms_data sec \<or>
     (\<exists>r \<in> set ms. get_mid_value r = Some (ms_mid sec) \<and> get_peer_direction r \<noteq> DirUnspecified \<and>
        ms_offered_direction sec = Some (get_peer_direction r))"

lemma answered_mids_simps [simp]:
  "answered_mids [] = []"
  "answered_mids (m # ms) = (case answerable m of Some v \<Rightarrow> v # answered_mids ms | None \<Rightarrow> answered_mids ms)"
  by (simp_all add: answered_mids_def List.map_filter_def split: option.splits)

lemma match_media_answer:
  assumes "match_media ts False m (secs, app, matched) = Inr (secs', app', matched')"
  shows "\<exists>new. secs' = secs @ new \<and> map ms_mid new = answered_mids [m] \<and> (\<forall>sec \<in> set new. section_of [m] sec)"
  using assms
  by (auto simp: match_media_def Let_def answerable_def section_of_def data_section_def
      media_section_application_def codec_type_of_str_def split: option.splits if_splits)

lemma section_of_mono: "section_of ms sec \<Longrightarrow> set ms \<subseteq> set ms' \<Longrightarrow> section_of ms' sec"
  by (auto simp: section_of_def)

lemma match_all_answer:
  assumes "match_all ts False ms (secs, app, matched) = Inr (secs', app', matched')"
  shows "\<exists>new. secs' = secs @ new \<and> map ms_mid new = answered_mids ms \<and> (\<forall>sec \<in> set new. section_of ms sec)"
  using assms
proof (induction ms arbitrary: secs app matched)
  case (Cons m ms)
  from Cons.prems obtain secs1 app1 matched1 where
    one: "match_media ts False m (secs, app, matched) = Inr (secs1, app1, matched1)" and
    rest: "match_all ts False ms (secs1, app1, matched1) = Inr (secs', app', matched')"
    by (auto simp: result_simps)
  obtain n1 where n1: "secs1 = secs @ n1" "map ms_mid n1 = answered_mids [m]" "\<forall>sec \<in> set n1. section_of [m] sec"
    using match_media_answer [OF one] by blast
  obtain n2 where n2: "secs' = secs1 @ n2" "map ms_mid n2 = answered_mids ms" "\<forall>sec \<in> set n2. section_of ms sec"
    using Cons.IH [OF rest] by blast
  have "map ms_mid (n1 @ n2) = answered_mids (m # ms)"
    using n1(2) n2(2) by (simp split: option.splits)
  moreover have "\<forall>sec \<in> set (n1 @ n2). section_of (m # ms) sec"
    using n1(3) n2(3) section_of_mono [of "[m]" _ "m # ms"] section_of_mono [of ms _ "m # ms"] by auto
  ultimately show ?case using n1(1) n2(1) by (intro exI [of _ "n1 @ n2"]) simp
qed simp

lemma describe_fresh [simp]:
  "rd_parsed (describe L t d) = Some d" "rd_sdp_type (describe L t d) = t"
  by (simp_all add: describe_def update_sdp_origin_def default_origin_def)

lemma create_answer_built:
  assumes L: "sdp_laws L" and a: "create_answer L sha eid remote ice s = Inr ans"
    and p: "rd_parsed remote = Some p"
  shows "\<exists>d secs ts. rd_parsed ans = Some d \<and> rd_sdp_type ans = SdpAnswer \<and>
           ts = (case hm_get (ss_endpoints s) eid of Some ep \<Rightarrow> ep_transceivers ep | None \<Rightarrow> []) \<and>
           map ms_mid secs = answered_mids (sd_media_descriptions p) \<and>
           (\<forall>sec \<in> set secs. section_of (sd_media_descriptions p) sec) \<and>
           length (sd_media_descriptions d) = length secs \<and>
           (\<forall>i < length secs. section_built (build_config_of (ss_config s)) ts i (secs ! i)
                                (sd_media_descriptions d ! i)) \<and>
           \<lparr>a_key = sl_key_group L, a_value = Some (''BUNDLE'' @ concat (map (\<lambda>s. '' '' @ ms_mid s) secs))\<rparr>
             \<in> set (sd_attributes d)"
proof -
  obtain d where d: "generate_matched_sdp L sha eid remote ice False False (to_connection_role DtlsServer) s = Inr d"
    and ans: "ans = describe L SdpAnswer d"
    using a by (auto simp: create_answer_def result_simps)
  let ?ts = "case hm_get (ss_endpoints s) eid of Some ep \<Rightarrow> ep_transceivers ep | None \<Rightarrow> []"
  let ?mids = "case hm_get (ss_endpoints s) eid of Some ep \<Rightarrow> ep_mids ep | None \<Rightarrow> []"
  have certs: "svc_certificates (scf_server_config (ss_config s)) \<noteq> []"
    using d by (auto simp: generate_matched_sdp_def Let_def result_simps split: option.splits)
  then obtain cert rest where certs: "svc_certificates (scf_server_config (ss_config s)) = cert # rest"
    by (cases "svc_certificates (scf_server_config (ss_config s))") auto
  obtain secs fps where m: "media_sections ?mids ?ts remote False = Inr secs"
    and b: "populate_sdp L (sl_new_session L False) fps (build_config_of (ss_config s)) ice
              (to_connection_role DtlsServer) secs ?ts True = Inr d"
    using d by (auto simp: generate_matched_sdp_def Let_def result_simps certs split: option.splits)
  obtain app matched where "match_all ?ts False (sd_media_descriptions p) ([], False, []) = Inr (secs, app, matched)"
    using m p by (auto simp: media_sections_def result_simps)
  then have "map ms_mid secs = answered_mids (sd_media_descriptions p)"
    "\<forall>sec \<in> set secs. section_of (sd_media_descriptions p) sec"
    using match_all_answer by fastforce+
  then show ?thesis
    using populate_sdp_built [OF L b] ans by (intro exI [of _ d] exI [of _ secs] exI [of _ ?ts]) simp
qed

section \<open>A client that negotiates\<close>

definition demo_media :: "string \<Rightarrow> string \<Rightarrow> string \<Rightarrow> media_description" where
  "demo_media kind v dir =
     add_attribute ''fingerprint'' (Some ''sha-256 AB'') (add_attribute ''ice-pwd'' (Some ''pw'')
       (add_attribute ''ice-ufrag'' (Some ''peer'')
         (add_attribute dir None (add_attribute ''mid'' (Some v) (plain_media kind)))))"

definition demo_offer :: "media_description list \<Rightarrow> session_description" where
  "demo_offer ms = plain_session\<lparr>sd_media_descriptions := ms\<rparr>"

definition offer_description :: "media_description list \<Rightarrow> rtc_description" where
  "offer_description ms = \<lparr>rd_sdp_type = SdpOffer, rd_sdp = [], rd_parsed = Some (demo_offer ms)\<rparr>"

definition join_lib :: "media_description list \<Rightarrow> sfu_lib" where
  "join_lib ms = \<lparr>lib_sdp = plain_sdp\<lparr>sl_unmarshal := (\<lambda>_. Inr (demo_offer ms))\<rparr>, lib_sha256 = (\<lambda>bs. take 2 bs)\<rparr>"

definition demo_transceiver :: transceiver where
  "demo_transceiver =
     \<lparr>tr_mid = ''0'', tr_sender = None, tr_direction = Recvonly, tr_current_direction = DirUnspecified,
      tr_rtp_params = \<lparr>rp_header_extensions = [], rp_codecs = []\<rparr>, tr_kind = KindAudio\<rparr>"

definition audio_session :: "(nat, unit) session" where
  "audio_session = demo_session\<lparr>ss_endpoints := [(1, add_transceiver demo_transceiver (demo_endpoint 1))]\<rparr>"

definition demo_ice :: ice_parameters where
  "demo_ice = \<lparr>ip_username_fragment = ''sfu'', ip_password = ''secret''\<rparr>"

lemma demo_media_simps [simp]:
  "get_mid_value (demo_media kind v dir) = Some v"
  "md_media (demo_media kind v dir) = kind"
  by (simp_all add: demo_media_def get_mid_value_def plain_media_def)

lemma demo_media_direction:
  "get_peer_direction (demo_media kind v ''sendonly'') = Sendonly"
  by (simp add: demo_media_def get_peer_direction_def plain_media_def direction_of_str_def)

lemma demo_offer_simps [simp]:
  "sd_media_descriptions (demo_offer ms) = ms" "rd_parsed (offer_description ms) = Some (demo_offer ms)"
  by (simp_all add: demo_offer_def offer_description_def)

lemma no_default_extensions [simp]:
  "rp_header_extensions (get_rtp_parameters_by_kind media_config_default k d) = []"
  by (simp add: get_rtp_parameters_by_kind_def kind_negotiated_def media_config_default_simps)

definition audio_and_data :: "media_description list" where
  "audio_and_data = [demo_media ''audio'' ''0'' ''sendonly'', demo_media ''application'' ''1'' ''sendonly'']"

lemma audio_answer_exists:
  "\<exists>ans. create_answer plain_sdp (\<lambda>bs. bs) 1 (offer_description audio_and_data) demo_ice audio_session = Inr ans"
proof -
  have "hm_get (ss_endpoints audio_session) 1 = Some (add_transceiver demo_transceiver (demo_endpoint 1))"
    "ep_transceivers (add_transceiver demo_transceiver (demo_endpoint 1)) = [(''0'', demo_transceiver)]"
    by (simp_all add: audio_session_def add_transceiver_def demo_endpoint_def add_transport_def
        endpoint_new_def hm_insert_def demo_transceiver_def)
  then show ?thesis
    by (simp add: create_answer_def generate_matched_sdp_def media_sections_def audio_and_data_def
        match_media_def demo_media_direction media_section_application_def codec_type_of_str_def
        hm_contains_def audio_session_def demo_session_def demo_config_def server_config_new_def
        populate_sdp_def populate_section_def add_transceiver_sdp_def transceiver_media_def Let_def
        build_config_of_def data_section_def answer_direction_def demo_transceiver_def
        intersect_direction_def)
qed

section \<open>Answers\<close>

text \<open>C7: An answer takes up the media sections of the offer, each under its own identifier and in
  the offer's order, leaving out only those without an identifier, of an unknown kind or without a
  direction; they are all bundled; the first carries the server's host candidate and no other
  section carries a candidate.\<close>

theorem answer_mirrors_offer:
  assumes "sdp_laws L" and "create_answer L sha eid remote ice s = Inr ans" and "rd_parsed remote = Some p"
  shows "\<exists>d. rd_parsed ans = Some d \<and> rd_sdp_type ans = SdpAnswer \<and>
           map get_mid_value (sd_media_descriptions d) = map Some (answered_mids (sd_media_descriptions p)) \<and>
           \<lparr>a_key = sl_key_group L,
            a_value = Some (''BUNDLE'' @ concat (map (\<lambda>v. '' '' @ v) (answered_mids (sd_media_descriptions p))))\<rparr>
             \<in> set (sd_attributes d) \<and>
           (\<forall>i < length (sd_media_descriptions d).
              if i = 0 then has_value (candidate_value (scf_local_addr (ss_config s)) 1) (sd_media_descriptions d ! i)
              else \<not> has_candidate (sd_media_descriptions d ! i))"
proof -
  obtain d secs ts where d: "rd_parsed ans = Some d" "rd_sdp_type ans = SdpAnswer"
    "map ms_mid secs = answered_mids (sd_media_descriptions p)"
    "length (sd_media_descriptions d) = length secs"
    "\<forall>i < length secs. section_built (build_config_of (ss_config s)) ts i (secs ! i) (sd_media_descriptions d ! i)"
    "\<lparr>a_key = sl_key_group L, a_value = Some (''BUNDLE'' @ concat (map (\<lambda>s. '' '' @ ms_mid s) secs))\<rparr> \<in> set (sd_attributes d)"
    using create_answer_built [OF assms] by blast
  have "map get_mid_value (sd_media_descriptions d) = map (Some \<circ> ms_mid) secs"
    using d(4,5) by (intro nth_equalityI) (simp_all add: section_built_def)
  moreover have "map (\<lambda>s. '' '' @ ms_mid s) secs = map (\<lambda>v. '' '' @ v) (answered_mids (sd_media_descriptions p))"
    by (simp add: d(3) [symmetric])
  moreover have "bc_local_addr (build_config_of (ss_config s)) = scf_local_addr (ss_config s)"
    by (simp add: build_config_of_def)
  ultimately show ?thesis
    using d by (intro exI [of _ d]) (auto simp: section_built_def map_map [symmetric] simp del: map_map)
qed

theorem answer_mirrors_offer_witness:
  "\<exists>ans d. create_answer plain_sdp (\<lambda>bs. bs) 1 (offer_description audio_and_data) demo_ice audio_session = Inr ans \<and>
     rd_parsed ans = Some d \<and> map get_mid_value (sd_media_descriptions d) = [Some ''0'', Some ''1''] \<and>
     \<not> has_candidate (sd_media_descriptions d ! 1)"
proof -
  obtain ans where a: "create_answer plain_sdp (\<lambda>bs. bs) 1 (offer_description audio_and_data) demo_ice audio_session = Inr ans"
    using audio_answer_exists by blast
  have m: "answered_mids audio_and_data = [''0'', ''1'']"
    by (simp add: audio_and_data_def answerable_def media_section_application_def codec_type_of_str_def demo_media_direction)
  obtain d where d: "rd_parsed ans = Some d" "map get_mid_value (sd_media_descriptions d) = map Some [''0'', ''1'']"
    "\<forall>i < length (sd_media_descriptions d).
              if i = 0 then has_value (candidate_value (scf_local_addr (ss_config audio_session)) 1) (sd_media_descriptions d ! i)
              else \<not> has_candidate (sd_media_descriptions d ! i)"
    using answer_mirrors_offer [OF plain_sdp_laws a, of "demo_offer audio_and_data"] m by auto
  have "length (sd_media_descriptions d) = 2" using d(2) by (auto dest: arg_cong [where f = length])
  with a d show ?thesis by auto
qed

text \<open>C8: An answer never agrees to more than was offered: where it sends, the offer receives,
  and where it receives, the offer sends.\<close>

theorem answer_directions_respect_offer:
  assumes "sdp_laws L" and "create_answer L sha eid remote ice s = Inr ans" and "rd_parsed remote = Some p"
    and "rd_parsed ans = Some d" and "m \<in> set (sd_media_descriptions d)"
    and "md_media m \<noteq> media_section_application"
  shows "\<exists>r \<in> set (sd_media_descriptions p). get_mid_value r = get_mid_value m \<and>
           (has_send (get_peer_direction m) \<longrightarrow> has_recv (get_peer_direction r)) \<and>
           (has_recv (get_peer_direction m) \<longrightarrow> has_send (get_peer_direction r))"
proof -
  obtain d' secs ts where d: "rd_parsed ans = Some d'" "\<forall>sec \<in> set secs. section_of (sd_media_descriptions p) sec"
    "length (sd_media_descriptions d') = length secs"
    "\<forall>i < length secs. section_built (build_config_of (ss_config s)) ts i (secs ! i) (sd_media_descriptions d' ! i)"
    using create_answer_built [OF assms(1-3)] by blast
  obtain i where i: "i < length secs" "m = sd_media_descriptions d ! i"
    using assms(4,5) d(1,3) by (auto simp: in_set_conv_nth)
  have b: "section_built (build_config_of (ss_config s)) ts i (secs ! i) m"
    using d i assms(4) by auto
  then have nd: "\<not> ms_data (secs ! i)" using assms(6) by (auto simp: section_built_def)
  then obtain r where r: "r \<in> set (sd_media_descriptions p)" "get_mid_value r = Some (ms_mid (secs ! i))"
    "get_peer_direction r \<noteq> DirUnspecified" "ms_offered_direction (secs ! i) = Some (get_peer_direction r)"
    using d(2) i(1) by (auto simp: section_of_def dest!: bspec [OF _ nth_mem])
  have mid: "get_mid_value m = Some (ms_mid (secs ! i))"
    using b by (simp add: section_built_def)
  obtain t :: transceiver where t: "get_peer_direction m = answer_direction (ms_offered_direction (secs ! i)) (tr_direction t)"
    using b nd by (auto simp: section_built_def)
  show ?thesis
    using r mid t by (intro bexI [OF _ r(1)]) (cases "get_peer_direction r"; simp add: answer_direction_def)
qed

theorem answer_directions_respect_offer_witness:
  "\<exists>ans d m. create_answer plain_sdp (\<lambda>bs. bs) 1 (offer_description audio_and_data) demo_ice audio_session = Inr ans \<and>
     rd_parsed ans = Some d \<and> m \<in> set (sd_media_descriptions d) \<and> get_mid_value m = Some ''0'' \<and>
     \<not> has_send (get_peer_direction m)"
proof -
  obtain ans where a: "create_answer plain_sdp (\<lambda>bs. bs) 1 (offer_description audio_and_data) demo_ice audio_session = Inr ans"
    using audio_answer_exists by blast
  obtain d secs ts where d: "rd_parsed ans = Some d" "map ms_mid secs = answered_mids audio_and_data"
    "length (sd_media_descriptions d) = length secs"
    "\<forall>sec \<in> set secs. section_of audio_and_data sec"
    "\<forall>i < length secs. section_built (build_config_of (ss_config audio_session)) ts i (secs ! i) (sd_media_descriptions d ! i)"
    and ts: "ts = (case hm_get (ss_endpoints audio_session) 1 of Some ep \<Rightarrow> ep_transceivers ep | None \<Rightarrow> [])"
    using create_answer_built [OF plain_sdp_laws a, of "demo_offer audio_and_data"] by auto
  let ?m = "sd_media_descriptions d ! 0"
  have mids: "map ms_mid secs = [''0'', ''1'']"
    unfolding d(2) by (simp add: audio_and_data_def answerable_def media_section_application_def
        codec_type_of_str_def demo_media_direction)
  then have len: "length secs = 2" by (auto dest: arg_cong [where f = length])
  have mid0: "ms_mid (secs ! 0) = ''0''" using mids len by (metis nth_Cons_0 nth_map zero_less_numeral)
  have b: "section_built (build_config_of (ss_config audio_session)) ts 0 (secs ! 0) ?m"
    using d(5) len by simp
  have "hm_get ts ''0'' = Some demo_transceiver"
    by (simp add: ts audio_session_def add_transceiver_def demo_endpoint_def add_transport_def
        endpoint_new_def hm_insert_def demo_transceiver_def)
  then have k: "md_media ?m \<noteq> media_section_application" and g: "get_mid_value ?m = Some ''0''"
    using b mid0 by (auto simp: section_built_def demo_transceiver_def media_section_application_def split: if_splits)
  have mem: "?m \<in> set (sd_media_descriptions d)" using d(3) len by simp
  obtain r where r: "r \<in> set audio_and_data" "get_mid_value r = get_mid_value ?m"
    "has_send (get_peer_direction ?m) \<longrightarrow> has_recv (get_peer_direction r)"
    using answer_directions_respect_offer [OF plain_sdp_laws a _ d(1) mem k, of "demo_offer audio_and_data"] by auto
  then have "r = demo_media ''audio'' ''0'' ''sendonly''" using g by (auto simp: audio_and_data_def)
  then have "\<not> has_send (get_peer_direction ?m)" using r(3) by (simp add: demo_media_direction)
  with a d(1) mem g show ?thesis by blast
qed

section \<open>Accepting offers\<close>

text \<open>A client that joins with an offer the server can answer is remembered as a candidate under
  the user name both sides will use for STUN; it names the session and the endpoint, holds the
  answer sent and expires after the idle timeout.  No endpoint is created yet and no four-tuple is
  bound.\<close>

theorem join_registers_candidate:
  assumes "accept_offer E fresh now sid eid four offer st = (Inr answer, st')"
    and "\<not> session_has_endpoint (fst (create_or_get_session sid st)) eid"
    and "unmarshal (lib_sdp E) offer = Inr p" and "credentials_from_sdp (lib_sdp E) p = Inr rc"
  shows "(\<exists>c. find_candidate (ip_username_fragment fresh @ '':'' @ ip_username_fragment (cc_ice rc)) st' = Some c \<and>
            cd_session_id c = sid \<and> cd_endpoint_id c = eid \<and> cd_local_description c = answer \<and>
            cc_ice (cd_local_cred c) = fresh \<and> cd_remote_cred c = rc \<and>
            cd_expired_time c = now + int (svc_idle_timeout (st_server_config st))) \<and>
         st_endpoints st' = st_endpoints st \<and>
         (\<forall>k. k \<noteq> sid \<longrightarrow> hm_get (st_sessions st') k = hm_get (st_sessions st) k) \<and>
         (\<exists>s. hm_get (st_sessions st') sid = Some s \<and> \<not> session_has_endpoint s eid)"
proof -
  obtain s st1 where c: "create_or_get_session sid st = (s, st1)" by (cases "create_or_get_session sid st")
  have st1: "st_endpoints st1 = st_endpoints st" "hm_get (st_sessions st1) sid = Some s"
    "k \<noteq> sid \<Longrightarrow> hm_get (st_sessions st1) k = hm_get (st_sessions st) k" for k
    using c by (auto simp: create_or_get_session_def Let_def split: option.splits)
  have none: "\<not> session_has_endpoint s eid" using assms(2) c by simp
  let ?lc = "credentials_new fresh (first_fingerprints E (st_server_config st)) (cc_role rc)"
  have st': "st' = add_candidate (candidate_new sid eid rc ?lc (offer\<lparr>rd_parsed := Some p\<rparr>) answer
                 (now + int (svc_idle_timeout (st_server_config st)))) (put_session sid s st1)"
    using assms(1,3,4) c none
    by (auto simp: accept_offer_def accept_parsed_offer_def local_credentials_def Let_def split: sum.splits)
  show ?thesis
    using st1 none by (auto simp: st' find_candidate_def add_candidate_def candidate_username_def
        candidate_new_def credentials_new_def put_session_def)
qed

definition data_only :: "media_description list" where
  "data_only = [demo_media ''application'' ''0'' ''sendrecv'']"

definition demo_fresh :: ice_parameters where
  "demo_fresh = \<lparr>ip_username_fragment = ''abcd'', ip_password = ''efgh''\<rparr>"

definition demo_remote :: connection_credentials where
  "demo_remote = \<lparr>cc_ice = \<lparr>ip_username_fragment = ''peer'', ip_password = ''pw''\<rparr>, cc_role = DtlsAuto,
                  cc_fingerprints = [\<lparr>fp_algorithm = ''sha-256'', fp_value = ''AB''\<rparr>]\<rparr>"

lemma join_lib_simps:
  "unmarshal (lib_sdp (join_lib ms)) d = Inr (demo_offer ms)"
  by (simp add: unmarshal_def join_lib_def plain_sdp_def)

lemma join_credentials:
  "credentials_from_sdp (lib_sdp (join_lib ms)) (demo_offer (demo_media k v dir # rest)) = Inr demo_remote"
  if "setup_free": "dtls_role_of_sdp (demo_offer (demo_media k v dir # rest)) = DtlsAuto"
    and "dir \<noteq> ''ice-ufrag''" and "dir \<noteq> ''ice-pwd''" and "dir \<noteq> ''fingerprint''"
proof -
  have f: "fingerprint_of_str ''sha-256 AB'' = Inr \<lparr>fp_algorithm = ''sha-256'', fp_value = ''AB''\<rparr>"
    by (simp add: fingerprint_of_str_def split_whitespace_def is_ws_def Let_def)
  show ?thesis
    using that f
    by (simp add: credentials_from_sdp_def first_media_attribute_def join_lib_def plain_sdp_def
        List.map_filter_def demo_remote_def demo_offer_def plain_session_def)
      (simp add: demo_media_def plain_media_def)
qed

lemma data_only_joins:
  "credentials_from_sdp (lib_sdp (join_lib data_only)) (demo_offer data_only) = Inr demo_remote"
  unfolding data_only_def
  by (rule join_credentials)
     (simp_all add: dtls_role_of_sdp_def demo_offer_def demo_media_def plain_media_def)

lemma no_endpoint_9 [simp]:
  "create_or_get_session 7 demo_states = (demo_session, demo_states)"
  "\<not> session_has_endpoint demo_session 9" "session_has_endpoint demo_session 1"
  by (simp_all add: create_or_get_session_def session_has_endpoint_def hm_contains_def demo_session_def)

theorem join_registers_candidate_witness:
  "\<exists>answer st' c. accept_offer (join_lib data_only) demo_fresh 10 7 9 None (offer_description []) demo_states = (Inr answer, st') \<and>
     find_candidate ''abcd:peer'' st' = Some c \<and> cd_endpoint_id c = 9 \<and> cd_expired_time c = 30000000010"
proof -
  let ?E = "join_lib data_only"
  have h: "hm_get (ss_endpoints demo_session) 9 = None" by (simp add: demo_session_def)
  have "\<exists>ans. create_answer (lib_sdp ?E) (lib_sha256 ?E) 9 (offer_description []\<lparr>rd_parsed := Some (demo_offer data_only)\<rparr>)
          demo_fresh demo_session = Inr ans"
    by (simp add: create_answer_def generate_matched_sdp_def media_sections_def data_only_def h
        match_media_def media_section_application_def demo_session_def demo_config_def
        server_config_new_def populate_sdp_def populate_section_def Let_def data_section_def)
  then obtain answer st' where a: "accept_offer ?E demo_fresh 10 7 9 None (offer_description []) demo_states = (Inr answer, st')"
    by (auto simp: accept_offer_def join_lib_simps data_only_joins accept_parsed_offer_def
        local_credentials_def credentials_new_def Let_def)
  have "svc_idle_timeout (st_server_config demo_states) = 30000000000"
    by (simp add: demo_states_def demo_config_def server_config_new_def)
  with join_registers_candidate [OF a _ join_lib_simps data_only_joins] a show ?thesis
    by (auto simp: demo_fresh_def demo_remote_def)
qed

lemma match_all_refuses:
  assumes "m \<in> set ms" and "get_mid_value m = Some v" and "codec_type_of_str (md_media m) \<noteq> KindUnspecified"
    and "get_peer_direction m \<noteq> DirUnspecified"
  shows "\<exists>e. match_all [] b ms st = Inl e"
  using assms(1)
proof (induction ms arbitrary: st)
  case (Cons x xs)
  show ?case
  proof (cases "match_media [] b x st")
    case (Inr st')
    have "x \<noteq> m"
      using Inr assms(2-4)
      by (cases st) (auto simp: match_media_def Let_def hm_contains_def codec_type_of_str_def
          media_section_application_def split: if_splits)
    with Cons Inr show ?thesis by simp
  qed simp
qed simp

text \<open>C37: A client cannot join with media: as long as its endpoint is not connected, an offer with
  an audio or video section that has an identifier and a direction is refused.  No candidate is
  registered, but the session the offer named stays behind.\<close>

theorem join_with_media_refused:
  assumes "states_ok st" and "\<not> session_has_endpoint (fst (create_or_get_session sid st)) eid"
    and "unmarshal (lib_sdp E) offer = Inr p" and "credentials_from_sdp (lib_sdp E) p = Inr rc"
    and "m \<in> set (sd_media_descriptions p)" and "get_mid_value m = Some v"
    and "codec_type_of_str (md_media m) \<noteq> KindUnspecified" and "get_peer_direction m \<noteq> DirUnspecified"
  shows "\<exists>e. accept_offer E fresh now sid eid four offer st = (Inl e, snd (create_or_get_session sid st))"
proof -
  obtain s st1 where c: "create_or_get_session sid st = (s, st1)" by (cases "create_or_get_session sid st")
  have g: "hm_get (st_sessions st1) sid = Some s"
    using c by (auto simp: create_or_get_session_def Let_def split: option.splits)
  have wf: "hm_wf (st_sessions st1)"
    using states_okD(1) [OF create_or_get_session_ok(1) [OF assms(1) c]] .
  have same: "put_session sid s st1 = st1"
    using g wf by (auto simp: put_session_def hm_modify_def hm_in_set_get intro!: map_idI
        server_states.equality)
  have none: "\<not> session_has_endpoint s eid" using assms(2) c by simp
  then have nos: "hm_get (ss_endpoints s) eid = None"
    by (auto simp: session_has_endpoint_def hm_contains_get)
  obtain e where "match_all [] False (sd_media_descriptions p) ([], False, []) = Inl e"
    using match_all_refuses [OF assms(5-8)] by blast
  then have "create_answer (lib_sdp E) (lib_sha256 E) eid (offer\<lparr>rd_parsed := Some p\<rparr>) ice s = Inl e" for ice
    by (simp add: create_answer_def generate_matched_sdp_def nos media_sections_def)
  then show ?thesis
    using assms(3,4) c none same
    by (simp add: accept_offer_def accept_parsed_offer_def local_credentials_def Let_def)
qed

theorem join_with_media_refused_witness:
  "\<exists>e. accept_offer (join_lib audio_and_data) demo_fresh 10 7 9 None (offer_description []) demo_states = (Inl e, demo_states)"
proof -
  have c: "credentials_from_sdp (lib_sdp (join_lib audio_and_data)) (demo_offer audio_and_data) = Inr demo_remote"
    unfolding audio_and_data_def
    by (rule join_credentials)
       (simp_all add: dtls_role_of_sdp_def demo_offer_def demo_media_def plain_media_def)
  have m: "demo_media ''audio'' ''0'' ''sendonly'' \<in> set (sd_media_descriptions (demo_offer audio_and_data))"
    by (simp add: audio_and_data_def)
  show ?thesis
    using join_with_media_refused [OF demo_states_ok _ join_lib_simps c m, of 7 9 "''0''" demo_fresh 10 None "offer_description []"]
    by (simp add: codec_type_of_str_def demo_media_direction)
qed

text \<open>For an endpoint that is already connected an offer without a four-tuple, which is what
  signaling sends, never succeeds.\<close>

theorem connected_offer_needs_four_tuple:
  assumes "session_has_endpoint (fst (create_or_get_session sid st)) eid"
  shows "\<exists>e. fst (accept_offer E fresh now sid eid None offer st) = Inl e"
proof -
  obtain s st1 where c: "create_or_get_session sid st = (s, st1)" by (cases "create_or_get_session sid st")
  have "\<exists>e s'. local_credentials E fresh fps rc eid None off s = (Inl e, s')" for fps rc off
    using assms c by (auto simp: local_credentials_def endpoint_credentials_def and_then_def ok_or_def
        split: prod.splits sum.splits option.splits)
  then have "\<exists>e s'. accept_parsed_offer E fresh now sid eid None rc off st = (Inl e, s')" for rc off
    using c by (simp add: accept_parsed_offer_def) (metis (no_types, lifting) case_prod_conv sum.simps(5))
  then show ?thesis
    by (auto simp: accept_offer_def split: sum.splits) (metis fst_conv)
qed

theorem connected_offer_needs_four_tuple_witness:
  "\<exists>e. fst (accept_offer (join_lib data_only) demo_fresh 10 7 1 None (offer_description []) demo_states) = Inl e"
  by (rule connected_offer_needs_four_tuple) simp

end
