(* ===== verification/Audio_Decoder.thy ===== *)
theory Audio_Decoder
  imports Backends
begin

text \<open>
  \<open>src/transcription/decoder.rs\<close>: the resampler, which collects samples and hands them to an FFT
  resampler in chunks of a fixed size, and the decoder in front of it.

  The FFT resampler (type \<open>'r\<close>) and the Opus decoder (type \<open>'o\<close>) are libraries, in the records
  \<open>resample_lib\<close> and \<open>opus_lib\<close>.  An \<open>f32\<close> is NaN, an infinity or an exact rational; the
  conversions between samples and \<open>f32\<close> are written out, rounding included.
\<close>

section \<open>Samples as floating-point numbers\<close>

datatype f32 = F32NaN | F32Inf bool | F32Fin rat

text \<open>\<open>sample as f32 / 32768.0\<close>, which is exact.\<close>

definition f32_of_sample :: "i16 \<Rightarrow> f32" where
  "f32_of_sample s = F32Fin (of_int (sint s) / 32768)"

text \<open>\<open>(sample.clamp(-1.0, 1.0) * 32767.0) as i16\<close>: the product is rounded to 24 bits, the cast
  truncates towards zero and sends NaN to 0.\<close>

definition clamp_unit :: "rat \<Rightarrow> rat" where
  "clamp_unit q = (if q < - 1 then - 1 else if 1 < q then 1 else q)"

definition scaled_floor :: "rat \<Rightarrow> nat" where
  "scaled_floor q = (case quotient_of (q * 32767) of (n, d) \<Rightarrow> float_floor 24 (nat n) (nat d))"

definition sample_of_f32 :: "f32 \<Rightarrow> i16" where
  "sample_of_f32 x =
     (case x of
        F32NaN \<Rightarrow> 0
      | F32Inf neg \<Rightarrow> if neg then - 32767 else 32767
      | F32Fin q \<Rightarrow>
          (let c = clamp_unit q in
           if c < 0 then - of_nat (scaled_floor (- c)) else of_nat (scaled_floor c)))"

section \<open>The resampler\<close>

record 'r resample_lib =
  rl_new :: "nat \<Rightarrow> nat \<Rightarrow> nat \<Rightarrow> 'r res"         \<comment> \<open>input rate, output rate, chunk size\<close>
  rl_process :: "'r \<Rightarrow> f32 list \<Rightarrow> 'r \<times> f32 list res"
  rl_reset :: "'r \<Rightarrow> 'r"

record 'r resampler =
  rp_resampler :: 'r
  rp_input_buffer :: "f32 list"
  rp_chunk_size :: nat

definition webrtc_sample_rate :: nat where
  "webrtc_sample_rate = 48000"

definition simulstreaming_sample_rate :: nat where
  "simulstreaming_sample_rate = 16000"

definition with_chunk_size :: "'r resample_lib \<Rightarrow> nat \<Rightarrow> 'r resampler res" where
  "with_chunk_size R n =
     and_then (rl_new R webrtc_sample_rate simulstreaming_sample_rate n) (\<lambda>r.
       Inr \<lparr>rp_resampler = r, rp_input_buffer = [], rp_chunk_size = n\<rparr>)"

definition resampler_new :: "'r resample_lib \<Rightarrow> 'r resampler res" where
  "resampler_new R = with_chunk_size R 960"

text \<open>The \<open>Default\<close> instances panic, here \<open>None\<close>, where the library refuses.\<close>

definition resampler_default :: "'r resample_lib \<Rightarrow> 'r resampler option" where
  "resampler_default R = (case resampler_new R of Inr p \<Rightarrow> Some p | Inl e \<Rightarrow> None)"

text \<open>
  The loop over the complete chunks.  A chunk is removed from the buffer before it is processed, so
  an error of the library loses it, with the output so far.  With a chunk size of 0 the loop would
  never end, hence the partial function.
\<close>

partial_function (option) resample_chunks ::
  "'r resample_lib \<Rightarrow> i16 list \<Rightarrow> 'r resampler \<Rightarrow> ('r resampler \<times> i16 list res) option" where
  "resample_chunks R out p =
     (if length (rp_input_buffer p) < rp_chunk_size p then Some (p, Inr out)
      else
        (case rl_process R (rp_resampler p) (take (rp_chunk_size p) (rp_input_buffer p)) of
           (r', res) \<Rightarrow>
             (let p' = p\<lparr>rp_resampler := r', rp_input_buffer := drop (rp_chunk_size p) (rp_input_buffer p)\<rparr>
              in case res of
                   Inl e \<Rightarrow> Some (p', Inl e)
                 | Inr xs \<Rightarrow> resample_chunks R (out @ map sample_of_f32 xs) p')))"

definition resample ::
  "'r resample_lib \<Rightarrow> i16 list \<Rightarrow> 'r resampler \<Rightarrow> ('r resampler \<times> i16 list res) option" where
  "resample R input p =
     resample_chunks R [] (p\<lparr>rp_input_buffer := rp_input_buffer p @ map f32_of_sample input\<rparr>)"

definition resampler_flush :: "'r resample_lib \<Rightarrow> 'r resampler \<Rightarrow> 'r resampler \<times> i16 list res" where
  "resampler_flush R p =
     (if rp_input_buffer p = [] then (p, Inr [])
      else
        (let chunk = rp_input_buffer p @ replicate (rp_chunk_size p - length (rp_input_buffer p)) (F32Fin 0)
         in case rl_process R (rp_resampler p) chunk of
              (r', res) \<Rightarrow>
                (p\<lparr>rp_resampler := r', rp_input_buffer := []\<rparr>,
                 and_then res (\<lambda>xs. Inr (map sample_of_f32 xs)))))"

definition resampler_reset :: "'r resample_lib \<Rightarrow> 'r resampler \<Rightarrow> 'r resampler" where
  "resampler_reset R p = p\<lparr>rp_input_buffer := [], rp_resampler := rl_reset R (rp_resampler p)\<rparr>"

section \<open>The decoder\<close>

text \<open>
  \<open>opus_decode\<close> decodes a packet (or conceals a lost one), with or without error correction data,
  into at most 5760 samples; \<open>opus_packet\<close> is the check of \<open>Packet::try_from\<close>.  The decode buffer
  is scratch space: only its decoded prefix is read, so it is not part of the state.
\<close>

record 'o opus_lib =
  ol_new :: "'o res"
  ol_packet :: "u8 list \<Rightarrow> unit res"
  ol_decode :: "'o \<Rightarrow> u8 list option \<Rightarrow> bool \<Rightarrow> 'o \<times> i16 list res"
  ol_reset :: "'o \<Rightarrow> 'o \<times> unit res"

record ('o, 'r) audio_decoder =
  ad_decoder :: 'o
  ad_resampler :: "'r resampler"

definition decoder_new_audio :: "'o opus_lib \<Rightarrow> 'r resample_lib \<Rightarrow> ('o, 'r) audio_decoder res" where
  "decoder_new_audio Q R =
     and_then (ol_new Q) (\<lambda>d.
     and_then (resampler_new R) (\<lambda>r. Inr \<lparr>ad_decoder = d, ad_resampler = r\<rparr>))"

definition decoder_default :: "'o opus_lib \<Rightarrow> 'r resample_lib \<Rightarrow> ('o, 'r) audio_decoder option" where
  "decoder_default Q R = (case decoder_new_audio Q R of Inr a \<Rightarrow> Some a | Inl e \<Rightarrow> None)"

definition decode_with_fec ::
  "'o opus_lib \<Rightarrow> 'r resample_lib \<Rightarrow> u8 list option \<Rightarrow> bool \<Rightarrow> ('o, 'r) audio_decoder
     \<Rightarrow> (('o, 'r) audio_decoder \<times> i16 list res) option" where
  "decode_with_fec Q R opus_data fec a =
     (case (case opus_data of None \<Rightarrow> Inr () | Some bs \<Rightarrow> ol_packet Q bs) of
        Inl e \<Rightarrow> Some (a, Inl e)
      | Inr _ \<Rightarrow>
          (case ol_decode Q (ad_decoder a) opus_data fec of
             (d, Inl e) \<Rightarrow> Some (a\<lparr>ad_decoder := d\<rparr>, Inl e)
           | (d, Inr samples) \<Rightarrow>
               map_option (\<lambda>(p, res). (a\<lparr>ad_decoder := d, ad_resampler := p\<rparr>, res))
                 (resample R samples (ad_resampler a))))"

definition decode ::
  "'o opus_lib \<Rightarrow> 'r resample_lib \<Rightarrow> u8 list \<Rightarrow> ('o, 'r) audio_decoder
     \<Rightarrow> (('o, 'r) audio_decoder \<times> i16 list res) option" where
  "decode Q R opus_data a =
     (case ol_packet Q opus_data of
        Inl e \<Rightarrow> Some (a, Inl e)
      | Inr _ \<Rightarrow>
          (case ol_decode Q (ad_decoder a) (Some opus_data) False of
             (d, Inl e) \<Rightarrow> Some (a\<lparr>ad_decoder := d\<rparr>, Inl e)
           | (d, Inr samples) \<Rightarrow>
               map_option (\<lambda>(p, res). (a\<lparr>ad_decoder := d, ad_resampler := p\<rparr>, res))
                 (resample R samples (ad_resampler a))))"

definition decoder_flush ::
  "'r resample_lib \<Rightarrow> ('o, 'r) audio_decoder \<Rightarrow> ('o, 'r) audio_decoder \<times> i16 list res" where
  "decoder_flush R a =
     (case resampler_flush R (ad_resampler a) of (p, res) \<Rightarrow> (a\<lparr>ad_resampler := p\<rparr>, res))"

definition decoder_reset ::
  "'o opus_lib \<Rightarrow> 'r resample_lib \<Rightarrow> ('o, 'r) audio_decoder \<Rightarrow> ('o, 'r) audio_decoder \<times> unit res" where
  "decoder_reset Q R a =
     (case ol_reset Q (ad_decoder a) of
        (d, Inl e) \<Rightarrow> (a\<lparr>ad_decoder := d\<rparr>, Inl e)
      | (d, Inr _) \<Rightarrow>
          (a\<lparr>ad_decoder := d, ad_resampler := resampler_reset R (ad_resampler a)\<rparr>, Inr ()))"

end
