(* ===== verification/Decoder_Facts.thy ===== *)
theory Decoder_Facts
  imports Audio_Decoder
begin

text \<open>
  The properties of the audio decoder: its loop ends, the packets it is fed with do not show in its
  output, and a sample survives the way through floating point up to the last unit.
\<close>

section \<open>The loop over the chunks\<close>

lemma resample_chunks_total:
  "0 < rp_chunk_size p \<Longrightarrow>
     \<exists>p' r. resample_chunks R out p = Some (p', r) \<and> rp_chunk_size p' = rp_chunk_size p \<and>
       (\<forall>xs. r = Inr xs \<longrightarrow> length (rp_input_buffer p') < rp_chunk_size p)"
proof (induction "length (rp_input_buffer p)" arbitrary: p out rule: less_induct)
  case less
  show ?case
  proof (cases "length (rp_input_buffer p) < rp_chunk_size p")
    case True
    then show ?thesis by (subst resample_chunks.simps) simp
  next
    case False
    obtain r' res where s: "rl_process R (rp_resampler p) (take (rp_chunk_size p) (rp_input_buffer p)) = (r', res)"
      by fastforce
    let ?p = "p\<lparr>rp_resampler := r', rp_input_buffer := drop (rp_chunk_size p) (rp_input_buffer p)\<rparr>"
    have "length (rp_input_buffer ?p) < length (rp_input_buffer p)" using False less.prems by simp
    then have ih: "\<exists>p' r. resample_chunks R out' ?p = Some (p', r) \<and> rp_chunk_size p' = rp_chunk_size ?p \<and>
       (\<forall>xs. r = Inr xs \<longrightarrow> length (rp_input_buffer p') < rp_chunk_size ?p)" for out'
      using less.prems by (intro less.hyps) simp_all
    show ?thesis
      using False s ih by (subst resample_chunks.simps) (cases res; simp)
  qed
qed

lemma resample_chunks_out:
  assumes "0 < rp_chunk_size p"
  shows "resample_chunks R out p =
     map_option (\<lambda>(p', r). (p', and_then r (\<lambda>xs. Inr (out @ xs)))) (resample_chunks R [] p)"
  using assms
proof (induction "length (rp_input_buffer p)" arbitrary: p out rule: less_induct)
  case less
  show ?case
  proof (cases "length (rp_input_buffer p) < rp_chunk_size p")
    case True
    then show ?thesis by (subst (1 2) resample_chunks.simps) simp
  next
    case False
    obtain r' res where s: "rl_process R (rp_resampler p) (take (rp_chunk_size p) (rp_input_buffer p)) = (r', res)"
      by fastforce
    let ?p = "p\<lparr>rp_resampler := r', rp_input_buffer := drop (rp_chunk_size p) (rp_input_buffer p)\<rparr>"
    have "length (rp_input_buffer ?p) < length (rp_input_buffer p)" using False less.prems by simp
    then have ih: "resample_chunks R out' ?p =
        map_option (\<lambda>(p', r). (p', and_then r (\<lambda>xs. Inr (out' @ xs)))) (resample_chunks R [] ?p)" for out'
      using less.prems by (intro less.hyps) simp_all
    show ?thesis
    proof (cases res)
      case (Inr xs)
      have "resample_chunks R out p = resample_chunks R (out @ map sample_of_f32 xs) ?p"
        "resample_chunks R [] p = resample_chunks R (map sample_of_f32 xs) ?p"
        using False s Inr by (subst resample_chunks.simps, simp)+
      then show ?thesis
        using ih [of "out @ map sample_of_f32 xs"] ih [of "map sample_of_f32 xs"]
        by (cases "resample_chunks R [] ?p") (auto simp: and_then_def split: sum.splits)
    qed (use False s in \<open>(subst (1 2) resample_chunks.simps, simp)\<close>)
  qed
qed

text \<open>More input behind the buffer does not change the chunks that are complete without it.\<close>

lemma resample_chunks_extend:
  assumes "0 < rp_chunk_size p" and "resample_chunks R out p = Some (p1, Inr out1)"
  shows "resample_chunks R out (p\<lparr>rp_input_buffer := rp_input_buffer p @ ys\<rparr>) =
           resample_chunks R out1 (p1\<lparr>rp_input_buffer := rp_input_buffer p1 @ ys\<rparr>)"
  using assms
proof (induction "length (rp_input_buffer p)" arbitrary: p out rule: less_induct)
  case less
  show ?case
  proof (cases "length (rp_input_buffer p) < rp_chunk_size p")
    case True
    then have "p1 = p" "out1 = out" using less.prems(2) by (subst (asm) resample_chunks.simps, simp)+
    then show ?thesis by simp
  next
    case False
    obtain r' res where s: "rl_process R (rp_resampler p) (take (rp_chunk_size p) (rp_input_buffer p)) = (r', res)"
      by fastforce
    let ?p = "p\<lparr>rp_resampler := r', rp_input_buffer := drop (rp_chunk_size p) (rp_input_buffer p)\<rparr>"
    obtain xs where xs: "res = Inr xs"
      using less.prems(2) False s by (subst (asm) resample_chunks.simps) (cases res; simp)
    have step: "resample_chunks R out p = resample_chunks R (out @ map sample_of_f32 xs) ?p"
      using False s xs by (subst resample_chunks.simps) simp
    have "resample_chunks R out (p\<lparr>rp_input_buffer := rp_input_buffer p @ ys\<rparr>) =
        resample_chunks R (out @ map sample_of_f32 xs) (?p\<lparr>rp_input_buffer := rp_input_buffer ?p @ ys\<rparr>)"
      using False s xs by (subst resample_chunks.simps) simp
    also have "\<dots> = resample_chunks R out1 (p1\<lparr>rp_input_buffer := rp_input_buffer p1 @ ys\<rparr>)"
      using less.prems False step by (intro less.hyps) simp_all
    finally show ?thesis .
  qed
qed

text \<open>C39: The output of the resampler does not depend on how the input is cut into packets: if the
  first part is resampled without an error, resampling both parts at once gives the output of the
  first followed by that of the second, the same final state, and the same error if there is one.\<close>

theorem resample_packetisation:
  assumes "0 < rp_chunk_size p" and "resample R xs p = Some (p1, Inr out1)"
  shows "resample R (xs @ ys) p =
    map_option (\<lambda>(p2, r). (p2, and_then r (\<lambda>out2. Inr (out1 @ out2)))) (resample R ys p1)"
proof -
  let ?p = "p\<lparr>rp_input_buffer := rp_input_buffer p @ map f32_of_sample xs\<rparr>"
  have c: "rp_chunk_size p1 = rp_chunk_size p"
    using resample_chunks_total [of ?p R "[]"] assms by (auto simp: resample_def)
  have "resample R (xs @ ys) p = resample_chunks R [] (?p\<lparr>rp_input_buffer := rp_input_buffer ?p @ map f32_of_sample ys\<rparr>)"
    by (simp add: resample_def)
  also have "\<dots> = resample_chunks R out1 (p1\<lparr>rp_input_buffer := rp_input_buffer p1 @ map f32_of_sample ys\<rparr>)"
    using assms by (intro resample_chunks_extend) (simp_all add: resample_def)
  finally show ?thesis
    using resample_chunks_out [of "p1\<lparr>rp_input_buffer := rp_input_buffer p1 @ map f32_of_sample ys\<rparr>" R out1] assms(1) c
    by (simp add: resample_def)
qed

text \<open>A resampler that keeps the first sample of each chunk, and an Opus decoder whose packets are the
  samples.\<close>

definition demo_resample :: "unit resample_lib" where
  "demo_resample = \<lparr>rl_new = (\<lambda>i out n. Inr ()), rl_process = (\<lambda>r xs. (r, Inr (take 1 xs))), rl_reset = id\<rparr>"

definition demo_opus :: "unit opus_lib" where
  "demo_opus = \<lparr>ol_new = Inr (), ol_packet = (\<lambda>bs. Inr ()),
     ol_decode = (\<lambda>d bs fec. (d, Inr (case bs of Some xs \<Rightarrow> map ucast xs | None \<Rightarrow> []))), ol_reset = (\<lambda>d. (d, Inr ()))\<rparr>"

definition demo_resampler :: "unit resampler" where
  "demo_resampler = \<lparr>rp_resampler = (), rp_input_buffer = [], rp_chunk_size = 2\<rparr>"

theorem resample_packetisation_witness:
  "\<exists>p1 out1. resample demo_resample [1, 2, 3] demo_resampler = Some (p1, Inr out1) \<and>
     resample demo_resample ([1, 2, 3] @ [4]) demo_resampler =
       map_option (\<lambda>(p2, r). (p2, and_then r (\<lambda>out2. Inr (out1 @ out2)))) (resample demo_resample [4] p1)"
proof -
  obtain p1 out1 where r: "resample demo_resample [1, 2, 3] demo_resampler = Some (p1, Inr out1)"
    by (simp add: resample_def demo_resampler_def demo_resample_def resample_chunks.simps)
  from resample_packetisation [OF _ this, of "[4]"] r show ?thesis
    by (simp add: demo_resampler_def)
qed

lemma decode_total:
  assumes "0 < rp_chunk_size (ad_resampler a)"
  shows "\<exists>a' r. decode Q R bs a = Some (a', r) \<and>
    rp_chunk_size (ad_resampler a') = rp_chunk_size (ad_resampler a) \<and>
    (\<forall>xs. r = Inr xs \<longrightarrow> length (rp_input_buffer (ad_resampler a')) < rp_chunk_size (ad_resampler a))"
proof (cases "ol_packet Q bs")
  case (Inr u)
  obtain d res where d: "ol_decode Q (ad_decoder a) (Some bs) False = (d, res)" by fastforce
  show ?thesis
  proof (cases res)
    case res: (Inr samples)
    have "\<exists>p' r. resample R samples (ad_resampler a) = Some (p', r) \<and>
        rp_chunk_size p' = rp_chunk_size (ad_resampler a) \<and>
        (\<forall>xs. r = Inr xs \<longrightarrow> length (rp_input_buffer p') < rp_chunk_size (ad_resampler a))"
      using resample_chunks_total
        [of "(ad_resampler a)\<lparr>rp_input_buffer := rp_input_buffer (ad_resampler a) @ map f32_of_sample samples\<rparr>" R "[]"] assms
      by (simp add: resample_def)
    then show ?thesis using Inr d res by (auto simp: decode_def)
  qed (use Inr d in \<open>simp add: decode_def\<close>)
qed (simp add: decode_def)

text \<open>C38: Decoding always ends, with a decoder made by \<open>new\<close> or used since: the loop over the chunks
  terminates because the chunk size stays positive, and after a successful call less than one chunk
  is waiting.\<close>

theorem decode_terminates:
  assumes "0 < rp_chunk_size (ad_resampler a)"
  shows "\<exists>a' r. decode Q R bs a = Some (a', r) \<and>
    rp_chunk_size (ad_resampler a') = rp_chunk_size (ad_resampler a) \<and>
    (\<forall>xs. r = Inr xs \<longrightarrow> length (rp_input_buffer (ad_resampler a')) < rp_chunk_size (ad_resampler a))"
  using decode_total [OF assms] .

theorem decode_terminates_witness:
  "\<exists>a a' r. decoder_new_audio demo_opus demo_resample = Inr a \<and>
     decode demo_opus demo_resample [1, 2, 3] a = Some (a', r)"
proof -
  obtain a where a: "decoder_new_audio demo_opus demo_resample = Inr a" "rp_chunk_size (ad_resampler a) = 960"
    by (simp add: decoder_new_audio_def demo_opus_def demo_resample_def resampler_new_def with_chunk_size_def)
  from decode_terminates [of a demo_opus demo_resample "[1, 2, 3]"] a show ?thesis by auto
qed

section \<open>Samples\<close>

lemma scaled_floor_between:
  assumes "of_nat m \<le> q * 32767" and "q * 32767 \<le> of_nat (m + 1)" and "m + 1 < 2 ^ 24"
  shows "m \<le> scaled_floor q \<and> scaled_floor q \<le> m + 1"
proof -
  obtain n d where nd: "quotient_of (q * 32767) = (n, d)" by fastforce
  have d: "0 < d" using quotient_of_denom_pos [OF nd] .
  have q: "q * 32767 = of_int n / of_int d" by (rule quotient_of_div [OF nd])
  have "of_int (int m * d) \<le> (of_int n :: rat)" "(of_int n :: rat) \<le> of_int ((int m + 1) * d)"
    using assms(1,2) d unfolding q by (simp_all add: field_simps)
  then have n: "int m * d \<le> n" "n \<le> (int m + 1) * d" unfolding of_int_le_iff .
  then have "0 \<le> n" using d by (smt (verit) mult_nonneg_nonneg of_nat_0_le_iff)
  then obtain n' d' where nd': "n = int n'" "d = int d'" using d by (metis nonneg_int_cases less_imp_le)
  then have "int (m * d') \<le> int n'" "int n' \<le> int ((m + 1) * d')" using n nd' by (simp_all add: algebra_simps)
  then have "m * d' \<le> n'" "n' \<le> (m + 1) * d'" unfolding of_nat_le_iff .
  with float_floor_between [of m d' n' 24] assms(3) d nd' show ?thesis
    by (simp add: scaled_floor_def nd)
qed

lemma sint_bounds: "- 32768 \<le> sint (s :: i16)" "sint (s :: i16) \<le> 32767"
  using sint_greater_eq [of s] sint_less [of s] by simp_all

lemma sint_of_small: "- 32768 \<le> i \<Longrightarrow> i \<le> 32767 \<Longrightarrow> sint (of_int i :: i16) = i"
  by (simp add: signed_of_int signed_take_bit_int_eq_self)

text \<open>A 16-bit sample that passes through the floating-point domain of the resampler unchanged
  comes back with its sign and differs by at most one unit, for every sample, the asymmetric
  minimum included: 32768 and 32767 are both used as full scale.\<close>

theorem sample_conversion_error:
  "\<bar>sint (sample_of_f32 (f32_of_sample s)) - sint s\<bar> \<le> 1 \<and>
   \<bar>sint (sample_of_f32 (f32_of_sample s))\<bar> \<le> \<bar>sint s\<bar>"
proof -
  define i where "i = sint s"
  define q where "q = (of_int i / 32768 :: rat)"
  have i: "- 32768 \<le> i" "i \<le> 32767" using sint_bounds [of s] by (simp_all add: i_def)
  then have "(of_int (- 32768) :: rat) \<le> of_int i" "(of_int i :: rat) \<le> of_int 32767"
    unfolding of_int_le_iff .
  then have c: "clamp_unit q = q" by (simp add: q_def clamp_unit_def)
  have out: "sample_of_f32 (f32_of_sample s) =
      (if i < 0 then - of_nat (scaled_floor (- q)) else of_nat (scaled_floor q))"
    using c by (simp add: sample_of_f32_def f32_of_sample_def Let_def flip: i_def q_def)
       (simp add: q_def)
  have between: "m \<le> scaled_floor r \<and> scaled_floor r \<le> m + 1"
    if "r = of_nat (m + 1) / 32768" "m < 32768" for m r
  proof (rule scaled_floor_between)
    have "(of_nat m :: rat) \<le> of_nat 32767" using that(2) unfolding of_nat_le_iff by simp
    then show "of_nat m \<le> r * 32767" by (simp add: that(1) field_simps)
    show "r * 32767 \<le> of_nat (m + 1)" by (simp add: that(1) field_simps)
    show "m + 1 < 2 ^ 24" using that(2) by simp
  qed
  consider "i = 0" | m where "i = int (m + 1)" "m < 32767" | m where "- i = int (m + 1)" "m < 32768"
  proof -
    have "i = int (nat (i - 1) + 1) \<and> nat (i - 1) < 32767" if "0 < i" using that i by simp
    moreover have "- i = int (nat (- i - 1) + 1) \<and> nat (- i - 1) < 32768" if "i < 0" using that i by simp
    ultimately show thesis using that by (metis linorder_neqE_linordered_idom)
  qed
  then show ?thesis
  proof cases
    case 1
    have "scaled_floor 0 = 0" using float_floor_exact [of 0 24] by (simp add: scaled_floor_def)
    then show ?thesis using 1 out by (simp add: q_def flip: i_def)
  next
    case (2 m)
    have f: "m \<le> scaled_floor q \<and> scaled_floor q \<le> m + 1"
      using 2 by (intro between) (simp_all add: q_def)
    then have "sint (sample_of_f32 (f32_of_sample s)) = int (scaled_floor q)"
      using sint_of_small [of "int (scaled_floor q)"] 2 out by simp
    then show ?thesis using f 2 by (simp flip: i_def)
  next
    case (3 m)
    have "- q = of_int (- i) / 32768" by (simp add: q_def)
    then have f: "m \<le> scaled_floor (- q) \<and> scaled_floor (- q) \<le> m + 1"
      using 3 by (intro between) (simp_all only: of_int_of_nat_eq)
    then have "sint (sample_of_f32 (f32_of_sample s)) = - int (scaled_floor (- q))"
      using sint_of_small [of "- int (scaled_floor (- q))"] 3 out by simp
    then show ?thesis using f 3 by (simp flip: i_def)
  qed
qed

end
