(* ===== verification/Async_Backends.thy ===== *)
theory Async_Backends
  imports Backends
begin

text \<open>
  The asynchronous clients of \<open>src/transcription/backends\<close>: \<open>AsyncSimulStreamingClient\<close> and
  \<open>OpenAiBackend\<close>.  Their result channels hold at most 100 segments; a task that sends to a full
  channel waits.  An \<open>await\<close> that cannot finish yet is the outcome \<open>Pending\<close>; a task that runs
  beside the client is a step function on the shared state.
\<close>

datatype 'a awaited = Ready 'a | Pending

definition channel_capacity :: nat where
  "channel_capacity = 100"

section \<open>The asynchronous SimulStreaming client\<close>

text \<open>Connecting resolves host names, unlike the synchronous client.\<close>

record 'w async_net =
  an_connect :: "string \<Rightarrow> 'w res"
  an_set_nodelay :: "'w \<Rightarrow> 'w res"
  an_write_all :: "'w \<Rightarrow> u8 list \<Rightarrow> 'w \<times> unit res"
  an_flush :: "'w \<Rightarrow> 'w \<times> unit res"

record 'w async_client =
  ac_write_half :: 'w
  ac_results :: "transcription_segment list"          \<comment> \<open>the channel\<close>
  ac_reading :: bool                                   \<comment> \<open>the reader task runs\<close>
  ac_waiting :: "transcription_segment option"         \<comment> \<open>it waits to send this segment\<close>

definition async_connect :: "'w async_net \<Rightarrow> string \<Rightarrow> 'w async_client res" where
  "async_connect N addr =
     and_then (an_connect N addr) (\<lambda>stream.
     and_then (an_set_nodelay N stream) (\<lambda>stream'.
       Inr \<lparr>ac_write_half = stream', ac_results = [], ac_reading = True, ac_waiting = None\<rparr>))"

definition async_send_audio ::
  "'w async_net \<Rightarrow> 'w async_client \<Rightarrow> i16 list \<Rightarrow> 'w async_client \<times> unit res" where
  "async_send_audio N c pcm =
     (case an_write_all N (ac_write_half c) (pcm_bytes pcm) of
        (s, Inl e) \<Rightarrow> (c\<lparr>ac_write_half := s\<rparr>, Inl e)
      | (s, Inr _) \<Rightarrow>
          (case an_flush N s of (s', r) \<Rightarrow> (c\<lparr>ac_write_half := s'\<rparr>, r)))"

definition async_recv ::
  "'w async_client \<Rightarrow> 'w async_client \<times> transcription_segment option awaited" where
  "async_recv c =
     (case ac_results c of
        seg # segs \<Rightarrow> (c\<lparr>ac_results := segs\<rparr>, Ready (Some seg))
      | [] \<Rightarrow> (c, if ac_reading c then Pending else Ready None))"

definition async_try_recv :: "'w async_client \<Rightarrow> 'w async_client \<times> transcription_segment option" where
  "async_try_recv c =
     (case ac_results c of
        seg # segs \<Rightarrow> (c\<lparr>ac_results := segs\<rparr>, Some seg)
      | [] \<Rightarrow> (c, None))"

definition async_backend_send_audio ::
  "'w async_net \<Rightarrow> 'w async_client \<Rightarrow> i16 list \<Rightarrow> 'w async_client \<times> unit res" where
  "async_backend_send_audio N c pcm = async_send_audio N c pcm"

definition async_next_segment ::
  "'w async_client \<Rightarrow> 'w async_client \<times> transcription_segment option res awaited" where
  "async_next_segment c =
     (case async_recv c of
        (c', Ready r) \<Rightarrow> (c', Ready (Inr r))
      | (c', Pending) \<Rightarrow> (c', Pending))"

text \<open>One turn of the reader task: a line read (\<open>read_line\<close> keeps its terminator and yields the
  empty string at the end of the stream), or the end of its wait for room in the channel.\<close>

definition async_reader_step :: "'w async_client \<Rightarrow> string res \<Rightarrow> 'w async_client" where
  "async_reader_step c input =
     (case input of
        Inl e \<Rightarrow> c\<lparr>ac_reading := False\<rparr>
      | Inr line \<Rightarrow>
          if line = [] then c\<lparr>ac_reading := False\<rparr>
          else case async_parse_line line of
            None \<Rightarrow> c
          | Some seg \<Rightarrow>
              if length (ac_results c) < channel_capacity
              then c\<lparr>ac_results := ac_results c @ [seg]\<rparr>
              else c\<lparr>ac_waiting := Some seg\<rparr>)"

definition async_reader_resume :: "'w async_client \<Rightarrow> 'w async_client" where
  "async_reader_resume c =
     (case ac_waiting c of
        Some seg \<Rightarrow>
          if length (ac_results c) < channel_capacity
          then c\<lparr>ac_results := ac_results c @ [seg], ac_waiting := None\<rparr> else c
      | None \<Rightarrow> c)"

text \<open>A schedule of the reader and the client; the reader takes a line only when it is not waiting.\<close>

datatype async_event = EvLine "string res" | EvResume | EvTryRecv

fun async_event_step ::
  "async_event \<Rightarrow> 'w async_client
     \<Rightarrow> 'w async_client \<times> string res list \<times> transcription_segment list" where
  "async_event_step (EvLine input) c =
     (if ac_reading c \<and> ac_waiting c = None then (async_reader_step c input, [input], []) else (c, [], []))"
| "async_event_step EvResume c = (async_reader_resume c, [], [])"
| "async_event_step EvTryRecv c =
     (case async_try_recv c of (c', r) \<Rightarrow> (c', [], case r of Some seg \<Rightarrow> [seg] | None \<Rightarrow> []))"

fun async_run ::
  "async_event list \<Rightarrow> 'w async_client
     \<Rightarrow> 'w async_client \<times> string res list \<times> transcription_segment list" where
  "async_run [] c = (c, [], [])"
| "async_run (e # es) c =
     (case async_event_step e c of
        (c1, ls, segs) \<Rightarrow> (case async_run es c1 of (c2, ls', segs') \<Rightarrow> (c2, ls @ ls', segs @ segs')))"

section \<open>The asynchronous OpenAI client\<close>

record transcription_task =
  tt_chunk :: "i16 list"
  tt_start :: u64
  tt_duration :: u64

record async_openai =
  oa_api_key :: string
  oa_base_url :: string
  oa_model :: string
  oa_site_url :: "string option"
  oa_app_name :: "string option"
  oa_buffer :: "i16 list"
  oa_tasks :: "transcription_task list"               \<comment> \<open>the spawned tasks that still run\<close>
  oa_results :: "transcription_segment list"
  oa_last_send :: instant
  oa_stream_time :: u64

definition async_openai_new :: "instant \<Rightarrow> string \<Rightarrow> string option \<Rightarrow> string option \<Rightarrow> async_openai" where
  "async_openai_new now api_key base_url model =
     \<lparr>oa_api_key = api_key, oa_base_url = openai_base_url base_url,
      oa_model = (case model of Some m \<Rightarrow> m | None \<Rightarrow> ''whisper-1''),
      oa_site_url = None, oa_app_name = Some ''SFU Server'', oa_buffer = [], oa_tasks = [],
      oa_results = [], oa_last_send = now, oa_stream_time = 0\<rparr>"

text \<open>\<open>flush\<close> spawns a task for the buffer; the task is also the second result.\<close>

definition async_flush :: "async_openai \<Rightarrow> async_openai \<times> transcription_task list" where
  "async_flush b =
     (if oa_buffer b = [] then (b, [])
      else
        (let task = \<lparr>tt_chunk = oa_buffer b, tt_start = oa_stream_time b, tt_duration = duration_ms (oa_buffer b)\<rparr>
         in (b\<lparr>oa_buffer := [], oa_stream_time := oa_stream_time b + tt_duration task,
               oa_tasks := oa_tasks b @ [task]\<rparr>, [task])))"

definition async_openai_send_audio ::
  "instant \<Rightarrow> i16 list \<Rightarrow> async_openai \<Rightarrow> async_openai \<times> transcription_task list" where
  "async_openai_send_audio now pcm b =
     (let b1 = b\<lparr>oa_buffer := oa_buffer b @ pcm\<rparr> in
      if unat sample_rate * 5 < length (oa_buffer b1)
      then (case async_flush b1 of (b2, ts) \<Rightarrow> (b2\<lparr>oa_last_send := now\<rparr>, ts))
      else (b1, []))"

fun async_openai_feed ::
  "(instant \<times> i16 list) list \<Rightarrow> async_openai \<Rightarrow> async_openai \<times> transcription_task list" where
  "async_openai_feed [] b = (b, [])"
| "async_openai_feed ((now, pcm) # ps) b =
     (case async_openai_send_audio now pcm b of
        (b1, ts) \<Rightarrow> (case async_openai_feed ps b1 of (b2, ts') \<Rightarrow> (b2, ts @ ts')))"

definition async_request :: "async_openai \<Rightarrow> i16 list \<Rightarrow> http_request" where
  "async_request b pcm =
     \<lparr>rq_url = trim_end_matches ''/'' (oa_base_url b) @ ''/audio/transcriptions'',
      rq_headers = [(''Authorization'', ''Bearer '' @ oa_api_key b)]
        @ (case oa_site_url b of Some u \<Rightarrow> [(''HTTP-Referer'', u)] | None \<Rightarrow> [])
        @ (case oa_app_name b of Some n \<Rightarrow> [(''X-Title'', n)] | None \<Rightarrow> []),
      rq_file_name = ''audio.wav'', rq_mime = ''audio/wav'',
      rq_file = create_wav pcm sample_rate 1, rq_model = oa_model b\<rparr>"

definition async_transcribe_chunk :: "httplib \<Rightarrow> async_openai \<Rightarrow> i16 list \<Rightarrow> string res" where
  "async_transcribe_chunk H b pcm =
     and_then (http_post H (async_request b pcm)) (\<lambda>(success, body).
       if \<not> success then Inl (Other ''API Error: {}'' [])
       else and_then (json_text H body) (\<lambda>t. Inr (case t of Some s \<Rightarrow> s | None \<Rightarrow> '''')))"

text \<open>The segment a finished task sends: none after an error or for blank text.\<close>

definition task_segments :: "httplib \<Rightarrow> async_openai \<Rightarrow> transcription_task \<Rightarrow> transcription_segment list" where
  "task_segments H b t =
     (case async_transcribe_chunk H b (tt_chunk t) of
        Inl e \<Rightarrow> []
      | Inr s \<Rightarrow>
          if trim s \<noteq> []
          then [\<lparr>start_ms = tt_start t, end_ms = tt_start t + tt_duration t, seg_text = s\<rparr>] else [])"

text \<open>The \<open>i\<close>-th running task finishes, unless its segment has to wait for room.  Tasks finish in any
  order.\<close>

definition async_task_step :: "httplib \<Rightarrow> nat \<Rightarrow> async_openai \<Rightarrow> async_openai" where
  "async_task_step H i b =
     (if i < length (oa_tasks b) then
        (let segs = task_segments H b (oa_tasks b ! i) in
         if segs = [] \<or> length (oa_results b) < channel_capacity
         then b\<lparr>oa_tasks := take i (oa_tasks b) @ drop (Suc i) (oa_tasks b), oa_results := oa_results b @ segs\<rparr>
         else b)
      else b)"

text \<open>The client holds a sender itself, so its channel never closes.\<close>

definition async_openai_next_segment ::
  "async_openai \<Rightarrow> async_openai \<times> transcription_segment option res awaited" where
  "async_openai_next_segment b =
     (case oa_results b of
        seg # segs \<Rightarrow> (b\<lparr>oa_results := segs\<rparr>, Ready (Inr (Some seg)))
      | [] \<Rightarrow> (b, Pending))"

section \<open>Laws\<close>

text \<open>Two steps of a process that turns what is pending and what comes in into what goes out and what
  is still pending.\<close>

lemma conserved_trans:
  "out1 @ p1 = p0 @ in1 \<Longrightarrow> out2 @ p2 = p1 @ in2 \<Longrightarrow> (out1 @ out2) @ p2 = p0 @ (in1 @ in2)"
  by (metis append.assoc)

definition async_pending :: "'w async_client \<Rightarrow> transcription_segment list" where
  "async_pending c = ac_results c @ (case ac_waiting c of Some seg \<Rightarrow> [seg] | None \<Rightarrow> [])"

text \<open>The channel as a backend that is polled: what waits behind a full channel is not counted, since
  the reader has to resume first.\<close>

interpretation async_simul: sync_backend async_try_recv ac_results
  by unfold_locales (auto simp: async_try_recv_def)

fun line_segments :: "string res \<Rightarrow> transcription_segment list" where
  "line_segments (Inl e) = []"
| "line_segments (Inr line) =
     (if line = [] then [] else case async_parse_line line of None \<Rightarrow> [] | Some seg \<Rightarrow> [seg])"

lemma async_reader_step_pending:
  "ac_waiting c = None \<Longrightarrow> async_pending (async_reader_step c input) = async_pending c @ line_segments input"
  by (cases input) (auto simp: async_reader_step_def async_pending_def split: option.splits)

lemma async_reader_resume_pending [simp]: "async_pending (async_reader_resume c) = async_pending c"
  by (auto simp: async_reader_resume_def async_pending_def split: option.splits)

lemma async_event_step_pending:
  "async_event_step e c = (c', ls, segs) \<Longrightarrow>
     segs @ async_pending c' = async_pending c @ concat (map line_segments ls)"
proof (cases e)
  case EvTryRecv
  then show "async_event_step e c = (c', ls, segs) \<Longrightarrow> ?thesis"
    by (auto simp: async_try_recv_def async_pending_def split: list.splits)
qed (auto simp: async_reader_step_pending split: if_splits)

lemma async_event_step_bounded:
  "async_event_step e c = (c', ls, segs) \<Longrightarrow> length (ac_results c) \<le> channel_capacity \<Longrightarrow>
     length (ac_results c') \<le> channel_capacity"
  by (cases e) (auto simp: async_reader_step_def async_reader_resume_def async_try_recv_def
      split: if_splits list.splits sum.splits option.splits)

text \<open>C40: Whatever the schedule of the reader task and of the client, the segments the client has
  received, those in the channel and the one the reader holds are together the segments of the
  lines read, in order: a full channel delays the reader but loses nothing.\<close>

theorem async_delivers_in_order:
  "snd (snd (async_run es c)) @ async_pending (fst (async_run es c)) =
     async_pending c @ concat (map line_segments (fst (snd (async_run es c))))"
proof (induction es arbitrary: c)
  case (Cons e es)
  obtain c1 ls segs where s: "async_event_step e c = (c1, ls, segs)" by (cases "async_event_step e c")
  obtain c2 ls' segs' where r: "async_run es c1 = (c2, ls', segs')" by (cases "async_run es c1")
  show ?case
    using conserved_trans [OF async_event_step_pending [OF s] Cons [of c1]] s r by simp
qed simp

lemma async_send_conserves:
  "async_openai_send_audio now pcm b = (b', ts) \<Longrightarrow>
     concat (map tt_chunk ts) @ oa_buffer b' = oa_buffer b @ pcm \<and> length (oa_buffer b') \<le> 80000"
  by (auto simp: async_openai_send_audio_def async_flush_def sample_rate_def Let_def split: if_splits)

fun contiguous :: "u64 \<Rightarrow> transcription_task list \<Rightarrow> u64 \<Rightarrow> bool" where
  "contiguous t [] t' \<longleftrightarrow> t' = t"
| "contiguous t (x # xs) t' \<longleftrightarrow>
     tt_start x = t \<and> tt_duration x = duration_ms (tt_chunk x) \<and> contiguous (t + tt_duration x) xs t'"

lemma contiguous_append:
  "contiguous a xs b \<Longrightarrow> contiguous b ys c \<Longrightarrow> contiguous a (xs @ ys) c"
  by (induction a xs b rule: contiguous.induct) auto

lemma async_send_contiguous:
  "async_openai_send_audio now pcm b = (b', ts) \<Longrightarrow> contiguous (oa_stream_time b) ts (oa_stream_time b')"
  by (auto simp: async_openai_send_audio_def async_flush_def Let_def split: if_splits)

text \<open>The asynchronous OpenAI client cuts the audio it is given into chunks without losing or
  repeating a sample, and the tasks it spawns carry start times that follow each other without gap
  or overlap from the client's stream clock.\<close>

theorem async_openai_timeline:
  "concat (map tt_chunk (snd (async_openai_feed ps b))) @ oa_buffer (fst (async_openai_feed ps b)) =
     oa_buffer b @ concat (map snd ps) \<and>
   contiguous (oa_stream_time b) (snd (async_openai_feed ps b)) (oa_stream_time (fst (async_openai_feed ps b)))"
proof (induction ps b rule: async_openai_feed.induct)
  case (2 now pcm ps b)
  obtain b1 ts where s: "async_openai_send_audio now pcm b = (b1, ts)" by (cases "async_openai_send_audio now pcm b")
  obtain b2 ts' where f: "async_openai_feed ps b1 = (b2, ts')" by (cases "async_openai_feed ps b1")
  have ih: "concat (map tt_chunk ts') @ oa_buffer b2 = oa_buffer b1 @ concat (map snd ps)"
    "contiguous (oa_stream_time b1) ts' (oa_stream_time b2)"
    using 2 [of b1 ts] s f by auto
  show ?case
    using conserved_trans [OF conjunct1 [OF async_send_conserves [OF s]] ih(1)]
      contiguous_append [OF async_send_contiguous [OF s] ih(2)] s f
    by simp
qed simp

end
