(* ===== verification/Transcription_Refinement.thy ===== *)
theory Transcription_Refinement
  imports Transcription_Facts Decoder_Facts
begin

text \<open>
  The worker of \<open>src/transcription/handler.rs\<close> as a product of streams: an abstract machine for a
  single stream, which knows neither the tables of the worker nor the other streams, and the lemma
  that the worker implements it for every stream.  Then the worker on the decoder of
  \<open>src/transcription/decoder.rs\<close>: what every decoder of a reachable worker satisfies.
\<close>

section \<open>The specification of a stream\<close>

text \<open>A stream has the worker's decoder and the session with its own decoder and its backend; either
  may be missing.\<close>

record ('d, 'b) stream =
  sm_decoder :: "'d option"
  sm_session :: "('d \<times> 'b) option"

definition stream_of :: "('d, 'b) worker \<Rightarrow> stream_key \<Rightarrow> ('d, 'b) stream" where
  "stream_of w k =
     \<lparr>sm_decoder = wk_decoders w k,
      sm_session = map_option (\<lambda>s. (ts_decoder s, ts_backend s)) (hm_get (mg_sessions (wk_manager w)) k)\<rparr>"

text \<open>Opening a session on the \<open>i\<close>-th server; a failure leaves the stream without a session.\<close>

definition stream_open ::
  "('d, 'b) tlib \<Rightarrow> transcription_config \<Rightarrow> nat \<Rightarrow> ('d \<times> 'b) option" where
  "stream_open L cfg i =
     (case session_new L 0 0 cfg i of Inl e \<Rightarrow> None | Inr s \<Rightarrow> Some (ts_decoder s, ts_backend s))"

text \<open>A packet goes through the session's decoder to the backend.\<close>

definition stream_feed ::
  "('d, 'b) tlib \<Rightarrow> u8 list \<Rightarrow> 'd \<times> 'b \<Rightarrow> 'd \<times> 'b" where
  "stream_feed L opus db =
     (case decoder_decode L (fst db) opus of
        (d, Inl e) \<Rightarrow> (d, snd db)
      | (d, Inr pcm) \<Rightarrow> (d, fst (backend_send_audio L (snd db) pcm)))"

text \<open>The commands of a stream.  Starting makes a new decoder in any case, but a session only when there
  is none; a packet reaches the session only when the worker's decoder accepts it.\<close>

fun stream_next ::
  "('d, 'b) tlib \<Rightarrow> transcription_config \<Rightarrow> nat \<times> transcription_command \<Rightarrow> ('d, 'b) stream
     \<Rightarrow> ('d, 'b) stream" where
  "stream_next L cfg (i, StartSession _ _ own) s =
     \<lparr>sm_decoder = (case decoder_new L of Inr d \<Rightarrow> Some d | Inl e \<Rightarrow> sm_decoder s),
      sm_session = (if sm_session s = None then stream_open L (case own of None \<Rightarrow> cfg | Some c \<Rightarrow> c) i
                    else sm_session s)\<rparr>"
| "stream_next L cfg (i, StopSession _ _) s = \<lparr>sm_decoder = None, sm_session = None\<rparr>"
| "stream_next L cfg (i, Audio p) s =
     (case (case sm_decoder s of Some d \<Rightarrow> Inr d | None \<Rightarrow> decoder_new L) of
        Inl e \<Rightarrow> s
      | Inr d \<Rightarrow>
          (case decoder_decode L d (ap_opus_data p) of
             (d', Inl e) \<Rightarrow> s\<lparr>sm_decoder := Some d'\<rparr>
           | (d', Inr pcm) \<Rightarrow>
               \<lparr>sm_decoder = Some d', sm_session = map_option (stream_feed L (ap_opus_data p)) (sm_session s)\<rparr>))"
| "stream_next L cfg (i, Shutdown) s = s"

fun stream_run ::
  "('d, 'b) tlib \<Rightarrow> transcription_config \<Rightarrow> (nat \<times> transcription_command) list \<Rightarrow> ('d, 'b) stream
     \<Rightarrow> ('d, 'b) stream" where
  "stream_run L cfg [] s = s"
| "stream_run L cfg (c # cs) s = stream_run L cfg cs (stream_next L cfg c s)"

text \<open>The commands of stream \<open>k\<close> before a shutdown.\<close>

definition commands_of :: "stream_key \<Rightarrow> transcription_command list \<Rightarrow> transcription_command list" where
  "commands_of k cs = filter (\<lambda>c. command_key c = Some k) (takeWhile (\<lambda>c. c \<noteq> Shutdown) cs)"

section \<open>The worker implements it\<close>

lemma session_new_payload:
  "map_sum id (\<lambda>s. (ts_decoder s, ts_backend s)) (session_new L sid eid cfg i) =
   map_sum id (\<lambda>s. (ts_decoder s, ts_backend s)) (session_new L 0 0 cfg i)"
  by (auto simp: session_new_def and_then_def split: sum.splits backend_config.splits)

lemma start_session_stream:
  "map_option (\<lambda>s. (ts_decoder s, ts_backend s))
      (hm_get (mg_sessions (fst (start_session L m sid eid own))) (sid, eid)) =
    (case hm_get (mg_sessions m) (sid, eid) of
       Some s \<Rightarrow> Some (ts_decoder s, ts_backend s)
     | None \<Rightarrow> stream_open L (case own of None \<Rightarrow> mg_config m | Some c \<Rightarrow> c) (next_server_index m))"
  using session_new_payload [of L sid eid "case own of None \<Rightarrow> mg_config m | Some c \<Rightarrow> c" "next_server_index m"]
  by (auto simp: start_session_def Let_def stream_open_def hm_contains_get split: sum.splits option.splits)

lemma process_audio_stream:
  "map_option (\<lambda>s. (ts_decoder s, ts_backend s))
      (hm_get (mg_sessions (fst (manager_process_audio L m sid eid opus))) (sid, eid)) =
    map_option (stream_feed L opus \<circ> (\<lambda>s. (ts_decoder s, ts_backend s))) (hm_get (mg_sessions m) (sid, eid))"
  by (auto simp: manager_process_audio_def session_process_audio_def stream_feed_def
      split: option.splits prod.splits sum.splits)

lemma worker_step_keeps_config:
  "worker_step L w c = Continue w' \<Longrightarrow> mg_config (wk_manager w') = mg_config (wk_manager w)"
  by (cases c)
     (auto simp: Let_def process_audio_packet_def start_session_def stop_session_def manager_process_audio_def
       split: sum.splits prod.splits option.splits if_splits)

lemma worker_step_stream:
  assumes "worker_step L w c = Continue w'" and "command_key c = Some k"
  shows "stream_of w' k =
    stream_next L (mg_config (wk_manager w)) (next_server_index (wk_manager w), c) (stream_of w k)"
proof (cases c)
  case (StartSession sid eid own)
  then show ?thesis
    using assms start_session_stream [of L "wk_manager w" sid eid own]
    by (auto simp: Let_def stream_of_def split: sum.splits option.splits)
next
  case (StopSession sid eid)
  then show ?thesis using assms by (auto simp: stream_of_def stop_session_get)
next
  case (Audio p)
  then show ?thesis
    using assms process_audio_stream [of L "wk_manager w" "ap_session_id p" "ap_endpoint_id p" "ap_opus_data p"]
    by (auto simp: stream_of_def process_audio_packet_def Let_def option.map_comp comp_def
        split: sum.splits prod.splits option.splits)
qed (use assms in auto)


lemma worker_step_ok:
  "manager_ok (wk_manager w) \<Longrightarrow> worker_step L w c = Continue w' \<Longrightarrow> manager_ok (wk_manager w')"
  using worker_turn_ok [of w L w'] by (blast intro: turn_command)

definition servers_of :: "transcription_config \<Rightarrow> nat" where
  "servers_of cfg = (case backend_cfg cfg of SimulStreaming addrs \<Rightarrow> length addrs | _ \<Rightarrow> 0)"

lemma index_ok_servers: "index_ok (backend_cfg cfg) i \<longleftrightarrow> i < max 1 (servers_of cfg)"
  by (cases "backend_cfg cfg") (auto simp: servers_of_def max_def neq_Nil_conv)

text \<open>C10: The worker implements the specification of every stream: after any commands the decoder and
  the session of a stream are those of the single-stream machine after the commands of this stream
  alone.  The other streams show only in the choice of the server a session is opened on, which is
  always a configured one.\<close>

theorem worker_refines_streams:
  assumes "manager_ok (wk_manager w)" and "worker_run L w cs = Break w'"
  shows "\<exists>is. length is = length (commands_of k cs) \<and>
    (\<forall>i \<in> set is. i < max 1 (servers_of (mg_config (wk_manager w)))) \<and>
    stream_of w' k = stream_run L (mg_config (wk_manager w)) (zip is (commands_of k cs)) (stream_of w k)"
  using assms
proof (induction L w cs rule: worker_run.induct)
  case (1 L w)
  then show ?case by (simp add: commands_of_def)
next
  case (2 L w c cs)
  let ?cfg = "mg_config (wk_manager w)"
  show ?case
  proof (cases "worker_step L w c")
    case (Continue w1)
    have c: "c \<noteq> Shutdown" and cfg: "mg_config (wk_manager w1) = ?cfg"
      using Continue worker_step_keeps_config by auto
    obtain js where js: "length js = length (commands_of k cs)"
      "\<forall>i \<in> set js. i < max 1 (servers_of ?cfg)"
      "stream_of w' k = stream_run L ?cfg (zip js (commands_of k cs)) (stream_of w1 k)"
      using 2(1) [OF Continue worker_step_ok [OF 2(2) Continue]] 2(3) Continue cfg by auto
    show ?thesis
    proof (cases "command_key c = Some k")
      case True
      have "next_server_index (wk_manager w) < max 1 (servers_of ?cfg)"
        using 2(2) by (simp add: manager_ok_def index_ok_servers)
      then show ?thesis
        using True c js worker_step_stream [OF Continue True]
        by (intro exI [of _ "next_server_index (wk_manager w) # js"]) (simp add: commands_of_def)
    next
      case False
      then have "stream_of w1 k = stream_of w k"
        using worker_step_other [OF Continue False] by (simp add: stream_of_def)
      then show ?thesis
        using False c js by (intro exI [of _ js]) (simp add: commands_of_def)
    qed
  next
    case (Break w1)
    then have "c = Shutdown" "w1 = w"
      by (cases c; auto simp: Let_def process_audio_packet_def split: sum.splits prod.splits option.splits)+
    then show ?thesis using 2(3) Break by (simp add: commands_of_def)
  qed (use 2(3) in simp)
qed

theorem worker_refines_streams_witness:
  "\<exists>w' i. worker_run robin_lib (create_transcription_channel (manager_new (with_servers [''a'', ''b''])))
       [StartSession 7 2 None, StartSession 7 1 None, StopSession 7 2, Shutdown, StopSession 7 1] = Break w' \<and>
     i < 2 \<and> stream_of w' (7, 1) = \<lparr>sm_decoder = Some (), sm_session = Some ((), robin_conn ([''a'', ''b''] ! i))\<rparr>"
proof -
  let ?w = "create_transcription_channel (manager_new (with_servers [''a'', ''b''])) :: (unit, u8 list boxed_backend) worker"
  let ?cs = "[StartSession 7 2 None, StartSession 7 1 None, StopSession 7 2, Shutdown, StopSession 7 1]"
  obtain w' where w': "worker_run robin_lib ?w ?cs = Break w'"
    by (simp add: Let_def robin_lib_def)
  have "manager_ok (wk_manager ?w)" by (simp add: create_transcription_channel_def manager_ok_new)
  from worker_refines_streams [OF this w', of "(7, 1)"]
  obtain js where js: "length js = Suc 0" "\<forall>i \<in> set js. i < 2"
    "stream_of w' (7, 1) =
       stream_run robin_lib (with_servers [''a'', ''b'']) (zip js [StartSession 7 1 None]) (stream_of ?w (7, 1))"
    using that by (simp add: commands_of_def servers_of_def create_transcription_channel_def manager_new_def
        with_servers_def default_config_def numeral_2_eq_2 del: stream_run.simps) blast
  then obtain i where "js = [i]" by (auto simp: length_Suc_conv)
  with js w' show ?thesis
    by (auto simp: stream_of_def create_transcription_channel_def manager_new_def stream_open_def
        session_new_def robin_lib_def with_servers_def default_config_def and_then_def)
qed

section \<open>The decoders of a worker\<close>

text \<open>The decoder of the code as the library of the worker.  That decoding always returns is
  \<open>decode_total\<close>, so the branch for \<open>None\<close> is never taken.\<close>

definition audio_declib :: "'o opus_lib \<Rightarrow> 'r resample_lib \<Rightarrow> ('o, 'r) audio_decoder declib" where
  "audio_declib Q R =
     \<lparr>dl_new = decoder_new_audio Q R,
      dl_decode = (\<lambda>a bs. case decode Q R bs a of
        Some r \<Rightarrow> r | None \<Rightarrow> (a, Inl (Other ''does not return'' [])))\<rparr>"

definition worker_decoders :: "('d, 'b) worker \<Rightarrow> 'd set" where
  "worker_decoders w = ran (wk_decoders w) \<union> {ts_decoder s |k s. hm_get (mg_sessions (wk_manager w)) k = Some s}"

text \<open>What a new decoder satisfies and decoding keeps holds for all decoders of a reachable worker, its
  own and those of the sessions.\<close>

locale decoder_invariant =
  fixes L :: "('d, 'b) tlib" and I :: "'d \<Rightarrow> bool"
  assumes new_inv: "decoder_new L = Inr d \<Longrightarrow> I d"
    and decode_inv: "I d \<Longrightarrow> I (fst (decoder_decode L d bs))"
begin

definition decs_inv :: "(stream_key \<rightharpoonup> 'd) \<Rightarrow> bool" where
  "decs_inv f \<longleftrightarrow> (\<forall>k d. f k = Some d \<longrightarrow> I d)"

definition sessions_inv :: "('d, 'b) manager \<Rightarrow> bool" where
  "sessions_inv m \<longleftrightarrow> (\<forall>k s. hm_get (mg_sessions m) k = Some s \<longrightarrow> I (ts_decoder s))"

definition decoders_inv :: "('d, 'b) worker \<Rightarrow> bool" where
  "decoders_inv w \<longleftrightarrow> decs_inv (wk_decoders w) \<and> sessions_inv (wk_manager w)"

lemma decs_inv_upd: "decs_inv f \<Longrightarrow> I d \<Longrightarrow> decs_inv (f(k \<mapsto> d))"
  unfolding decs_inv_def by (metis fun_upd_apply option.inject)

lemma decs_inv_del: "decs_inv f \<Longrightarrow> decs_inv (f(k := None))"
  unfolding decs_inv_def by (metis fun_upd_apply option.distinct(1))

lemma decode_inv': "decoder_decode L d bs = (d', r) \<Longrightarrow> I d \<Longrightarrow> I d'"
  using decode_inv by (metis fst_conv)

lemma sessions_start: "sessions_inv m \<Longrightarrow> sessions_inv (fst (start_session L m sid eid own))"
  unfolding sessions_inv_def
  by (auto simp: start_session_def Let_def session_new_def result_simps split: sum.splits if_splits dest: new_inv)

lemma sessions_stop: "sessions_inv m \<Longrightarrow> sessions_inv (stop_session m sid eid)"
  unfolding sessions_inv_def by (auto simp: stop_session_get)

lemma sessions_process:
  "manager_process_audio L m sid eid bs = (m', r) \<Longrightarrow> sessions_inv m \<Longrightarrow> sessions_inv m'"
  unfolding sessions_inv_def manager_process_audio_def session_process_audio_def
  using decode_inv'
  by (auto split: option.splits prod.splits sum.splits if_splits)

lemma sessions_poll:
  assumes "poll_results L m = Some (m', out)" and "sessions_inv m"
  shows "sessions_inv m'"
proof -
  obtain ss where "poll_sessions L (mg_sessions m) = Some (ss, out)" and "mg_sessions m' = ss"
    using assms(1) by (auto simp: poll_results_def bind_eq_Some_conv)
  then show ?thesis
    using poll_sessions_get [of L "mg_sessions m" ss out] assms(2)
    unfolding sessions_inv_def by metis
qed

lemma packet_inv:
  assumes "decoders_inv w" and "process_audio_packet L w p = Continue w'"
  shows "decoders_inv w'"
proof -
  let ?k = "(ap_session_id p, ap_endpoint_id p)"
  obtain d where d: "(case wk_decoders w ?k of Some d \<Rightarrow> Inr d | None \<Rightarrow> decoder_new L) = Inr d"
    using assms(2) by (auto simp: process_audio_packet_def Let_def split: sum.splits)
  have "I d"
    using d assms(1) unfolding decoders_inv_def decs_inv_def by (auto split: option.splits dest: new_inv)
  show ?thesis
  proof (cases "decoder_decode L d (ap_opus_data p)")
    case (Pair d' r)
    have "I d'" using decode_inv' [OF Pair \<open>I d\<close>] .
    then have f: "decs_inv ((wk_decoders w)(?k \<mapsto> d'))"
      using assms(1) by (auto simp only: decoders_inv_def intro: decs_inv_upd)
    obtain m' r' where m: "manager_process_audio L (wk_manager w) (ap_session_id p) (ap_endpoint_id p)
        (ap_opus_data p) = (m', r')" by fastforce
    then have "sessions_inv m'" using assms(1) by (auto simp only: decoders_inv_def intro: sessions_process)
    then show ?thesis
      using assms d f Pair m
      by (cases r) (simp_all add: process_audio_packet_def Let_def decoders_inv_def, auto)
  qed
qed

lemma turn_inv:
  assumes "decoders_inv w" and "worker_turn L w w'"
  shows "decoders_inv w'"
  using assms(2)
proof cases
  case (turn_command c)
  have inv: "decs_inv (wk_decoders w)" "sessions_inv (wk_manager w)"
    using assms(1) by (simp_all add: decoders_inv_def)
  show ?thesis
  proof (cases c)
    case (StartSession sid eid own)
    then show ?thesis
      using turn_command inv sessions_start [OF inv(2), of sid eid own] new_inv decs_inv_upd [OF inv(1)]
      by (cases "decoder_new L") (auto simp: Let_def decoders_inv_def)
  next
    case (StopSession sid eid)
    then show ?thesis
      using turn_command sessions_stop [OF inv(2)] decs_inv_del [OF inv(1)] by (auto simp: decoders_inv_def)
  next
    case (Audio p)
    then show ?thesis using turn_command packet_inv [OF assms(1)] by simp
  qed (use turn_command in simp)
next
  case (turn_poll m' out)
  then show ?thesis using assms(1) by (auto simp: decoders_inv_def intro: sessions_poll)
qed

lemma fresh_inv: "decoders_inv (create_transcription_channel (manager_new cfg))"
  by (auto simp: decoders_inv_def decs_inv_def sessions_inv_def create_transcription_channel_def manager_new_def)

lemma decoders_inv_all: "decoders_inv w \<Longrightarrow> d \<in> worker_decoders w \<Longrightarrow> I d"
  unfolding decoders_inv_def decs_inv_def sessions_inv_def worker_decoders_def ran_def by blast

end

text \<open>The buffered samples of a decoder, given that the resampler accepts chunks of its size.\<close>

definition accepts_chunks :: "'r resample_lib \<Rightarrow> nat \<Rightarrow> bool" where
  "accepts_chunks R n \<longleftrightarrow> (\<forall>r xs. length xs = n \<longrightarrow> (\<exists>r' out. rl_process R r xs = (r', Inr out)))"

definition latency_ok :: "'r resample_lib \<Rightarrow> ('o, 'r) audio_decoder \<Rightarrow> bool" where
  "latency_ok R a \<longleftrightarrow> rp_chunk_size (ad_resampler a) = 960 \<and>
     (accepts_chunks R 960 \<longrightarrow> length (rp_input_buffer (ad_resampler a)) < 960)"

lemma resample_chunks_accepts:
  assumes "accepts_chunks R (rp_chunk_size p)" and "0 < rp_chunk_size p"
  shows "\<exists>p' xs. resample_chunks R out p = Some (p', Inr xs)"
  using assms
proof (induction "length (rp_input_buffer p)" arbitrary: p out rule: less_induct)
  case less
  show ?case
  proof (cases "length (rp_input_buffer p) < rp_chunk_size p")
    case False
    then have "length (take (rp_chunk_size p) (rp_input_buffer p)) = rp_chunk_size p" by simp
    then obtain r' out' where "rl_process R (rp_resampler p) (take (rp_chunk_size p) (rp_input_buffer p)) = (r', Inr out')"
      using less.prems(1) unfolding accepts_chunks_def by blast
    then show ?thesis using less False by (subst resample_chunks.simps) simp
  qed (subst resample_chunks.simps, simp)
qed

lemma decode_latency:
  assumes "latency_ok R a"
  shows "\<exists>a' r. decode Q R bs a = Some (a', r) \<and> latency_ok R a'"
proof -
  obtain a' r where d: "decode Q R bs a = Some (a', r)" "rp_chunk_size (ad_resampler a') = 960"
    "\<forall>xs. r = Inr xs \<longrightarrow> length (rp_input_buffer (ad_resampler a')) < 960"
    using decode_total [of a Q R bs] assms unfolding latency_ok_def by auto
  have "length (rp_input_buffer (ad_resampler a')) < 960" if "accepts_chunks R 960"
  proof (cases r)
    case (Inl e)
    have ok: "\<exists>p' ys. resample R xs (ad_resampler a) = Some (p', Inr ys)" for xs
      using that assms resample_chunks_accepts
        [of R "(ad_resampler a)\<lparr>rp_input_buffer := rp_input_buffer (ad_resampler a) @ map f32_of_sample xs\<rparr>" "[]"]
      by (auto simp: latency_ok_def resample_def)
    have "ad_resampler a' = ad_resampler a"
    proof (cases "ol_decode Q (ad_decoder a) (Some bs) False")
      case (Pair u v)
      then show ?thesis
        using d(1) Inl ok [of "projr v"] by (cases v) (auto simp: decode_def split: sum.splits)
    qed
    then show ?thesis using that assms by (simp add: latency_ok_def)
  qed (use d in auto)
  with d show ?thesis by (simp add: latency_ok_def)
qed

interpretation audio: decoder_invariant "transcription_lib (audio_declib Q R) N now" "latency_ok R"
  for Q :: "'o opus_lib" and R :: "'r resample_lib" and N :: "'c netlib" and now
proof
  fix d :: "('o, 'r) audio_decoder" and bs
  show "decoder_new (transcription_lib (audio_declib Q R) N now) = Inr d \<Longrightarrow> latency_ok R d"
    by (auto simp: transcription_lib_def audio_declib_def decoder_new_audio_def resampler_new_def
        with_chunk_size_def result_simps latency_ok_def)
  show "latency_ok R d \<Longrightarrow> latency_ok R (fst (decoder_decode (transcription_lib (audio_declib Q R) N now) d bs))"
    using decode_latency [of R d Q bs] by (auto simp: transcription_lib_def audio_declib_def)
qed

text \<open>Turns of the worker at any times.\<close>

definition worker_turns ::
  "'o opus_lib \<Rightarrow> 'r resample_lib \<Rightarrow> 'c netlib \<Rightarrow> (('o, 'r) audio_decoder, 'c boxed_backend) worker
     \<Rightarrow> (('o, 'r) audio_decoder, 'c boxed_backend) worker \<Rightarrow> bool" where
  "worker_turns Q R N w w' \<longleftrightarrow> (\<exists>now. worker_turn (transcription_lib (audio_declib Q R) N now) w w')"

interpretation audio_worker: state_machine "\<lambda>w. w = create_transcription_channel (manager_new cfg)"
  "worker_turns Q R N" "audio.decoders_inv R"
  for cfg and Q :: "'o opus_lib" and R :: "'r resample_lib" and N :: "'c netlib"
  by unfold_locales (auto simp: worker_turns_def intro: audio.fresh_inv audio.turn_inv)

text \<open>C19: Every decoder of a reachable worker, whether the worker's own or that of a session, holds back
  less than 20 milliseconds of audio (960 samples), and decoding a further packet returns and keeps
  it so, if the resampler accepts chunks of the size it was made for.\<close>

theorem decoder_latency_bounded:
  assumes "accepts_chunks R 960"
    and "(worker_turns Q R N)\<^sup>*\<^sup>* (create_transcription_channel (manager_new cfg)) w"
    and "a \<in> worker_decoders w"
  shows "length (rp_input_buffer (ad_resampler a)) < 960 \<and>
    (\<exists>a' r. decode Q R bs a = Some (a', r) \<and> length (rp_input_buffer (ad_resampler a')) < 960)"
  using audio.decoders_inv_all [OF audio_worker.run_inv [OF refl assms(2)] assms(3)] assms(1) decode_latency [of R a Q bs]
  by (auto simp: latency_ok_def)

theorem decoder_latency_bounded_witness:
  "\<exists>w a. worker_step (transcription_lib (audio_declib demo_opus demo_resample) demo_net 0)
      (create_transcription_channel (manager_new config_none))
      (Audio \<lparr>ap_session_id = 7, ap_endpoint_id = 1, ap_opus_data = [1, 2, 3], ap_timestamp = 0, ap_ssrc = 9\<rparr>)
        = Continue w \<and> wk_decoders w (7, 1) = Some a \<and> length (rp_input_buffer (ad_resampler a)) < 960"
proof -
  let ?L = "transcription_lib (audio_declib demo_opus demo_resample) demo_net 0"
  let ?w0 = "create_transcription_channel (manager_new config_none)"
  let ?c = "Audio \<lparr>ap_session_id = 7, ap_endpoint_id = 1, ap_opus_data = [1, 2, 3], ap_timestamp = 0, ap_ssrc = 9\<rparr>"
  obtain w a where w: "worker_step ?L ?w0 ?c = Continue w" and a: "wk_decoders w (7, 1) = Some a"
    by (simp add: process_audio_packet_def Let_def create_transcription_channel_def transcription_lib_def
        audio_declib_def decoder_new_audio_def demo_opus_def demo_resample_def resampler_new_def with_chunk_size_def
        and_then_def decode_def resample_def resample_chunks.simps manager_process_audio_def manager_new_def)
  have "(worker_turns demo_opus demo_resample demo_net)\<^sup>*\<^sup>* ?w0 w"
    using turn_command [OF w] unfolding worker_turns_def by blast
  moreover have "accepts_chunks demo_resample 960" by (simp add: accepts_chunks_def demo_resample_def)
  moreover have "a \<in> worker_decoders w" using a by (auto simp: worker_decoders_def ran_def)
  ultimately show ?thesis using decoder_latency_bounded [of demo_resample demo_opus demo_net config_none w a] w a by blast
qed

end
