(* ===== verification/Datagram_Handlers.thy ===== *)
theory Datagram_Handlers
  imports Gateway
begin

text \<open>
  The pipeline stages of \<open>vendor/sfu/src/handler\<close> that look at one message at a time: \<open>demuxer.rs\<close>,
  \<open>stun.rs\<close>, \<open>datachannel.rs\<close>, \<open>srtp.rs\<close>, \<open>interceptor.rs\<close> and \<open>exception.rs\<close>, with
  \<open>gateway.rs\<close> as a stage beside them.

  All stages act on one state: the shared server states, the queue \<open>transmits\<close> of each stage that
  has one, the audio handed to the callback and the exceptions fired (which the last stage only
  logs).  \<open>handle_read\<close> yields the messages it fires to the next stage, in order; it has made its own
  changes before the first of them is handled.  \<open>poll_write\<close> takes what the next stage's
  \<open>poll_write\<close> returned.
\<close>

section \<open>Libraries\<close>

record ('x, 'm) codec_lib =
  cl_stun_decode :: "u8 list \<Rightarrow> 'm res"
  cl_stun_encode :: "'m \<Rightarrow> u8 list"
  cl_is_rtcp :: "u8 list \<Rightarrow> bool"
  cl_decrypt_rtp :: "'x \<Rightarrow> u8 list \<Rightarrow> 'x \<times> u8 list res"
  cl_decrypt_rtcp :: "'x \<Rightarrow> u8 list \<Rightarrow> 'x \<times> u8 list res"
  cl_encrypt_rtp :: "'x \<Rightarrow> u8 list \<Rightarrow> 'x \<times> u8 list res"
  cl_encrypt_rtcp :: "'x \<Rightarrow> u8 list \<Rightarrow> 'x \<times> u8 list res"
  cl_parse_rtp :: "u8 list \<Rightarrow> rtp_packet res"
  cl_parse_rtcp :: "u8 list \<Rightarrow> rtcp_packet list res"
  cl_show_rtp :: "rtp_packet \<Rightarrow> u8 list res"
  cl_show_rtcp :: "rtcp_packet list \<Rightarrow> u8 list res"

text \<open>The \<open>datachannel\<close> crate: the message type and what follows it, an open message, and the
  acknowledgement.\<close>

datatype dc_message_type = MtOpen | MtAck

datatype channel_type =
    CtReliable | CtReliableUnordered | CtPartialReliableRexmit | CtPartialReliableRexmitUnordered
  | CtPartialReliableTimed | CtPartialReliableTimedUnordered

record dc_lib =
  dc_message_type :: "u8 list \<Rightarrow> (dc_message_type \<times> u8 list) res"
  dc_open :: "u8 list \<Rightarrow> (channel_type \<times> u32) res"
  dc_ack :: "u8 list res"

section \<open>State\<close>

record ('x, 'f, 'm) sfu_state =
  sf_states :: "('x, 'f) server_states"
  sf_dtls :: "'m tagged list"
  sf_sctp :: "'m tagged list"
  sf_datachannel :: "'m tagged list"
  sf_interceptor :: "'m tagged list"
  sf_gateway :: "'m gateway"
  sf_audio :: "audio_packet_info list"
  sf_errors :: "error list"

definition fire_exception :: "error \<Rightarrow> ('x, 'f, 'm) sfu_state \<Rightarrow> ('x, 'f, 'm) sfu_state" where
  "fire_exception e S = S\<lparr>sf_errors := sf_errors S @ [e]\<rparr>"

text \<open>\<open>transmits.pop_front()\<close>\<close>

definition pop_front :: "'a list \<Rightarrow> 'a option \<times> 'a list" where
  "pop_front q = (case q of [] \<Rightarrow> (None, []) | m # ms \<Rightarrow> (Some m, ms))"

section \<open>Demultiplexing\<close>

record datagram =
  dg_now :: instant
  dg_transport :: transport_context
  dg_message :: "u8 list"

definition match_range :: "u8 \<Rightarrow> u8 \<Rightarrow> u8 list \<Rightarrow> bool" where
  "match_range lower upper buf =
     (case buf of [] \<Rightarrow> False | b # _ \<Rightarrow> lower \<le> b \<and> b \<le> upper)"

definition match_dtls :: "u8 list \<Rightarrow> bool" where
  "match_dtls b = match_range 20 63 b"

definition match_srtp :: "u8 list \<Rightarrow> bool" where
  "match_srtp b = match_range 128 191 b"

definition demuxer_read :: "datagram \<Rightarrow> 'm tagged option" where
  "demuxer_read d =
     (let tag = (\<lambda>ev. \<lparr>tg_now = dg_now d, tg_transport = dg_transport d, tg_message = ev\<rparr>) in
      if dg_message d = [] then None
      else if match_dtls (dg_message d) then Some (tag (EvDtls (DtlsRaw (dg_message d))))
      else if match_srtp (dg_message d) then Some (tag (EvRtp (RtpRaw (dg_message d))))
      else Some (tag (EvStun (StunRaw (dg_message d)))))"

text \<open>A message that is not raw bytes is dropped, and then \<open>poll_write\<close> answers \<open>None\<close>.\<close>

definition demuxer_write :: "'m tagged option \<Rightarrow> datagram option" where
  "demuxer_write next_msg =
     (case next_msg of
        None \<Rightarrow> None
      | Some msg \<Rightarrow>
          (let out = (\<lambda>bs. Some \<lparr>dg_now = tg_now msg, dg_transport = tg_transport msg, dg_message = bs\<rparr>)
           in case tg_message msg of
                EvStun (StunRaw bs) \<Rightarrow> out bs
              | EvDtls (DtlsRaw bs) \<Rightarrow> out bs
              | EvRtp (RtpRaw bs) \<Rightarrow> out bs
              | _ \<Rightarrow> None))"

section \<open>STUN\<close>

definition stun_read ::
  "('x, 'm) codec_lib \<Rightarrow> 'm tagged \<Rightarrow> ('x, 'f, 'm) sfu_state \<Rightarrow> 'm tagged list \<times> ('x, 'f, 'm) sfu_state" where
  "stun_read C msg S =
     (case tg_message msg of
        EvStun (StunRaw bs) \<Rightarrow>
          (case cl_stun_decode C bs of
             Inr m \<Rightarrow> ([msg\<lparr>tg_message := EvStun (StunMsg m)\<rparr>], S)
           | Inl e \<Rightarrow> ([], fire_exception e S))
      | _ \<Rightarrow> ([msg], S))"

definition stun_write ::
  "('x, 'm) codec_lib \<Rightarrow> 'm tagged option \<Rightarrow> ('x, 'f, 'm) sfu_state \<Rightarrow> 'm tagged option \<times> ('x, 'f, 'm) sfu_state" where
  "stun_write C next_msg S =
     (case next_msg of
        None \<Rightarrow> (None, S)
      | Some msg \<Rightarrow>
          (case tg_message msg of
             EvStun (StunMsg m) \<Rightarrow> (Some (msg\<lparr>tg_message := EvStun (StunRaw (cl_stun_encode C m))\<rparr>), S)
           | _ \<Rightarrow> (Some msg, S)))"

section \<open>Data channels\<close>

definition get_reliability_params :: "channel_type \<Rightarrow> bool \<times> reliability_type" where
  "get_reliability_params t =
     (case t of
        CtReliable \<Rightarrow> (False, RelReliable)
      | CtReliableUnordered \<Rightarrow> (True, RelReliable)
      | CtPartialReliableRexmit \<Rightarrow> (False, RelRexmit)
      | CtPartialReliableRexmitUnordered \<Rightarrow> (True, RelRexmit)
      | CtPartialReliableTimed \<Rightarrow> (False, RelTimed)
      | CtPartialReliableTimedUnordered \<Rightarrow> (True, RelTimed))"

text \<open>\<open>try_read\<close>: the message for the application and the answer to the peer.\<close>

definition datachannel_try_read ::
  "dc_lib \<Rightarrow> data_channel_message \<Rightarrow> (application_message option \<times> data_channel_message option) res" where
  "datachannel_try_read D m =
     (let app = (\<lambda>ev. \<lparr>am_association_handle = dm_association_handle m, am_stream_id = dm_stream_id m,
                       am_event = ev\<rparr>) in
      if dm_message_type m = DcControl then
        and_then (dc_message_type D (dm_payload m)) (\<lambda>(t, rest).
          if t = MtOpen then
            and_then (dc_open D rest) (\<lambda>(ct, param).
            and_then (dc_ack D) (\<lambda>ack.
              Inr (Some (app DcOpen),
                   Some \<lparr>dm_association_handle = dm_association_handle m, dm_stream_id = dm_stream_id m,
                         dm_message_type = DcControl,
                         dm_params = (case get_reliability_params ct of (unordered, rt) \<Rightarrow>
                           Some \<lparr>dp_unordered = unordered, dp_reliability_type = rt, dp_reliability_parameter = param\<rparr>),
                         dm_payload = ack\<rparr>)))
          else Inr (None, None))
      else Inr (Some (app (DcMessage (dm_payload m))), None))"

definition datachannel_read ::
  "dc_lib \<Rightarrow> 'm tagged \<Rightarrow> ('x, 'f, 'm) sfu_state \<Rightarrow> 'm tagged list \<times> ('x, 'f, 'm) sfu_state" where
  "datachannel_read D msg S =
     (case tg_message msg of
        EvDtls (DtlsSctp m) \<Rightarrow>
          (case datachannel_try_read D m of
             Inl e \<Rightarrow> ([], fire_exception e S)
           | Inr (inbound, outbound) \<Rightarrow>
               (case inbound of Some a \<Rightarrow> [msg\<lparr>tg_message := EvDtls (DtlsDataChannel a)\<rparr>] | None \<Rightarrow> [],
                case outbound of
                  Some o' \<Rightarrow> S\<lparr>sf_datachannel := sf_datachannel S @ [msg\<lparr>tg_message := EvDtls (DtlsSctp o')\<rparr>]\<rparr>
                | None \<Rightarrow> S))
      | _ \<Rightarrow> ([msg], S))"

definition datachannel_push :: "'m tagged \<Rightarrow> 'm tagged list \<Rightarrow> 'm tagged list" where
  "datachannel_push msg q =
     (case tg_message msg of
        EvDtls (DtlsDataChannel a) \<Rightarrow>
          (case am_event a of
             DcMessage payload \<Rightarrow>
               q @ [msg\<lparr>tg_message := EvDtls (DtlsSctp
                     \<lparr>dm_association_handle = am_association_handle a, dm_stream_id = am_stream_id a,
                      dm_message_type = DcText, dm_params = None, dm_payload = payload\<rparr>)\<rparr>]
           | _ \<Rightarrow> q)
      | _ \<Rightarrow> q @ [msg])"

definition datachannel_write ::
  "'m tagged option \<Rightarrow> ('x, 'f, 'm) sfu_state \<Rightarrow> 'm tagged option \<times> ('x, 'f, 'm) sfu_state" where
  "datachannel_write next_msg S =
     (let q = (case next_msg of Some msg \<Rightarrow> datachannel_push msg (sf_datachannel S) | None \<Rightarrow> sf_datachannel S)
      in case pop_front q of (out, q') \<Rightarrow> (out, S\<lparr>sf_datachannel := q'\<rparr>))"

section \<open>SRTP\<close>

definition set_remote_srtp :: "'x \<Rightarrow> 'x transport \<Rightarrow> 'x transport" where
  "set_remote_srtp x t = t\<lparr>tp_remote_srtp := Some x\<rparr>"

definition set_local_srtp :: "'x \<Rightarrow> 'x transport \<Rightarrow> 'x transport" where
  "set_local_srtp x t = t\<lparr>tp_local_srtp := Some x\<rparr>"

text \<open>\<open>try_read\<close>: decryption changes the remote context also when it fails.\<close>

definition srtp_try_read ::
  "('x, 'm) codec_lib \<Rightarrow> four_tuple \<Rightarrow> u8 list \<Rightarrow> ('x, 'f) server_states
     \<Rightarrow> rtp_event res \<times> ('x, 'f) server_states" where
  "srtp_try_read C ft bs st =
     (case locate_transport ft st of
        Inl e \<Rightarrow> (Inl e, st)
      | Inr (_, _, t) \<Rightarrow>
          (case tp_remote_srtp t of
             None \<Rightarrow> (Inl (Other ''remote_srtp_context is not set yet for four_tuple {:?}'' [ArgTuple ft]), st)
           | Some x \<Rightarrow>
               if cl_is_rtcp C bs then
                 (case cl_decrypt_rtcp C x bs of
                    (x', r) \<Rightarrow>
                      (and_then r (\<lambda>plain. and_then (cl_parse_rtcp C plain) (\<lambda>ps.
                         if ps = [] then Inl (Other ''empty rtcp_packets'' []) else Inr (RtpRtcp ps))),
                       snd (with_transport ft (set_remote_srtp x') st)))
               else
                 (case cl_decrypt_rtp C x bs of
                    (x', r) \<Rightarrow>
                      (and_then r (\<lambda>plain. and_then (cl_parse_rtp C plain) (\<lambda>p. Inr (RtpRtp p))),
                       snd (with_transport ft (set_remote_srtp x') st)))))"

definition srtp_read ::
  "('x, 'm) codec_lib \<Rightarrow> 'm tagged \<Rightarrow> ('x, 'f, 'm) sfu_state \<Rightarrow> 'm tagged list \<times> ('x, 'f, 'm) sfu_state" where
  "srtp_read C msg S =
     (case tg_message msg of
        EvRtp (RtpRaw bs) \<Rightarrow>
          (case srtp_try_read C (four_tuple_of (tg_transport msg)) bs (sf_states S) of
             (r, st) \<Rightarrow>
               (case r of
                  Inr ev \<Rightarrow> ([msg\<lparr>tg_message := EvRtp ev\<rparr>], S\<lparr>sf_states := st\<rparr>)
                | Inl e \<Rightarrow> ([], fire_exception e (S\<lparr>sf_states := st\<rparr>))))
      | _ \<Rightarrow> ([msg], S))"

text \<open>\<open>try_write\<close> for the bytes that \<open>show\<close> makes of a message and \<open>encrypt\<close> protects.\<close>

definition srtp_protect ::
  "('x \<Rightarrow> u8 list \<Rightarrow> 'x \<times> u8 list res) \<Rightarrow> u8 list res \<Rightarrow> four_tuple \<Rightarrow> 'x transport
     \<Rightarrow> ('x, 'f) server_states \<Rightarrow> u8 list res \<times> ('x, 'f) server_states" where
  "srtp_protect encrypt shown ft t st =
     (case tp_local_srtp t of
        None \<Rightarrow> (Inl (Other ''local_srtp_context is not set yet for four_tuple {:?}'' [ArgTuple ft]), st)
      | Some x \<Rightarrow>
          (case shown of
             Inl e \<Rightarrow> (Inl e, st)
           | Inr packet \<Rightarrow>
               (case encrypt x packet of
                  (x', r) \<Rightarrow> (r, snd (with_transport ft (set_local_srtp x') st)))))"

definition srtp_try_write ::
  "('x, 'm) codec_lib \<Rightarrow> four_tuple \<Rightarrow> rtp_event \<Rightarrow> ('x, 'f) server_states
     \<Rightarrow> u8 list res \<times> ('x, 'f) server_states" where
  "srtp_try_write C ft ev st =
     (case locate_transport ft st of
        Inl e \<Rightarrow> (Inl e, st)
      | Inr (_, _, t) \<Rightarrow>
          (case ev of
             RtpRtcp ps \<Rightarrow>
               if ps = [] then (Inl (Other ''empty rtcp_packets'' []), st)
               else srtp_protect (cl_encrypt_rtcp C) (cl_show_rtcp C ps) ft t st
           | RtpRtp p \<Rightarrow> srtp_protect (cl_encrypt_rtp C) (cl_show_rtp C p) ft t st
           | RtpRaw bs \<Rightarrow> (Inr bs, st)))"

definition srtp_write ::
  "('x, 'm) codec_lib \<Rightarrow> 'm tagged option \<Rightarrow> ('x, 'f, 'm) sfu_state \<Rightarrow> 'm tagged option \<times> ('x, 'f, 'm) sfu_state" where
  "srtp_write C next_msg S =
     (case next_msg of
        None \<Rightarrow> (None, S)
      | Some msg \<Rightarrow>
          (case tg_message msg of
             EvRtp ev \<Rightarrow>
               (case srtp_try_write C (four_tuple_of (tg_transport msg)) ev (sf_states S) of
                  (r, st) \<Rightarrow>
                    (case r of
                       Inr bs \<Rightarrow> (Some (msg\<lparr>tg_message := EvRtp (RtpRaw bs)\<rparr>), S\<lparr>sf_states := st\<rparr>)
                     | Inl e \<Rightarrow> (None, fire_exception e (S\<lparr>sf_states := st\<rparr>))))
           | _ \<Rightarrow> (Some msg, S)))"

section \<open>Interceptors\<close>

fun event_inbound :: "'m interceptor_event list \<Rightarrow> 'm tagged list" where
  "event_inbound [] = []"
| "event_inbound (Inbound m # evs) = m # event_inbound evs"
| "event_inbound (_ # evs) = event_inbound evs"

fun event_outbound :: "'m interceptor_event list \<Rightarrow> 'm tagged list" where
  "event_outbound [] = []"
| "event_outbound (Outbound m # evs) = m # event_outbound evs"
| "event_outbound (_ # evs) = event_outbound evs"

fun event_errors :: "'m interceptor_event list \<Rightarrow> error list" where
  "event_errors [] = []"
| "event_errors (EventError e # evs) = e # event_errors evs"
| "event_errors (_ # evs) = event_errors evs"

text \<open>Queueing what goes out and firing the errors; inbound events are only logged where nothing comes
  in.\<close>

definition take_events :: "'m interceptor_event list \<Rightarrow> ('x, 'f, 'm) sfu_state \<Rightarrow> ('x, 'f, 'm) sfu_state" where
  "take_events evs S =
     S\<lparr>sf_interceptor := sf_interceptor S @ event_outbound evs, sf_errors := sf_errors S @ event_errors evs\<rparr>"

definition is_rtp_or_rtcp :: "'m tagged \<Rightarrow> bool" where
  "is_rtp_or_rtcp msg = (case tg_message msg of EvRtp (RtpRaw _) \<Rightarrow> False | EvRtp _ \<Rightarrow> True | _ \<Rightarrow> False)"

definition interceptor_handle_read ::
  "'f f64_ops \<Rightarrow> 'm tagged \<Rightarrow> ('x, 'f, 'm) sfu_state \<Rightarrow> 'm tagged list \<times> ('x, 'f, 'm) sfu_state" where
  "interceptor_handle_read F msg S =
     (if is_rtp_or_rtcp msg then
        (let ft = four_tuple_of (tg_transport msg);
             (inbound, S1) =
               (case locate_endpoint ft (sf_states S) of
                  Inl e \<Rightarrow> ([], fire_exception e S)
                | Inr (_, _, ep) \<Rightarrow>
                    (case interceptor_read F msg (ep_interceptor ep) of
                       (evs, i) \<Rightarrow>
                         (event_inbound evs,
                          take_events evs (S\<lparr>sf_states :=
                            snd (with_endpoint ft (\<lambda>ep. ep\<lparr>ep_interceptor := i\<rparr>) (sf_states S))\<rparr>))))
         in case tg_message msg of
              EvRtp (RtpRtcp _) \<Rightarrow> (inbound, S1)
            | _ \<Rightarrow> (inbound @ [msg], S1))
      else ([msg], S))"

definition interceptor_handle_write ::
  "'m tagged option \<Rightarrow> ('x, 'f, 'm) sfu_state \<Rightarrow> 'm tagged option \<times> ('x, 'f, 'm) sfu_state" where
  "interceptor_handle_write next_msg S =
     (let S1 =
        (case next_msg of
           None \<Rightarrow> S
         | Some msg \<Rightarrow>
             (let S0 =
                (if is_rtp_or_rtcp msg then
                   (case locate_endpoint (four_tuple_of (tg_transport msg)) (sf_states S) of
                      Inl e \<Rightarrow> fire_exception e S
                    | Inr (_, _, ep) \<Rightarrow> take_events (interceptor_write msg (ep_interceptor ep)) S)
                 else S)
              in S0\<lparr>sf_interceptor := sf_interceptor S0 @ [msg]\<rparr>))
      in case pop_front (sf_interceptor S1) of (out, q) \<Rightarrow> (out, S1\<lparr>sf_interceptor := q\<rparr>))"

text \<open>A loop over all endpoints that changes each and collects events.\<close>

fun hm_traverse :: "('k \<Rightarrow> 'v \<Rightarrow> 'e list \<times> 'v) \<Rightarrow> ('k, 'v) hmap \<Rightarrow> 'e list \<times> ('k, 'v) hmap" where
  "hm_traverse f [] = ([], [])"
| "hm_traverse f ((k, v) # m) =
     (let (es, v') = f k v; (es', m') = hm_traverse f m in (es @ es', (k, v') # m'))"

definition traverse_endpoints ::
  "(('x, 'f) endpoint \<Rightarrow> 'e list \<times> ('x, 'f) endpoint) \<Rightarrow> ('x, 'f) server_states
     \<Rightarrow> 'e list \<times> ('x, 'f) server_states" where
  "traverse_endpoints f st =
     (case hm_traverse (\<lambda>_ s. case hm_traverse (\<lambda>_. f) (ss_endpoints s) of
               (es, eps) \<Rightarrow> (es, s\<lparr>ss_endpoints := eps\<rparr>)) (st_sessions st) of
        (es, ss) \<Rightarrow> (es, st\<lparr>st_sessions := ss\<rparr>))"

definition interceptor_handle_timeout ::
  "'f f64_ops \<Rightarrow> instant \<Rightarrow> ('x, 'f, 'm) sfu_state \<Rightarrow> ('x, 'f, 'm) sfu_state" where
  "interceptor_handle_timeout F now S =
     (case traverse_endpoints (\<lambda>ep.
             case interceptor_timeout F now (map fst (ep_transports ep)) (ep_interceptor ep) of
               (evs, i) \<Rightarrow> (evs, ep\<lparr>ep_interceptor := i\<rparr>)) (sf_states S) of
        (evs, st) \<Rightarrow> take_events evs (S\<lparr>sf_states := st\<rparr>))"

definition all_endpoints :: "('x, 'f) server_states \<Rightarrow> ('x, 'f) endpoint list" where
  "all_endpoints st = concat (map (\<lambda>(_, s). map snd (ss_endpoints s)) (st_sessions st))"

definition interceptor_handle_poll_timeout :: "instant \<Rightarrow> ('x, 'f, 'm) sfu_state \<Rightarrow> instant" where
  "interceptor_handle_poll_timeout eto S =
     foldl (\<lambda>eto ep. interceptor_poll_timeout eto (ep_interceptor ep)) eto (all_endpoints (sf_states S))"

section \<open>Gateway and exceptions\<close>

definition gateway_stage_read ::
  "sfu_lib \<Rightarrow> 'm stun_lib \<Rightarrow> json_lib \<Rightarrow> ice_parameters \<Rightarrow> instant \<Rightarrow> 'm tagged
     \<Rightarrow> ('x, 'f, 'm) sfu_state \<Rightarrow> 'm tagged list \<times> ('x, 'f, 'm) sfu_state" where
  "gateway_stage_read E U J fresh clk msg S =
     (case gateway_handle_read E U J fresh clk msg (sf_gateway S) (sf_states S) of
        (gw, st, err, audio) \<Rightarrow>
          ([], S\<lparr>sf_gateway := gw, sf_states := st, sf_audio := sf_audio S @ audio,
                 sf_errors := sf_errors S @ (case err of Some e \<Rightarrow> [e] | None \<Rightarrow> [])\<rparr>))"

definition gateway_stage_write ::
  "'m tagged option \<Rightarrow> ('x, 'f, 'm) sfu_state \<Rightarrow> 'm tagged option \<times> ('x, 'f, 'm) sfu_state" where
  "gateway_stage_write next_msg S =
     (case gateway_poll_write next_msg (sf_gateway S) of (out, gw) \<Rightarrow> (out, S\<lparr>sf_gateway := gw\<rparr>))"

definition exception_read :: "'m tagged \<Rightarrow> ('x, 'f, 'm) sfu_state \<Rightarrow> 'm tagged list \<times> ('x, 'f, 'm) sfu_state" where
  "exception_read msg S = ([msg], S)"

definition exception_write ::
  "'m tagged option \<Rightarrow> ('x, 'f, 'm) sfu_state \<Rightarrow> 'm tagged option \<times> ('x, 'f, 'm) sfu_state" where
  "exception_write next_msg S = (next_msg, S)"

end
