(* ===== verification/Secure_Handlers.thy ===== *)
theory Secure_Handlers
  imports Datagram_Handlers
begin

text \<open>
  \<open>vendor/sfu/src/handler/dtls.rs\<close> and \<open>sctp.rs\<close>: the stages around the DTLS endpoint and the SCTP
  associations of a transport.  The objects of both crates are values of the type \<open>'x\<close>.

  A loop \<open>while let Some(x) = y.poll_\<dots>()\<close> whose body only collects is a function of the library that
  returns the list, the queues of the crates being finite.  The loop over the events of an
  association reads the association in its body; it is a partial function.
\<close>

section \<open>DTLS\<close>

datatype dtls_endpoint_event = HandshakeComplete | ApplicationData "u8 list"

datatype srtp_profile = Aes128CmHmacSha1_80 | AeadAes128Gcm | OtherProfile

record srtp_keys =
  sk_local_key :: "u8 list"
  sk_local_salt :: "u8 list"
  sk_remote_key :: "u8 list"
  sk_remote_salt :: "u8 list"

record transmit =
  tx_now :: instant
  tx_remote :: socket_addr
  tx_ecn :: "u8 option"
  tx_payload :: "u8 list"

record 'x dtls_lib =
  dl_read :: "instant \<Rightarrow> transport_context \<Rightarrow> u8 list \<Rightarrow> 'x \<Rightarrow> 'x \<times> dtls_endpoint_event list res"
  dl_write :: "socket_addr \<Rightarrow> u8 list \<Rightarrow> 'x \<Rightarrow> 'x \<times> unit res"
  dl_transmits :: "'x \<Rightarrow> 'x \<times> transmit list"
  dl_connection_state :: "socket_addr \<Rightarrow> 'x \<Rightarrow> 'x option"
  dl_connections :: "'x \<Rightarrow> socket_addr list"
  dl_handle_timeout :: "socket_addr \<Rightarrow> instant \<Rightarrow> 'x \<Rightarrow> 'x"
  dl_poll_timeout :: "socket_addr \<Rightarrow> 'x \<Rightarrow> instant \<Rightarrow> instant"
  dl_profile :: "'x \<Rightarrow> srtp_profile"
  dl_session_keys :: "srtp_profile \<Rightarrow> 'x \<Rightarrow> srtp_keys res"
  dl_context_new :: "u8 list \<Rightarrow> u8 list \<Rightarrow> srtp_profile \<Rightarrow> nat option \<Rightarrow> nat option \<Rightarrow> 'x res"

text \<open>The pair of SRTP contexts of a finished handshake: only the remote one has a replay window.\<close>

definition update_srtp_contexts :: "'x dtls_lib \<Rightarrow> 'x \<Rightarrow> ('x \<times> 'x) res" where
  "update_srtp_contexts L state =
     (if dl_profile L state = OtherProfile then Inl ErrNoSuchSrtpProfile
      else
        and_then (dl_session_keys L (dl_profile L state) state) (\<lambda>k.
        and_then (dl_context_new L (sk_local_key k) (sk_local_salt k) (dl_profile L state) None None) (\<lambda>l.
        and_then (dl_context_new L (sk_remote_key k) (sk_remote_salt k) (dl_profile L state) (Some 64) (Some 64)) (\<lambda>r.
          Inr (l, r)))))"

definition dtls_tagged :: "socket_addr \<Rightarrow> transmit \<Rightarrow> 'm tagged" where
  "dtls_tagged la t =
     \<lparr>tg_now = tx_now t,
      tg_transport = \<lparr>tc_local_addr = la, tc_peer_addr = tx_remote t, tc_ecn = tx_ecn t\<rparr>,
      tg_message = EvDtls (DtlsRaw (tx_payload t))\<rparr>"

fun dtls_events ::
  "'x dtls_lib \<Rightarrow> socket_addr \<Rightarrow> 'x \<Rightarrow> dtls_endpoint_event list \<Rightarrow> (u8 list list \<times> ('x \<times> 'x) list) res" where
  "dtls_events L peer x [] = Inr ([], [])"
| "dtls_events L peer x (HandshakeComplete # evs) =
     (case dl_connection_state L peer x of
        Some state \<Rightarrow>
          and_then (update_srtp_contexts L state) (\<lambda>c.
          and_then (dtls_events L peer x evs) (\<lambda>(ms, cs). Inr (ms, c # cs)))
      | None \<Rightarrow> dtls_events L peer x evs)"
| "dtls_events L peer x (ApplicationData m # evs) =
     and_then (dtls_events L peer x evs) (\<lambda>(ms, cs). Inr (m # ms, cs))"

definition set_dtls_endpoint :: "'x \<Rightarrow> 'x transport \<Rightarrow> 'x transport" where
  "set_dtls_endpoint x t = t\<lparr>tp_dtls_endpoint := x\<rparr>"

definition set_srtp_contexts :: "('x \<times> 'x) list \<Rightarrow> 'x transport \<Rightarrow> 'x transport" where
  "set_srtp_contexts cs t = foldl (\<lambda>t (l, r). set_remote_srtp r (set_local_srtp l t)) t cs"

text \<open>\<open>try_read\<close>: an error leaves what the endpoint has to send in the endpoint.  The result has the
  application data and what was put into the stage's queue.\<close>

definition dtls_try_read ::
  "'x dtls_lib \<Rightarrow> socket_addr \<Rightarrow> instant \<Rightarrow> transport_context \<Rightarrow> u8 list \<Rightarrow> ('x, 'f) server_states
     \<Rightarrow> (u8 list list \<times> 'm tagged list) res \<times> ('x, 'f) server_states" where
  "dtls_try_read L la now tc bs st =
     (let ft = four_tuple_of tc in
      case locate_transport ft st of
        Inl e \<Rightarrow> (Inl e, st)
      | Inr (_, _, t) \<Rightarrow>
          (case dl_read L now tc bs (tp_dtls_endpoint t) of
             (x, r) \<Rightarrow>
               (case and_then r (dtls_events L (tc_peer_addr tc) x) of
                  Inl e \<Rightarrow> (Inl e, snd (with_transport ft (set_dtls_endpoint x) st))
                | Inr (ms, cs) \<Rightarrow>
                    (case dl_transmits L x of
                       (x', ts) \<Rightarrow>
                         (Inr (ms, map (dtls_tagged la) ts),
                          snd (with_transport ft (set_srtp_contexts cs \<circ> set_dtls_endpoint x') st))))))"

definition dtls_handle_read ::
  "'x dtls_lib \<Rightarrow> socket_addr \<Rightarrow> 'm tagged \<Rightarrow> ('x, 'f, 'm) sfu_state
     \<Rightarrow> 'm tagged list \<times> ('x, 'f, 'm) sfu_state" where
  "dtls_handle_read L la msg S =
     (case tg_message msg of
        EvDtls (DtlsRaw bs) \<Rightarrow>
          (case dtls_try_read L la (tg_now msg) (tg_transport msg) bs (sf_states S) of
             (Inr (ms, ts), st) \<Rightarrow>
               (map (\<lambda>m. msg\<lparr>tg_message := EvDtls (DtlsRaw m)\<rparr>) ms,
                S\<lparr>sf_states := st, sf_dtls := sf_dtls S @ ts\<rparr>)
           | (Inl e, st) \<Rightarrow>
               ([], if e = ErrAlertFatalOrClose
                    then S\<lparr>sf_states := remove_transport (four_tuple_of (tg_transport msg)) st\<rparr>
                    else fire_exception e (S\<lparr>sf_states := st\<rparr>)))
      | _ \<Rightarrow> ([msg], S))"

text \<open>A loop over all transports that changes each and collects what it has to send.\<close>

definition traverse_transports ::
  "('x transport \<Rightarrow> 'e list \<times> 'x transport) \<Rightarrow> ('x, 'f) server_states \<Rightarrow> 'e list \<times> ('x, 'f) server_states" where
  "traverse_transports f st =
     traverse_endpoints (\<lambda>ep. case hm_traverse (\<lambda>_. f) (ep_transports ep) of
       (es, ts) \<Rightarrow> (es, ep\<lparr>ep_transports := ts\<rparr>)) st"

definition dtls_transport_timeout :: "'x dtls_lib \<Rightarrow> instant \<Rightarrow> 'x transport \<Rightarrow> transmit list \<times> 'x transport" where
  "dtls_transport_timeout L now t =
     (let x = foldl (\<lambda>x remote. dl_handle_timeout L remote now x) (tp_dtls_endpoint t)
                (dl_connections L (tp_dtls_endpoint t))
      in case dl_transmits L x of (x', ts) \<Rightarrow> (ts, set_dtls_endpoint x' t))"

definition dtls_handle_timeout ::
  "'x dtls_lib \<Rightarrow> socket_addr \<Rightarrow> instant \<Rightarrow> ('x, 'f, 'm) sfu_state \<Rightarrow> ('x, 'f, 'm) sfu_state" where
  "dtls_handle_timeout L la now S =
     (case traverse_transports (dtls_transport_timeout L now) (sf_states S) of
        (ts, st) \<Rightarrow> S\<lparr>sf_states := st, sf_dtls := sf_dtls S @ map (dtls_tagged la) ts\<rparr>)"

definition all_transports :: "('x, 'f) server_states \<Rightarrow> 'x transport list" where
  "all_transports st = concat (map (\<lambda>ep. map snd (ep_transports ep)) (all_endpoints st))"

definition dtls_handle_poll_timeout :: "'x dtls_lib \<Rightarrow> instant \<Rightarrow> ('x, 'f, 'm) sfu_state \<Rightarrow> instant" where
  "dtls_handle_poll_timeout L eto S =
     foldl (\<lambda>eto t. foldl (\<lambda>eto remote. dl_poll_timeout L remote (tp_dtls_endpoint t) eto) eto
                      (dl_connections L (tp_dtls_endpoint t)))
       eto (all_transports (sf_states S))"

definition dtls_try_write ::
  "'x dtls_lib \<Rightarrow> transport_context \<Rightarrow> u8 list \<Rightarrow> ('x, 'f) server_states
     \<Rightarrow> transmit list res \<times> ('x, 'f) server_states" where
  "dtls_try_write L tc bs st =
     (let ft = four_tuple_of tc in
      case locate_transport ft st of
        Inl e \<Rightarrow> (Inl e, st)
      | Inr (_, _, t) \<Rightarrow>
          (case dl_write L (tc_peer_addr tc) bs (tp_dtls_endpoint t) of
             (x, Inl e) \<Rightarrow> (Inl e, snd (with_transport ft (set_dtls_endpoint x) st))
           | (x, Inr _) \<Rightarrow>
               (case dl_transmits L x of
                  (x', ts) \<Rightarrow> (Inr ts, snd (with_transport ft (set_dtls_endpoint x') st)))))"

definition dtls_handle_write ::
  "'x dtls_lib \<Rightarrow> socket_addr \<Rightarrow> 'm tagged option \<Rightarrow> ('x, 'f, 'm) sfu_state
     \<Rightarrow> 'm tagged option \<times> ('x, 'f, 'm) sfu_state" where
  "dtls_handle_write L la next_msg S =
     (let S1 =
        (case next_msg of
           None \<Rightarrow> S
         | Some msg \<Rightarrow>
             (case tg_message msg of
                EvDtls (DtlsRaw bs) \<Rightarrow>
                  (case dtls_try_write L (tg_transport msg) bs (sf_states S) of
                     (Inr ts, st) \<Rightarrow> S\<lparr>sf_states := st, sf_dtls := sf_dtls S @ map (dtls_tagged la) ts\<rparr>
                   | (Inl e, st) \<Rightarrow> fire_exception e (S\<lparr>sf_states := st\<rparr>))
              | _ \<Rightarrow> S\<lparr>sf_dtls := sf_dtls S @ [msg]\<rparr>))
      in case pop_front (sf_dtls S1) of (out, q) \<Rightarrow> (out, S1\<lparr>sf_dtls := q\<rparr>))"

section \<open>SCTP\<close>

datatype ppid = PpiDcep | PpiString | PpiStringEmpty | PpiBinary | PpiBinaryEmpty | PpiUnknown

datatype sctp_payload = RawEncode "u8 list list" | PartialDecode

record sctp_transmit =
  sx_now :: instant
  sx_remote :: socket_addr
  sx_payload :: sctp_payload
  sx_ecn :: "u8 option"

datatype 'x sctp_datagram_event = NewAssociation 'x | AssociationEvent 'x

datatype sctp_event = SctpReadable u16 | SctpOther

record 'x sctp_lib =
  sl_handle :: "instant \<Rightarrow> transport_context \<Rightarrow> u8 list \<Rightarrow> 'x \<Rightarrow> 'x \<times> (nat \<times> 'x sctp_datagram_event) option"
  sl_handle_event :: "'x \<Rightarrow> 'x \<Rightarrow> 'x"
  sl_poll :: "'x \<Rightarrow> 'x \<times> sctp_event option"
  sl_stream :: "u16 \<Rightarrow> 'x \<Rightarrow> unit res"
  sl_read :: "u16 \<Rightarrow> 'x \<Rightarrow> 'x \<times> (ppid \<times> u8 list) option res"
  sl_chunks_read :: "nat \<Rightarrow> u8 list \<Rightarrow> u8 list res"
  sl_endpoint_events :: "'x \<Rightarrow> 'x \<times> 'x list"
  sl_transmits :: "instant \<Rightarrow> 'x \<Rightarrow> 'x \<times> sctp_transmit list"
  sl_endpoint_handle_event :: "nat \<Rightarrow> 'x \<Rightarrow> 'x \<Rightarrow> 'x"
  sl_handle_timeout :: "instant \<Rightarrow> 'x \<Rightarrow> 'x"
  sl_poll_timeout :: "'x \<Rightarrow> instant option"
  sl_set_reliability :: "u16 \<Rightarrow> data_channel_message_params \<Rightarrow> 'x \<Rightarrow> 'x \<times> unit res"
  sl_write_with_ppi :: "u16 \<Rightarrow> u8 list \<Rightarrow> ppid \<Rightarrow> 'x \<Rightarrow> 'x \<times> unit res"

definition to_data_message_type :: "ppid \<Rightarrow> data_channel_message_type" where
  "to_data_message_type p =
     (case p of
        PpiDcep \<Rightarrow> DcControl
      | PpiString \<Rightarrow> DcText | PpiStringEmpty \<Rightarrow> DcText
      | PpiBinary \<Rightarrow> DcBinary | PpiBinaryEmpty \<Rightarrow> DcBinary
      | PpiUnknown \<Rightarrow> DcNone)"

definition to_ppid :: "data_channel_message_type \<Rightarrow> nat \<Rightarrow> ppid" where
  "to_ppid t len =
     (case t of
        DcText \<Rightarrow> if 0 < len then PpiString else PpiStringEmpty
      | DcBinary \<Rightarrow> if 0 < len then PpiBinary else PpiBinaryEmpty
      | _ \<Rightarrow> PpiDcep)"

definition split_transmit :: "sctp_transmit \<Rightarrow> sctp_transmit list" where
  "split_transmit t =
     (case sx_payload t of
        RawEncode contents \<Rightarrow> map (\<lambda>c. t\<lparr>sx_payload := RawEncode [c]\<rparr>) contents
      | PartialDecode \<Rightarrow> [])"

definition sctp_tagged :: "socket_addr \<Rightarrow> sctp_transmit \<Rightarrow> 'm tagged list" where
  "sctp_tagged la t =
     (case sx_payload t of
        RawEncode raws \<Rightarrow>
          map (\<lambda>raw. \<lparr>tg_now = sx_now t,
                      tg_transport = \<lparr>tc_local_addr = la, tc_peer_addr = sx_remote t, tc_ecn = sx_ecn t\<rparr>,
                      tg_message = EvDtls (DtlsRaw raw)\<rparr>) raws
      | PartialDecode \<Rightarrow> [])"

text \<open>\<open>while let Some(chunks) = stream.read_sctp()?\<close>\<close>

partial_function (option) read_stream ::
  "'x sctp_lib \<Rightarrow> nat \<Rightarrow> nat \<Rightarrow> u16 \<Rightarrow> 'x \<Rightarrow> ('x \<times> data_channel_message list res) option" where
  "read_stream L cap h sid x =
     (case sl_read L sid x of
        (x', Inl e) \<Rightarrow> Some (x', Inl e)
      | (x', Inr None) \<Rightarrow> Some (x', Inr [])
      | (x', Inr (Some (ppi, chunks))) \<Rightarrow>
          (case sl_chunks_read L cap chunks of
             Inl e \<Rightarrow> Some (x', Inl e)
           | Inr payload \<Rightarrow>
               Option.bind (read_stream L cap h sid x') (\<lambda>(x'', r).
                 Some (x'', and_then r (\<lambda>ms. Inr (
                   \<lparr>dm_association_handle = h, dm_stream_id = sid, dm_message_type = to_data_message_type ppi,
                    dm_params = None, dm_payload = payload\<rparr> # ms))))))"

text \<open>\<open>while let Some(event) = conn.poll()\<close>\<close>

partial_function (option) poll_events ::
  "'x sctp_lib \<Rightarrow> nat \<Rightarrow> nat \<Rightarrow> 'x \<Rightarrow> ('x \<times> data_channel_message list res) option" where
  "poll_events L cap h x =
     (case sl_poll L x of
        (x', None) \<Rightarrow> Some (x', Inr [])
      | (x', Some SctpOther) \<Rightarrow> poll_events L cap h x'
      | (x', Some (SctpReadable sid)) \<Rightarrow>
          (case sl_stream L sid x' of
             Inl e \<Rightarrow> Some (x', Inl e)
           | Inr _ \<Rightarrow>
               Option.bind (read_stream L cap h sid x') (\<lambda>(x1, r).
                 case r of
                   Inl e \<Rightarrow> Some (x1, Inl e)
                 | Inr ms \<Rightarrow>
                     Option.bind (poll_events L cap h x1) (\<lambda>(x2, r').
                       Some (x2, and_then r' (\<lambda>ms'. Inr (ms @ ms')))))))"

text \<open>The loop over the associations, which an error leaves at once: messages, endpoint events and
  transmits.\<close>

fun run_associations ::
  "'x sctp_lib \<Rightarrow> instant \<Rightarrow> nat \<Rightarrow> (nat \<times> 'x) option \<Rightarrow> (nat, 'x) hmap
     \<Rightarrow> ((nat, 'x) hmap \<times> (data_channel_message list \<times> (nat \<times> 'x) list \<times> sctp_transmit list) res) option" where
  "run_associations L now cap ev [] = Some ([], Inr ([], [], []))"
| "run_associations L now cap ev ((h, x) # rest) =
     (let x0 = (case ev of Some (h', e) \<Rightarrow> if h' = h then sl_handle_event L e x else x | None \<Rightarrow> x) in
      Option.bind (poll_events L cap h x0) (\<lambda>(x1, r).
        case r of
          Inl e \<Rightarrow> Some ((h, x1) # rest, Inl e)
        | Inr ms \<Rightarrow>
            (case sl_endpoint_events L x1 of
               (x2, eevs) \<Rightarrow>
                 (case sl_transmits L now x2 of
                    (x3, ts) \<Rightarrow>
                      Option.bind (run_associations L now cap ev rest) (\<lambda>(rest', r').
                        Some ((h, x3) # rest', and_then r' (\<lambda>(ms', eevs', ts').
                          Inr (ms @ ms', map (Pair h) eevs @ eevs', concat (map split_transmit ts) @ ts'))))))))"

text \<open>Endpoint events are passed on, and each ends its association.\<close>

definition drain_endpoint_events :: "'x sctp_lib \<Rightarrow> (nat \<times> 'x) list \<Rightarrow> 'x transport \<Rightarrow> 'x transport" where
  "drain_endpoint_events L evs t =
     foldl (\<lambda>t (h, e). t\<lparr>tp_sctp_endpoint := sl_endpoint_handle_event L h e (tp_sctp_endpoint t),
                         tp_sctp_associations := hm_remove h (tp_sctp_associations t)\<rparr>) t evs"

definition sctp_transport_read ::
  "'x sctp_lib \<Rightarrow> instant \<Rightarrow> nat \<Rightarrow> transport_context \<Rightarrow> u8 list \<Rightarrow> 'x transport
     \<Rightarrow> ('x transport \<times> (data_channel_message list \<times> sctp_transmit list) res) option" where
  "sctp_transport_read L now cap tc bs t =
     (case sl_handle L now tc bs (tp_sctp_endpoint t) of
        (ep, ev) \<Rightarrow>
          (let assocs = (case ev of Some (h, NewAssociation x) \<Rightarrow> hm_insert h x (tp_sctp_associations t)
                                  | _ \<Rightarrow> tp_sctp_associations t);
               aev = (case ev of Some (h, AssociationEvent e) \<Rightarrow> Some (h, e) | _ \<Rightarrow> None)
           in Option.bind (run_associations L now cap aev assocs) (\<lambda>(assocs', r).
                let t' = t\<lparr>tp_sctp_endpoint := ep, tp_sctp_associations := assocs'\<rparr> in
                case r of
                  Inl e \<Rightarrow> Some (t', Inl e)
                | Inr (ms, eevs, ts) \<Rightarrow> Some (drain_endpoint_events L eevs t', Inr (ms, ts)))))"

text \<open>The code borrows only the endpoint and the associations of the transport.\<close>

definition set_sctp :: "'x transport \<Rightarrow> 'x transport \<Rightarrow> 'x transport" where
  "set_sctp t' t = t\<lparr>tp_sctp_endpoint := tp_sctp_endpoint t', tp_sctp_associations := tp_sctp_associations t'\<rparr>"

definition sctp_handle_read ::
  "'x sctp_lib \<Rightarrow> socket_addr \<Rightarrow> 'm tagged \<Rightarrow> ('x, 'f, 'm) sfu_state
     \<Rightarrow> ('m tagged list \<times> ('x, 'f, 'm) sfu_state) option" where
  "sctp_handle_read L la msg S =
     (case tg_message msg of
        EvDtls (DtlsRaw bs) \<Rightarrow>
          (let ft = four_tuple_of (tg_transport msg);
               cap = unat (svc_max_message_size (st_server_config (sf_states S)))
           in case locate_transport ft (sf_states S) of
                Inl e \<Rightarrow> Some ([], fire_exception e S)
              | Inr (_, _, t) \<Rightarrow>
                  Option.bind (sctp_transport_read L (tg_now msg) cap (tg_transport msg) bs t) (\<lambda>(t', r).
                    let st = snd (with_transport ft (set_sctp t') (sf_states S)) in
                    case r of
                      Inl e \<Rightarrow> Some ([], fire_exception e (S\<lparr>sf_states := st\<rparr>))
                    | Inr (ms, ts) \<Rightarrow>
                        Some (map (\<lambda>m. msg\<lparr>tg_message := EvDtls (DtlsSctp m)\<rparr>) ms,
                              S\<lparr>sf_states := st, sf_sctp := sf_sctp S @ concat (map (sctp_tagged la) ts)\<rparr>)))
      | _ \<Rightarrow> Some ([msg], S))"

fun timeout_associations ::
  "'x sctp_lib \<Rightarrow> instant \<Rightarrow> (nat, 'x) hmap \<Rightarrow> (nat, 'x) hmap \<times> (nat \<times> 'x) list \<times> sctp_transmit list" where
  "timeout_associations L now [] = ([], [], [])"
| "timeout_associations L now ((h, x) # rest) =
     (case sl_endpoint_events L (sl_handle_timeout L now x) of
        (x1, eevs) \<Rightarrow>
          (case sl_transmits L now x1 of
             (x2, ts) \<Rightarrow>
               (case timeout_associations L now rest of
                  (rest', eevs', ts') \<Rightarrow>
                    ((h, x2) # rest', map (Pair h) eevs @ eevs', concat (map split_transmit ts) @ ts'))))"

definition sctp_transport_timeout ::
  "'x sctp_lib \<Rightarrow> instant \<Rightarrow> 'x transport \<Rightarrow> sctp_transmit list \<times> 'x transport" where
  "sctp_transport_timeout L now t =
     (case timeout_associations L now (tp_sctp_associations t) of
        (assocs, eevs, ts) \<Rightarrow> (ts, drain_endpoint_events L eevs (t\<lparr>tp_sctp_associations := assocs\<rparr>)))"

definition sctp_handle_timeout ::
  "'x sctp_lib \<Rightarrow> socket_addr \<Rightarrow> instant \<Rightarrow> ('x, 'f, 'm) sfu_state \<Rightarrow> ('x, 'f, 'm) sfu_state" where
  "sctp_handle_timeout L la now S =
     (case traverse_transports (sctp_transport_timeout L now) (sf_states S) of
        (ts, st) \<Rightarrow> S\<lparr>sf_states := st, sf_sctp := sf_sctp S @ concat (map (sctp_tagged la) ts)\<rparr>)"

definition sctp_handle_poll_timeout :: "'x sctp_lib \<Rightarrow> instant \<Rightarrow> ('x, 'f, 'm) sfu_state \<Rightarrow> instant" where
  "sctp_handle_poll_timeout L eto S =
     foldl (\<lambda>eto x. case sl_poll_timeout L x of Some timeout \<Rightarrow> if timeout < eto then timeout else eto | None \<Rightarrow> eto)
       eto (concat (map (\<lambda>t. map snd (tp_sctp_associations t)) (all_transports (sf_states S))))"

text \<open>\<open>try_write\<close>: a message that is too large is refused before the transport is looked up.\<close>

definition sctp_try_write ::
  "'x sctp_lib \<Rightarrow> instant \<Rightarrow> four_tuple \<Rightarrow> data_channel_message \<Rightarrow> ('x, 'f) server_states
     \<Rightarrow> sctp_transmit list res \<times> ('x, 'f) server_states" where
  "sctp_try_write L now ft m st =
     (if unat (svc_max_message_size (st_server_config st)) < length (dm_payload m)
      then (Inl ErrOutboundPacketTooLarge, st)
      else
        (case locate_transport ft st of
           Inl e \<Rightarrow> (Inl e, st)
         | Inr (_, _, t) \<Rightarrow>
             (case hm_get (tp_sctp_associations t) (dm_association_handle m) of
                None \<Rightarrow> (Inl ErrAssociationNotExisted, st)
              | Some x \<Rightarrow>
                  (let put = (\<lambda>x'. snd (with_transport ft
                         (\<lambda>t. t\<lparr>tp_sctp_associations := hm_insert (dm_association_handle m) x' (tp_sctp_associations t)\<rparr>) st))
                   in case sl_stream L (dm_stream_id m) x of
                        Inl e \<Rightarrow> (Inl e, st)
                      | Inr _ \<Rightarrow>
                          (case (case dm_params m of
                                   Some p \<Rightarrow> sl_set_reliability L (dm_stream_id m) p x
                                 | None \<Rightarrow> (x, Inr ())) of
                             (x1, Inl e) \<Rightarrow> (Inl e, put x1)
                           | (x1, Inr _) \<Rightarrow>
                               (case sl_write_with_ppi L (dm_stream_id m) (dm_payload m)
                                       (to_ppid (dm_message_type m) (length (dm_payload m))) x1 of
                                  (x2, Inl e) \<Rightarrow> (Inl e, put x2)
                                | (x2, Inr _) \<Rightarrow>
                                    (case sl_transmits L now x2 of
                                       (x3, ts) \<Rightarrow> (Inr (concat (map split_transmit ts)), put x3))))))))"

definition sctp_handle_write ::
  "'x sctp_lib \<Rightarrow> socket_addr \<Rightarrow> 'm tagged option \<Rightarrow> ('x, 'f, 'm) sfu_state
     \<Rightarrow> 'm tagged option \<times> ('x, 'f, 'm) sfu_state" where
  "sctp_handle_write L la next_msg S =
     (let S1 =
        (case next_msg of
           None \<Rightarrow> S
         | Some msg \<Rightarrow>
             (case tg_message msg of
                EvDtls (DtlsSctp m) \<Rightarrow>
                  (case sctp_try_write L (tg_now msg) (four_tuple_of (tg_transport msg)) m (sf_states S) of
                     (Inr ts, st) \<Rightarrow> S\<lparr>sf_states := st, sf_sctp := sf_sctp S @ concat (map (sctp_tagged la) ts)\<rparr>
                   | (Inl e, st) \<Rightarrow> fire_exception e (S\<lparr>sf_states := st\<rparr>))
              | _ \<Rightarrow> S\<lparr>sf_sctp := sf_sctp S @ [msg]\<rparr>))
      in case pop_front (sf_sctp S1) of (out, q) \<Rightarrow> (out, S1\<lparr>sf_sctp := q\<rparr>))"

end
