(* ===== verification/Pipeline.thy ===== *)
theory Pipeline
  imports Secure_Handlers
begin

text \<open>
  The pipeline of a media worker: \<open>build_pipeline\<close> of \<open>src/signal/mod.rs\<close> on the stages of
  \<open>vendor/sfu/src/handler\<close>.  The pipeline itself is the crate \<open>retty\<close>, by its documented behaviour:
  a datagram enters at the first stage and what a stage fires goes to the next one before the stage
  continues; \<open>poll_write\<close> of a stage asks the next one first; timeouts visit the stages in order.
  A stage that does not define an operation passes it on.

  The locale \<open>write_stage\<close> is the contract by which the loop over \<open>poll_transmit\<close> ends.
\<close>

section \<open>Stages\<close>

record ('x, 'f, 'm) sfu_env =
  en_sfu :: sfu_lib
  en_json :: json_lib
  en_stun :: "'m stun_lib"
  en_codec :: "('x, 'm) codec_lib"
  en_dc :: dc_lib
  en_dtls :: "'x dtls_lib"
  en_sctp :: "'x sctp_lib"
  en_f64 :: "'f f64_ops"
  en_addr :: socket_addr

text \<open>\<open>fresh\<close> are the random ICE parameters and \<open>clk\<close> the clock the gateway may read; \<open>None\<close> is a loop
  over library events that never ends.\<close>

record ('x, 'f, 'm) stage =
  sg_read :: "ice_parameters \<Rightarrow> instant \<Rightarrow> 'm tagged \<Rightarrow> ('x, 'f, 'm) sfu_state
    \<Rightarrow> ('m tagged list \<times> ('x, 'f, 'm) sfu_state) option"
  sg_write :: "'m tagged option \<Rightarrow> ('x, 'f, 'm) sfu_state \<Rightarrow> 'm tagged option \<times> ('x, 'f, 'm) sfu_state"
  sg_timeout :: "instant \<Rightarrow> ('x, 'f, 'm) sfu_state \<Rightarrow> ('x, 'f, 'm) sfu_state"
  sg_poll_timeout :: "instant \<Rightarrow> ('x, 'f, 'm) sfu_state \<Rightarrow> instant"

definition plain_stage ::
  "('m tagged \<Rightarrow> ('x, 'f, 'm) sfu_state \<Rightarrow> 'm tagged list \<times> ('x, 'f, 'm) sfu_state)
   \<Rightarrow> ('m tagged option \<Rightarrow> ('x, 'f, 'm) sfu_state \<Rightarrow> 'm tagged option \<times> ('x, 'f, 'm) sfu_state)
   \<Rightarrow> ('x, 'f, 'm) stage" where
  "plain_stage r w =
     \<lparr>sg_read = (\<lambda>_ _ m S. Some (r m S)), sg_write = w, sg_timeout = (\<lambda>_ S. S), sg_poll_timeout = (\<lambda>eto _. eto)\<rparr>"

definition dtls_stage :: "('x, 'f, 'm) sfu_env \<Rightarrow> ('x, 'f, 'm) stage" where
  "dtls_stage E =
     (plain_stage (dtls_handle_read (en_dtls E) (en_addr E)) (dtls_handle_write (en_dtls E) (en_addr E)))
       \<lparr>sg_timeout := dtls_handle_timeout (en_dtls E) (en_addr E),
        sg_poll_timeout := dtls_handle_poll_timeout (en_dtls E)\<rparr>"

definition sctp_stage :: "('x, 'f, 'm) sfu_env \<Rightarrow> ('x, 'f, 'm) stage" where
  "sctp_stage E =
     \<lparr>sg_read = (\<lambda>_ _. sctp_handle_read (en_sctp E) (en_addr E)),
      sg_write = sctp_handle_write (en_sctp E) (en_addr E),
      sg_timeout = sctp_handle_timeout (en_sctp E) (en_addr E),
      sg_poll_timeout = sctp_handle_poll_timeout (en_sctp E)\<rparr>"

definition interceptor_stage :: "('x, 'f, 'm) sfu_env \<Rightarrow> ('x, 'f, 'm) stage" where
  "interceptor_stage E =
     (plain_stage (interceptor_handle_read (en_f64 E)) interceptor_handle_write)
       \<lparr>sg_timeout := interceptor_handle_timeout (en_f64 E),
        sg_poll_timeout := interceptor_handle_poll_timeout\<rparr>"

definition gateway_stage :: "('x, 'f, 'm) sfu_env \<Rightarrow> ('x, 'f, 'm) stage" where
  "gateway_stage E =
     \<lparr>sg_read = (\<lambda>fresh clk m S. Some (gateway_stage_read (en_sfu E) (en_stun E) (en_json E) fresh clk m S)),
      sg_write = gateway_stage_write,
      sg_timeout = (\<lambda>now S. case gateway_handle_timeout now (sf_gateway S) (sf_states S) of
        (gw, st) \<Rightarrow> S\<lparr>sf_gateway := gw, sf_states := st\<rparr>),
      sg_poll_timeout = (\<lambda>eto S. gateway_poll_timeout eto (sf_gateway S))\<rparr>"

text \<open>The stages behind the demultiplexer.\<close>

definition build_pipeline :: "('x, 'f, 'm) sfu_env \<Rightarrow> ('x, 'f, 'm) stage list" where
  "build_pipeline E =
     [plain_stage (stun_read (en_codec E)) (stun_write (en_codec E)),
      dtls_stage E, sctp_stage E,
      plain_stage (datachannel_read (en_dc E)) datachannel_write,
      plain_stage (srtp_read (en_codec E)) (srtp_write (en_codec E)),
      interceptor_stage E, gateway_stage E,
      plain_stage exception_read exception_write]"

definition sfu_state_new :: "bool \<Rightarrow> instant \<Rightarrow> ('x, 'f) server_states \<Rightarrow> ('x, 'f, 'm) sfu_state" where
  "sfu_state_new audio clk st =
     \<lparr>sf_states = st, sf_dtls = [], sf_sctp = [], sf_datachannel = [], sf_interceptor = [],
      sf_gateway = gateway_new audio clk (st_server_config st), sf_audio = [], sf_errors = []\<rparr>"

section \<open>The pipeline\<close>

fun read_through ::
  "('x, 'f, 'm) stage list \<Rightarrow> ice_parameters \<Rightarrow> instant \<Rightarrow> 'm tagged \<Rightarrow> ('x, 'f, 'm) sfu_state
     \<Rightarrow> ('x, 'f, 'm) sfu_state option" where
  "read_through [] fresh clk m S = Some S"
| "read_through (h # hs) fresh clk m S =
     Option.bind (sg_read h fresh clk m S) (\<lambda>(ms, S').
       foldl (\<lambda>o' m'. Option.bind o' (read_through hs fresh clk m')) (Some S') ms)"

definition pipeline_read ::
  "('x, 'f, 'm) sfu_env \<Rightarrow> ice_parameters \<Rightarrow> instant \<Rightarrow> datagram \<Rightarrow> ('x, 'f, 'm) sfu_state
     \<Rightarrow> ('x, 'f, 'm) sfu_state option" where
  "pipeline_read E fresh clk d S =
     (case demuxer_read d of
        None \<Rightarrow> Some S
      | Some m \<Rightarrow> read_through (build_pipeline E) fresh clk m S)"

fun write_through ::
  "('x, 'f, 'm) stage list \<Rightarrow> ('x, 'f, 'm) sfu_state \<Rightarrow> 'm tagged option \<times> ('x, 'f, 'm) sfu_state" where
  "write_through [] S = (None, S)"
| "write_through (h # hs) S = (case write_through hs S of (m, S') \<Rightarrow> sg_write h m S')"

definition poll_transmit ::
  "('x, 'f, 'm) sfu_env \<Rightarrow> ('x, 'f, 'm) sfu_state \<Rightarrow> datagram option \<times> ('x, 'f, 'm) sfu_state" where
  "poll_transmit E S = (case write_through (build_pipeline E) S of (m, S') \<Rightarrow> (demuxer_write m, S'))"

definition pipeline_handle_timeout ::
  "('x, 'f, 'm) sfu_env \<Rightarrow> instant \<Rightarrow> ('x, 'f, 'm) sfu_state \<Rightarrow> ('x, 'f, 'm) sfu_state" where
  "pipeline_handle_timeout E now S = foldl (\<lambda>S h. sg_timeout h now S) S (build_pipeline E)"

definition pipeline_poll_timeout ::
  "('x, 'f, 'm) sfu_env \<Rightarrow> instant \<Rightarrow> ('x, 'f, 'm) sfu_state \<Rightarrow> instant" where
  "pipeline_poll_timeout E eto S = foldl (\<lambda>eto h. sg_poll_timeout h eto S) eto (build_pipeline E)"

section \<open>The transmit loop ends\<close>

text \<open>
  A message that moves from one queue to the next may become several.  The queues are compared
  lexicographically, those near the gateway first: \<open>progress fs out S S'\<close> says that a poll of the
  stages with the queues \<open>fs\<close> has made this smaller, or has found everything empty.
\<close>

definition progress ::
  "(('s \<Rightarrow> nat) list) \<Rightarrow> 'm option \<Rightarrow> 's \<Rightarrow> 's \<Rightarrow> bool" where
  "progress fs out S S' \<longleftrightarrow> (S', S) \<in> measures fs \<or> out = None \<and> S' = S"

lemma measures_append:
  "(x, y) \<in> measures (fs @ [q]) \<longleftrightarrow> (x, y) \<in> measures fs \<or> (\<forall>f \<in> set fs. f x = f y) \<and> q x < q y"
  by (induction fs) auto

lemma measures_cong: "\<forall>f \<in> set fs. f x' = f x \<Longrightarrow> (x, y) \<in> measures fs \<Longrightarrow> (x', y) \<in> measures fs"
  by (induction fs) auto

locale write_stage =
  fixes w :: "'m option \<Rightarrow> 's \<Rightarrow> 'm option \<times> 's"
    and fs :: "('s \<Rightarrow> nat) list"
    and q :: "'s \<Rightarrow> nat"
  assumes keeps: "f \<in> set fs \<Longrightarrow> f (snd (w m S)) = f S"
    and idle: "fst (w None S) = None \<Longrightarrow> snd (w None S) = S"
    and busy: "fst (w None S) \<noteq> None \<Longrightarrow> q (snd (w None S)) < q S"
begin

lemma stage_progress:
  assumes "progress fs m S0 S1"
  shows "progress (fs @ [q]) (fst (w m S1)) S0 (snd (w m S1))"
  using assms unfolding progress_def
proof
  assume "(S1, S0) \<in> measures fs"
  then have "(snd (w m S1), S0) \<in> measures fs" using keeps by (blast intro: measures_cong)
  then show "(snd (w m S1), S0) \<in> measures (fs @ [q]) \<or> fst (w m S1) = None \<and> snd (w m S1) = S0"
    by (simp only: measures_append simp_thms)
next
  assume "m = None \<and> S1 = S0"
  then show "(snd (w m S1), S0) \<in> measures (fs @ [q]) \<or> fst (w m S1) = None \<and> snd (w m S1) = S0"
    using keeps [of _ None S0] idle [of S0] busy [of S0] by (auto simp only: measures_append)
qed

end

text \<open>The queues of the stages; the stages without one have length 0.\<close>

definition queue_lengths :: "(('x, 'f, 'm) sfu_state \<Rightarrow> nat) list" where
  "queue_lengths =
     [\<lambda>S. length (gw_transmits (sf_gateway S)), \<lambda>S. length (sf_interceptor S), \<lambda>S. 0,
      \<lambda>S. length (sf_datachannel S), \<lambda>S. length (sf_sctp S), \<lambda>S. length (sf_dtls S), \<lambda>S. 0]"

lemma pop_front_simps [simp]: "pop_front [] = (None, [])" "pop_front (m # ms) = (Some m, ms)"
  by (simp_all add: pop_front_def)

lemma transport_keeps_queues [simp]:
  "sf_gateway (fire_exception e S) = sf_gateway S" "sf_interceptor (fire_exception e S) = sf_interceptor S"
  "sf_datachannel (fire_exception e S) = sf_datachannel S" "sf_sctp (fire_exception e S) = sf_sctp S"
  "sf_dtls (fire_exception e S) = sf_dtls S"
  by (simp_all add: fire_exception_def)

interpretation gateway_out: write_stage gateway_stage_write "take 0 queue_lengths" "queue_lengths ! 0"
  by unfold_locales
     (auto simp: queue_lengths_def gateway_stage_write_def gateway_poll_write_def Let_def split: list.splits)

interpretation interceptor_out: write_stage interceptor_handle_write "take 1 queue_lengths" "queue_lengths ! 1"
proof
  fix S :: "('x, 'f, 'm) sfu_state"
  show "fst (interceptor_handle_write None S) = None \<Longrightarrow> snd (interceptor_handle_write None S) = S"
    "fst (interceptor_handle_write None S) \<noteq> None \<Longrightarrow>
       (queue_lengths ! 1) (snd (interceptor_handle_write None S)) < (queue_lengths ! 1) S"
    by (auto simp: interceptor_handle_write_def queue_lengths_def pop_front_def split: list.splits)
  fix f :: "('x, 'f, 'm) sfu_state \<Rightarrow> nat" and m
  show "f \<in> set (take 1 queue_lengths) \<Longrightarrow> f (snd (interceptor_handle_write m S)) = f S"
    by (auto simp: interceptor_handle_write_def queue_lengths_def take_events_def Let_def
        split: option.splits prod.splits sum.splits)
qed

interpretation srtp_out: write_stage "srtp_write C" "take 2 queue_lengths" "queue_lengths ! 2"
  for C :: "('x, 'm) codec_lib"
  by unfold_locales
     (auto simp: srtp_write_def queue_lengths_def eval_nat_numeral
       split: option.splits prod.splits sum.splits message_event.splits)

interpretation datachannel_out: write_stage datachannel_write "take 3 queue_lengths" "queue_lengths ! 3"
  by unfold_locales
     (auto simp: datachannel_write_def queue_lengths_def eval_nat_numeral pop_front_def Let_def
       split: option.splits list.splits)

interpretation sctp_out: write_stage "sctp_handle_write L la" "take 4 queue_lengths" "queue_lengths ! 4"
  for L :: "'x sctp_lib" and la
proof
  fix S :: "('x, 'f, 'm) sfu_state"
  show "fst (sctp_handle_write L la None S) = None \<Longrightarrow> snd (sctp_handle_write L la None S) = S"
    "fst (sctp_handle_write L la None S) \<noteq> None \<Longrightarrow>
       (queue_lengths ! 4) (snd (sctp_handle_write L la None S)) < (queue_lengths ! 4) S"
    by (auto simp: sctp_handle_write_def queue_lengths_def eval_nat_numeral pop_front_def split: list.splits)
  fix f :: "('x, 'f, 'm) sfu_state \<Rightarrow> nat" and m
  show "f \<in> set (take 4 queue_lengths) \<Longrightarrow> f (snd (sctp_handle_write L la m S)) = f S"
    by (auto simp: sctp_handle_write_def queue_lengths_def eval_nat_numeral Let_def
        split: option.splits prod.splits sum.splits message_event.splits dtls_event.splits)
qed

interpretation dtls_out: write_stage "dtls_handle_write L la" "take 5 queue_lengths" "queue_lengths ! 5"
  for L :: "'x dtls_lib" and la
proof
  fix S :: "('x, 'f, 'm) sfu_state"
  show "fst (dtls_handle_write L la None S) = None \<Longrightarrow> snd (dtls_handle_write L la None S) = S"
    "fst (dtls_handle_write L la None S) \<noteq> None \<Longrightarrow>
       (queue_lengths ! 5) (snd (dtls_handle_write L la None S)) < (queue_lengths ! 5) S"
    by (auto simp: dtls_handle_write_def queue_lengths_def eval_nat_numeral pop_front_def split: list.splits)
  fix f :: "('x, 'f, 'm) sfu_state \<Rightarrow> nat" and m
  show "f \<in> set (take 5 queue_lengths) \<Longrightarrow> f (snd (dtls_handle_write L la m S)) = f S"
    by (auto simp: dtls_handle_write_def queue_lengths_def eval_nat_numeral Let_def
        split: option.splits prod.splits sum.splits message_event.splits dtls_event.splits)
qed

interpretation stun_out: write_stage "stun_write C" "take 6 queue_lengths" "queue_lengths ! 6"
  for C :: "('x, 'm) codec_lib"
  by unfold_locales
     (auto simp: stun_write_def queue_lengths_def eval_nat_numeral
       split: option.splits message_event.splits stun_event.splits)

lemma write_through_progress:
  assumes "write_stage (sg_write h) (take n queue_lengths) (queue_lengths ! n)"
    and "progress (take n queue_lengths) (fst (write_through hs S)) S (snd (write_through hs S))"
    and "n < length (queue_lengths :: (('x, 'f, 'm) sfu_state \<Rightarrow> nat) list)"
  shows "progress (take (Suc n) queue_lengths) (fst (write_through (h # hs) S)) S
    (snd (write_through (h # hs) (S :: ('x, 'f, 'm) sfu_state)))"
  using write_stage.stage_progress [OF assms(1,2)] assms(3)
  by (cases "write_through hs S") (simp add: take_Suc_conv_app_nth)

lemmas stage_contracts =
  gateway_out.write_stage_axioms interceptor_out.write_stage_axioms srtp_out.write_stage_axioms
  datachannel_out.write_stage_axioms sctp_out.write_stage_axioms dtls_out.write_stage_axioms
  stun_out.write_stage_axioms

lemma pipeline_progress:
  "progress queue_lengths (fst (write_through (build_pipeline E) S)) S (snd (write_through (build_pipeline E) S))"
proof -
  have 0: "progress (take 0 queue_lengths) (fst (write_through [plain_stage exception_read exception_write] S)) S
      (snd (write_through [plain_stage exception_read exception_write] S))"
    by (simp add: progress_def plain_stage_def exception_write_def)
  have 7: "take (Suc (Suc (Suc (Suc (Suc (Suc (Suc 0))))))) queue_lengths = (queue_lengths :: (('x, 'f, 'm) sfu_state \<Rightarrow> nat) list)"
    by (simp add: queue_lengths_def)
  show ?thesis
    unfolding build_pipeline_def
    using stage_contracts
    by (subst 7 [symmetric]; intro write_through_progress 0)
       (simp_all add: gateway_stage_def interceptor_stage_def sctp_stage_def dtls_stage_def plain_stage_def
         queue_lengths_def [THEN arg_cong [of _ _ length]] eval_nat_numeral)
qed

lemma poll_transmit_decreases:
  "poll_transmit E S = (Some d, S') \<Longrightarrow> (S', S) \<in> measures queue_lengths"
  using pipeline_progress [of E S]
  by (auto simp: poll_transmit_def progress_def demuxer_write_def split: prod.splits)

text \<open>\<open>write_socket_output\<close>: \<open>send n\<close> is the result of the \<open>n\<close>-th \<open>send_to\<close>.  The loop returns what was
  sent; an error of the socket ends it.\<close>

function write_socket_output ::
  "('x, 'f, 'm) sfu_env \<Rightarrow> (nat \<Rightarrow> datagram \<Rightarrow> unit res) \<Rightarrow> nat \<Rightarrow> ('x, 'f, 'm) sfu_state
     \<Rightarrow> unit res \<times> datagram list \<times> ('x, 'f, 'm) sfu_state" where
  "write_socket_output E send n S =
     (case poll_transmit E S of
        (None, S') \<Rightarrow> (Inr (), [], S')
      | (Some d, S') \<Rightarrow>
          (case send n d of
             Inl e \<Rightarrow> (Inl e, [], S')
           | Inr _ \<Rightarrow>
               (case write_socket_output E send (Suc n) S' of
                  (r, ds, S'') \<Rightarrow> (r, d # ds, S''))))"
  by pat_completeness auto
termination
  by (relation "inv_image (measures queue_lengths) (\<lambda>(E, send, n, S). S)")
     (auto intro: poll_transmit_decreases [OF sym])

declare write_socket_output.simps [simp del]

end
