(* ===== verification/Media_Loop.thy ===== *)
theory Media_Loop
  imports Pipeline Signaling
begin

text \<open>
  The loop of a media worker, \<open>sync_run_with_transcription\<close> of \<open>src/signal/mod.rs\<close>, on the
  pipeline and the phases of \<open>Signaling\<close>.

  A turn gets what the outside does during it: the stop channel, the results of the socket, the
  signaling messages that arrive, and what the clock reads at each place the code asks for it.
\<close>

section \<open>Turns\<close>

datatype stop_signal = StopEmpty | StopReceived | StopDisconnected

datatype recv_outcome = RecvData "u8 list" socket_addr | RecvTimedOut | RecvFailed

record turn_input =
  ti_stop :: stop_signal
  ti_arrivals :: "(signaling_protocol_message \<times> bool) list"
  ti_send :: "nat \<Rightarrow> datagram \<Rightarrow> unit res"
  ti_recv :: recv_outcome
  ti_fresh_signal :: ice_parameters
  ti_fresh_read :: ice_parameters
  ti_now_signal :: instant
  ti_now_eto :: instant
  ti_now_delay :: instant
  ti_now_recv :: instant
  ti_now_read :: instant
  ti_now_timeout :: instant

record ('x, 'f, 'm) media_loop =
  ml_sfu :: "('x, 'f, 'm) sfu_state"
  ml_extractor :: extractor
  ml_transcription :: bool
  ml_signals :: "(signaling_protocol_message \<times> bool) list"
  ml_responses :: "signaling_protocol_message list"
  ml_commands :: "transcription_command list"
  ml_sent :: "datagram list"

text \<open>The server states and the decrypted audio are shared with the pipeline; the phases of the loop see
  them as a \<open>media_worker\<close>.\<close>

definition worker_view :: "('x, 'f, 'm) media_loop \<Rightarrow> ('x, 'f) media_worker" where
  "worker_view w =
     \<lparr>mw_states = sf_states (ml_sfu w), mw_extractor = ml_extractor w, mw_audio = sf_audio (ml_sfu w),
      mw_transcription = ml_transcription w, mw_commands = ml_commands w, mw_responses = ml_responses w\<rparr>"

definition put_worker :: "('x, 'f) media_worker \<Rightarrow> ('x, 'f, 'm) media_loop \<Rightarrow> ('x, 'f, 'm) media_loop" where
  "put_worker v w =
     w\<lparr>ml_sfu := (ml_sfu w)\<lparr>sf_states := mw_states v, sf_audio := mw_audio v\<rparr>,
       ml_extractor := mw_extractor v, ml_commands := mw_commands v, ml_responses := mw_responses v\<rparr>"

text \<open>\<open>read_socket_input\<close>: the buffer has 2000 bytes and \<open>recv_from\<close> cuts off what does not fit.\<close>

definition read_socket_input :: "socket_addr \<Rightarrow> instant \<Rightarrow> u8 list \<Rightarrow> socket_addr \<Rightarrow> datagram" where
  "read_socket_input la now bs peer =
     \<lparr>dg_now = now, dg_transport = \<lparr>tc_local_addr = la, tc_peer_addr = peer, tc_ecn = None\<rparr>,
      dg_message = take 2000 bs\<rparr>"

definition turn_deadline ::
  "('x, 'f, 'm) sfu_env \<Rightarrow> turn_input \<Rightarrow> ('x, 'f, 'm) media_loop \<Rightarrow> instant" where
  "turn_deadline E i w = pipeline_poll_timeout E (ti_now_eto i + 100 * 1000000) (ml_sfu w)"

definition delay_from_now ::
  "('x, 'f, 'm) sfu_env \<Rightarrow> turn_input \<Rightarrow> ('x, 'f, 'm) media_loop \<Rightarrow> duration" where
  "delay_from_now E i w = nat (turn_deadline E i w - ti_now_delay i)"

definition drive_time ::
  "('x, 'f, 'm) sfu_env \<Rightarrow> turn_input \<Rightarrow> ('x, 'f, 'm) media_loop \<Rightarrow> ('x, 'f, 'm) media_loop" where
  "drive_time E i w = w\<lparr>ml_sfu := pipeline_handle_timeout E (ti_now_timeout i) (ml_sfu w)\<rparr>"

datatype 'w loop_turn = LoopContinue 'w | LoopExit "unit res" 'w | LoopPanic

text \<open>The part of a turn after the signaling message: audio, timeouts and one datagram.\<close>

definition network_phase ::
  "('x, 'f, 'm) sfu_env \<Rightarrow> turn_input \<Rightarrow> ('x, 'f, 'm) media_loop
     \<Rightarrow> ('x, 'f, 'm) media_loop loop_turn option" where
  "network_phase E i w =
     (if delay_from_now E i w = 0 then Some (LoopContinue (drive_time E i w))
      else
        (case ti_recv i of
           RecvFailed \<Rightarrow> Some LoopPanic
         | RecvTimedOut \<Rightarrow> Some (LoopContinue (drive_time E i w))
         | RecvData bs peer \<Rightarrow>
             Option.bind
               (pipeline_read E (ti_fresh_read i) (ti_now_read i)
                 (read_socket_input (en_addr E) (ti_now_recv i) bs peer) (ml_sfu w))
               (\<lambda>S. Some (LoopContinue (drive_time E i (w\<lparr>ml_sfu := S\<rparr>))))))"

definition loop_turn ::
  "('x, 'f, 'm) sfu_env \<Rightarrow> (error \<Rightarrow> string) \<Rightarrow> turn_input \<Rightarrow> ('x, 'f, 'm) media_loop
     \<Rightarrow> ('x, 'f, 'm) media_loop loop_turn option" where
  "loop_turn E show_err i w0 =
     (let w = w0\<lparr>ml_signals := ml_signals w0 @ ti_arrivals i\<rparr> in
      if ti_stop i \<noteq> StopEmpty then Some (LoopExit (Inr ()) w)
      else
        (case write_socket_output E (ti_send i) 0 (ml_sfu w) of
           (Inl e, ds, S) \<Rightarrow> Some (LoopExit (Inl e) (w\<lparr>ml_sfu := S, ml_sent := ml_sent w @ ds\<rparr>))
         | (Inr _, ds, S) \<Rightarrow>
             (let w1 = w\<lparr>ml_sfu := S, ml_sent := ml_sent w @ ds\<rparr>
              in case pop_front (ml_signals w1) of
                   (msg, rest) \<Rightarrow>
                     (case signaling_phase (en_sfu E) (en_json E) show_err (ti_fresh_signal i) (ti_now_signal i) msg
                             (worker_view w1) of
                        (ok, v) \<Rightarrow>
                          (let w2 = put_worker v (w1\<lparr>ml_signals := rest\<rparr>)
                           in if ok
                              then network_phase E i (put_worker (audio_phase (worker_view w2)) w2)
                              else Some (LoopContinue w2))))))"

section \<open>Runs\<close>

text \<open>The start of the loop: the table of states, and the pipeline with an audio callback when there is a
  transcription channel.\<close>

definition loop_start ::
  "('x, 'f, 'm) sfu_env \<Rightarrow> 'x server_config \<Rightarrow> bool \<Rightarrow> instant \<Rightarrow> ('x, 'f, 'm) media_loop res" where
  "loop_start E cfg transcription clk =
     and_then (server_states_new (en_sfu E) cfg (en_addr E)) (\<lambda>st.
       Inr \<lparr>ml_sfu = sfu_state_new transcription clk st, ml_extractor = ext_new,
            ml_transcription = transcription, ml_signals = [], ml_responses = [], ml_commands = [], ml_sent = []\<rparr>)"

text \<open>Turns until the loop ends; \<open>LoopContinue\<close> is a loop still running when the inputs are used up.\<close>

fun loop_run ::
  "('x, 'f, 'm) sfu_env \<Rightarrow> (error \<Rightarrow> string) \<Rightarrow> turn_input list \<Rightarrow> ('x, 'f, 'm) media_loop
     \<Rightarrow> ('x, 'f, 'm) media_loop loop_turn option" where
  "loop_run E show_err [] w = Some (LoopContinue w)"
| "loop_run E show_err (i # is) w =
     Option.bind (loop_turn E show_err i w) (\<lambda>t.
       case t of LoopContinue w' \<Rightarrow> loop_run E show_err is w' | _ \<Rightarrow> Some t)"

definition sync_run_with_transcription ::
  "('x, 'f, 'm) sfu_env \<Rightarrow> (error \<Rightarrow> string) \<Rightarrow> 'x server_config \<Rightarrow> bool \<Rightarrow> instant \<Rightarrow> turn_input list
     \<Rightarrow> (error + ('x, 'f, 'm) media_loop loop_turn) option" where
  "sync_run_with_transcription E show_err cfg transcription clk is =
     (case loop_start E cfg transcription clk of
        Inl e \<Rightarrow> Some (Inl e)
      | Inr w \<Rightarrow> map_option Inr (loop_run E show_err is w))"

definition sync_run ::
  "('x, 'f, 'm) sfu_env \<Rightarrow> (error \<Rightarrow> string) \<Rightarrow> 'x server_config \<Rightarrow> instant \<Rightarrow> turn_input list
     \<Rightarrow> (error + ('x, 'f, 'm) media_loop loop_turn) option" where
  "sync_run E show_err cfg clk is = sync_run_with_transcription E show_err cfg False clk is"

end
