(* ===== verification/Pipeline_Facts.thy ===== *)
theory Pipeline_Facts
  imports Media_Loop Sfu_Properties
begin

text \<open>
  What the pipeline and the loop of a media worker keep of the server states, how datagrams are told
  apart, and when sending stops.
\<close>

section \<open>Stages keep the server states\<close>

lemma states_fire_exception [simp]: "sf_states (fire_exception e S) = sf_states S"
  by (simp add: fire_exception_def)

lemma transport_updates [simp]:
  "tp_four_tuple (set_remote_srtp x t) = tp_four_tuple t" "tp_candidate (set_remote_srtp x t) = tp_candidate t"
  "tp_four_tuple (set_local_srtp x t) = tp_four_tuple t" "tp_candidate (set_local_srtp x t) = tp_candidate t"
  "tp_four_tuple (set_dtls_endpoint x t) = tp_four_tuple t" "tp_candidate (set_dtls_endpoint x t) = tp_candidate t"
  "tp_four_tuple (set_sctp t' t) = tp_four_tuple t" "tp_candidate (set_sctp t' t) = tp_candidate t"
  by (simp_all add: set_remote_srtp_def set_local_srtp_def set_dtls_endpoint_def set_sctp_def)

lemma transport_updates_activity [simp]:
  "tp_last_activity (set_remote_srtp x t) = tp_last_activity t"
  "tp_last_activity (set_local_srtp x t) = tp_last_activity t"
  "tp_last_activity (set_dtls_endpoint x t) = tp_last_activity t"
  "tp_last_activity (set_sctp t' t) = tp_last_activity t"
  by (simp_all add: set_remote_srtp_def set_local_srtp_def set_dtls_endpoint_def set_sctp_def)

lemma set_srtp_contexts_keeps [simp]:
  "tp_four_tuple (set_srtp_contexts cs t) = tp_four_tuple t"
  "tp_candidate (set_srtp_contexts cs t) = tp_candidate t"
  "tp_last_activity (set_srtp_contexts cs t) = tp_last_activity t"
  by (induction cs arbitrary: t) (auto simp: set_srtp_contexts_def)

lemma drain_endpoint_events_keeps [simp]:
  "tp_four_tuple (drain_endpoint_events L evs t) = tp_four_tuple t \<and>
   tp_candidate (drain_endpoint_events L evs t) = tp_candidate t \<and>
   tp_last_activity (drain_endpoint_events L evs t) = tp_last_activity t"
  by (induction evs arbitrary: t) (auto simp: drain_endpoint_events_def)

lemma hm_traverse_snd: "snd (hm_traverse f m) = hm_map_values (\<lambda>k v. snd (f k v)) m"
  by (induction f m rule: hm_traverse.induct) (auto simp: hm_map_values_def split: prod.splits)

lemma traverse_endpoints_snd:
  "snd (traverse_endpoints f st) =
     st\<lparr>st_sessions := hm_map_values (\<lambda>_ s. s\<lparr>ss_endpoints := hm_map_values (\<lambda>_ ep. snd (f ep)) (ss_endpoints s)\<rparr>)
          (st_sessions st)\<rparr>"
  by (simp add: traverse_endpoints_def case_prod_beta hm_traverse_snd)

lemma dtls_transport_timeout_keeps:
  "tp_four_tuple (snd (dtls_transport_timeout L now t)) = tp_four_tuple t"
  "tp_candidate (snd (dtls_transport_timeout L now t)) = tp_candidate t"
  "tp_last_activity (snd (dtls_transport_timeout L now t)) = tp_last_activity t"
  by (auto simp: dtls_transport_timeout_def Let_def split: prod.splits)

lemma sctp_transport_timeout_keeps:
  "tp_four_tuple (snd (sctp_transport_timeout L now t)) = tp_four_tuple t"
  "tp_candidate (snd (sctp_transport_timeout L now t)) = tp_candidate t"
  "tp_last_activity (snd (sctp_transport_timeout L now t)) = tp_last_activity t"
  by (auto simp: sctp_transport_timeout_def split: prod.splits)

text \<open>The states after a loop over all endpoints or all transports.\<close>

definition map_endpoints ::
  "(('x, 'f) endpoint \<Rightarrow> ('x, 'f) endpoint) \<Rightarrow> ('x, 'f) server_states \<Rightarrow> ('x, 'f) server_states" where
  "map_endpoints f st =
     st\<lparr>st_sessions := hm_map_values (\<lambda>_ s. s\<lparr>ss_endpoints := hm_map_values (\<lambda>_. f) (ss_endpoints s)\<rparr>) (st_sessions st)\<rparr>"

definition map_transports ::
  "('x transport \<Rightarrow> 'x transport) \<Rightarrow> ('x, 'f) server_states \<Rightarrow> ('x, 'f) server_states" where
  "map_transports f st = map_endpoints (\<lambda>ep. ep\<lparr>ep_transports := hm_map_values (\<lambda>_. f) (ep_transports ep)\<rparr>) st"

lemma traverse_snd:
  "snd (traverse_endpoints f st) = map_endpoints (\<lambda>ep. snd (f ep)) st"
  "snd (traverse_transports g st) = map_transports (\<lambda>t. snd (g t)) st"
  by (simp_all add: traverse_endpoints_snd traverse_transports_def map_endpoints_def map_transports_def
      case_prod_beta hm_traverse_snd)

section \<open>Stages and their composition\<close>

definition stage_keeps :: "(('x, 'f, 'm) sfu_state \<Rightarrow> bool) \<Rightarrow> ('x, 'f, 'm) stage \<Rightarrow> bool" where
  "stage_keeps I h \<longleftrightarrow>
     (\<forall>fresh clk m S ms S'. I S \<longrightarrow> sg_read h fresh clk m S = Some (ms, S') \<longrightarrow> I S') \<and>
     (\<forall>m S. I S \<longrightarrow> I (snd (sg_write h m S))) \<and>
     (\<forall>now S. I S \<longrightarrow> I (sg_timeout h now S))"

lemma stage_keepsI:
  assumes "\<And>fresh clk m S ms S'. I S \<Longrightarrow> sg_read h fresh clk m S = Some (ms, S') \<Longrightarrow> I S'"
    and "\<And>m S. I S \<Longrightarrow> I (snd (sg_write h m S))" and "\<And>now S. I S \<Longrightarrow> I (sg_timeout h now S)"
  shows "stage_keeps I h"
  using assms unfolding stage_keeps_def by blast

lemma stage_keeps_write: "stage_keeps I h \<Longrightarrow> I S \<Longrightarrow> I (snd (sg_write h m S))"
  unfolding stage_keeps_def by blast

lemma stage_keeps_timeout: "stage_keeps I h \<Longrightarrow> I S \<Longrightarrow> I (sg_timeout h now S)"
  unfolding stage_keeps_def by blast

lemma plain_stage_keeps:
  assumes "\<And>m S. I S \<Longrightarrow> I (snd (r m S))" and "\<And>m S. I S \<Longrightarrow> I (snd (w m S))"
  shows "stage_keeps I (plain_stage r w)"
  using assms by (intro stage_keepsI) (auto simp: plain_stage_def dest: arg_cong [where f = snd] split: prod.splits, metis snd_conv)

lemma foldl_option_keeps:
  assumes "\<And>S m S'. I S \<Longrightarrow> f m S = Some S' \<Longrightarrow> I S'"
  shows "foldl (\<lambda>o' m. Option.bind o' (f m)) (Some S) ms = Some S' \<Longrightarrow> I S \<Longrightarrow> I S'"
proof (induction ms arbitrary: S)
  case (Cons m ms)
  have none: "foldl (\<lambda>o' m. Option.bind o' (f m)) None ms = None" by (induction ms) auto
  show ?case
    using Cons none assms by (cases "f m S") auto
qed simp

lemma read_through_keeps:
  "\<forall>h \<in> set hs. stage_keeps I h \<Longrightarrow> read_through hs fresh clk m S = Some S' \<Longrightarrow> I S \<Longrightarrow> I S'"
proof (induction hs arbitrary: m S S')
  case (Cons h hs)
  obtain ms S1 where r: "sg_read h fresh clk m S = Some (ms, S1)"
    and f: "foldl (\<lambda>o' m'. Option.bind o' (read_through hs fresh clk m')) (Some S1) ms = Some S'"
    using Cons.prems(2) by (cases "sg_read h fresh clk m S") auto
  have "I S1" using Cons.prems r unfolding stage_keeps_def by auto
  with Cons.IH Cons.prems(1) show ?case by (intro foldl_option_keeps [OF _ f, of I]) auto
qed simp

lemma write_through_keeps: "\<forall>h \<in> set hs. stage_keeps I h \<Longrightarrow> I S \<Longrightarrow> I (snd (write_through hs S))"
  by (induction hs) (simp_all add: case_prod_beta stage_keeps_write)

lemma foldl_timeout_keeps:
  "\<forall>h \<in> set hs. stage_keeps I h \<Longrightarrow> I S \<Longrightarrow> I (foldl (\<lambda>S h. sg_timeout h now S) S hs)"
  by (induction hs arbitrary: S) (simp_all add: stage_keeps_timeout)

section \<open>What every stage keeps\<close>

text \<open>\<open>holds K\<close> says that the server states have the property \<open>K\<close>.\<close>

definition holds :: "(('x, 'f) server_states \<Rightarrow> bool) \<Rightarrow> ('x, 'f, 'm) sfu_state \<Rightarrow> bool" where
  "holds K S \<longleftrightarrow> K (sf_states S)"

text \<open>The update of a transport that leaves alone which path it is and when media last came in on it.\<close>

definition same_path :: "('x transport \<Rightarrow> 'x transport) \<Rightarrow> bool" where
  "same_path f \<longleftrightarrow> (\<forall>t. tp_four_tuple (f t) = tp_four_tuple t \<and> tp_candidate (f t) = tp_candidate t \<and>
     tp_last_activity (f t) = tp_last_activity t)"

lemma same_pathD:
  "same_path f \<Longrightarrow> tp_four_tuple (f t) = tp_four_tuple t"
  "same_path f \<Longrightarrow> tp_candidate (f t) = tp_candidate t"
  "same_path f \<Longrightarrow> tp_last_activity (f t) = tp_last_activity t"
  by (simp_all add: same_path_def)

lemma same_paths_of_stages [simp]:
  "same_path (set_remote_srtp x)" "same_path (set_local_srtp x)" "same_path (set_dtls_endpoint x)"
  "same_path (set_sctp t)" "same_path (set_srtp_contexts cs \<circ> set_dtls_endpoint x)"
  "same_path (\<lambda>t. snd (dtls_transport_timeout D now t))" "same_path (\<lambda>t. snd (sctp_transport_timeout L now t))"
  "same_path (\<lambda>t. t\<lparr>tp_sctp_associations := g t\<rparr>)"
  by (simp_all add: same_path_def dtls_transport_timeout_keeps sctp_transport_timeout_keeps)

lemma audio_phase_states [simp]: "mw_states (audio_phase w) = mw_states w"
  by (simp add: audio_phase_def case_prod_beta)

lemma holds_put [simp]: "holds K (ml_sfu (put_worker v w)) = K (mw_states v)"
  by (simp add: put_worker_def holds_def)

lemma worker_view_states [simp]: "mw_states (worker_view w) = sf_states (ml_sfu w)"
  by (simp add: worker_view_def)

fun loop_state :: "'w loop_turn \<Rightarrow> 'w option" where
  "loop_state (LoopContinue w) = Some w"
| "loop_state (LoopExit r w) = Some w"
| "loop_state LoopPanic = None"

text \<open>
  What the stages do to the server states: they change a transport in place, put back an interceptor,
  do both for all transports or endpoints, remove a transport, and pass messages to the gateway.
  A property of the states that survives these survives every turn of a media worker.
\<close>

locale states_contract =
  fixes K :: "('x, 'f) server_states \<Rightarrow> bool" and E :: "('x, 'f, 'm) sfu_env"
  assumes transport_update: "K st \<Longrightarrow> same_path f \<Longrightarrow> K (snd (with_transport ft f st))"
    and interceptor_update: "K st \<Longrightarrow> K (snd (with_endpoint ft (\<lambda>ep. ep\<lparr>ep_interceptor := i\<rparr>) st))"
    and transports_update: "K st \<Longrightarrow> same_path f \<Longrightarrow> K (map_transports f st)"
    and interceptors_update: "K st \<Longrightarrow> K (map_endpoints (\<lambda>ep. ep\<lparr>ep_interceptor := k ep\<rparr>) st)"
    and removal: "K st \<Longrightarrow> K (remove_transport ft st)"
    and gateway: "K st \<Longrightarrow> gateway_handle_read (en_sfu E) (en_stun E) (en_json E) fresh clk msg gw st = (gw', st', err, au)
      \<Longrightarrow> K st'"
    and offer: "K st \<Longrightarrow> K (snd (accept_offer (en_sfu E) fresh now sid eid None d st))"
begin

lemma srtp_try_read_keeps: "K st \<Longrightarrow> K (snd (srtp_try_read C ft bs st))"
  by (auto simp: srtp_try_read_def intro!: transport_update split: sum.splits option.splits prod.splits)

lemma srtp_protect_keeps: "K st \<Longrightarrow> K (snd (srtp_protect enc shown ft t st))"
  by (auto simp: srtp_protect_def intro!: transport_update split: sum.splits option.splits prod.splits)

lemma srtp_try_write_keeps: "K st \<Longrightarrow> K (snd (srtp_try_write C ft ev st))"
  by (auto simp: srtp_try_write_def intro!: srtp_protect_keeps split: sum.splits rtp_event.splits)

lemma dtls_try_read_keeps: "K st \<Longrightarrow> K (snd (dtls_try_read L la now tc bs st))"
  by (auto simp: dtls_try_read_def Let_def intro!: transport_update split: sum.splits prod.splits)

lemma dtls_try_write_keeps: "K st \<Longrightarrow> K (snd (dtls_try_write L tc bs st))"
  by (auto simp: dtls_try_write_def Let_def intro!: transport_update split: sum.splits prod.splits)

lemma sctp_try_write_keeps: "K st \<Longrightarrow> K (snd (sctp_try_write L now ft m st))"
  by (auto simp: sctp_try_write_def Let_def intro!: transport_update split: sum.splits prod.splits option.splits)

lemma stun_stage_keeps: "stage_keeps (holds K) (plain_stage (stun_read C) (stun_write C))"
  by (intro plain_stage_keeps)
     (auto simp: holds_def stun_read_def stun_write_def split: message_event.splits stun_event.splits
       sum.splits option.splits)

lemma datachannel_stage_keeps: "stage_keeps (holds K) (plain_stage (datachannel_read D) datachannel_write)"
  by (intro plain_stage_keeps)
     (auto simp: holds_def datachannel_read_def datachannel_write_def Let_def
       split: message_event.splits dtls_event.splits sum.splits option.splits prod.splits)

lemma srtp_stage_keeps:
  shows "stage_keeps (holds K) (plain_stage (srtp_read (C :: ('x, 'm) codec_lib)) (srtp_write C))"
proof (intro plain_stage_keeps)
  fix m and S :: "('x, 'f, 'm) sfu_state"
  assume "holds K S"
  then show "holds K (snd (srtp_read C m S))"
    by (auto simp: holds_def srtp_read_def case_prod_beta srtp_try_read_keeps
        split: message_event.splits rtp_event.splits sum.splits)
next
  fix m and S :: "('x, 'f, 'm) sfu_state"
  assume "holds K S"
  then show "holds K (snd (srtp_write C m S))"
    by (auto simp: holds_def srtp_write_def case_prod_beta srtp_try_write_keeps
        split: option.splits message_event.splits sum.splits)
qed

lemma interceptor_stage_keeps:
  shows "stage_keeps (holds K) (interceptor_stage E)"
proof (rule stage_keepsI)
  fix fresh clk m ms and S S' :: "('x, 'f, 'm) sfu_state"
  assume "holds K S" and "sg_read (interceptor_stage E) fresh clk m S = Some (ms, S')"
  then show "holds K S'"
    by (auto simp: holds_def interceptor_stage_def plain_stage_def interceptor_handle_read_def Let_def
        take_events_def intro!: interceptor_update
        split: if_splits sum.splits prod.splits message_event.splits rtp_event.splits)
next
  fix m and S :: "('x, 'f, 'm) sfu_state"
  assume "holds K S"
  then show "holds K (snd (sg_write (interceptor_stage E) m S))"
    by (auto simp: holds_def interceptor_stage_def plain_stage_def interceptor_handle_write_def Let_def
        take_events_def split: option.splits sum.splits prod.splits)
next
  fix now and S :: "('x, 'f, 'm) sfu_state"
  assume "holds K S"
  then show "holds K (sg_timeout (interceptor_stage E) now S)"
    using interceptors_update [of "sf_states S"]
    by (simp add: holds_def interceptor_stage_def plain_stage_def interceptor_handle_timeout_def
        take_events_def case_prod_beta traverse_snd)
qed

lemma dtls_stage_keeps:
  shows "stage_keeps (holds K) (dtls_stage E)"
proof (rule stage_keepsI)
  fix fresh clk m ms and S S' :: "('x, 'f, 'm) sfu_state"
  assume ok: "holds K S" and r: "sg_read (dtls_stage E) fresh clk m S = Some (ms, S')"
  show "holds K S'"
  proof (cases "\<exists>bs. tg_message m = EvDtls (DtlsRaw bs)")
    case True
    then obtain bs where m: "tg_message m = EvDtls (DtlsRaw bs)" by blast
    obtain res st where t: "dtls_try_read (en_dtls E) (en_addr E) (tg_now m) (tg_transport m) bs (sf_states S)
        = (res :: (u8 list list \<times> 'm tagged list) res, st)" by fastforce
    have "K st" using dtls_try_read_keeps t ok unfolding holds_def by (metis snd_conv)
    then show ?thesis
      using r m t
      by (cases res) (auto simp: holds_def dtls_stage_def plain_stage_def dtls_handle_read_def
          intro: removal split: if_splits)
  qed (use ok r in \<open>auto simp: dtls_stage_def plain_stage_def dtls_handle_read_def
         split: message_event.splits dtls_event.splits\<close>)
next
  fix m and S :: "('x, 'f, 'm) sfu_state"
  assume "holds K S"
  then show "holds K (snd (sg_write (dtls_stage E) m S))"
    using dtls_try_write_keeps [of "sf_states S" "en_dtls E"]
    by (auto simp: holds_def dtls_stage_def plain_stage_def dtls_handle_write_def Let_def case_prod_beta
        split: option.splits message_event.splits dtls_event.splits sum.splits)
next
  fix now and S :: "('x, 'f, 'm) sfu_state"
  assume "holds K S"
  then have "K (snd (traverse_transports (dtls_transport_timeout (en_dtls E) now) (sf_states S)))"
    unfolding traverse_snd by (intro transports_update) (simp_all add: holds_def)
  then show "holds K (sg_timeout (dtls_stage E) now S)"
    by (simp add: holds_def dtls_stage_def plain_stage_def dtls_handle_timeout_def case_prod_beta)
qed

lemma sctp_stage_keeps:
  shows "stage_keeps (holds K) (sctp_stage E)"
proof (rule stage_keepsI)
  fix fresh clk m ms and S S' :: "('x, 'f, 'm) sfu_state"
  assume "holds K S" and r: "sg_read (sctp_stage E) fresh clk m S = Some (ms, S')"
  then show "holds K S'"
  proof (cases "\<exists>bs. tg_message m = EvDtls (DtlsRaw bs)")
    case True
    then obtain bs where m: "tg_message m = EvDtls (DtlsRaw bs)" by blast
    have *: "K (snd (with_transport ft (set_sctp t') (sf_states S)))" for ft t'
      using \<open>holds K S\<close> by (intro transport_update) (simp_all add: holds_def)
    have r': "sctp_handle_read (en_sctp E) (en_addr E) m S = Some (ms, S')" using r by (simp add: sctp_stage_def)
    show ?thesis
    proof (cases "locate_transport (four_tuple_of (tg_transport m)) (sf_states S)")
      case (Inr loc)
      obtain sid eid t where loc: "loc = (sid, eid, t)" by (cases loc)
      obtain t' res where "sctp_transport_read (en_sctp E) (tg_now m)
          (unat (svc_max_message_size (st_server_config (sf_states S)))) (tg_transport m) bs t = Some (t', res)"
        using r' m Inr loc by (auto simp: sctp_handle_read_def Let_def bind_eq_Some_conv)
      then show ?thesis
        using r' m Inr loc * by (cases res) (auto simp: sctp_handle_read_def Let_def holds_def)
    qed (use r' m \<open>holds K S\<close> in \<open>auto simp: sctp_handle_read_def holds_def\<close>)
  qed (use r in \<open>auto simp: sctp_stage_def sctp_handle_read_def split: message_event.splits dtls_event.splits\<close>)
next
  fix m and S :: "('x, 'f, 'm) sfu_state"
  assume "holds K S"
  then show "holds K (snd (sg_write (sctp_stage E) m S))"
    using sctp_try_write_keeps [of "sf_states S" "en_sctp E"]
    by (auto simp: holds_def sctp_stage_def sctp_handle_write_def Let_def case_prod_beta
        split: option.splits message_event.splits dtls_event.splits sum.splits)
next
  fix now and S :: "('x, 'f, 'm) sfu_state"
  assume "holds K S"
  then have "K (snd (traverse_transports (sctp_transport_timeout (en_sctp E) now) (sf_states S)))"
    unfolding traverse_snd by (intro transports_update) (simp_all add: holds_def)
  then show "holds K (sg_timeout (sctp_stage E) now S)"
    by (simp add: holds_def sctp_stage_def sctp_handle_timeout_def case_prod_beta)
qed

lemma idle_keeps: "K st \<Longrightarrow> K (foldl (\<lambda>st ft. remove_transport ft st) st fts)"
  by (induction fts arbitrary: st) (simp_all add: removal)

lemma gateway_stage_keeps:
  shows "stage_keeps (holds K) (gateway_stage E)"
proof (rule stage_keepsI)
  fix fresh clk m ms and S S' :: "('x, 'f, 'm) sfu_state"
  assume "holds K S" and "sg_read (gateway_stage E) fresh clk m S = Some (ms, S')"
  then show "holds K S'"
    by (auto simp: holds_def gateway_stage_def gateway_stage_read_def
        split: prod.splits dest: gateway [rotated])
next
  fix m and S :: "('x, 'f, 'm) sfu_state"
  assume "holds K S"
  then show "holds K (snd (sg_write (gateway_stage E) m S))"
    by (simp add: holds_def gateway_stage_def gateway_stage_write_def case_prod_beta)
next
  fix now and S :: "('x, 'f, 'm) sfu_state"
  assume "holds K S"
  then show "holds K (sg_timeout (gateway_stage E) now S)"
    using idle_keeps [of "sf_states S"]
    by (simp add: holds_def gateway_stage_def case_prod_beta gateway_handle_timeout_def)
qed

lemma pipeline_keeps: "\<forall>h \<in> set (build_pipeline E). stage_keeps (holds K) h"
  using stun_stage_keeps dtls_stage_keeps sctp_stage_keeps datachannel_stage_keeps srtp_stage_keeps
    interceptor_stage_keeps gateway_stage_keeps
  by (auto simp: build_pipeline_def exception_read_def exception_write_def intro: plain_stage_keeps)


text \<open>The phases of the loop.\<close>

lemma read_keeps: "pipeline_read E fresh clk d S = Some S' \<Longrightarrow> holds K S \<Longrightarrow> holds K S'"
  using read_through_keeps [OF pipeline_keeps] by (auto simp: pipeline_read_def split: option.splits)

lemma poll_keeps: "poll_transmit E S = (out, S') \<Longrightarrow> holds K S \<Longrightarrow> holds K S'"
  using write_through_keeps [OF pipeline_keeps, of S] by (auto simp: poll_transmit_def split: prod.splits)

lemma timeout_keeps: "holds K S \<Longrightarrow> holds K (pipeline_handle_timeout E now S)"
  unfolding pipeline_handle_timeout_def by (rule foldl_timeout_keeps [OF pipeline_keeps])

lemma output_keeps:
  "write_socket_output E' send n S = (r, ds, S') \<Longrightarrow> E' = E \<Longrightarrow> holds K S \<Longrightarrow> holds K S'"
proof (induction E' send n S arbitrary: r ds S' rule: write_socket_output.induct)
  case (1 E' send n S)
  obtain out S1 where p: "poll_transmit E' S = (out, S1)" by fastforce
  have ok: "holds K S1" using poll_keeps "1.prems"(2,3) p by simp
  show ?case
  proof (cases out)
    case (Some d)
    obtain r1 ds1 S2 where w: "write_socket_output E' send (Suc n) S1 = (r1, ds1, S2)"
      by (cases "write_socket_output E' send (Suc n) S1")
    show ?thesis
      using "1.prems"(1,2) p Some ok w "1.IH" [OF p [symmetric] Some _ w]
      by (subst (asm) write_socket_output.simps) (auto split: sum.splits)
  qed (use "1.prems"(1) p ok in \<open>subst (asm) write_socket_output.simps, simp\<close>)
qed

lemma offer_keeps: "K st \<Longrightarrow> K (snd (try_offer (en_sfu E) (en_json E) fresh now sid eid offer st))"
  using offer [of st fresh now sid eid]
  by (auto simp: try_offer_def case_prod_beta split: sum.splits)

lemma signaling_keeps:
  "K st \<Longrightarrow>
   K (snd (snd (handle_signaling_message_with_extractor (en_sfu E) (en_json E) show_err fresh now alive m x st)))"
  by (cases m) (simp_all add: handle_offer_message_def handle_leave_message_def case_prod_beta offer_keeps
      split: sum.splits)

lemma phase_keeps:
  "K (mw_states w) \<Longrightarrow> K (mw_states (snd (signaling_phase (en_sfu E) (en_json E) show_err fresh now msg w)))"
  using signaling_keeps [of "mw_states w"]
  by (auto simp: signaling_phase_def case_prod_beta split: option.splits)

lemma drive_keeps: "holds K (ml_sfu w) \<Longrightarrow> holds K (ml_sfu (drive_time E i w))"
  by (simp add: drive_time_def timeout_keeps)

lemma network_keeps:
  assumes "network_phase E i w = Some t" and "loop_state t = Some w'" and "holds K (ml_sfu w)"
  shows "holds K (ml_sfu w')"
proof (cases "delay_from_now E i w = 0")
  case True
  then show ?thesis using assms drive_keeps by (auto simp: network_phase_def)
next
  case False
  show ?thesis
  proof (cases "ti_recv i")
    case (RecvData bs peer)
    then obtain S where "pipeline_read E (ti_fresh_read i) (ti_now_read i)
        (read_socket_input (en_addr E) (ti_now_recv i) bs peer) (ml_sfu w) = Some S"
      and t: "t = LoopContinue (drive_time E i (w\<lparr>ml_sfu := S\<rparr>))"
      using False assms(1) by (auto simp: network_phase_def bind_eq_Some_conv)
    then have "holds K (ml_sfu (w\<lparr>ml_sfu := S\<rparr>))" using read_keeps assms(3) by (auto simp: holds_def)
    then show ?thesis using t assms(2) drive_keeps by auto
  qed (use False assms drive_keeps in \<open>auto simp: network_phase_def\<close>)
qed

lemma turn_keeps:
  assumes "loop_turn E show_err i w = Some t" and "loop_state t = Some w'" and "holds K (ml_sfu w)"
  shows "holds K (ml_sfu w')"
proof (cases "ti_stop i \<noteq> StopEmpty")
  case True
  then show ?thesis using assms by (auto simp: loop_turn_def holds_def)
next
  case False
  obtain r ds S where o: "write_socket_output E (ti_send i) 0 (ml_sfu w) = (r, ds, S)"
    by (cases "write_socket_output E (ti_send i) 0 (ml_sfu w)")
  have S: "holds K S" using output_keeps [OF o refl assms(3)] .
  let ?w1 = "w\<lparr>ml_signals := ml_signals w @ ti_arrivals i, ml_sfu := S, ml_sent := ml_sent w @ ds\<rparr>"
  obtain msg rest where q: "pop_front (ml_signals w @ ti_arrivals i) = (msg, rest)" by fastforce
  obtain ok v where p: "signaling_phase (en_sfu E) (en_json E) show_err (ti_fresh_signal i) (ti_now_signal i) msg
      (worker_view ?w1) = (ok, v)" by fastforce
  have v: "K (mw_states v)"
    using phase_keeps [of "worker_view ?w1" show_err "ti_fresh_signal i" "ti_now_signal i" msg]
      p S by (simp add: holds_def)
  let ?w2 = "put_worker v (?w1\<lparr>ml_signals := rest\<rparr>)"
  show ?thesis
  proof (cases r)
    case (Inl e)
    then show ?thesis using False assms(1,2) o S by (auto simp: loop_turn_def Let_def holds_def)
  next
    case (Inr u)
    have t: "Some t = (if ok then network_phase E i (put_worker (audio_phase (worker_view ?w2)) ?w2)
        else Some (LoopContinue ?w2))"
      using False assms(1) o q p Inr by (simp add: loop_turn_def Let_def)
    have "holds K (ml_sfu ?w2)" using v by simp
    then have "K (sf_states (ml_sfu ?w2))" unfolding holds_def .
    then have "holds K (ml_sfu (put_worker (audio_phase (worker_view ?w2)) ?w2))" by simp
    then show ?thesis
      using t network_keeps [of i _ t w'] assms(2) \<open>holds K (ml_sfu ?w2)\<close> by (auto split: if_splits)
  qed
qed

end

section \<open>The states stay well-formed\<close>

lemma map_endpoints_ok:
  assumes "states_ok st" and "\<And>sid eid ep. endpoint_ok sid eid ep \<Longrightarrow> endpoint_ok sid eid (f ep)"
  shows "states_ok (map_endpoints f st)"
proof -
  have "session_ok cfg sid (s\<lparr>ss_endpoints := hm_map_values (\<lambda>_. f) (ss_endpoints s)\<rparr>)"
    if "session_ok cfg sid s" for cfg sid s
    using that assms(2) by (auto simp: session_ok_def intro: hm_all_map_values)
  then show ?thesis
    using assms(1) unfolding map_endpoints_def states_ok_def states_config_def
    by (auto intro: hm_all_map_values)
qed

lemma map_transports_ok:
  fixes st :: "('x, 'f) server_states"
  assumes "states_ok st" and "same_path f"
  shows "states_ok (map_transports f st)"
  unfolding map_transports_def
proof (rule map_endpoints_ok [OF assms(1)])
  fix sid eid and ep :: "('x, 'f) endpoint"
  assume "endpoint_ok sid eid ep"
  then show "endpoint_ok sid eid (ep\<lparr>ep_transports := hm_map_values (\<lambda>_. f) (ep_transports ep)\<rparr>)"
    by (auto simp: endpoint_ok_def transports_ok_def transceivers_ok_def hm_map_values_def hm_all_def hm_wf_def
        comp_def case_prod_beta same_pathD [OF assms(2)])
qed

interpretation well_formed: states_contract states_ok E for E :: "('x, 'f, 'm) sfu_env"
  by unfold_locales
    (auto simp: same_pathD intro: with_transport_ok with_endpoint_ok map_transports_ok map_endpoints_ok
      remove_transport_ok accept_offer_ok dest: gateway_handle_read_ok)

definition loop_ok :: "('x, 'f, 'm) media_loop \<Rightarrow> bool" where
  "loop_ok w \<longleftrightarrow> holds states_ok (ml_sfu w)"

text \<open>The loop as a state machine: its start, and one turn.\<close>

definition media_worker_turn ::
  "('x, 'f, 'm) sfu_env \<Rightarrow> (error \<Rightarrow> string) \<Rightarrow> ('x, 'f, 'm) media_loop \<Rightarrow> ('x, 'f, 'm) media_loop \<Rightarrow> bool" where
  "media_worker_turn E show_err w w' \<longleftrightarrow> (\<exists>i t. loop_turn E show_err i w = Some t \<and> loop_state t = Some w')"

lemma loop_start_ok: "loop_start E cfg transcription clk = Inr w \<Longrightarrow> loop_ok w"
  by (auto simp: loop_start_def loop_ok_def holds_def sfu_state_new_def and_then_def
      split: sum.splits dest: server_states_new_ok)

interpretation media: state_machine "\<lambda>w. loop_start E cfg transcription clk = Inr w"
  "media_worker_turn E show_err" loop_ok for E cfg transcription clk show_err
  by unfold_locales (auto simp: media_worker_turn_def loop_ok_def dest: loop_start_ok intro: well_formed.turn_keeps)

lemma loop_run_reaches:
  "loop_run E show_err inputs w = Some t \<Longrightarrow> loop_state t = Some w' \<Longrightarrow> (media_worker_turn E show_err)\<^sup>*\<^sup>* w w'"
proof (induction inputs arbitrary: w)
  case (Cons i inputs)
  obtain t1 where t1: "loop_turn E show_err i w = Some t1" using Cons.prems(1) by (auto simp: bind_eq_Some_conv)
  show ?case
  proof (cases t1)
    case (LoopContinue w1)
    have "media_worker_turn E show_err w w1"
      using t1 LoopContinue unfolding media_worker_turn_def by (intro exI [of _ i] exI [of _ t1]) simp
    then show ?thesis
      using Cons t1 LoopContinue by (auto intro: converse_rtranclp_into_rtranclp)
  next
    case (LoopExit r w1)
    then have "media_worker_turn E show_err w w'"
      using Cons.prems t1 unfolding media_worker_turn_def by (intro exI [of _ i] exI [of _ t1]) simp
    then show ?thesis by blast
  qed (use Cons.prems t1 in auto)
qed auto

end
