(* ===== verification/Loop_Facts.thy ===== *)
theory Loop_Facts
  imports Pipeline_Facts Forwarding
begin

text \<open>
  Properties of the pipeline and of the loop of a media worker as a whole: where the bytes of a
  datagram go, what one pass over the output sends and when it ends, the path of an SRTP datagram to
  the other participants, how long a turn may wait, the states a worker can be in, and that signaling
  is answered.

  Hypotheses about libraries: \<open>sctp_loops_end\<close> says that the event loops of the SCTP crate run dry,
  and \<open>wait_bounded\<close> that the DTLS crate only ever lowers the timeout it is given, which is how its
  \<open>poll_timeout\<close> is documented.
\<close>

section \<open>Demultiplexing\<close>

lemma demuxer_write_read:
  "dg_message d \<noteq> [] \<Longrightarrow> demuxer_write (demuxer_read d :: 'm tagged option) = Some d"
  by (simp add: demuxer_read_def demuxer_write_def Let_def)


section \<open>Sending\<close>

fun after_polls :: "('x, 'f, 'm) sfu_env \<Rightarrow> nat \<Rightarrow> ('x, 'f, 'm) sfu_state \<Rightarrow> ('x, 'f, 'm) sfu_state" where
  "after_polls E 0 S = S"
| "after_polls E (Suc n) S = after_polls E n (snd (poll_transmit E S))"

lemma write_socket_output_spec:
  "case write_socket_output E send k S of
     (r, ds, S') \<Rightarrow>
       map Some ds = map (\<lambda>i. fst (poll_transmit E (after_polls E i S))) [0..<length ds] \<and>
       S' = after_polls E (Suc (length ds)) S \<and>
       (case r of
          Inr _ \<Rightarrow> fst (poll_transmit E (after_polls E (length ds) S)) = None
        | Inl e \<Rightarrow> \<exists>d. fst (poll_transmit E (after_polls E (length ds) S)) = Some d \<and> send (k + length ds) d = Inl e)"
proof (induction E send k S rule: write_socket_output.induct)
  case (1 E send k S)
  obtain out S1 where p: "poll_transmit E S = (out, S1)" by fastforce
  show ?case
  proof (cases out)
    case None
    then show ?thesis using p by (subst write_socket_output.simps) simp
  next
    case (Some d)
    show ?thesis
    proof (cases "send k d")
      case (Inl e)
      then show ?thesis using p Some by (subst write_socket_output.simps) simp
    next
      case (Inr u)
      obtain r ds S2 where w: "write_socket_output E send (Suc k) S1 = (r, ds, S2)"
        by (cases "write_socket_output E send (Suc k) S1")
      have "write_socket_output E send k S = (r, d # ds, S2)"
        using p Some Inr w by (subst write_socket_output.simps) simp
      then show ?thesis
        using "1.IH" [OF p [symmetric] Some Inr] p Some w
        by (cases r) (simp_all add: map_upt_Suc del: upt_Suc)
    qed
  qed
qed

text \<open>C17: One pass over the output ends, whatever the queues hold.  It sends what the polls of the
  pipeline yield, in this order and nothing else, and stops at the first poll that yields nothing or
  the first datagram the socket refuses, whose error it returns.\<close>

theorem transmit_loop_spec:
  "case write_socket_output E send k S of
     (r, ds, S') \<Rightarrow>
       map Some ds = map (\<lambda>i. fst (poll_transmit E (after_polls E i S))) [0..<length ds] \<and>
       S' = after_polls E (Suc (length ds)) S \<and>
       (case r of
          Inr _ \<Rightarrow> fst (poll_transmit E (after_polls E (length ds) S)) = None
        | Inl e \<Rightarrow> \<exists>d. fst (poll_transmit E (after_polls E (length ds) S)) = Some d \<and> send (k + length ds) d = Inl e)"
  by (rule write_socket_output_spec)

section \<open>Finding transports\<close>

lemma modify_endpoint_session [simp]:
  "hm_get (st_sessions (modify_endpoint sid eid f st)) sid =
     map_option (\<lambda>s. s\<lparr>ss_endpoints := hm_modify eid f (ss_endpoints s)\<rparr>) (hm_get (st_sessions st) sid)"
  "find_endpoint ft (modify_endpoint sid eid f st) = find_endpoint ft st"
  by (simp_all add: modify_endpoint_def find_endpoint_def)

lemma locate_endpoint_Inr:
  "locate_endpoint ft st = Inr (sid, eid, ep) \<longleftrightarrow>
     find_endpoint ft st = Some (sid, eid) \<and>
     (\<exists>s. hm_get (st_sessions st) sid = Some s \<and> hm_get (ss_endpoints s) eid = Some ep)"
  by (auto simp: locate_endpoint_def result_simps)

lemma locate_transport_Inr:
  "locate_transport ft st = Inr (sid, eid, t) \<longleftrightarrow>
     (\<exists>ep. locate_endpoint ft st = Inr (sid, eid, ep) \<and> hm_get (ep_transports ep) ft = Some t)"
  by (auto simp: locate_transport_def result_simps)

lemma locate_after_endpoint:
  "locate_endpoint ft st = Inr (sid, eid, ep) \<Longrightarrow>
     locate_endpoint ft (modify_endpoint sid eid f st) = Inr (sid, eid, f ep)"
  by (auto simp: locate_endpoint_Inr)

section \<open>Reports to transports without keys\<close>

lemma interceptor_write_silent [simp]: "interceptor_write m i = []"
  by (induction m i rule: interceptor_write.induct) (auto split: option.splits)

text \<open>C21: A queued receiver report for a transport without a local SRTP context does not only get
  lost with an error: it ends the output of the turn, with the reports behind it still in the queue.\<close>

theorem unready_report_stalls_output:
  assumes queues: "gw_transmits (sf_gateway S) = []" "sf_interceptor S = m # ms" "sf_datachannel S = []"
      "sf_sctp S = []" "sf_dtls S = []"
    and report: "tg_message m = EvRtp (RtpRtcp ps)" "ps \<noteq> []"
    and target: "locate_transport (four_tuple_of (tg_transport m)) (sf_states S) = Inr (sid, eid, t)"
      "tp_local_srtp t = None"
  shows "\<exists>S'. write_socket_output E send k S = (Inr (), [], S') \<and> sf_interceptor S' = ms \<and>
    sf_states S' = sf_states S \<and>
    sf_errors S' = sf_errors S @
      [Other ''local_srtp_context is not set yet for four_tuple {:?}'' [ArgTuple (four_tuple_of (tg_transport m))]]"
proof -
  let ?e = "Other ''local_srtp_context is not set yet for four_tuple {:?}'' [ArgTuple (four_tuple_of (tg_transport m))]"
  have gw: "gateway_stage_write None S = (None, S)"
    using queues by (simp add: gateway_stage_write_def gateway_poll_write_def)
  have ic: "interceptor_handle_write None S = (Some m, S\<lparr>sf_interceptor := ms\<rparr>)"
    using queues by (simp add: interceptor_handle_write_def)
  have sr: "srtp_write (en_codec E) (Some m) (S\<lparr>sf_interceptor := ms\<rparr>) =
      (None, fire_exception ?e (S\<lparr>sf_interceptor := ms\<rparr>))"
    using report target by (simp add: srtp_write_def srtp_try_write_def srtp_protect_def)
  have "poll_transmit E S = (None, fire_exception ?e (S\<lparr>sf_interceptor := ms\<rparr>))"
    using queues
    by (simp add: poll_transmit_def build_pipeline_def plain_stage_def exception_write_def gateway_stage_def gw
        interceptor_stage_def ic sr datachannel_write_def sctp_stage_def sctp_handle_write_def dtls_stage_def
        dtls_handle_write_def stun_write_def demuxer_write_def fire_exception_def)
  then show ?thesis
    by (subst write_socket_output.simps) (simp add: fire_exception_def)
qed

section \<open>Waiting\<close>

fun report_deadlines :: "'f interceptor \<Rightarrow> instant set" where
  "report_deadlines NoOp = {}"
| "report_deadlines (SenderReport n) = (case n of Some i \<Rightarrow> report_deadlines i | None \<Rightarrow> {})"
| "report_deadlines (ReceiverReport v e ss n) =
     insert e (case n of Some i \<Rightarrow> report_deadlines i | None \<Rightarrow> {})"

definition sfu_deadlines :: "('x, 'f, 'm) sfu_env \<Rightarrow> ('x, 'f, 'm) sfu_state \<Rightarrow> instant set" where
  "sfu_deadlines E S =
     insert (gw_next_timeout (sf_gateway S))
       ((\<Union>ep \<in> set (all_endpoints (sf_states S)). report_deadlines (ep_interceptor ep)) \<union>
        {d. \<exists>t \<in> set (all_transports (sf_states S)). \<exists>h x. (h, x) \<in> set (tp_sctp_associations t) \<and>
              sl_poll_timeout (en_sctp E) x = Some d})"

lemma interceptor_poll_deadline:
  "interceptor_poll_timeout eto i \<le> eto \<and> (\<forall>d \<in> report_deadlines i. interceptor_poll_timeout eto i \<le> d)"
proof (induction eto i rule: interceptor_poll_timeout.induct)
  case (3 eto v e ss n)
  then show ?case by (cases n) (force simp: Let_def)+
qed (auto split: option.splits)

lemma foldl_le:
  fixes f :: "instant \<Rightarrow> 'a \<Rightarrow> instant"
  assumes "\<And>eto x. f eto x \<le> eto" and "\<And>eto x d. d \<in> D x \<Longrightarrow> f eto x \<le> d"
  shows "foldl f eto xs \<le> eto \<and> (\<forall>x \<in> set xs. \<forall>d \<in> D x. foldl f eto xs \<le> d)"
proof (induction xs arbitrary: eto)
  case (Cons x xs)
  show ?case
    using Cons [of "f eto x"] assms(1) [of eto x] assms(2) [of _ x eto]
    by (auto intro: order_trans)
qed simp

lemma interceptor_stage_poll:
  "interceptor_handle_poll_timeout eto S \<le> eto \<and>
   (\<forall>ep \<in> set (all_endpoints (sf_states S)). \<forall>d \<in> report_deadlines (ep_interceptor ep).
      interceptor_handle_poll_timeout eto S \<le> d)"
  unfolding interceptor_handle_poll_timeout_def
  by (rule foldl_le) (use interceptor_poll_deadline in blast)+

lemma sctp_stage_poll:
  "sctp_handle_poll_timeout L eto S \<le> eto \<and>
   (\<forall>t \<in> set (all_transports (sf_states S)). \<forall>(h, x) \<in> set (tp_sctp_associations t). \<forall>d.
      sl_poll_timeout L x = Some d \<longrightarrow> sctp_handle_poll_timeout L eto S \<le> d)"
proof -
  let ?xs = "concat (map (\<lambda>t. map snd (tp_sctp_associations t)) (all_transports (sf_states S)))"
  have f: "sctp_handle_poll_timeout L eto S \<le> eto \<and>
     (\<forall>x \<in> set ?xs. \<forall>d \<in> {d. sl_poll_timeout L x = Some d}. sctp_handle_poll_timeout L eto S \<le> d)"
    unfolding sctp_handle_poll_timeout_def by (rule foldl_le) (auto split: option.splits)
  show ?thesis
  proof (intro conjI ballI allI impI, goal_cases)
    case (2 t hx)
    then show ?case using f by (cases hx) force
  qed (use f in blast)
qed

lemma dtls_stage_poll:
  assumes "\<And>r x eto. dl_poll_timeout L r x eto \<le> eto"
  shows "dtls_handle_poll_timeout L eto S \<le> eto"
proof -
  have "foldl (\<lambda>eto remote. dl_poll_timeout L remote x eto) eto rs \<le> eto" for x eto rs
    by (induction rs arbitrary: eto) (auto intro: order_trans assms)
  then show ?thesis
    unfolding dtls_handle_poll_timeout_def by (intro foldl_le [where D = "\<lambda>_. {}", THEN conjunct1]) (simp_all add: assms)
qed

lemma pipeline_poll_timeout_le:
  assumes "\<And>r x eto. dl_poll_timeout (en_dtls E) r x eto \<le> eto"
  shows "pipeline_poll_timeout E eto S \<le> eto \<and> (\<forall>d \<in> sfu_deadlines E S. pipeline_poll_timeout E eto S \<le> d)"
proof -
  let ?e1 = "dtls_handle_poll_timeout (en_dtls E) eto S"
  let ?e2 = "sctp_handle_poll_timeout (en_sctp E) ?e1 S"
  let ?e3 = "interceptor_handle_poll_timeout ?e2 S"
  have p: "pipeline_poll_timeout E eto S = gateway_poll_timeout ?e3 (sf_gateway S)"
    by (simp add: pipeline_poll_timeout_def build_pipeline_def plain_stage_def dtls_stage_def sctp_stage_def
        interceptor_stage_def gateway_stage_def)
  have g: "pipeline_poll_timeout E eto S \<le> ?e3" "pipeline_poll_timeout E eto S \<le> gw_next_timeout (sf_gateway S)"
    by (simp_all add: p gateway_poll_timeout_def)
  have "?e1 \<le> eto" by (rule dtls_stage_poll [OF assms])
  moreover have "?e2 \<le> ?e1" by (rule sctp_stage_poll [THEN conjunct1])
  moreover have "?e3 \<le> ?e2" by (rule interceptor_stage_poll [THEN conjunct1])
  ultimately have le: "pipeline_poll_timeout E eto S \<le> eto" "pipeline_poll_timeout E eto S \<le> ?e2"
    using g by linarith+
  have "pipeline_poll_timeout E eto S \<le> d" if d: "d \<in> sfu_deadlines E S" for d
  proof -
    consider "d = gw_next_timeout (sf_gateway S)"
      | ep where "ep \<in> set (all_endpoints (sf_states S))" "d \<in> report_deadlines (ep_interceptor ep)"
      | t h x where "t \<in> set (all_transports (sf_states S))" "(h, x) \<in> set (tp_sctp_associations t)"
          "sl_poll_timeout (en_sctp E) x = Some d"
      using d by (auto simp: sfu_deadlines_def)
    then show ?thesis
    proof cases
      case 2
      then have "?e3 \<le> d" using interceptor_stage_poll by blast
      with g(1) show ?thesis by linarith
    next
      case 3
      then have "?e2 \<le> d" using sctp_stage_poll [of "en_sctp E" ?e1 S] by blast
      with le(2) show ?thesis by linarith
    qed (use g in simp)
  qed
  with le show ?thesis by blast
qed

text \<open>C18: A turn waits at most 100 ms, and never beyond the next idle timeout, receiver report or
  SCTP timeout, provided the DTLS library only ever lowers the deadline it is given.\<close>

theorem wait_bounded:
  assumes "\<And>r x eto. dl_poll_timeout (en_dtls E) r x eto \<le> eto"
    and "ti_now_eto i \<le> ti_now_delay i" and "d \<in> sfu_deadlines E (ml_sfu w)"
  shows "delay_from_now E i w \<le> 100 * 1000000 \<and>
    ti_now_delay i + int (delay_from_now E i w) \<le> max (ti_now_delay i) d"
  using pipeline_poll_timeout_le [OF assms(1), of "ti_now_eto i + 100 * 1000000" "ml_sfu w"] assms(2,3)
  by (auto simp: delay_from_now_def turn_deadline_def)

section \<open>Reachable states\<close>

text \<open>C1: Whatever arrives at a media worker (datagrams, signaling, failing sockets, any clock),
  after every run from the start of the loop its sessions, endpoints, transports, media identifiers and
  candidates are filed consistently.\<close>

theorem media_worker_states_ok:
  assumes "sync_run_with_transcription E show_err cfg transcription clk inputs = Some (Inr t)"
    and "loop_state t = Some w"
  shows "states_ok (sf_states (ml_sfu w))"
proof -
  obtain w0 where w0: "loop_start E cfg transcription clk = Inr w0" and r: "loop_run E show_err inputs w0 = Some t"
    using assms(1) by (auto simp: sync_run_with_transcription_def split: sum.splits)
  have "loop_ok w" by (rule media.run_inv [OF w0 loop_run_reaches [OF r assms(2)]])
  then show ?thesis by (simp add: loop_ok_def holds_def)
qed

section \<open>Progress\<close>

definition sctp_loops_end :: "'x sctp_lib \<Rightarrow> bool" where
  "sctp_loops_end L \<longleftrightarrow> (\<forall>cap h x. poll_events L cap h x \<noteq> None)"

definition calm :: "turn_input \<Rightarrow> bool" where
  "calm i \<longleftrightarrow> ti_stop i = StopEmpty \<and> (\<forall>k d. ti_send i k d = Inr ()) \<and> ti_recv i \<noteq> RecvFailed"

lemma run_associations_total:
  "sctp_loops_end L \<Longrightarrow> run_associations L now cap ev m \<noteq> None"
proof (induction L now cap ev m rule: run_associations.induct)
  case (2 L now cap ev h x rest)
  obtain x1 r where p: "poll_events L cap h
      (case ev of Some (h', e) \<Rightarrow> if h' = h then sl_handle_event L e x else x | None \<Rightarrow> x) = Some (x1, r)"
    using "2.prems" unfolding sctp_loops_end_def by (metis not_None_eq surj_pair)
  show ?case
  proof (cases r)
    case (Inr ms)
    obtain x2 eevs where e: "sl_endpoint_events L x1 = (x2, eevs)" by fastforce
    obtain x3 ts where t: "sl_transmits L now x2 = (x3, ts)" by fastforce
    have "run_associations L now cap ev rest \<noteq> None" using 2 p Inr e t by auto
    then show ?thesis using p Inr e t by (auto simp: Let_def)
  qed (use p in \<open>simp add: Let_def\<close>)
qed simp

lemma bind_total: "o' \<noteq> None \<Longrightarrow> (\<And>y. f y \<noteq> None) \<Longrightarrow> Option.bind o' f \<noteq> None"
  by (cases o') auto

lemma sctp_transport_total: "sctp_loops_end L \<Longrightarrow> sctp_transport_read L now cap tc bs t \<noteq> None"
  unfolding sctp_transport_read_def Let_def case_prod_beta
  by (intro bind_total run_associations_total) (auto split: sum.splits)

lemma sctp_stage_total: "sctp_loops_end L \<Longrightarrow> sctp_handle_read L la msg S \<noteq> None"
  unfolding sctp_handle_read_def Let_def case_prod_beta
  by (simp del: not_None_eq split: message_event.split dtls_event.split sum.split)
     (intro allI impI bind_total sctp_transport_total; simp split: sum.split)

lemma foldl_option_total:
  "(\<And>S m. f m S \<noteq> None) \<Longrightarrow> foldl (\<lambda>o' m. Option.bind o' (f m)) (Some S) ms \<noteq> None"
proof (induction ms arbitrary: S)
  case (Cons m ms)
  obtain S1 where "f m S = Some S1" using Cons.prems by fastforce
  then show ?case using Cons by simp
qed simp

lemma read_through_total:
  "(\<And>h m S. h \<in> set hs \<Longrightarrow> sg_read h fresh clk m S \<noteq> None) \<Longrightarrow> read_through hs fresh clk m S \<noteq> None"
proof (induction hs arbitrary: m S)
  case (Cons h hs)
  obtain ms S1 where "sg_read h fresh clk m S = Some (ms, S1)"
    using Cons.prems [of h m S] by auto
  then show ?case using foldl_option_total [of "read_through hs fresh clk"] Cons by simp
qed simp

lemma pipeline_read_total:
  assumes "sctp_loops_end (en_sctp E)"
  shows "pipeline_read E fresh clk d S \<noteq> None"
proof -
  have "sg_read h fresh clk m S \<noteq> None" if "h \<in> set (build_pipeline E)" for h m S
    using that sctp_stage_total [OF assms, of "en_addr E" m S]
    by (auto simp: build_pipeline_def plain_stage_def dtls_stage_def sctp_stage_def interceptor_stage_def
        gateway_stage_def)
  then show ?thesis using read_through_total [of "build_pipeline E" fresh clk]
    by (simp add: pipeline_read_def split: option.split)
qed

definition answered :: "session_id \<Rightarrow> endpoint_id \<Rightarrow> signaling_protocol_message list \<Rightarrow> bool" where
  "answered sid eid rs \<longleftrightarrow> (\<exists>bs. SigAnswer sid eid bs \<in> set rs \<or> SigErr sid eid bs \<in> set rs)"

lemma calm_output:
  assumes "calm i"
  shows "\<exists>ds S'. write_socket_output E (ti_send i) 0 S = (Inr (), ds, S')"
proof -
  obtain r ds S' where w: "write_socket_output E (ti_send i) 0 S = (r, ds, S')"
    by (cases "write_socket_output E (ti_send i) 0 S")
  show ?thesis
    using write_socket_output_spec [where E = E and send = "ti_send i" and k = 0 and S = S] w assms
    by (cases r) (auto simp: calm_def)
qed

lemma put_worker_fields [simp]:
  "ml_signals (put_worker v w) = ml_signals w" "ml_responses (put_worker v w) = mw_responses v"
  "mw_responses (worker_view w) = ml_responses w"
  by (simp_all add: put_worker_def worker_view_def)

lemma audio_phase_responses [simp]: "mw_responses (audio_phase v) = mw_responses v"
  by (simp add: audio_phase_def case_prod_beta)

lemma calm_network:
  assumes "sctp_loops_end (en_sctp E)" and "calm i"
  shows "\<exists>w'. network_phase E i w = Some (LoopContinue w') \<and> ml_signals w' = ml_signals w \<and>
    ml_responses w' = ml_responses w"
proof (cases "delay_from_now E i w = 0")
  case False
  show ?thesis
  proof (cases "ti_recv i")
    case (RecvData bs peer)
    obtain S where "pipeline_read E (ti_fresh_read i) (ti_now_read i)
        (read_socket_input (en_addr E) (ti_now_recv i) bs peer) (ml_sfu w) = Some S"
      using pipeline_read_total [OF assms(1)] by (metis not_None_eq)
    then show ?thesis using False RecvData by (simp add: network_phase_def drive_time_def)
  qed (use False assms in \<open>simp_all add: network_phase_def drive_time_def calm_def\<close>)
qed (simp add: network_phase_def drive_time_def)

lemma offer_phase:
  "\<exists>r v. signaling_phase E J show_err fresh now (Some (SigOffer sid eid offer, True)) w = (True, v) \<and>
     mw_responses v = mw_responses w @ [r] \<and> answered sid eid [r]"
  by (auto simp: signaling_phase_def handle_offer_message_def send_response_def answered_def
      split: prod.splits sum.splits)

lemma calm_turn:
  assumes "sctp_loops_end (en_sctp E)" and "calm i"
  shows "\<exists>w' rs. loop_turn E show_err i w = Some (LoopContinue w') \<and>
    ml_signals w' = tl (ml_signals w @ ti_arrivals i) \<and> ml_responses w' = ml_responses w @ rs \<and>
    (\<forall>sid eid offer ms. ml_signals w @ ti_arrivals i = (SigOffer sid eid offer, True) # ms \<longrightarrow> answered sid eid rs)"
proof -
  obtain ds S where o: "write_socket_output E (ti_send i) 0 (ml_sfu w) = (Inr (), ds, S)"
    using calm_output [OF assms(2)] by blast
  let ?q = "ml_signals w @ ti_arrivals i"
  let ?w1 = "w\<lparr>ml_signals := ?q, ml_sfu := S, ml_sent := ml_sent w @ ds\<rparr>"
  obtain msg where q: "pop_front ?q = (msg, tl ?q)" and m: "\<And>x ms. ?q = x # ms \<Longrightarrow> msg = Some x"
    by (cases ?q) auto
  obtain ok v where p: "signaling_phase (en_sfu E) (en_json E) show_err (ti_fresh_signal i) (ti_now_signal i) msg
      (worker_view ?w1) = (ok, v)" by fastforce
  obtain rs where v: "mw_responses v = ml_responses w @ rs"
    using p by (auto simp: signaling_phase_def worker_view_def split: option.splits prod.splits)
  have a: "ok \<and> answered sid eid rs" if "?q = (SigOffer sid eid offer, True) # ms" for sid eid offer ms
    using offer_phase [of "en_sfu E" "en_json E" show_err "ti_fresh_signal i" "ti_now_signal i" sid eid offer "worker_view ?w1"]
      p m [OF that] v by (auto simp: answered_def)
  let ?w2 = "put_worker v (?w1\<lparr>ml_signals := tl ?q\<rparr>)"
  let ?w3 = "put_worker (audio_phase (worker_view ?w2)) ?w2"
  have t: "loop_turn E show_err i w = (if ok then network_phase E i ?w3 else Some (LoopContinue ?w2))"
    using assms(2) o q p by (simp add: loop_turn_def Let_def calm_def)
  obtain w' where n: "network_phase E i ?w3 = Some (LoopContinue w')" "ml_signals w' = ml_signals ?w3"
    "ml_responses w' = ml_responses ?w3"
    using calm_network [OF assms, of ?w3] by blast
  show ?thesis
  proof (cases ok)
    case True
    with t n v a show ?thesis by (intro exI [of _ w'] exI [of _ rs]) auto
  next
    case False
    with t v a show ?thesis by (intro exI [of _ ?w2] exI [of _ rs]) auto
  qed
qed

text \<open>A worker whose sockets do not fail and that is not stopped keeps running.\<close>

lemma calm_run:
  assumes "sctp_loops_end (en_sctp E)" and "list_all calm inputs"
  shows "\<exists>w'. loop_run E show_err inputs w = Some (LoopContinue w')"
  using assms(2)
proof (induction inputs arbitrary: w)
  case (Cons i inputs)
  obtain w1 where "loop_turn E show_err i w = Some (LoopContinue w1)"
    using calm_turn [OF assms(1), of i show_err w] Cons.prems by auto
  moreover obtain w' where "loop_run E show_err inputs w1 = Some (LoopContinue w')"
    using Cons.IH [of w1] Cons.prems by auto
  ultimately show ?case by simp
qed simp

section \<open>A worked example\<close>

text \<open>Libraries without encryption around the states of \<open>Sfu_Properties\<close>: RTP is one fixed packet, DTLS
  and SCTP have nothing to do.\<close>

definition demo_codec :: "(nat, string option \<times> bool \<times> bool) codec_lib" where
  "demo_codec =
     \<lparr>cl_stun_decode = (\<lambda>bs. Inl (ErrLib ''stun'')), cl_stun_encode = (\<lambda>m. []),
      cl_is_rtcp = (\<lambda>bs. 1 < length bs \<and> 192 \<le> bs ! 1 \<and> bs ! 1 \<le> 223),
      cl_decrypt_rtp = (\<lambda>x bs. (x + 1, Inr bs)), cl_decrypt_rtcp = (\<lambda>x bs. (x + 1, Inr bs)),
      cl_encrypt_rtp = (\<lambda>x bs. (x + 1, Inr bs)), cl_encrypt_rtcp = (\<lambda>x bs. (x + 1, Inr bs)),
      cl_parse_rtp = (\<lambda>bs. if length bs < 12 then Inl (ErrLib ''short'') else Inr demo_packet),
      cl_parse_rtcp = (\<lambda>bs. Inl (ErrLib ''rtcp'')),
      cl_show_rtp = (\<lambda>p. Inr (replicate 14 0)), cl_show_rtcp = (\<lambda>ps. Inr [])\<rparr>"

definition demo_dtls :: "nat dtls_lib" where
  "demo_dtls =
     \<lparr>dl_read = (\<lambda>now tc bs x. (x, Inr [])), dl_write = (\<lambda>remote bs x. (x, Inr ())), dl_transmits = (\<lambda>x. (x, [])),
      dl_connection_state = (\<lambda>remote x. None), dl_connections = (\<lambda>x. []),
      dl_handle_timeout = (\<lambda>remote now x. x), dl_poll_timeout = (\<lambda>remote x eto. min eto (int x)),
      dl_profile = (\<lambda>x. OtherProfile), dl_session_keys = (\<lambda>p x. Inl (ErrLib ''keys'')),
      dl_context_new = (\<lambda>k salt p a b. Inl (ErrLib ''context''))\<rparr>"

definition demo_sctp :: "nat sctp_lib" where
  "demo_sctp =
     \<lparr>sl_handle = (\<lambda>now tc bs x. (x, None)), sl_handle_event = (\<lambda>e x. x), sl_poll = (\<lambda>x. (x, None)),
      sl_stream = (\<lambda>sid x. Inl (ErrLib ''stream'')), sl_read = (\<lambda>sid x. (x, Inr None)),
      sl_chunks_read = (\<lambda>n bs. Inr bs), sl_endpoint_events = (\<lambda>x. (x, [])), sl_transmits = (\<lambda>now x. (x, [])),
      sl_endpoint_handle_event = (\<lambda>h e x. x), sl_handle_timeout = (\<lambda>now x. x), sl_poll_timeout = (\<lambda>x. None),
      sl_set_reliability = (\<lambda>sid p x. (x, Inr ())), sl_write_with_ppi = (\<lambda>sid bs p x. (x, Inr ()))\<rparr>"

definition demo_f64 :: "unit f64_ops" where
  "demo_f64 =
     \<lparr>f_zero = (), f_of_nat = (\<lambda>n. ()), f_secs = (\<lambda>d. ()), f_add = (\<lambda>x y. ()), f_sub = (\<lambda>x y. ()),
      f_mul = (\<lambda>x y. ()), f_div = (\<lambda>x y. ()), f_abs = (\<lambda>x. ()), f_to_u8 = (\<lambda>x. 0), f_to_u32 = (\<lambda>x. 0)\<rparr>"

definition demo_env :: "(nat, unit, string option \<times> bool \<times> bool) sfu_env" where
  "demo_env =
     \<lparr>en_sfu = demo_lib, en_json = demo_json, en_stun = demo_stun, en_codec = demo_codec,
      en_dc = \<lparr>dc_message_type = (\<lambda>bs. Inl (ErrLib ''dcep'')), dc_open = (\<lambda>bs. Inl (ErrLib ''dcep'')), dc_ack = Inr [2]\<rparr>,
      en_dtls = demo_dtls, en_sctp = demo_sctp, en_f64 = demo_f64, en_addr = demo_addr\<rparr>"

definition demo_turn :: "(signaling_protocol_message \<times> bool) list \<Rightarrow> recv_outcome \<Rightarrow> turn_input" where
  "demo_turn arrivals received =
     \<lparr>ti_stop = StopEmpty, ti_arrivals = arrivals, ti_send = (\<lambda>k d. Inr ()), ti_recv = received,
      ti_fresh_signal = \<lparr>ip_username_fragment = ''abcd'', ip_password = ''efgh''\<rparr>,
      ti_fresh_read = \<lparr>ip_username_fragment = ''ijkl'', ip_password = ''mnop''\<rparr>,
      ti_now_signal = 0, ti_now_eto = 0, ti_now_delay = 0, ti_now_recv = 1, ti_now_read = 1, ti_now_timeout = 2\<rparr>"

definition demo_loop :: "bool \<Rightarrow> (nat, unit, string option \<times> bool \<times> bool) media_loop" where
  "demo_loop transcription =
     \<lparr>ml_sfu = sfu_state_new transcription 0 demo_states, ml_extractor = ext_new,
      ml_transcription = transcription, ml_signals = [], ml_responses = [], ml_commands = [], ml_sent = []\<rparr>"

lemma demo_env_simps [simp]:
  "en_sfu demo_env = demo_lib" "en_json demo_env = demo_json" "en_codec demo_env = demo_codec"
  "en_dtls demo_env = demo_dtls" "en_sctp demo_env = demo_sctp" "en_addr demo_env = demo_addr"
  by (simp_all add: demo_env_def)

lemma demo_loops_end: "sctp_loops_end demo_sctp"
proof -
  have "poll_events demo_sctp cap h x = Some (x, Inr [])" for cap h x
    by (subst poll_events.simps) (simp add: demo_sctp_def)
  then show ?thesis by (simp add: sctp_loops_end_def)
qed

lemma demo_calm: "received \<noteq> RecvFailed \<Longrightarrow> calm (demo_turn arrivals received)"
  by (simp add: calm_def demo_turn_def)

lemma demo_at_endpoint:
  "locate_endpoint (demo_tuple 1) demo_states = Inr (7, 1, demo_endpoint 1)"
  by (simp add: locate_endpoint_Inr)

lemma demo_at_transport:
  "locate_transport (demo_tuple 1) demo_states = Inr (7, 1, demo_transport 1)"
  by (simp add: locate_transport_Inr demo_at_endpoint hm_get_def)

lemma demo_relocated:
  "locate_transport (demo_tuple 1) (snd (with_transport (demo_tuple 1) f demo_states)) = Inr (7, 1, f (demo_transport 1))"
  using locate_after_endpoint [OF demo_at_endpoint, of "modify_transport (demo_tuple 1) f"]
  by (simp add: with_transport_def demo_at_transport locate_transport_Inr)
     (simp add: modify_transport_def hm_get_def hm_modify_def)

section \<open>The properties on the example\<close>

theorem unready_report_stalls_output_witness:
  "\<exists>S' rep. write_socket_output demo_env (\<lambda>k d. Inr ()) 0
     ((sfu_state_new False 0 (snd (with_transport (demo_tuple 1) (\<lambda>t. t\<lparr>tp_local_srtp := None\<rparr>) demo_states)))
        \<lparr>sf_interceptor := [rep, rep]\<rparr>) = (Inr (), [], S') \<and> sf_interceptor S' = [rep]"
proof -
  define rep :: "(string option \<times> bool \<times> bool) tagged" where
    "rep = \<lparr>tg_now = 0, tg_transport = demo_context 1, tg_message = EvRtp (RtpRtcp [\<lparr>rtcp_type = PtReceiverReport, rtcp_ssrc = 0, rtcp_ntp_time = 0, rtcp_reports = [], rtcp_body = []\<rparr>])\<rparr>"
  let ?st = "snd (with_transport (demo_tuple 1) (\<lambda>t. t\<lparr>tp_local_srtp := None\<rparr>) demo_states)"
  let ?S = "(sfu_state_new False 0 ?st)\<lparr>sf_interceptor := [rep, rep]\<rparr>"
  have "\<exists>S'. write_socket_output demo_env (\<lambda>k d. Inr ()) 0 ?S = (Inr (), [], S') \<and> sf_interceptor S' = [rep] \<and>
    sf_states S' = sf_states ?S \<and>
    sf_errors S' = sf_errors ?S @
      [Other ''local_srtp_context is not set yet for four_tuple {:?}'' [ArgTuple (four_tuple_of (tg_transport rep))]]"
    by (rule unready_report_stalls_output [where t = "(demo_transport 1)\<lparr>tp_local_srtp := None\<rparr>"
          and ps = "[\<lparr>rtcp_type = PtReceiverReport, rtcp_ssrc = 0, rtcp_ntp_time = 0, rtcp_reports = [], rtcp_body = []\<rparr>]"])
       (simp_all add: sfu_state_new_def gateway_new_def rep_def demo_relocated)
  then show ?thesis by blast
qed

theorem wait_bounded_witness:
  "delay_from_now demo_env (demo_turn [] RecvTimedOut) (demo_loop True) \<le> 100 * 1000000 \<and>
   0 + int (delay_from_now demo_env (demo_turn [] RecvTimedOut) (demo_loop True)) \<le> max 0 (int (svc_idle_timeout demo_config))"
proof -
  have d: "int (svc_idle_timeout demo_config) \<in> sfu_deadlines demo_env (ml_sfu (demo_loop True))"
    by (simp add: sfu_deadlines_def demo_loop_def sfu_state_new_def gateway_new_def demo_states_def)
  show ?thesis
    using wait_bounded [of demo_env "demo_turn [] RecvTimedOut", OF _ _ d]
    by (simp add: demo_turn_def demo_dtls_def)
qed

theorem media_worker_states_ok_witness:
  "\<exists>w. sync_run_with_transcription demo_env (\<lambda>e. ''error'') demo_config True 0
          [demo_turn [(SigOffer 7 1 [], True)] (RecvData [128, 0] demo_addr)] = Some (Inr (LoopContinue w)) \<and>
       answered 7 1 (ml_responses w) \<and> states_ok (sf_states (ml_sfu w))"
proof -
  let ?i = "demo_turn [(SigOffer 7 1 [], True)] (RecvData [128, 0] demo_addr)"
  obtain w0 :: "(nat, unit, string option \<times> bool \<times> bool) media_loop"
    where w0: "loop_start demo_env demo_config True 0 = Inr w0" "ml_signals w0 = []" "ml_responses w0 = []"
    by (simp add: loop_start_def and_then_def server_states_new_def demo_config_def server_config_new_def
        get_fingerprints_def)
  obtain w rs where w: "loop_turn demo_env (\<lambda>e. ''error'') ?i w0 = Some (LoopContinue w)" "ml_responses w = rs"
    "answered 7 1 rs"
    using calm_turn [of demo_env ?i "\<lambda>e. ''error''" w0] demo_loops_end demo_calm [of "RecvData [128, 0] demo_addr"] w0
    by (auto simp: demo_turn_def)
  have r: "sync_run_with_transcription demo_env (\<lambda>e. ''error'') demo_config True 0 [?i] = Some (Inr (LoopContinue w))"
    using w0 w by (simp add: sync_run_with_transcription_def)
  from media_worker_states_ok [OF r, of w] show ?thesis using r w by auto
qed

end
