(* ===== verification/Paths.thy ===== *)
theory Paths
  imports Forwarding
begin

text \<open>
  What the gateway knows about paths as an abstract state, and what its handlers do to it: media
  refreshes a path, a nomination adds one, and neither the other STUN requests nor anything on the
  data channel touches them.
\<close>

section \<open>The last activity of a transport\<close>

definition last_active :: "('x, 'f) session \<Rightarrow> endpoint_id \<Rightarrow> four_tuple \<Rightarrow> instant option" where
  "last_active s eid ft =
     Option.bind (hm_get (ss_endpoints s) eid) (\<lambda>ep. map_option tp_last_activity (hm_get (ep_transports ep) ft))"

definition activity ::
  "('x, 'f) server_states \<Rightarrow> session_id \<Rightarrow> endpoint_id \<Rightarrow> four_tuple \<Rightarrow> instant option" where
  "activity st sid eid ft = map_option tp_last_activity (transport_at st sid eid ft)"

lemma activity_session:
  "activity st sid eid ft = Option.bind (hm_get (st_sessions st) sid) (\<lambda>s. last_active s eid ft)"
  by (auto simp: activity_def transport_at_def last_active_def split: option.splits)

text \<open>
  What the server knows about paths: when media last came in on the path of an endpoint, and to which
  endpoint the four-tuple of a datagram leads.
\<close>

record paths =
  pt_activity :: "session_id \<Rightarrow> endpoint_id \<Rightarrow> four_tuple \<Rightarrow> instant option"
  pt_owner :: "four_tuple \<Rightarrow> (session_id \<times> endpoint_id) option"

definition paths_of :: "('x, 'f) server_states \<Rightarrow> paths" where
  "paths_of st = \<lparr>pt_activity = activity st, pt_owner = (\<lambda>ft. find_endpoint ft st)\<rparr>"

lemma paths_of_simps [simp]:
  "pt_activity (paths_of st) = activity st" "pt_owner (paths_of st) ft = find_endpoint ft st"
  by (simp_all add: paths_of_def)

definition same_paths :: "('x, 'f) server_states \<Rightarrow> ('x, 'f) server_states \<Rightarrow> bool" where
  "same_paths st st' \<longleftrightarrow> paths_of st' = paths_of st"

lemma same_paths_iff:
  "same_paths st st' \<longleftrightarrow> activity st' = activity st \<and> (\<forall>ft. find_endpoint ft st' = find_endpoint ft st)"
  by (auto simp: same_paths_def paths_of_def fun_eq_iff)

lemma same_paths_refl [simp, intro]: "same_paths st st"
  by (simp add: same_paths_def)

lemma same_paths_trans [trans]: "same_paths st st1 \<Longrightarrow> same_paths st1 st2 \<Longrightarrow> same_paths st st2"
  by (simp add: same_paths_def)

text \<open>Nothing is forgotten and nothing is refreshed; transports may be added.\<close>

definition keeps_activity :: "('x, 'f) server_states \<Rightarrow> ('x, 'f) server_states \<Rightarrow> bool" where
  "keeps_activity st st' \<longleftrightarrow>
     (\<forall>sid eid ft d. activity st sid eid ft = Some d \<longrightarrow> activity st' sid eid ft = Some d)"

lemma keeps_activity_refl [simp, intro]: "keeps_activity st st"
  by (simp add: keeps_activity_def)

lemma keeps_activity_trans [trans]:
  "keeps_activity st st1 \<Longrightarrow> keeps_activity st1 st2 \<Longrightarrow> keeps_activity st st2"
  by (simp add: keeps_activity_def)

lemma same_paths_keeps: "same_paths st st' \<Longrightarrow> keeps_activity st st'"
  by (simp add: same_paths_iff keeps_activity_def)

section \<open>Descriptions\<close>

lemma last_active_modify:
  assumes "\<And>ep ft. map_option tp_last_activity (hm_get (ep_transports (f ep)) ft) =
      map_option tp_last_activity (hm_get (ep_transports ep) ft)"
  shows "last_active (s\<lparr>ss_endpoints := hm_modify eid f (ss_endpoints s)\<rparr>) = last_active s"
  by (intro ext) (simp add: last_active_def assms split: Option.bind_split)

lemma share_transceiver_transports [simp]:
  "ep_transports (share_transceiver eid v kind dir sender params ep) = ep_transports ep"
  by (simp add: share_transceiver_def Let_def add_transceiver_def split: option.splits)

lemma set_endpoint_direction_active [simp]: "last_active (set_endpoint_direction eid v d s) = last_active s"
  unfolding set_endpoint_direction_def by (rule last_active_modify) simp

lemma offered_media_active [simp]: "last_active (snd (offered_media L eid m kind dir v s)) = last_active s"
  by (intro ext) (auto simp: offered_media_def last_active_def Let_def add_transceiver_def
      split: option.splits sum.splits Option.bind_split)

lemma remote_media_active [simp]: "last_active (snd (remote_media L eid we_offer ms s)) = last_active s"
proof (induction L eid we_offer ms s rule: remote_media.induct)
  case (2 L eid we_offer m ms s)
  show ?case
  proof (cases "media_target m")
    case (Inr x)
    show ?thesis
    proof (cases x)
      case (Some y)
      obtain kind dir v where y: "y = (kind, dir, v)" by (cases y)
      obtain r s' where o: "offered_media L eid m kind dir v s = (r, s')" by fastforce
      have "last_active s' = last_active s" using offered_media_active [of L eid m kind dir v s] o by simp
      then show ?thesis
        using "2.IH"(2,3) Inr Some y o by (cases r; cases we_offer) auto
    qed (use 2 Inr in simp)
  qed simp
qed simp

lemma set_remote_description_active [simp]:
  "last_active (snd (set_remote_description L eid d s)) = last_active s"
  by (auto simp: set_remote_description_def split: option.splits)

lemma local_media_active [simp]: "last_active (snd (local_media eid ms s)) = last_active s"
  by (induction eid ms s rule: local_media.induct) (auto split: sum.splits option.splits)

lemma set_local_description_active [simp]: "last_active (snd (set_local_description eid d s)) = last_active s"
  by (auto simp: set_local_description_def split: option.splits)

section \<open>Server states\<close>

lemma put_session_activity:
  "hm_get (st_sessions st) sid \<noteq> None \<Longrightarrow>
     activity (put_session sid s' st) sid' eid ft = (if sid' = sid then last_active s' eid ft else activity st sid' eid ft)"
  by (auto simp: activity_session put_session_def)

lemma put_session_paths:
  assumes "hm_get (st_sessions st) sid = Some s" and "last_active s' = last_active s"
  shows "same_paths st (put_session sid s' st)"
  using assms by (auto simp: same_paths_iff fun_eq_iff put_session_activity activity_session)

lemma table_paths [simp]:
  "paths_of (add_candidate c st) = paths_of st"
  "paths_of (remove_candidate u st) = paths_of st"
  "activity (states_add_endpoint ft sid eid st) = activity st"
  "find_endpoint ft' (states_add_endpoint ft sid eid st) = (if ft' = ft then Some (sid, eid) else find_endpoint ft' st)"
  by (auto simp: paths_of_def fun_eq_iff activity_session add_candidate_def remove_candidate_def find_endpoint_def
      states_add_endpoint_def)

lemma same_tables_paths [simp]: "same_paths st (add_candidate c st') = same_paths st st'"
  by (simp add: same_paths_def)

lemma create_or_get_session_paths:
  assumes "create_or_get_session sid st = (s, st1)"
  shows "same_paths st st1" "hm_get (st_sessions st1) sid = Some s"
  using assms
  by (auto simp: create_or_get_session_def same_paths_iff fun_eq_iff activity_session find_endpoint_def Let_def
      session_new_empty_def last_active_def split: option.splits if_splits Option.bind_splits)

lemma put_session_after:
  assumes "create_or_get_session sid st = (s, st1)" and "last_active s' = last_active s"
  shows "same_paths st (put_session sid s' st1)"
  using same_paths_trans [OF create_or_get_session_paths(1) [OF assms(1)]
      put_session_paths [OF create_or_get_session_paths(2) [OF assms(1)]]] assms(2) by simp

lemma modify_endpoint_paths:
  assumes "\<And>ep ft. map_option tp_last_activity (hm_get (ep_transports (f ep)) ft) =
      map_option tp_last_activity (hm_get (ep_transports ep) ft)"
  shows "same_paths st (modify_endpoint sid eid f st)"
  using last_active_modify [where f = f and eid = eid, OF assms]
  by (auto simp: same_paths_iff fun_eq_iff activity_session find_endpoint_def modify_endpoint_def
      split: if_splits Option.bind_splits)

lemma accept_answer_paths: "same_paths st (snd (accept_answer E sid eid answer st))"
proof -
  obtain s st1 where c: "create_or_get_session sid st = (s, st1)" by fastforce
  then show ?thesis
    using create_or_get_session_paths(1) [OF c] put_session_after [OF c]
    by (auto simp: accept_answer_def split: sum.splits prod.splits) (metis set_remote_description_active snd_conv)
qed

lemma local_credentials_active:
  "last_active (snd (local_credentials E fresh fps rc eid four offer s)) = last_active s"
proof -
  obtain r s' where o: "set_remote_description (lib_sdp E) eid offer s = (r, s')" by fastforce
  have "last_active s' = last_active s" using arg_cong [OF o, of "\<lambda>x. last_active (snd x)"] by simp
  then show ?thesis using o by (simp add: local_credentials_def split: sum.splits)
qed

lemma accept_parsed_offer_paths:
  "same_paths st (snd (accept_parsed_offer E fresh now sid eid four rc offer st))"
proof -
  obtain s st1 where c: "create_or_get_session sid st = (s, st1)" by fastforce
  let ?fps = "first_fingerprints E (st_server_config st)"
  obtain r s1 where l: "local_credentials E fresh ?fps rc eid four offer s = (r, s1)" by fastforce
  have s1: "last_active s1 = last_active s" using local_credentials_active [of E fresh ?fps rc eid four offer s] l by simp
  have "same_paths st (put_session sid s1 st1)" by (rule put_session_after [OF c s1])
  moreover have "same_paths st (put_session sid (snd (set_local_description eid a s1)) st1)" for a
    by (rule put_session_after [OF c]) (simp add: s1)
  ultimately show ?thesis
    by (auto simp: accept_parsed_offer_def c l Let_def split: sum.splits prod.splits) (metis snd_conv)+
qed

lemma accept_offer_paths: "same_paths st (snd (accept_offer E fresh now sid eid four offer st))"
  by (auto simp: accept_offer_def accept_parsed_offer_paths split: sum.splits)

section \<open>The gateway\<close>

text \<open>A nomination adds a path that is not there yet and leads its four-tuple to it.\<close>

definition set_path ::
  "session_id \<Rightarrow> endpoint_id \<Rightarrow> four_tuple \<Rightarrow> instant option \<Rightarrow> paths \<Rightarrow> paths" where
  "set_path sid eid ft v P =
     P\<lparr>pt_activity := (\<lambda>s e f. if s = sid \<and> e = eid \<and> f = ft then v else pt_activity P s e f)\<rparr>"

definition path_nominated ::
  "session_id \<Rightarrow> endpoint_id \<Rightarrow> four_tuple \<Rightarrow> instant \<Rightarrow> paths \<Rightarrow> paths" where
  "path_nominated sid eid ft now P =
     (if pt_activity P sid eid ft = None
      then (set_path sid eid ft (Some now) P)\<lparr>pt_owner := (pt_owner P)(ft := Some (sid, eid))\<rparr>
      else P)"

lemma session_add_endpoint_active:
  assumes "session_add_endpoint clk c tc s = (b, s')"
  shows "last_active s' eid ft =
    (if eid = cd_endpoint_id c \<and> ft = four_tuple_of tc \<and> last_active s eid ft = None then Some clk
     else last_active s eid ft)"
  using assms
  by (auto simp: session_add_endpoint_def Let_def last_active_def add_transport_def endpoint_new_def hm_contains_get
      transport_new_def split: option.splits if_splits Option.bind_splits)

lemma gateway_add_endpoint_paths:
  "paths_of (snd (gateway_add_endpoint S clk req c tc st)) =
     (if su_has_use_candidate S req \<and> hm_get (st_sessions st) (cd_session_id c) \<noteq> None
      then path_nominated (cd_session_id c) (cd_endpoint_id c) (four_tuple_of tc) clk (paths_of st)
      else paths_of st)"
proof (cases "hm_get (st_sessions st) (cd_session_id c)")
  case (Some s)
  let ?sid = "cd_session_id c" let ?eid = "cd_endpoint_id c" let ?ft = "four_tuple_of tc"
  obtain b s' where a: "session_add_endpoint clk c tc s = (b, s')" by fastforce
  define known where "known = (\<exists>ep. hm_get (ss_endpoints s) ?eid = Some ep \<and> hm_contains (ep_transports ep) ?ft)"
  have k: "known \<longleftrightarrow> activity st ?sid ?eid ?ft \<noteq> None"
    using Some by (auto simp: known_def activity_session last_active_def hm_contains_get split: Option.bind_splits)
  have "snd (gateway_add_endpoint S clk req c tc st) =
      (if su_has_use_candidate S req \<and> \<not> known
       then states_add_endpoint ?ft ?sid ?eid (put_session ?sid s' st) else st)"
    using Some a by (auto simp: gateway_add_endpoint_def Let_def known_def split: option.splits)
  moreover have "paths_of (states_add_endpoint ?ft ?sid ?eid (put_session ?sid s' st)) =
      path_nominated ?sid ?eid ?ft clk (paths_of st)" if "\<not> known"
    using that k Some session_add_endpoint_active [OF a]
    by (auto simp: paths_of_def path_nominated_def set_path_def fun_eq_iff put_session_activity activity_session)
  ultimately show ?thesis using k Some by (auto simp: path_nominated_def)
qed (simp add: gateway_add_endpoint_def Let_def)

lemma path_nominated_keeps:
  "pt_activity P sid eid ft = Some d \<Longrightarrow> pt_activity (path_nominated sid' eid' ft' now P) sid eid ft = Some d"
  by (auto simp: path_nominated_def set_path_def)

text \<open>The candidate a STUN request nominates.\<close>

definition nominated_candidate :: "'m stun_lib \<Rightarrow> ('x, 'f) server_states \<Rightarrow> 'm \<Rightarrow> candidate option" where
  "nominated_candidate S st req =
     (case check_stun_message S st req of
        (Inr (Some c), req') \<Rightarrow>
          if su_has_use_candidate S req' \<and> hm_get (st_sessions st) (cd_session_id c) \<noteq> None then Some c else None
      | _ \<Rightarrow> None)"

lemma handle_stun_message_paths:
  "paths_of (snd (handle_stun_message S clk now tc req st)) =
     (case nominated_candidate S st req of
        Some c \<Rightarrow> path_nominated (cd_session_id c) (cd_endpoint_id c) (four_tuple_of tc) clk (paths_of st)
      | None \<Rightarrow> paths_of st)"
proof -
  obtain r req' where k: "check_stun_message S st req = (r, req')" by fastforce
  show ?thesis
  proof (cases "\<exists>c. r = Inr (Some c)")
    case True
    then obtain c where r: "r = Inr (Some c)" by blast
    obtain r2 st' where g: "gateway_add_endpoint S clk req' c tc st = (r2, st')" by fastforce
    have "paths_of st' = (case nominated_candidate S st req of
        Some c \<Rightarrow> path_nominated (cd_session_id c) (cd_endpoint_id c) (four_tuple_of tc) clk (paths_of st)
      | None \<Rightarrow> paths_of st)"
      using gateway_add_endpoint_paths [of S clk req' c tc st] k r g
      by (cases "hm_get (st_sessions st) (cd_session_id c)") (simp_all add: nominated_candidate_def)
    then show ?thesis using k r g by (cases r2) (simp_all add: handle_stun_message_def)
  qed (use k in \<open>auto simp: handle_stun_message_def nominated_candidate_def split: sum.splits option.splits\<close>)
qed

lemma handle_stun_message_activity: "keeps_activity st (snd (handle_stun_message S clk now tc req st))"
  unfolding keeps_activity_def
proof (intro allI impI)
  fix sid eid ft d assume "activity st sid eid ft = Some d"
  then have "pt_activity (paths_of (snd (handle_stun_message S clk now tc req st))) sid eid ft = Some d"
    using path_nominated_keeps [of "paths_of st"] by (simp add: handle_stun_message_paths split: option.splits)
  then show "activity (snd (handle_stun_message S clk now tc req st)) sid eid ft = Some d" by simp
qed

lemma create_offer_message_event_paths:
  "same_paths st (snd (create_offer_message_event E J now tc h sid st))"
proof -
  let ?loc = "and_then (ok_or ErrClientTransportNotSet (find_endpoint (four_tuple_of tc) st)) (\<lambda>(ssid, eid).
              and_then (ok_or (Other ''can't find session id {}'' [ArgId ssid]) (hm_get (st_sessions st) ssid)) (\<lambda>s.
              and_then (ok_or (Other ''can't find endpoint id {}'' [ArgId eid]) (hm_get (ss_endpoints s) eid)) (\<lambda>ep.
                Inr (ssid, eid, s, ep))))"
  show ?thesis
  proof (cases ?loc)
    case (Inl e)
    then show ?thesis by (simp add: create_offer_message_event_def)
  next
    case (Inr r)
    obtain ssid eid s ep where r: "r = (ssid, eid, s, ep)" by (cases r)
    let ?s1 = "s\<lparr>ss_endpoints := hm_modify eid (set_renegotiation_needed False) (ss_endpoints s)\<rparr>"
    have s: "hm_get (st_sessions st) ssid = Some s" using Inr r by (auto simp: result_simps)
    have s1: "last_active ?s1 = last_active s"
      by (rule last_active_modify) (simp add: set_renegotiation_needed_def)
    have p1: "same_paths st (put_session ssid ?s1 st)" using put_session_paths [OF s] s1 by simp
    have "hm_get (st_sessions (put_session ssid ?s1 st)) ssid = Some ?s1" using s by (simp add: put_session_def)
    from put_session_paths [OF this]
    have p2: "same_paths st (put_session ssid (snd (set_local_description eid d ?s1)) (put_session ssid ?s1 st))" for d
      by (intro same_paths_trans [OF p1]) simp
    show ?thesis
      unfolding create_offer_message_event_def Let_def Inr r
      using p1 p2 by (auto split: sum.splits prod.splits) (metis snd_conv)+
  qed
qed

lemma offer_peers_paths:
  fixes st :: "('x, 'f) server_states"
  shows "same_paths st (snd (offer_peers E J now ps st :: 'm tagged list res \<times> ('x, 'f) server_states))"
proof (induction ps arbitrary: st)
  case (Cons p ps)
  obtain tc h sid needed where p: "p = (tc, h, sid, needed)" by (cases p)
  obtain r :: "'m tagged res" and st' where c: "create_offer_message_event E J now tc h sid st = (r, st')" by fastforce
  have k: "same_paths st st'" using create_offer_message_event_paths [of st E J now tc h sid] c by (metis snd_conv)
  have "same_paths st (snd (offer_peers E J now ps st' :: 'm tagged list res \<times> ('x, 'f) server_states))"
    by (rule same_paths_trans [OF k Cons.IH])
  then show ?case
    using Cons.IH [of st] c k by (cases r) (auto simp: p split: prod.splits sum.splits)
qed simp

lemma foldl_add_transceiver_transports:
  "ep_transports (foldl (\<lambda>ep t. add_transceiver t ep) ep ts) = ep_transports ep"
  by (induction ts arbitrary: ep) (simp_all add: add_transceiver_def)

lemma handle_datachannel_open_paths:
  fixes st :: "('x, 'f) server_states"
  shows "same_paths st (snd (handle_datachannel_open E J now tc h sid st :: 'm tagged list res \<times> ('x, 'f) server_states))"
proof -
  let ?st1 = "\<lambda>ssid eid ts. modify_endpoint ssid eid
      (\<lambda>ep. foldl (\<lambda>ep t. add_transceiver t ep)
              (set_renegotiation_needed (ts \<noteq> [])
                 (modify_transport (four_tuple_of tc) (set_association_handle_and_stream_id h sid) ep)) ts) st"
  have p: "same_paths st (?st1 ssid eid ts)" for ssid eid ts
    by (rule modify_endpoint_paths)
       (simp add: foldl_add_transceiver_transports set_renegotiation_needed_def modify_transport_def
         set_association_handle_and_stream_id_def option.map_comp comp_def)
  show ?thesis
  proof (cases "and_then (ok_or ErrClientTransportNotSet (find_endpoint (four_tuple_of tc) st)) (\<lambda>(ssid, eid).
              and_then (ok_or (Other ''can't find session id {}'' [ArgId ssid]) (hm_get (st_sessions st) ssid)) (\<lambda>s.
              and_then (ok_or (Other ''can't find endpoint id {}'' [ArgId eid]) (hm_get (ss_endpoints s) eid)) (\<lambda>ep.
              and_then (ok_or (Other ''can't find transport for endpoint id {} with {:?}''
                                 [ArgId eid, ArgTuple (four_tuple_of tc)])
                          (hm_get (ep_transports ep) (four_tuple_of tc))) (\<lambda>_.
                Inr (ssid, eid, transceivers_to_offer eid (ss_endpoints s))))))")
    case (Inr r)
    obtain ssid eid ts where r: "r = (ssid, eid, ts)" by (cases r)
    obtain r2 :: "'m tagged res" and st2
      where c: "create_offer_message_event E J now tc h sid (?st1 ssid eid ts) = (r2, st2)" by fastforce
    have "same_paths (?st1 ssid eid ts) st2"
      using create_offer_message_event_paths [of "?st1 ssid eid ts" E J now tc h sid] c by (metis snd_conv)
    then have "same_paths st st2" by (rule same_paths_trans [OF p])
    then show ?thesis
      unfolding handle_datachannel_open_def Let_def Inr r
      using p [of ssid eid ts] c by (cases r2) auto
  qed (simp add: handle_datachannel_open_def)
qed

lemma handle_datachannel_message_paths:
  fixes st :: "('x, 'f) server_states"
  shows "same_paths st (snd (handle_datachannel_message E J fresh clk now tc h sid payload st
           :: 'm tagged list res \<times> ('x, 'f) server_states))"
proof -
  have a: "same_paths st st'" if "accept_offer E fresh clk i j k d st = (r, st')" for i j k d r st'
    using accept_offer_paths [of st E] that by (metis snd_conv)
  have b: "same_paths st st'" if "accept_answer E i j d st = (r, st')" for i j d r st'
    using accept_answer_paths [of st E] that by (metis snd_conv)
  have c: "same_paths st' st''" if "offer_peers E J now ps st' = (r, st'')"
    for ps and st' :: "('x, 'f) server_states" and r :: "'m tagged list res" and st''
    using offer_peers_paths [of st' E J now ps] that by (metis snd_conv)
  show ?thesis
    unfolding handle_datachannel_message_def Let_def
    by (auto split: sum.splits prod.splits sdp_type.splits dest: a b c intro: same_paths_trans)
qed

lemma handle_dtls_message_paths:
  "same_paths st (snd (handle_dtls_message E J fresh clk now tc m st))"
  by (auto simp: handle_dtls_message_def handle_datachannel_open_paths handle_datachannel_message_paths
      handle_datachannel_close_def split: data_channel_event.splits)

text \<open>RTP, and the RTCP that the interceptors let through.\<close>

definition is_media :: "'m tagged \<Rightarrow> bool" where
  "is_media m \<longleftrightarrow> (case tg_message m of EvRtp (RtpRaw bs) \<Rightarrow> False | EvRtp ev \<Rightarrow> True | _ \<Rightarrow> False)"

lemma gateway_dispatch_activity:
  assumes "\<not> is_media msg"
  shows "keeps_activity st (fst (snd (gateway_dispatch E S J fresh clk au msg st)))"
  using assms handle_stun_message_activity [of st S clk "tg_now msg" "tg_transport msg"]
    same_paths_keeps [OF handle_dtls_message_paths [of st E J fresh clk "tg_now msg" "tg_transport msg"]]
  by (auto simp: gateway_dispatch_def is_media_def case_prod_beta
      split: message_event.splits stun_event.splits dtls_event.splits rtp_event.splits)

end
