(* ===== verification/Idle_Facts.thy ===== *)
theory Idle_Facts
  imports Paths
begin

text \<open>
  What the idle timeout of the gateway does to participants.  The time of a transport's last
  activity is only set by media: neither the STUN requests with which a client checks its path nor
  anything on the data channel touches it.
\<close>

section \<open>Participants without media\<close>

text \<open>A run of messages through the gateway, each with the random parameters and the clock it sees.\<close>

fun gateway_reads ::
  "sfu_lib \<Rightarrow> 'm stun_lib \<Rightarrow> json_lib \<Rightarrow> (ice_parameters \<times> instant \<times> 'm tagged) list
     \<Rightarrow> 'm gateway \<Rightarrow> ('x, 'f) server_states \<Rightarrow> 'm gateway \<times> ('x, 'f) server_states" where
  "gateway_reads E S J [] gw st = (gw, st)"
| "gateway_reads E S J ((fresh, clk, msg) # ms) gw st =
     (case gateway_handle_read E S J fresh clk msg gw st of
        (gw', st', _, _) \<Rightarrow> gateway_reads E S J ms gw' st')"

lemma gateway_handle_read_keeps:
  assumes "gateway_handle_read E S J fresh clk msg gw st = (gw', st', e, au)"
  shows "\<not> is_media msg \<Longrightarrow> keeps_activity st st'"
    and "states_ok st \<Longrightarrow> states_ok st'"
    and "gw_next_timeout gw' = gw_next_timeout gw" "gw_idle_timeout gw' = gw_idle_timeout gw"
  using assms gateway_dispatch_activity [of msg st E S J fresh clk "gw_audio gw"]
    gateway_dispatch_ok [of st E S J fresh clk "gw_audio gw" msg]
  by (auto simp: gateway_handle_read_def split: prod.splits sum.splits)

lemma gateway_reads_keep:
  assumes "gateway_reads E S J ms gw st = (gw', st')" and "\<forall>(fresh, clk, msg) \<in> set ms. \<not> is_media msg" and "states_ok st"
  shows "keeps_activity st st' \<and> states_ok st' \<and>
    gw_next_timeout gw' = gw_next_timeout gw \<and> gw_idle_timeout gw' = gw_idle_timeout gw"
  using assms
proof (induction E S J ms gw st rule: gateway_reads.induct)
  case (2 E S J fresh clk msg ms gw st)
  obtain gw1 st1 e au where r: "gateway_handle_read E S J fresh clk msg gw st = (gw1, st1, e, au)"
    by (cases "gateway_handle_read E S J fresh clk msg gw st")
  note k = gateway_handle_read_keeps [OF r]
  have "keeps_activity st1 st' \<and> states_ok st' \<and>
      gw_next_timeout gw' = gw_next_timeout gw1 \<and> gw_idle_timeout gw' = gw_idle_timeout gw1"
    using "2.IH" [OF r [symmetric] refl refl] "2.prems" r k(2) by simp
  then show ?case using k "2.prems" by (auto intro: keeps_activity_trans)
qed simp


definition check_in :: "(string option \<times> bool \<times> bool) tagged" where
  "check_in = \<lparr>tg_now = 5, tg_transport = demo_context 1, tg_message = EvStun (StunMsg (Some ''sfu:peer'', False, True))\<rparr>"

definition demo_gateway :: "(string option \<times> bool \<times> bool) gateway" where
  "demo_gateway = \<lparr>gw_transmits = [], gw_next_timeout = 50, gw_idle_timeout = 30, gw_audio = False\<rparr>"

definition check_in_ice :: ice_parameters where
  "check_in_ice = \<lparr>ip_username_fragment = ''ijkl'', ip_password = ''mnop''\<rparr>"


section \<open>Participants with two paths\<close>

lemma remove_transport_candidates:
  "find_candidate u st = None \<Longrightarrow> find_candidate u (remove_transport ft st) = None"
  by (auto simp: remove_transport_def find_candidate_def remove_candidate_def put_session_def remove_session_def
      states_remove_endpoint_def Let_def split: option.splits prod.splits)

lemma remove_transport_revokes:
  assumes "routed st" and "transport_at st sid eid ft = Some t"
  shows "find_candidate (candidate_username (tp_candidate t)) (remove_transport ft st) = None"
proof -
  have "find_endpoint ft st = Some (sid, eid)" using assms by (simp add: routed_def)
  with assms(2) show ?thesis
    by (auto simp: remove_transport_def transport_at_Some endpoint_remove_transport_def Let_def
        find_candidate_def remove_candidate_def)
qed

lemma remove_transports_revoke:
  "routed st \<Longrightarrow> transport_at st sid eid ft = Some t \<Longrightarrow> ft \<in> set fts \<Longrightarrow>
   find_candidate (candidate_username (tp_candidate t)) (foldl (\<lambda>st ft. remove_transport ft st) st fts) = None"
proof (induction fts arbitrary: st)
  case (Cons x xs)
  have gone: "find_candidate u (foldl (\<lambda>st ft. remove_transport ft st) st xs) = None" if "find_candidate u st = None"
    for u and st :: "('a, 'b) server_states"
    using that by (induction xs arbitrary: st) (simp_all add: remove_transport_candidates)
  note at = remove_transport_at [OF Cons.prems(1), of x]
  show ?case
  proof (cases "x = ft")
    case True
    then show ?thesis using gone remove_transport_revokes [OF Cons.prems(1,2)] by simp
  next
    case False
    then show ?thesis using Cons at by simp
  qed
qed simp

text \<open>C31: When a participant has two paths and one of them is idle, the idle check removes that path and
  with it the credentials of the participant: the other path stays registered, but every STUN request on
  it, the client's checks that the path is still alive, is answered by an error from then on.\<close>

theorem idle_path_revokes_credentials:
  assumes "states_ok st" and "routed st"
    and "transport_at st sid eid ft = Some t" and "tp_last_activity t \<le> now - int (gw_idle_timeout gw)"
    and "transport_at st sid eid ft' = Some t'" and "now - int (gw_idle_timeout gw) < tp_last_activity t'"
    and "candidate_username (tp_candidate t') = candidate_username (tp_candidate t)"
    and "gw_next_timeout gw \<le> now" and "gateway_handle_timeout now gw st = (gw', st')"
    and "su_username S req = Some (candidate_username (tp_candidate t'))"
  shows "transport_at st' sid eid ft' = Some t' \<and> (\<exists>e. handle_stun_message S clk now' tc req st' = (Inl e, st'))"
proof
  show "transport_at st' sid eid ft' = Some t'"
    using timeout_removes [OF assms(1,2,9), of sid eid ft'] assms(5,6) by simp
  let ?fts = "idle_transports (now - int (gw_idle_timeout gw)) st"
  have st': "st' = foldl (\<lambda>st ft. remove_transport ft st) st ?fts"
    using assms(8,9) by (auto simp: gateway_handle_timeout_def)
  have "ft \<in> set ?fts" using idle_transports_iff [OF assms(1)] assms(3,4) by blast
  then have "find_candidate (candidate_username (tp_candidate t')) st' = None"
    unfolding st' assms(7) by (rule remove_transports_revoke [OF assms(2,3)])
  then show "\<exists>e. handle_stun_message S clk now' tc req st' = (Inl e, st')"
    using assms(10) by (auto simp: handle_stun_message_def check_stun_message_def)
qed

text \<open>The first participant of the example with a second path, heard of at time 40.\<close>

definition second_path :: "nat transport" where
  "second_path = transport_new demo_config 40 (demo_tuple 9) (demo_candidate 1)"

definition two_paths :: "(nat, unit) server_states" where
  "two_paths = snd (gateway_add_endpoint demo_stun 40 (Some ''sfu:peer'', True, True) (demo_candidate 1) (demo_context 9) demo_states)"

lemma two_paths_at:
  "transport_at two_paths sid eid ft =
     (if sid = 7 \<and> eid = 1 \<and> ft = demo_tuple 9 then Some second_path else transport_at demo_states sid eid ft)"
  "find_endpoint ft two_paths = (if ft = demo_tuple 9 then Some (7, 1) else find_endpoint ft demo_states)"
proof -
  have c: "cd_session_id (demo_candidate 1) = 7" "cd_endpoint_id (demo_candidate 1) = 1"
    by (simp_all add: demo_candidate_def candidate_new_def)
  have f: "hm_contains [(demo_tuple 1, demo_transport 1)] (demo_tuple 9) = False"
    by (simp add: hm_contains_def)
  have cfg: "scf_server_config (ss_config demo_session) = demo_config" by (simp add: demo_session_def)
  have st: "two_paths = states_add_endpoint (demo_tuple 9) 7 1 (put_session 7
      (demo_session\<lparr>ss_endpoints := hm_modify 1 (add_transport second_path) (ss_endpoints demo_session)\<rparr>) demo_states)"
    by (simp add: two_paths_def gateway_add_endpoint_def c Let_def session_add_endpoint_def f cfg second_path_def
        demo_stun_def)
  have n: "tp_four_tuple second_path = demo_tuple 9" by (simp add: second_path_def transport_new_def)
  show "transport_at two_paths sid eid ft =
     (if sid = 7 \<and> eid = 1 \<and> ft = demo_tuple 9 then Some second_path else transport_at demo_states sid eid ft)"
    unfolding st by (auto simp: transport_at_def states_add_endpoint_def put_session_def add_transport_def n split: option.splits)
  show "find_endpoint ft two_paths = (if ft = demo_tuple 9 then Some (7, 1) else find_endpoint ft demo_states)"
    unfolding st by (simp add: find_endpoint_def states_add_endpoint_def put_session_def)
qed

theorem idle_path_revokes_credentials_witness:
  "transport_at (snd (gateway_handle_timeout 60 demo_gateway two_paths)) 7 1 (demo_tuple 9) = Some second_path \<and>
   (\<exists>e. handle_stun_message demo_stun 61 61 (demo_context 9) (Some (candidate_username (demo_candidate 1)), False, True)
      (snd (gateway_handle_timeout 60 demo_gateway two_paths)) = (Inl e, snd (gateway_handle_timeout 60 demo_gateway two_paths)))"
proof (rule idle_path_revokes_credentials [where st = two_paths and t = "demo_transport 1" and ft = "demo_tuple 1"
      and gw = demo_gateway and now = 60 and gw' = "fst (gateway_handle_timeout 60 demo_gateway two_paths)"])
  show "states_ok two_paths" unfolding two_paths_def by (rule gateway_add_endpoint_ok [OF demo_states_ok])
  have "find_endpoint (demo_tuple 9) demo_states = None"
    by (simp add: find_endpoint_def demo_states_def)
  then show "routed two_paths"
    using demo_routed unfolding routed_def two_paths_at by fastforce
  show "transport_at two_paths 7 1 (demo_tuple 1) = Some (demo_transport 1)"
    by (simp add: two_paths_at) (simp add: transport_at_def)
qed (simp_all add: two_paths_at second_path_def transport_new_def demo_transport_def demo_gateway_def demo_stun_def)

end
