(* ===== verification/Media_Path.thy ===== *)
theory Media_Path
  imports Loop_Facts
begin

text \<open>
  The way of a media packet through a worker: from the datagram of one participant through all stages
  of the pipeline into the queue of the gateway, and from there through the stages the other way round
  and out of the socket to the other participants.
\<close>

section \<open>What the sender's own endpoint does not change\<close>

text \<open>The context that protects what is sent on a four-tuple.\<close>

definition send_key :: "('x, 'f) server_states \<Rightarrow> four_tuple \<Rightarrow> 'x option" where
  "send_key st ft = (case locate_transport ft st of Inr (_, _, t) \<Rightarrow> tp_local_srtp t | Inl e \<Rightarrow> None)"

lemma send_key_Some:
  "send_key st ft = Some y \<longleftrightarrow> (\<exists>sid eid t. locate_transport ft st = Inr (sid, eid, t) \<and> tp_local_srtp t = Some y)"
  by (auto simp: send_key_def split: sum.splits)

lemma send_key_at:
  "send_key st ft = Option.bind (find_endpoint ft st) (\<lambda>(sid, eid). Option.bind (transport_at st sid eid ft) tp_local_srtp)"
  by (auto simp: send_key_def locate_transport_def locate_endpoint_def transport_at_def ok_or_def and_then_def
      split: option.splits)

lemma send_key_modify:
  assumes "\<And>ep. Option.bind (hm_get (ep_transports (f ep)) ft) tp_local_srtp =
      Option.bind (hm_get (ep_transports ep) ft) tp_local_srtp"
  shows "send_key (modify_endpoint sid eid f st) ft = send_key st ft"
  using assms
  by (auto simp: send_key_at transport_at_def modify_endpoint_def find_endpoint_def split: option.splits Option.bind_split)

lemma filter_others_modify:
  "filter (\<lambda>(oid, _). oid \<noteq> eid) (hm_modify eid f m) = filter (\<lambda>(oid, _). oid \<noteq> eid) m"
  by (induction m) (auto simp: hm_modify_def)

lemma peers_own_change:
  assumes "find_endpoint (four_tuple_of tc) st = Some (sid, eid)"
  shows "get_other_media_transport_contexts tc (modify_endpoint sid eid f st) = get_other_media_transport_contexts tc st"
  using assms
  by (auto simp: get_other_media_transport_contexts_def other_endpoints_def ok_or_def and_then_def
      filter_others_modify split: option.splits)

text \<open>A change of the states that leaves everything alone that the way of media depends on.\<close>

definition same_route :: "transport_context \<Rightarrow> ('x, 'f) server_states \<Rightarrow> ('x, 'f) server_states \<Rightarrow> bool" where
  "same_route tc st st' \<longleftrightarrow>
     (\<exists>sid eid t. locate_transport (four_tuple_of tc) st' = Inr (sid, eid, t)) \<and>
     get_other_media_transport_contexts tc st' = get_other_media_transport_contexts tc st \<and>
     send_key st' = send_key st"

lemma same_route_trans: "same_route tc st st1 \<Longrightarrow> same_route tc st1 st2 \<Longrightarrow> same_route tc st st2"
  by (simp add: same_route_def)

lemma same_route_transport:
  assumes "locate_transport (four_tuple_of tc) st = Inr (sid, eid, t)" and "\<And>t. tp_local_srtp (f t) = tp_local_srtp t"
  shows "same_route tc st (snd (with_transport (four_tuple_of tc) f st))"
proof -
  let ?ft = "four_tuple_of tc"
  obtain ep where ep: "locate_endpoint ?ft st = Inr (sid, eid, ep)" "hm_get (ep_transports ep) ?ft = Some t"
    using assms(1) by (auto simp: locate_transport_Inr)
  have w: "snd (with_transport ?ft f st) = modify_endpoint sid eid (modify_transport ?ft f) st"
    using assms(1) by (simp add: with_transport_def)
  have "locate_transport ?ft (modify_endpoint sid eid (modify_transport ?ft f) st) = Inr (sid, eid, f t)"
    using locate_after_endpoint [OF ep(1)] ep(2) by (auto simp: locate_transport_Inr modify_transport_def)
  moreover have "send_key (modify_endpoint sid eid (modify_transport ?ft f) st) = send_key st"
    by (intro ext send_key_modify) (auto simp: modify_transport_def assms(2) split: Option.bind_split)
  moreover have "find_endpoint ?ft st = Some (sid, eid)" using ep(1) by (simp add: locate_endpoint_Inr)
  ultimately show ?thesis unfolding w same_route_def by (simp add: peers_own_change)
qed

lemma same_route_endpoint:
  assumes "locate_transport (four_tuple_of tc) st = Inr (sid, eid, t)" and "\<And>ep. ep_transports (f ep) = ep_transports ep"
  shows "same_route tc st (snd (with_endpoint (four_tuple_of tc) f st))"
proof -
  let ?ft = "four_tuple_of tc"
  obtain ep where ep: "locate_endpoint ?ft st = Inr (sid, eid, ep)" "hm_get (ep_transports ep) ?ft = Some t"
    using assms(1) by (auto simp: locate_transport_Inr)
  have w: "snd (with_endpoint ?ft f st) = modify_endpoint sid eid f st"
    using ep by (simp add: with_endpoint_def)
  have "locate_transport ?ft (modify_endpoint sid eid f st) = Inr (sid, eid, t)"
    using locate_after_endpoint [OF ep(1), of f] ep(2) assms(2) by (auto simp: locate_transport_Inr)
  moreover have "send_key (modify_endpoint sid eid f st) = send_key st"
    by (intro ext send_key_modify) (simp add: assms(2))
  moreover have "find_endpoint ?ft st = Some (sid, eid)" using ep(1) by (simp add: locate_endpoint_Inr)
  ultimately show ?thesis unfolding w same_route_def by (simp add: peers_own_change)
qed

section \<open>In\<close>

lemma handle_rtp_forwards:
  assumes "locate_transport (four_tuple_of tc) st = Inr (sid, eid, t)"
  shows "\<exists>st' tcs. get_other_media_transport_contexts tc st = Inr tcs \<and> same_route tc st st' \<and>
    handle_rtp_message audio clk now tc pkt st =
      (Inr (forward_to now (EvRtp (RtpRtp pkt)) tcs), st',
       if audio \<and> is_audio_payload_type (rtp_payload_type pkt) then [audio_info_of pkt] else [])"
proof -
  obtain st' where w: "with_transport (four_tuple_of tc) (keep_alive clk) st = (Inr (), st')"
    using assms by (simp add: with_transport_def)
  have r: "same_route tc st st'"
    using same_route_transport [OF assms, of "keep_alive clk"] w by (simp add: keep_alive_def)
  obtain s where "find_endpoint (four_tuple_of tc) st = Some (sid, eid)" "hm_get (st_sessions st) sid = Some s"
    using assms by (auto simp: locate_transport_Inr locate_endpoint_Inr)
  then obtain tcs where tcs: "get_other_media_transport_contexts tc st = Inr tcs"
    by (simp add: get_other_media_transport_contexts_def other_endpoints_def and_then_def)
  then have "get_other_media_transport_contexts tc st' = Inr tcs" using r by (simp add: same_route_def)
  with r tcs w show ?thesis by (simp add: handle_rtp_message_def and_then_def)
qed

text \<open>What a datagram with media leaves behind: the copies in the queue of the gateway, the audio, and
  everything else that sending depends on as it was.\<close>

definition media_queued ::
  "datagram \<Rightarrow> rtp_packet \<Rightarrow> transport_context list \<Rightarrow> ('x, 'f, 'm) sfu_state \<Rightarrow> ('x, 'f, 'm) sfu_state \<Rightarrow> bool" where
  "media_queued d pkt tcs S S' \<longleftrightarrow>
     gw_transmits (sf_gateway S') = gw_transmits (sf_gateway S) @ forward_to (dg_now d) (EvRtp (RtpRtp pkt)) tcs \<and>
     sf_interceptor S' = sf_interceptor S \<and> sf_datachannel S' = sf_datachannel S \<and> sf_sctp S' = sf_sctp S \<and>
     sf_dtls S' = sf_dtls S \<and> send_key (sf_states S') = send_key (sf_states S) \<and>
     sf_audio S' = sf_audio S @
       (if gw_audio (sf_gateway S) \<and> rtp_payload_type pkt \<in> {111, 109, 96} then [audio_info_of pkt] else []) \<and>
     sf_errors S' = sf_errors S"

lemma srtp_datagram_queued:
  fixes E :: "('x, 'f, 'm) sfu_env"
  assumes kind: "match_srtp (dg_message d)" "\<not> cl_is_rtcp (en_codec E) (dg_message d)"
    and sender: "locate_transport (four_tuple_of (dg_transport d)) (sf_states S) = Inr (sid, eid, t)"
      "tp_remote_srtp t = Some x"
    and plain: "cl_decrypt_rtp (en_codec E) x (dg_message d) = (x', Inr bs)" "cl_parse_rtp (en_codec E) bs = Inr pkt"
  shows "\<exists>S' tcs. pipeline_read E fresh clk d S = Some S' \<and>
    get_other_media_transport_contexts (dg_transport d) (sf_states S) = Inr tcs \<and> media_queued d pkt tcs S S'"
proof -
  let ?tc = "dg_transport d" let ?ft = "four_tuple_of ?tc"
  let ?m = "\<lambda>ev. \<lparr>tg_now = dg_now d, tg_transport = ?tc, tg_message = EvRtp ev\<rparr> :: 'm tagged"
  let ?st1 = "snd (with_transport ?ft (set_remote_srtp x') (sf_states S))"
  let ?S1 = "S\<lparr>sf_states := ?st1\<rparr>"
  have route1: "same_route ?tc (sf_states S) ?st1"
    by (rule same_route_transport [OF sender(1)]) (simp add: set_remote_srtp_def)
  then obtain sid1 eid1 t1 ep1 where t1: "locate_transport ?ft ?st1 = Inr (sid1, eid1, t1)"
    and ep1: "locate_endpoint ?ft ?st1 = Inr (sid1, eid1, ep1)"
    unfolding same_route_def locate_transport_Inr by blast
  obtain i where i: "interceptor_read (en_f64 E) (?m (RtpRtp pkt)) (ep_interceptor ep1) = ([], i)"
    using interceptor_read_media [of "?m (RtpRtp pkt)" pkt "en_f64 E" "ep_interceptor ep1"]
    by (cases "interceptor_read (en_f64 E) (?m (RtpRtp pkt)) (ep_interceptor ep1)") auto
  let ?st2 = "snd (with_endpoint ?ft (\<lambda>ep. ep\<lparr>ep_interceptor := i\<rparr>) ?st1)"
  have route2: "same_route ?tc (sf_states S) ?st2"
    by (rule same_route_trans [OF route1 same_route_endpoint [OF t1]]) simp
  then obtain sid2 eid2 t2 where t2: "locate_transport ?ft ?st2 = Inr (sid2, eid2, t2)"
    unfolding same_route_def by blast
  obtain st' tcs where tcs: "get_other_media_transport_contexts ?tc ?st2 = Inr tcs" "same_route ?tc ?st2 st'"
    and h: "handle_rtp_message (gw_audio (sf_gateway S)) clk (dg_now d) ?tc pkt ?st2 =
      (Inr (forward_to (dg_now d) (EvRtp (RtpRtp pkt)) tcs :: 'm tagged list), st',
       if gw_audio (sf_gateway S) \<and> is_audio_payload_type (rtp_payload_type pkt) then [audio_info_of pkt] else [])"
    using handle_rtp_forwards [OF t2] by blast
  have route3: "same_route ?tc (sf_states S) st'" by (rule same_route_trans [OF route2 tcs(2)])
  let ?S2 = "S\<lparr>sf_states := ?st2\<rparr>"
  let ?S3 = "S\<lparr>sf_states := st',
    sf_gateway := (sf_gateway S)\<lparr>gw_transmits := gw_transmits (sf_gateway S) @ forward_to (dg_now d) (EvRtp (RtpRtp pkt)) tcs\<rparr>,
    sf_audio := sf_audio S @
      (if gw_audio (sf_gateway S) \<and> is_audio_payload_type (rtp_payload_type pkt) then [audio_info_of pkt] else [])\<rparr>"
  have m0: "demuxer_read d = Some (?m (RtpRaw (dg_message d)))"
    using kind(1) by (cases "dg_message d")
      (auto simp: demuxer_read_def match_srtp_def match_dtls_def match_range_def word_le_nat_alt)
  have r1: "srtp_read (en_codec E) (?m (RtpRaw (dg_message d))) S = ([?m (RtpRtp pkt)], ?S1)"
    using kind(2) sender plain by (simp add: srtp_read_def srtp_try_read_def and_then_def)
  have r2: "interceptor_handle_read (en_f64 E) (?m (RtpRtp pkt)) ?S1 = ([?m (RtpRtp pkt)], ?S2)"
    using ep1 i by (simp add: interceptor_handle_read_def is_rtp_or_rtcp_def take_events_def Let_def)
  have r3: "gateway_stage_read (en_sfu E) (en_stun E) (en_json E) fresh clk (?m (RtpRtp pkt)) ?S2 = ([], ?S3)"
    using h by (simp add: gateway_stage_read_def gateway_handle_read_def gateway_dispatch_def)
  have "pipeline_read E fresh clk d S = Some ?S3"
    using r1 r2 r3
    by (simp add: pipeline_read_def m0 build_pipeline_def plain_stage_def stun_read_def dtls_stage_def
        dtls_handle_read_def sctp_stage_def sctp_handle_read_def datachannel_read_def interceptor_stage_def
        gateway_stage_def)
  moreover have "media_queued d pkt tcs S ?S3"
    using route3 by (simp add: media_queued_def same_route_def is_audio_payload_type_def opus_payload_types_def)
  ultimately show ?thesis
    using tcs(1) route2 unfolding same_route_def by auto
qed

section \<open>Out\<close>

text \<open>Nothing waits behind the gateway.\<close>

definition drained :: "('x, 'f, 'm) sfu_state \<Rightarrow> bool" where
  "drained S \<longleftrightarrow> sf_interceptor S = [] \<and> sf_datachannel S = [] \<and> sf_sctp S = [] \<and> sf_dtls S = []"

lemma poll_empty:
  assumes "drained S" and "gw_transmits (sf_gateway S) = []"
  shows "fst (poll_transmit E S) = None \<and> snd (poll_transmit E S) = S"
proof -
  have "sf_gateway S\<lparr>gw_transmits := []\<rparr> = sf_gateway S" using assms(2) by (cases "sf_gateway S") simp
  with assms show ?thesis
    by (simp add: drained_def poll_transmit_def build_pipeline_def plain_stage_def exception_write_def gateway_stage_def
        gateway_stage_write_def gateway_poll_write_def interceptor_stage_def interceptor_handle_write_def srtp_write_def
        datachannel_write_def sctp_stage_def sctp_handle_write_def dtls_stage_def dtls_handle_write_def stun_write_def
        demuxer_write_def)
qed

definition sent_state ::
  "'m tagged list \<Rightarrow> ('x, 'f) server_states \<Rightarrow> ('x, 'f, 'm) sfu_state \<Rightarrow> ('x, 'f, 'm) sfu_state" where
  "sent_state ms st S = S\<lparr>sf_gateway := (sf_gateway S)\<lparr>gw_transmits := ms\<rparr>, sf_states := st\<rparr>"

lemma poll_media:
  fixes S :: "('x, 'f, 'm) sfu_state"
  assumes "drained S" and q: "gw_transmits (sf_gateway S) = m # ms" and m: "tg_message m = EvRtp (RtpRtp p)"
    and key: "send_key (sf_states S) (four_tuple_of (tg_transport m)) = Some y"
    and bytes: "cl_show_rtp (en_codec E) p = Inr plain" "cl_encrypt_rtp (en_codec E) y plain = (y', Inr bs)"
  shows "poll_transmit E S =
    (Some \<lparr>dg_now = tg_now m, dg_transport = tg_transport m, dg_message = bs\<rparr>,
     sent_state ms (snd (with_transport (four_tuple_of (tg_transport m)) (set_local_srtp y') (sf_states S))) S)"
proof -
  let ?ft = "four_tuple_of (tg_transport m)"
  obtain sid eid t where t: "locate_transport ?ft (sf_states S) = Inr (sid, eid, t)" "tp_local_srtp t = Some y"
    using key by (auto simp: send_key_Some)
  obtain ep where ep: "locate_endpoint ?ft (sf_states S) = Inr (sid, eid, ep)"
    using t(1) by (auto simp: locate_transport_Inr)
  let ?S1 = "S\<lparr>sf_gateway := (sf_gateway S)\<lparr>gw_transmits := ms\<rparr>\<rparr>"
  have gw: "gateway_stage_write None S = (Some m, ?S1)"
    using q by (simp add: gateway_stage_write_def gateway_poll_write_def)
  have ic: "interceptor_handle_write (Some m) ?S1 = (Some m, ?S1)"
    using assms(1) ep m
    by (simp add: drained_def interceptor_handle_write_def is_rtp_or_rtcp_def take_events_def Let_def)
  have sr: "srtp_write (en_codec E) (Some m) ?S1 =
      (Some (m\<lparr>tg_message := EvRtp (RtpRaw bs)\<rparr>),
       sent_state ms (snd (with_transport ?ft (set_local_srtp y') (sf_states S))) S)"
    using t bytes m by (simp add: srtp_write_def srtp_try_write_def srtp_protect_def sent_state_def)
  show ?thesis
    using assms(1)
    by (simp add: drained_def poll_transmit_def build_pipeline_def plain_stage_def exception_write_def gateway_stage_def
        gw interceptor_stage_def ic sr datachannel_write_def datachannel_push_def sctp_stage_def sctp_handle_write_def
        dtls_stage_def dtls_handle_write_def stun_write_def demuxer_write_def sent_state_def)
qed

lemma send_key_other:
  assumes "ft' \<noteq> ft"
  shows "send_key (snd (with_transport ft f st)) ft' = send_key st ft'"
proof (cases "locate_transport ft st")
  case (Inr loc)
  then show ?thesis using assms
    by (cases loc) (simp add: with_transport_def send_key_modify modify_transport_def)
qed (simp add: with_transport_def)

lemma drained_sent [simp]: "drained (sent_state ms st S) = drained S"
  by (simp add: drained_def sent_state_def)

text \<open>A datagram that carries a message, protected with the context of its four-tuple.\<close>

definition sealed :: "('x, 'm) codec_lib \<Rightarrow> ('x, 'f) server_states \<Rightarrow> u8 list \<Rightarrow> datagram \<Rightarrow> bool" where
  "sealed C st plain d \<longleftrightarrow>
     (\<exists>y. send_key st (four_tuple_of (dg_transport d)) = Some y \<and>
          snd (cl_encrypt_rtp C y plain) = Inr (dg_message d))"

lemma media_leaves:
  fixes S :: "('x, 'f, 'm) sfu_state"
  assumes "drained S" and "gw_transmits (sf_gateway S) = ms"
    and "\<forall>m \<in> set ms. tg_message m = EvRtp (RtpRtp p) \<and> send_key (sf_states S) (four_tuple_of (tg_transport m)) \<noteq> None"
    and "distinct (map (four_tuple_of \<circ> tg_transport) ms)"
    and show_rtp: "cl_show_rtp (en_codec E) p = Inr plain"
    and enc: "\<And>y. \<exists>y' bs. cl_encrypt_rtp (en_codec E) y plain = (y', Inr bs)" and send: "\<And>k d. send k d = Inr ()"
  shows "\<exists>ds S'. write_socket_output E send k S = (Inr (), ds, S') \<and>
    map dg_transport ds = map tg_transport ms \<and> map dg_now ds = map tg_now ms \<and>
    (\<forall>d \<in> set ds. sealed (en_codec E) (sf_states S) plain d) \<and>
    gw_transmits (sf_gateway S') = [] \<and> drained S' \<and> sf_errors S' = sf_errors S \<and> sf_audio S' = sf_audio S"
  using assms(1-4)
proof (induction ms arbitrary: S k)
  case Nil
  have "poll_transmit E S = (None, S)" using poll_empty [OF Nil(1,2), of E] by (cases "poll_transmit E S") simp
  then show ?case using Nil(1,2) by (subst write_socket_output.simps) simp
next
  case (Cons m ms)
  let ?ft = "four_tuple_of (tg_transport m)"
  obtain y where y: "send_key (sf_states S) ?ft = Some y" using Cons.prems(3) by auto
  obtain y' bs where b: "cl_encrypt_rtp (en_codec E) y plain = (y', Inr bs)" using enc by blast
  let ?d = "\<lparr>dg_now = tg_now m, dg_transport = tg_transport m, dg_message = bs\<rparr>"
  let ?st = "snd (with_transport ?ft (set_local_srtp y') (sf_states S))"
  let ?S1 = "sent_state ms ?st S"
  have p: "poll_transmit E S = (Some ?d, ?S1)"
    using Cons.prems(3) by (intro poll_media [OF Cons.prems(1,2) _ y show_rtp b]) simp
  have other: "send_key ?st (four_tuple_of (tg_transport m')) = send_key (sf_states S) (four_tuple_of (tg_transport m'))"
    if "m' \<in> set ms" for m'
  proof (rule send_key_other)
    show "four_tuple_of (tg_transport m') \<noteq> ?ft" using Cons.prems(4) imageI [OF that, of "four_tuple_of \<circ> tg_transport"] by auto
  qed
  have s1: "sf_states ?S1 = ?st" "gw_transmits (sf_gateway ?S1) = ms" "sf_errors ?S1 = sf_errors S"
    "sf_audio ?S1 = sf_audio S" by (simp_all add: sent_state_def)
  have "\<forall>m' \<in> set ms. tg_message m' = EvRtp (RtpRtp p) \<and> send_key (sf_states ?S1) (four_tuple_of (tg_transport m')) \<noteq> None"
    using Cons.prems(3) other by (simp add: s1)
  then obtain ds S' where w: "write_socket_output E send (Suc k) ?S1 = (Inr (), ds, S')"
    and ds: "map dg_transport ds = map tg_transport ms" "map dg_now ds = map tg_now ms"
      "\<forall>d \<in> set ds. sealed (en_codec E) ?st plain d"
    and S': "gw_transmits (sf_gateway S') = []" "drained S'" "sf_errors S' = sf_errors S" "sf_audio S' = sf_audio S"
    using Cons.IH [of ?S1 "Suc k"] Cons.prems(1,4) s1 by auto
  have "sealed (en_codec E) (sf_states S) plain d" if "d \<in> set ds" for d
  proof -
    have "dg_transport d \<in> tg_transport ` set ms" using ds(1) that by (metis list.set_map rev_image_eqI)
    then obtain m' where "m' \<in> set ms" "dg_transport d = tg_transport m'" by blast
    moreover have "sealed (en_codec E) ?st plain d" using ds(3) that by blast
    ultimately show ?thesis using other [of m'] by (simp add: sealed_def)
  qed
  moreover have "sealed (en_codec E) (sf_states S) plain ?d" using y b by (simp add: sealed_def)
  ultimately show ?case
    using p send w ds S' by (subst write_socket_output.simps) simp
qed

section \<open>One copy per path\<close>

text \<open>Where every path can be found by its four-tuple, the contexts media goes to are distinct.\<close>

lemma routed_session_path:
  assumes "routed st" and "hm_get (st_sessions st) sid = Some s" and "hm_get (ss_endpoints s) oid = Some oep"
    and "hm_get (ep_transports oep) ft = Some t"
  shows "find_endpoint ft st = Some (sid, oid)"
  using assms unfolding routed_def by (metis transport_at_Some)

lemma media_contexts_distinct:
  assumes ok: "states_ok st" and ro: "routed st" and r: "get_other_media_transport_contexts tc st = Inr tcs"
  shows "distinct (map four_tuple_of tcs)"
proof -
  obtain sid eid s where s: "hm_get (st_sessions st) sid = Some s"
    and tcs: "tcs = concat (map (\<lambda>oep. map (\<lambda>(oft, t). context_of oft (tc_ecn tc))
                (filter (\<lambda>(oft, t). is_local_srtp_context_ready t) (ep_transports oep)))
                (map snd (filter (\<lambda>(oid, _). oid \<noteq> eid) (ss_endpoints s))))"
    using r by (auto simp: get_other_media_transport_contexts_def other_endpoints_def result_simps)
  let ?paths = "\<lambda>ep. map fst (filter (\<lambda>(oft, t). is_local_srtp_context_ready t) (ep_transports ep))"
  let ?others = "filter (\<lambda>(oid, _). oid \<noteq> eid) (ss_endpoints s)"
  have eq: "map four_tuple_of tcs = concat (map (\<lambda>(oid, ep). ?paths ep) ?others)"
    unfolding tcs by (simp add: map_concat comp_def case_prod_beta')
  have sok: "session_ok (states_config st) sid s" using states_okD(4) [OF ok s] .
  have wf: "hm_wf (ss_endpoints s)" by (rule session_okD(1) [OF sok])
  have mem: "hm_get (ss_endpoints s) oid = Some ep" if "(oid, ep) \<in> set (ss_endpoints s)" for oid ep
    using that hm_in_set_get [OF wf] by blast
  have twf: "hm_wf (ep_transports ep)" if "(oid, ep) \<in> set (ss_endpoints s)" for oid ep
    using session_okD(4) [OF sok mem [OF that]] by (simp add: endpoint_ok_def transports_ok_def)
  have owner: "find_endpoint ft st = Some (sid, oid)"
    if e: "(oid, ep) \<in> set (ss_endpoints s)" "ft \<in> set (?paths ep)" for oid ep ft
  proof -
    obtain t where t: "(ft, t) \<in> set (ep_transports ep)" using e(2) by auto
    show ?thesis
      by (rule routed_session_path [OF ro s mem [OF e(1)]])
        (use t in \<open>simp add: hm_in_set_get [OF twf [OF e(1)]]\<close>)
  qed
  have "distinct (concat (map (\<lambda>(oid, ep). ?paths ep) ?others))"
  proof (rule distinct_concat_keys)
    show "distinct (map fst ?others)" using wf by (simp add: hm_wf_def distinct_map_filter)
    show "distinct (case x of (oid, ep) \<Rightarrow> ?paths ep)" if "x \<in> set ?others" for x
      using that twf by (auto simp: hm_wf_def distinct_map_filter)
    show "fst x = fst y" if "x \<in> set ?others" "y \<in> set ?others"
      "ft \<in> set (case x of (oid, ep) \<Rightarrow> ?paths ep)" "ft \<in> set (case y of (oid, ep) \<Rightarrow> ?paths ep)" for x y ft
    proof -
      obtain oid ep oid' ep' where "x = (oid, ep)" "y = (oid', ep')" by (metis prod.exhaust)
      then show ?thesis using owner [of oid ep ft] owner [of oid' ep' ft] that by simp
    qed
  qed
  then show ?thesis unfolding eq .
qed

lemma target_key:
  assumes "routed st" and "hm_get (st_sessions st) sid = Some s" and "ft \<in> media_targets s eid"
  shows "send_key st ft \<noteq> None"
proof -
  obtain oid oep t where t: "hm_get (ss_endpoints s) oid = Some oep" "hm_get (ep_transports oep) ft = Some t"
    "tp_local_srtp t \<noteq> None" using assms(3) by (auto simp: media_targets_def)
  have "find_endpoint ft st = Some (sid, oid)" by (rule routed_session_path [OF assms(1,2) t(1,2)])
  moreover have "transport_at st sid oid ft = Some t" using assms(2) t by (auto simp: transport_at_Some)
  ultimately show ?thesis using t(3) by (simp add: send_key_at)
qed

section \<open>In and out\<close>

text \<open>C2: Media reaches the other participants.  A datagram that carries an SRTP packet of a registered
  transport goes in through all stages of the pipeline, and the next pass over the output sends
  exactly one datagram to each transport of the other endpoints of the session whose SRTP context is
  ready, and none to anybody else.  Each carries the packet protected with the context of
  the transport it goes to.  Nothing stays queued, and the audio is given to the callback exactly if there
  is one and the payload type is one of the three for Opus.\<close>

theorem srtp_datagram_relayed:
  fixes E :: "('x, 'f, 'm) sfu_env"
  assumes ok: "states_ok (sf_states S)" "routed (sf_states S)" "drained S" "gw_transmits (sf_gateway S) = []"
    and kind: "match_srtp (dg_message d)" "\<not> cl_is_rtcp (en_codec E) (dg_message d)"
    and sender: "locate_transport (four_tuple_of (dg_transport d)) (sf_states S) = Inr (sid, eid, t)"
      "tp_remote_srtp t = Some x" "hm_get (st_sessions (sf_states S)) sid = Some s"
    and plain: "cl_decrypt_rtp (en_codec E) x (dg_message d) = (x', Inr bs)" "cl_parse_rtp (en_codec E) bs = Inr pkt"
    and cipher: "cl_show_rtp (en_codec E) pkt = Inr bs'" "\<And>y. \<exists>y' c. cl_encrypt_rtp (en_codec E) y bs' = (y', Inr c)"
    and send: "\<And>k d'. send k d' = Inr ()"
  shows "\<exists>S1 ds S2. pipeline_read E fresh clk d S = Some S1 \<and>
    write_socket_output E send k S1 = (Inr (), ds, S2) \<and>
    distinct (map dg_transport ds) \<and>
    dg_transport ` set ds = (\<lambda>ft. context_of ft (tc_ecn (dg_transport d))) ` media_targets s eid \<and>
    (\<forall>d' \<in> set ds. sealed (en_codec E) (sf_states S) bs' d' \<and> dg_now d' = dg_now d) \<and>
    drained S2 \<and> gw_transmits (sf_gateway S2) = [] \<and> sf_errors S2 = sf_errors S \<and>
    sf_audio S2 = sf_audio S @
      (if gw_audio (sf_gateway S) \<and> rtp_payload_type pkt \<in> {111, 109, 96} then [audio_info_of pkt] else [])"
proof -
  obtain S1 tcs where r: "pipeline_read E fresh clk d S = Some S1"
    and tcs: "get_other_media_transport_contexts (dg_transport d) (sf_states S) = Inr tcs"
    and q: "media_queued d pkt tcs S S1"
    using srtp_datagram_queued [OF kind sender(1,2) plain] by blast
  let ?ms = "forward_to (dg_now d) (EvRtp (RtpRtp pkt)) tcs :: 'm tagged list"
  have ids: "find_endpoint (four_tuple_of (dg_transport d)) (sf_states S) = Some (sid, eid)"
    using sender(1) by (auto simp: locate_transport_Inr locate_endpoint_Inr)
  have targets: "set tcs = (\<lambda>ft. context_of ft (tc_ecn (dg_transport d))) ` media_targets s eid"
    using media_contexts_targets [OF ok(1) tcs] ids sender(3) by auto
  have "send_key (sf_states S) ft \<noteq> None" if "ft \<in> media_targets s eid" for ft
    by (rule target_key [OF ok(2) sender(3) that])
  then have ready: "\<forall>m \<in> set ?ms. tg_message m = EvRtp (RtpRtp pkt) \<and>
      send_key (sf_states S1) (four_tuple_of (tg_transport m)) \<noteq> None"
    using q targets by (auto simp: media_queued_def forward_to_def)
  have once: "distinct (map four_tuple_of tcs)" by (rule media_contexts_distinct [OF ok(1,2) tcs])
  have "map (four_tuple_of \<circ> tg_transport) ?ms = map four_tuple_of tcs" by (simp add: forward_to_def)
  then have "distinct (map (four_tuple_of \<circ> tg_transport) ?ms)" using once by simp
  moreover have "drained S1" "gw_transmits (sf_gateway S1) = ?ms"
    using q ok(3,4) by (simp_all add: media_queued_def drained_def)
  ultimately obtain ds S2 where w: "write_socket_output E send k S1 = (Inr (), ds, S2)"
    and ds: "map dg_transport ds = map tg_transport ?ms" "map dg_now ds = map tg_now ?ms"
      "\<forall>d' \<in> set ds. sealed (en_codec E) (sf_states S1) bs' d'"
    and S2: "gw_transmits (sf_gateway S2) = []" "drained S2" "sf_errors S2 = sf_errors S1" "sf_audio S2 = sf_audio S1"
    using media_leaves [where send = send and k = k, OF _ _ ready _ cipher send] by blast
  have tr: "map dg_transport ds = tcs" using ds(1) by (simp add: forward_to_def comp_def)
  have now: "dg_now d' = dg_now d" if "d' \<in> set ds" for d'
  proof -
    have "dg_now d' \<in> set (map tg_now ?ms)" using that ds(2) by (metis in_set_conv_nth length_map nth_map nth_mem)
    then show ?thesis by (auto simp: forward_to_def)
  qed
  have key: "sealed (en_codec E) (sf_states S) bs' d'" if "d' \<in> set ds" for d'
    using ds(3) that q by (simp add: sealed_def media_queued_def)
  have "distinct (map dg_transport ds)" using once unfolding tr by (simp add: distinct_map)
  moreover have "dg_transport ` set ds = set tcs" using tr by (metis list.set_map)
  ultimately show ?thesis
    using r w S2 q now key targets by (auto simp: media_queued_def)
qed

lemma routed_modify:
  assumes "routed st" and "\<And>ep ft. hm_get (ep_transports (f ep)) ft = None \<longleftrightarrow> hm_get (ep_transports ep) ft = None"
  shows "routed (modify_endpoint sid eid f st)"
proof -
  have "\<exists>t'. transport_at st sid' eid' ft = Some t'" if "transport_at (modify_endpoint sid eid f st) sid' eid' ft = Some t"
    for sid' eid' ft t
    using that assms(2)
    by (auto simp: transport_at_Some modify_endpoint_def split: if_splits) (metis not_None_eq)+
  then show ?thesis
    using assms(1) unfolding routed_def by (metis find_endpoint_def modify_endpoint_session(2))
qed

theorem srtp_datagram_relayed_witness:
  "\<exists>S1 ds S2. pipeline_read demo_env \<lparr>ip_username_fragment = ''ijkl'', ip_password = ''mnop''\<rparr> 0
        \<lparr>dg_now = 0, dg_transport = demo_context 1, dg_message = 128 # replicate 13 0\<rparr>
        (sfu_state_new True 0 (snd (with_transport (demo_tuple 1) (set_remote_srtp 9) demo_states))) = Some S1 \<and>
     write_socket_output demo_env (\<lambda>k d. Inr ()) 0 S1 = (Inr (), ds, S2) \<and>
     distinct (map dg_transport ds) \<and> dg_transport ` set ds = {demo_context 2}"
proof -
  let ?st = "snd (with_transport (demo_tuple 1) (set_remote_srtp 9) demo_states)"
  let ?S = "sfu_state_new True 0 ?st :: (nat, unit, string option \<times> bool \<times> bool) sfu_state"
  let ?s = "demo_session\<lparr>ss_endpoints :=
      hm_modify 1 (modify_transport (demo_tuple 1) (set_remote_srtp 9)) (ss_endpoints demo_session)\<rparr>"
  have st: "?st = modify_endpoint 7 1 (modify_transport (demo_tuple 1) (set_remote_srtp 9)) demo_states"
    by (simp add: with_transport_def demo_at_transport)
  have ok: "states_ok ?st" by (rule with_transport_ok) (simp_all add: demo_states_ok)
  have ro: "routed ?st"
    unfolding st by (rule routed_modify [OF demo_routed]) (simp add: modify_transport_def)
  have s: "hm_get (st_sessions ?st) 7 = Some ?s"
    unfolding st by simp
  have targets: "media_targets ?s 1 = {demo_tuple 2}"
    by (auto simp: media_targets_def demo_session_def demo_transport_def split: if_splits)
  have "\<exists>S1 ds S2. pipeline_read demo_env \<lparr>ip_username_fragment = ''ijkl'', ip_password = ''mnop''\<rparr> 0
        \<lparr>dg_now = 0, dg_transport = demo_context 1, dg_message = 128 # replicate 13 0\<rparr> ?S = Some S1 \<and>
    write_socket_output demo_env (\<lambda>k d. Inr ()) 0 S1 = (Inr (), ds, S2) \<and> distinct (map dg_transport ds) \<and>
    dg_transport ` set ds = (\<lambda>ft. context_of ft (tc_ecn (demo_context 1))) ` media_targets ?s 1 \<and>
    (\<forall>d' \<in> set ds. sealed demo_codec ?st (replicate 14 0) d' \<and> dg_now d' = 0) \<and>
    drained S2 \<and> gw_transmits (sf_gateway S2) = [] \<and> sf_errors S2 = sf_errors ?S \<and>
    sf_audio S2 = sf_audio ?S @
      (if gw_audio (sf_gateway ?S) \<and> rtp_payload_type demo_packet \<in> {111, 109, 96} then [audio_info_of demo_packet] else [])"
    using srtp_datagram_relayed [where E = demo_env and S = ?S
        and d = "\<lparr>dg_now = 0, dg_transport = demo_context 1, dg_message = 128 # replicate 13 0\<rparr>"
        and sid = 7 and eid = 1 and t = "set_remote_srtp 9 (demo_transport 1)" and x = 9 and x' = 10 and s = ?s
        and bs = "128 # replicate 13 0" and bs' = "replicate 14 0" and send = "\<lambda>k d. Inr ()" and k = 0
        and pkt = demo_packet and clk = 0 and fresh = "\<lparr>ip_username_fragment = ''ijkl'', ip_password = ''mnop''\<rparr>"]
      ok ro s demo_relocated [of "set_remote_srtp 9"]
    by (simp add: sfu_state_new_def drained_def gateway_new_def match_srtp_def match_range_def demo_codec_def
        set_remote_srtp_def)
  then show ?thesis unfolding targets by (auto simp: demo_context_def context_of_def)
qed

end
