(* ===== verification/Path_Refinement.thy ===== *)
theory Path_Refinement
  imports Loop_Facts Paths
begin

text \<open>
  A media worker as a refinement of a small abstract machine on \<open>paths\<close>: which endpoint has a path on
  which four-tuple, when media last came in on it, and to which endpoint each four-tuple leads.  Four
  kinds of steps change it: a nomination, media, and the removal of a path that is or is not the last one
  of its endpoint.  What holds for all runs of the abstract machine holds for the worker.
\<close>

section \<open>The abstract machine\<close>

definition path_media :: "four_tuple \<Rightarrow> instant \<Rightarrow> paths \<Rightarrow> paths" where
  "path_media ft now P =
     (case pt_owner P ft of
        Some (sid, eid) \<Rightarrow> if pt_activity P sid eid ft = None then P else set_path sid eid ft (Some now) P
      | None \<Rightarrow> P)"

inductive path_step :: "paths \<Rightarrow> paths \<Rightarrow> bool" where
  nominate: "path_step P (path_nominated sid eid ft now P)"
| media: "path_step P (path_media ft now P)"
| remove: "pt_owner P ft = Some (sid, eid) \<Longrightarrow> pt_activity P sid eid ft' \<noteq> None \<Longrightarrow> ft' \<noteq> ft \<Longrightarrow>
     path_step P (set_path sid eid ft None P)"
| remove_last: "pt_owner P ft = Some (sid, eid) \<Longrightarrow> (\<And>ft'. ft' \<noteq> ft \<Longrightarrow> pt_activity P sid eid ft' = None) \<Longrightarrow>
     path_step P ((set_path sid eid ft None P)\<lparr>pt_owner := (pt_owner P)(ft := None)\<rparr>)"

inductive_cases path_stepE: "path_step P P'"

lemma set_path_simps [simp]:
  "pt_activity (set_path sid eid ft v P) sid' eid' ft' =
     (if sid' = sid \<and> eid' = eid \<and> ft' = ft then v else pt_activity P sid' eid' ft')"
  "pt_owner (set_path sid eid ft v P) = pt_owner P"
  by (simp_all add: set_path_def)

text \<open>A path that its four-tuple does not lead to any more.\<close>

definition taken_over :: "session_id \<Rightarrow> endpoint_id \<Rightarrow> four_tuple \<Rightarrow> paths \<Rightarrow> bool" where
  "taken_over sid eid ft P \<longleftrightarrow> pt_activity P sid eid ft \<noteq> None \<and> pt_owner P ft \<noteq> Some (sid, eid)"

lemma taken_over_step: "path_step P P' \<Longrightarrow> taken_over sid eid ft P \<Longrightarrow> taken_over sid eid ft P'"
  by (erule path_stepE)
     (auto simp: taken_over_def path_nominated_def path_media_def split: option.splits prod.splits)

interpretation takeover: state_machine "taken_over sid eid ft" path_step "taken_over sid eid ft" for sid eid ft
  by unfold_locales (auto intro: taken_over_step)

text \<open>Every path is found by its four-tuple as long as no nomination takes over a four-tuple.\<close>

definition paths_routed :: "paths \<Rightarrow> bool" where
  "paths_routed P \<longleftrightarrow> (\<forall>sid eid ft. pt_activity P sid eid ft \<noteq> None \<longrightarrow> pt_owner P ft = Some (sid, eid))"

lemma paths_routed_iff: "paths_routed (paths_of st) \<longleftrightarrow> routed st"
  by (auto simp: paths_routed_def routed_def activity_def)

lemma nominated_routed:
  assumes "paths_routed P" and "pt_owner P ft \<in> {None, Some (sid, eid)}"
  shows "paths_routed (path_nominated sid eid ft now P)"
proof -
  have *: "pt_activity P sid' eid' ft = None" if "pt_activity P sid eid ft = None" "(sid', eid') \<noteq> (sid, eid)" for sid' eid'
    using assms that unfolding paths_routed_def by (cases "pt_owner P ft") force+
  show ?thesis
    using assms(1) * by (auto simp: paths_routed_def path_nominated_def)
qed

section \<open>The operations of the server states\<close>

lemma paths_eqI:
  assumes "\<And>sid eid ft. activity st sid eid ft = pt_activity P sid eid ft" and "\<And>ft. find_endpoint ft st = pt_owner P ft"
  shows "paths_of st = P"
proof -
  have "activity st = pt_activity P" "(\<lambda>ft. find_endpoint ft st) = pt_owner P" using assms by (auto simp: fun_eq_iff)
  then show ?thesis by (simp add: paths_of_def)
qed

lemma find_endpoint_modify [simp]: "find_endpoint ft (modify_endpoint sid eid f st) = find_endpoint ft st"
  by (simp add: find_endpoint_def modify_endpoint_def)

lemma modify_transport_activity:
  assumes "transport_at st sid eid ft = Some t"
  shows "activity (modify_endpoint sid eid (modify_transport ft f) st) sid' eid' ft' =
    (if sid' = sid \<and> eid' = eid \<and> ft' = ft then Some (tp_last_activity (f t)) else activity st sid' eid' ft')"
  using assms
  by (auto simp: activity_def transport_at_def modify_endpoint_def modify_transport_def split: option.splits if_splits)

lemma locate_transport_at:
  "locate_transport ft st = Inr (sid, eid, t) \<longleftrightarrow> find_endpoint ft st = Some (sid, eid) \<and> transport_at st sid eid ft = Some t"
  by (auto simp: locate_transport_def locate_endpoint_def transport_at_def result_simps split: option.splits)

lemma keep_alive_paths: "paths_of (snd (with_transport ft (keep_alive clk) st)) = path_media ft clk (paths_of st)"
proof (cases "locate_transport ft st")
  case (Inl e)
  then have "transport_at st sid eid ft = None" if "find_endpoint ft st = Some (sid, eid)" for sid eid
    using that locate_transport_at [of ft st sid eid] by (cases "transport_at st sid eid ft") auto
  then show ?thesis
    using Inl by (auto simp: with_transport_def path_media_def activity_def split: option.splits)
next
  case (Inr loc)
  obtain sid eid t where t: "find_endpoint ft st = Some (sid, eid)" "transport_at st sid eid ft = Some t"
    "loc = (sid, eid, t)" using Inr by (cases loc) (auto simp: locate_transport_at)
  have "snd (with_transport ft (keep_alive clk) st) = modify_endpoint sid eid (modify_transport ft (keep_alive clk)) st"
    using Inr t(3) by (simp add: with_transport_def)
  moreover have "activity st sid eid ft \<noteq> None" using t(2) by (simp add: activity_def)
  ultimately show ?thesis
    using t by (intro paths_eqI) (auto simp: modify_transport_activity path_media_def keep_alive_def)
qed

lemma transport_update_paths:
  assumes "same_path f"
  shows "same_paths st (snd (with_transport ft f st))"
proof (cases "locate_transport ft st")
  case (Inr loc)
  then show ?thesis
    using assms
    by (cases loc) (auto simp: with_transport_def modify_transport_def same_path_def option.map_comp comp_def
        intro!: modify_endpoint_paths split: option.splits)
qed (simp add: with_transport_def)

lemma map_endpoints_paths:
  assumes "\<And>ep ft. map_option tp_last_activity (hm_get (ep_transports (f ep)) ft) =
      map_option tp_last_activity (hm_get (ep_transports ep) ft)"
  shows "same_paths st (map_endpoints f st)"
  using assms
  by (auto simp: same_paths_iff fun_eq_iff activity_session last_active_def map_endpoints_def find_endpoint_def
      option.map_comp split: Option.bind_split)

lemma map_transports_paths: "same_path f \<Longrightarrow> same_paths st (map_transports f st)"
  unfolding map_transports_def by (rule map_endpoints_paths) (simp add: option.map_comp comp_def same_path_def)

lemma remove_transport_paths: "path_step\<^sup>*\<^sup>* (paths_of st) (paths_of (remove_transport ft st))"
proof (cases "\<exists>sid eid s ep. find_endpoint ft st = Some (sid, eid) \<and> hm_get (st_sessions st) sid = Some s \<and>
                hm_get (ss_endpoints s) eid = Some ep")
  case True
  then obtain sid eid s ep where f: "find_endpoint ft st = Some (sid, eid)"
    "hm_get (st_sessions st) sid = Some s" "hm_get (ss_endpoints s) eid = Some ep" by blast
  let ?P = "paths_of st" let ?P' = "paths_of (remove_transport ft st)"
  have at: "activity st sid eid ft' = map_option tp_last_activity (hm_get (ep_transports ep) ft')" for ft'
    using f(2,3) by (simp add: activity_def transport_at_def)
  have last: "hm_remove ft (ep_transports ep) = [] \<longleftrightarrow> (\<forall>ft'. ft' \<noteq> ft \<longrightarrow> activity st sid eid ft' = None)"
    by (auto simp: hm_empty_iff at)
  have P': "?P' = (if hm_remove ft (ep_transports ep) = []
      then (set_path sid eid ft None ?P)\<lparr>pt_owner := (pt_owner ?P)(ft := None)\<rparr> else set_path sid eid ft None ?P)"
    using transport_at_remove_found [OF f] by (intro paths_eqI) (auto simp: activity_def)
  show ?thesis
  proof (cases "hm_remove ft (ep_transports ep) = []")
    case True
    then show ?thesis using P' f(1) last by (auto intro!: r_into_rtranclp path_step.remove_last)
  next
    case False
    then obtain ft' where "ft' \<noteq> ft" "activity st sid eid ft' \<noteq> None" using last by blast
    then show ?thesis using P' f(1) False by (auto intro!: r_into_rtranclp path_step.remove [of _ ft sid eid ft'])
  qed
next
  case False
  then have "remove_transport ft st = st" by (auto simp: remove_transport_def split: option.splits)
  then show ?thesis by simp
qed

section \<open>The gateway\<close>

text \<open>What a message does to the paths.\<close>

definition gateway_effect ::
  "'m stun_lib \<Rightarrow> instant \<Rightarrow> 'm tagged \<Rightarrow> ('x, 'f) server_states \<Rightarrow> paths \<Rightarrow> paths" where
  "gateway_effect S clk msg st P =
     (case tg_message msg of
        EvStun (StunMsg m) \<Rightarrow>
          (case nominated_candidate S st m of
             Some c \<Rightarrow> path_nominated (cd_session_id c) (cd_endpoint_id c) (four_tuple_of (tg_transport msg)) clk P
           | None \<Rightarrow> P)
      | EvRtp (RtpRtp p) \<Rightarrow> path_media (four_tuple_of (tg_transport msg)) clk P
      | EvRtp (RtpRtcp ps) \<Rightarrow> path_media (four_tuple_of (tg_transport msg)) clk P
      | _ \<Rightarrow> P)"

lemma handle_rtp_paths:
  "paths_of (fst (snd (handle_rtp_message audio clk now tc pkt st))) = path_media (four_tuple_of tc) clk (paths_of st)"
  "paths_of (snd (handle_rtcp_message clk now tc pkts st)) = path_media (four_tuple_of tc) clk (paths_of st)"
  using keep_alive_paths [of "four_tuple_of tc" clk st]
  by (auto simp: handle_rtp_message_def handle_rtcp_message_def split: prod.splits sum.splits)

lemma gateway_dispatch_paths:
  "paths_of (fst (snd (gateway_dispatch E S J fresh clk audio msg st))) = gateway_effect S clk msg st (paths_of st)"
  using handle_dtls_message_paths [of st E J fresh clk "tg_now msg" "tg_transport msg"]
  by (auto simp: gateway_dispatch_def gateway_effect_def case_prod_beta same_paths_def handle_rtp_paths
      handle_stun_message_paths split: message_event.splits stun_event.splits dtls_event.splits rtp_event.splits)

lemma gateway_read_paths:
  assumes "gateway_handle_read E S J fresh clk msg gw st = (gw', st', e, au)"
  shows "paths_of st' = gateway_effect S clk msg st (paths_of st)"
  using assms gateway_dispatch_paths [of E S J fresh clk "gw_audio gw" msg st]
  by (auto simp: gateway_handle_read_def split: prod.splits sum.splits)

lemma gateway_effect_steps: "path_step\<^sup>*\<^sup>* P (gateway_effect S clk msg st P)"
  by (auto simp: gateway_effect_def intro: path_step.intros
      split: message_event.splits stun_event.splits rtp_event.splits option.splits)

interpretation reached: states_contract "\<lambda>st. path_step\<^sup>*\<^sup>* P (paths_of st)" E for P and E :: "('x, 'f, 'm) sfu_env"
proof
  fix st :: "('x, 'f) server_states" and ft
  assume r: "path_step\<^sup>*\<^sup>* P (paths_of st)"
  show "path_step\<^sup>*\<^sup>* P (paths_of (remove_transport ft st))"
    by (rule rtranclp_trans [OF r remove_transport_paths])
  fix f :: "'x transport \<Rightarrow> 'x transport"
  assume "same_path f"
  then show "path_step\<^sup>*\<^sup>* P (paths_of (snd (with_transport ft f st)))" "path_step\<^sup>*\<^sup>* P (paths_of (map_transports f st))"
    using r transport_update_paths map_transports_paths unfolding same_paths_def by metis+
next
  fix st :: "('x, 'f) server_states" and ft i k
  assume r: "path_step\<^sup>*\<^sup>* P (paths_of st)"
  show "path_step\<^sup>*\<^sup>* P (paths_of (map_endpoints (\<lambda>ep. ep\<lparr>ep_interceptor := k ep\<rparr>) st))"
    using r map_endpoints_paths [of "\<lambda>ep. ep\<lparr>ep_interceptor := k ep\<rparr>" st] by (simp add: same_paths_def)
  show "path_step\<^sup>*\<^sup>* P (paths_of (snd (with_endpoint ft (\<lambda>ep. ep\<lparr>ep_interceptor := i\<rparr>) st)))"
    using r modify_endpoint_paths [of "\<lambda>ep. ep\<lparr>ep_interceptor := i\<rparr>" st]
    by (auto simp: with_endpoint_def same_paths_def split: sum.splits)
next
  fix st st' :: "('x, 'f) server_states" and fresh clk msg gw gw' err au
  assume r: "path_step\<^sup>*\<^sup>* P (paths_of st)"
    and g: "gateway_handle_read (en_sfu E) (en_stun E) (en_json E) fresh clk msg gw st = (gw', st', err, au)"
  show "path_step\<^sup>*\<^sup>* P (paths_of st')"
    unfolding gateway_read_paths [OF g] by (rule rtranclp_trans [OF r gateway_effect_steps])
next
  fix st :: "('x, 'f) server_states" and fresh now sid eid d
  assume "path_step\<^sup>*\<^sup>* P (paths_of st)"
  then show "path_step\<^sup>*\<^sup>* P (paths_of (snd (accept_offer (en_sfu E) fresh now sid eid None d st)))"
    using accept_offer_paths [of st "en_sfu E" fresh now sid eid None d] by (simp add: same_paths_def)
qed

section \<open>Runs of a media worker\<close>

lemma turns_paths:
  "(media_worker_turn E show_err)\<^sup>*\<^sup>* w w' \<Longrightarrow> path_step\<^sup>*\<^sup>* (paths_of (sf_states (ml_sfu w))) (paths_of (sf_states (ml_sfu w')))"
proof (induction rule: rtranclp_induct)
  case (step w1 w2)
  then show ?case
    using reached.turn_keeps unfolding media_worker_turn_def holds_def by blast
qed simp

lemma loop_run_paths:
  assumes "loop_run E show_err inputs w = Some t" and "loop_state t = Some w'"
  shows "path_step\<^sup>*\<^sup>* (paths_of (sf_states (ml_sfu w))) (paths_of (sf_states (ml_sfu w')))"
  by (rule turns_paths [OF loop_run_reaches [OF assms]])

definition no_paths :: paths where
  "no_paths = \<lparr>pt_activity = (\<lambda>_ _ _. None), pt_owner = (\<lambda>_. None)\<rparr>"

lemma loop_start_paths: "loop_start E cfg transcription clk = Inr w \<Longrightarrow> paths_of (sf_states (ml_sfu w)) = no_paths"
  by (auto simp: loop_start_def sfu_state_new_def and_then_def server_states_new_def no_paths_def activity_def
      transport_at_def find_endpoint_def intro!: paths_eqI split: sum.splits list.splits)


section \<open>Paths that are taken over\<close>

lemma nomination_takes_over:
  assumes "transport_at st sid eid ft = Some t" and "ft = four_tuple_of tc"
    and "gateway_add_endpoint S clk req c tc st = (Inr b, st')" and "su_has_use_candidate S req"
    and "(cd_session_id c, cd_endpoint_id c) \<noteq> (sid, eid)"
    and "transport_at st (cd_session_id c) (cd_endpoint_id c) ft = None"
  shows "taken_over sid eid ft (paths_of st')"
proof -
  have "hm_get (st_sessions st) (cd_session_id c) \<noteq> None"
    using assms(3) by (auto simp: gateway_add_endpoint_def Let_def split: option.splits)
  then have "paths_of st' = path_nominated (cd_session_id c) (cd_endpoint_id c) ft clk (paths_of st)"
    using gateway_add_endpoint_paths [of S clk req c tc st] assms(2,3,4) by simp
  then show ?thesis
    using assms(1,5,6) by (auto simp: taken_over_def path_nominated_def activity_def)
qed

text \<open>C22: A path is taken over when another endpoint nominates the same four-tuple, and then it stays
  for ever: no idle check, no close of DTLS and nothing else a worker ever does removes the old
  transport, and datagrams on the four-tuple never lead to it again.\<close>

theorem taken_over_path_stays:
  assumes "transport_at st sid eid (four_tuple_of tc) = Some t"
    and "gateway_add_endpoint S clk req c tc st = (Inr b, sf_states (ml_sfu w))" and "su_has_use_candidate S req"
    and "(cd_session_id c, cd_endpoint_id c) \<noteq> (sid, eid)"
    and "transport_at st (cd_session_id c) (cd_endpoint_id c) (four_tuple_of tc) = None"
    and "loop_run E show_err inputs w = Some r" and "loop_state r = Some w'"
  shows "transport_at (sf_states (ml_sfu w')) sid eid (four_tuple_of tc) \<noteq> None \<and>
    find_endpoint (four_tuple_of tc) (sf_states (ml_sfu w')) \<noteq> Some (sid, eid)"
proof -
  have "taken_over sid eid (four_tuple_of tc) (paths_of (sf_states (ml_sfu w)))"
    by (rule nomination_takes_over [OF assms(1) refl assms(2-5)])
  then have "taken_over sid eid (four_tuple_of tc) (paths_of (sf_states (ml_sfu w')))"
    by (rule takeover.run_inv [OF _ loop_run_paths [OF assms(6,7)]])
  then show ?thesis by (simp add: taken_over_def activity_def)
qed

section \<open>The properties on the example\<close>


text \<open>The client with the pending candidate nominates the path of endpoint 1.\<close>

theorem taken_over_path_stays_witness:
  "\<exists>w'. loop_run demo_env (\<lambda>e. ''error'') [demo_turn [] RecvTimedOut, demo_turn [] RecvTimedOut]
      ((demo_loop True)\<lparr>ml_sfu := sfu_state_new True 0
         (snd (gateway_add_endpoint demo_stun 5 (Some ''sfu:peer'', True, True) (demo_candidate 3) (demo_context 1) demo_states))\<rparr>) =
      Some (LoopContinue w') \<and>
    transport_at (sf_states (ml_sfu w')) 7 1 (demo_tuple 1) \<noteq> None"
proof -
  let ?c = "demo_candidate 3" and ?req = "(Some ''sfu:peer'', True, True)" and ?tc = "demo_context 1"
  let ?st = "snd (gateway_add_endpoint demo_stun 5 ?req ?c ?tc demo_states)"
  let ?w = "(demo_loop True)\<lparr>ml_sfu := sfu_state_new True 0 ?st\<rparr>"
  let ?is = "[demo_turn [] RecvTimedOut, demo_turn [] RecvTimedOut]"
  have k: "cd_session_id ?c = 7" "cd_endpoint_id ?c = 3"
    by (simp_all add: demo_candidate_def candidate_new_def)
  have f: "hm_get (ss_endpoints demo_session) 3 = None" by (simp add: demo_session_def)
  have ft: "four_tuple_of ?tc = demo_tuple 1" by (simp add: demo_context_def)
  obtain w' where w': "loop_run demo_env (\<lambda>e. ''error'') ?is ?w = Some (LoopContinue w')"
    using calm_run [of demo_env ?is "\<lambda>e. ''error''" ?w] demo_loops_end demo_calm [of RecvTimedOut] by auto
  obtain b where "gateway_add_endpoint demo_stun 5 ?req ?c ?tc demo_states = (Inr b, ?st)"
    by (simp add: gateway_add_endpoint_def Let_def k f demo_stun_def case_prod_beta)
  then have g: "gateway_add_endpoint demo_stun 5 ?req ?c ?tc demo_states = (Inr b, sf_states (ml_sfu ?w))"
    by (simp add: sfu_state_new_def)
  have t: "transport_at demo_states 7 1 (four_tuple_of ?tc) = Some (demo_transport 1)"
    "transport_at demo_states (cd_session_id ?c) (cd_endpoint_id ?c) (four_tuple_of ?tc) = None"
    by (simp_all add: transport_at_def ft k demo_session_def)
  have "su_has_use_candidate demo_stun ?req" "(cd_session_id ?c, cd_endpoint_id ?c) \<noteq> (7, 1)"
    by (simp_all add: demo_stun_def k)
  from taken_over_path_stays [OF t(1) g this t(2) w', of w'] w' show ?thesis by (simp add: ft)
qed

end
