(* ===== verification/Receiver_Facts.thy ===== *)
theory Receiver_Facts
  imports Receiver_Stream
begin

text \<open>
  What the receiver reports of \<open>interceptor/report/receiver_stream.rs\<close> say about lost packets.

  The bitmap has a bit for each residue of a sequence number modulo 128 (\<open>has_slot\<close>).  As long as the
  numbers since the last report stay within 128 the count of lost packets is exact, for any reordering
  and duplication; what was lost earlier is overwritten, and numbers skipped at the wrap-around of the
  sequence number are never cleared.
\<close>

unbundle bit_operations_syntax

section \<open>The bitmap as a set of residues\<close>

definition has_slot :: "'f receiver_stream \<Rightarrow> int \<Rightarrow> bool" where
  "has_slot st i \<longleftrightarrow> get_received (word_of_int i) st"

definition stream_ok :: "'f receiver_stream \<Rightarrow> bool" where
  "stream_ok st \<longleftrightarrow> length (rs_packets st) = 128 \<and> 0 \<le> rs_last_seq_num st \<and> rs_last_seq_num st < 65536"

lemma and_bit_nonzero: "(w :: u64) AND push_bit n 1 \<noteq> 0 \<longleftrightarrow> bit w n"
  by (auto simp: and_exp_eq_0_iff_not_bit push_bit_eq_mult)

lemma get_received_bit:
  "length (rs_packets st) = 128 \<Longrightarrow>
   get_received s st \<longleftrightarrow> bit (rs_packets st ! (unat s mod 128 div 64)) (unat s mod 128 mod 64)"
  by (simp only: get_received_def received_pos_def Let_def and_bit_nonzero)

lemma slots_eq: "(m :: nat) = n \<longleftrightarrow> m div 64 = n div 64 \<and> m mod 64 = n mod 64"
  by (metis div_mult_mod_eq)

lemma get_set_received:
  assumes "length (rs_packets st) = 128"
  shows "get_received t (set_received s st) \<longleftrightarrow> unat t mod 128 = unat s mod 128 \<or> get_received t st"
proof -
  have l: "unat t mod 128 div 64 < 128" "unat s mod 128 div 64 < 128" "unat t mod 128 mod 64 < 64"
    "unat s mod 128 mod 64 < 64"
    by (simp_all add: less_mult_imp_div_less)
  show ?thesis
    using assms l
    by (subst slots_eq)
      (auto simp: get_received_bit set_received_def received_pos_def Let_def nth_list_update
        bit_or_iff bit_exp_iff)
qed

lemma get_del_received:
  assumes "length (rs_packets st) = 128"
  shows "get_received t (del_received s st) \<longleftrightarrow> unat t mod 128 \<noteq> unat s mod 128 \<and> get_received t st"
proof -
  have l: "unat t mod 128 div 64 < 128" "unat s mod 128 div 64 < 128" "unat t mod 128 mod 64 < 64"
    "unat s mod 128 mod 64 < 64"
    by (simp_all add: less_mult_imp_div_less)
  show ?thesis
    using assms l
    by (subst slots_eq)
      (auto simp: get_received_bit del_received_def received_pos_def Let_def nth_list_update
        bit_and_iff bit_not_iff bit_exp_iff)
qed

lemma unat_word_of_int_slot: "unat (word_of_int i :: u16) mod 128 = nat (i mod 128)"
proof -
  have "int (unat (word_of_int i :: u16) mod 128) = i mod 65536 mod 128"
    by (simp add: zmod_int uint_word_of_int)
  also have "\<dots> = i mod 128" by (rule mod_mod_cancel) simp
  finally show ?thesis by simp
qed

lemma has_slot_mod: "has_slot st i \<longleftrightarrow> has_slot st (i mod 128)" if "length (rs_packets st) = 128"
  using that by (simp add: has_slot_def get_received_bit unat_word_of_int_slot)

lemma same_slot: "unat (word_of_int i :: u16) mod 128 = unat (word_of_int j :: u16) mod 128 \<longleftrightarrow> i mod 128 = j mod 128"
  by (simp add: unat_word_of_int_slot nat_eq_iff)

lemma packets_kept [simp]:
  "length (rs_packets (set_received s st)) = length (rs_packets st)"
  "length (rs_packets (del_received s st)) = length (rs_packets st)"
  by (simp_all add: set_received_def del_received_def Let_def)

lemma length_mark_missing [simp]: "length (rs_packets (mark_missing l s st)) = length (rs_packets st)"
proof -
  have "length (rs_packets (foldl (\<lambda>st i. del_received (word_of_int i) st) st is)) = length (rs_packets st)" for "is"
    by (induction "is" arbitrary: st) simp_all
  then show ?thesis by (simp add: mark_missing_def)
qed

lemma has_slot_set:
  "length (rs_packets st) = 128 \<Longrightarrow>
   has_slot (set_received s st) i \<longleftrightarrow> i mod 128 = uint s mod 128 \<or> has_slot st i"
  using same_slot [of i "uint s"] by (auto simp: has_slot_def get_set_received)

lemma has_slot_mark_missing:
  assumes "length (rs_packets st) = 128"
  shows "has_slot (mark_missing l s st) i \<longleftrightarrow> has_slot st i \<and> (\<forall>j \<in> {l<..<s}. j mod 128 \<noteq> i mod 128)"
proof -
  have "has_slot (foldl (\<lambda>st i. del_received (word_of_int i) st) st is) i \<longleftrightarrow>
        has_slot st i \<and> (\<forall>j \<in> set is. j mod 128 \<noteq> i mod 128)" for "is"
    using assms
    by (induction "is" arbitrary: st) (auto simp: has_slot_def get_del_received same_slot)
  moreover have "set [l + 1..s - 1] = {l<..<s}" by auto
  ultimately show ?thesis unfolding mark_missing_def by blast
qed


section \<open>One packet\<close>

lemma has_slot_cong: "rs_packets st = rs_packets st' \<Longrightarrow> has_slot st = has_slot st'"
  by (simp add: fun_eq_iff has_slot_def get_received_def Let_def)

lemma jitter_keeps [simp]:
  "rs_packets (update_jitter F now pkt st) = rs_packets st"
  "rs_last_seq_num (update_jitter F now pkt st) = rs_last_seq_num st"
  "rs_last_report_seq_num (update_jitter F now pkt st) = rs_last_report_seq_num st"
  "rs_started (update_jitter F now pkt st) = rs_started st"
  "rs_total_lost (update_jitter F now pkt st) = rs_total_lost st"
  by (simp_all add: update_jitter_def Let_def)

definition clear_slot :: "u64 list \<Rightarrow> int \<Rightarrow> u64 list" where
  "clear_slot ps i =
     (let p = received_pos ps (word_of_int i) in ps[p div 64 := ps ! (p div 64) AND (- 1 XOR push_bit (p mod 64) 1)])"

lemma mark_missing_packets:
  "mark_missing l s st = st\<lparr>rs_packets := foldl clear_slot (rs_packets st) [l + 1..s - 1]\<rparr>"
proof -
  have d: "del_received (word_of_int i) st = st\<lparr>rs_packets := clear_slot (rs_packets st) i\<rparr>" for i
    and st :: "'a receiver_stream"
    by (simp add: del_received_def clear_slot_def Let_def)
  have "foldl (\<lambda>st i. del_received (word_of_int i) st) st is = st\<lparr>rs_packets := foldl clear_slot (rs_packets st) is\<rparr>"
    for "is"
    by (induction "is" arbitrary: st) (simp_all add: d)
  then show ?thesis by (simp add: mark_missing_def)
qed

lemma set_received_keeps [simp]:
  "rs_last_seq_num (set_received s st) = rs_last_seq_num st"
  "rs_last_report_seq_num (set_received s st) = rs_last_report_seq_num st"
  "rs_started (set_received s st) = rs_started st"
  "rs_total_lost (set_received s st) = rs_total_lost st"
  by (simp_all add: set_received_def Let_def)

lemma process_following:
  assumes "rs_started st"
  shows "rs_packets (process_rtp F now pkt st) =
           rs_packets (mark_missing (rs_last_seq_num st) (seq_of pkt) (set_received (rtp_sequence_number pkt) st))"
    and "rs_last_seq_num (process_rtp F now pkt st) =
           (if rs_last_seq_num st - 0x0FFF \<le> seq_of pkt \<and> seq_of pkt \<le> rs_last_seq_num st
            then rs_last_seq_num st else seq_of pkt)"
    and "rs_started (process_rtp F now pkt st)"
    and "rs_last_report_seq_num (process_rtp F now pkt st) = rs_last_report_seq_num st"
    and "rs_total_lost (process_rtp F now pkt st) = rs_total_lost st"
proof -
  show "rs_packets (process_rtp F now pkt st) =
           rs_packets (mark_missing (rs_last_seq_num st) (seq_of pkt) (set_received (rtp_sequence_number pkt) st))"
    using assms by (auto simp: process_rtp_def advance_sequence_def Let_def mark_missing_packets)
  show "rs_last_seq_num (process_rtp F now pkt st) =
           (if rs_last_seq_num st - 0x0FFF \<le> seq_of pkt \<and> seq_of pkt \<le> rs_last_seq_num st
            then rs_last_seq_num st else seq_of pkt)"
    and "rs_started (process_rtp F now pkt st)"
    and "rs_last_report_seq_num (process_rtp F now pkt st) = rs_last_report_seq_num st"
    and "rs_total_lost (process_rtp F now pkt st) = rs_total_lost st"
    using assms by (simp_all add: process_rtp_def advance_sequence_def Let_def mark_missing_packets)
qed

lemma has_slot_process:
  assumes "rs_started st" "length (rs_packets st) = 128"
  shows "has_slot (process_rtp F now pkt st) i \<longleftrightarrow>
           (i mod 128 = seq_of pkt mod 128 \<or> has_slot st i) \<and>
           (\<forall>j \<in> {rs_last_seq_num st<..<seq_of pkt}. j mod 128 \<noteq> i mod 128)"
  by (subst has_slot_cong [OF process_following(1) [OF assms(1)]])
    (simp add: assms has_slot_mark_missing has_slot_set seq_of_def)

lemma stream_ok_process:
  assumes "rs_started st" "stream_ok st"
  shows "stream_ok (process_rtp F now pkt st)"
proof -
  have "seq_of pkt < 65536" using uint_bounded [of "rtp_sequence_number pkt"] by (simp add: seq_of_def)
  then show ?thesis using assms
    by (auto simp: stream_ok_def process_following) (simp add: seq_of_def)
qed

section \<open>The count of lost packets\<close>

definition receive_all :: "'f f64_ops \<Rightarrow> (instant \<times> rtp_packet) list \<Rightarrow> 'f receiver_stream \<Rightarrow> 'f receiver_stream" where
  "receive_all F arrivals st = foldl (\<lambda>st (now, pkt). process_rtp F now pkt st) st arrivals"

lemma receive_all_simps [simp]:
  "receive_all F [] st = st"
  "receive_all F ((now, pkt) # arrivals) st = receive_all F arrivals (process_rtp F now pkt st)"
  by (simp_all add: receive_all_def)

lemma count_missing_card:
  assumes "0 \<le> x" "x \<le> y" "y < 65536"
  shows "uint (count_missing st (word_of_int x) (word_of_int y)) = int (card {i. x \<le> i \<and> i < y \<and> \<not> has_slot st i})"
  using assms(1,2)
proof (induction "nat (y - x)" arbitrary: x)
  case 0
  then have e: "{i. x \<le> i \<and> i < y \<and> \<not> has_slot st i} = {}" by auto
  from 0 show ?case unfolding e by (simp add: count_missing.simps)
next
  case (Suc n)
  let ?M = "\<lambda>x. {i. x \<le> i \<and> i < y \<and> \<not> has_slot st i}"
  have f: "finite (?M z)" for z by (rule finite_subset [of _ "{z..<y}"]) auto
  have ne: "(word_of_int x :: u16) \<noteq> word_of_int y"
  proof
    assume "(word_of_int x :: u16) = word_of_int y"
    then have "uint (word_of_int x :: u16) = uint (word_of_int y :: u16)" by (rule arg_cong)
    then show False using Suc.hyps(2) Suc.prems assms(3) by (simp add: uint_word_of_int)
  qed
  have ih: "uint (count_missing st (word_of_int (x + 1)) (word_of_int y)) = int (card (?M (x + 1)))"
    using Suc.hyps(2) Suc.prems by (intro Suc.hyps(1)) auto
  have s: "?M x = (if has_slot st x then ?M (x + 1) else insert x (?M (x + 1)))"
    using Suc.hyps(2) Suc.prems by (auto simp: order_le_less) 
  have "card (?M (x + 1)) \<le> card {x + 1..<y}" by (intro card_mono) auto
  then have b: "int (card (?M (x + 1))) < 65536" using assms(3) Suc.prems by simp
  have "count_missing st (word_of_int x) (word_of_int y) =
    (if has_slot st x then 0 else 1) + count_missing st (word_of_int (x + 1)) (word_of_int y)"
    by (subst count_missing.simps) (simp add: ne has_slot_def)
  moreover have "uint (1 + w) = 1 + uint w" if "uint w < 65536" for w :: u32
    using that by (simp add: uint_word_ariths)
  ultimately show ?case using ih b f s by (simp add: card_insert_if)
qed


section \<open>Within a window\<close>

text \<open>The bitmap within a window of 128 sequence numbers behind \<open>a\<close>: a number is marked exactly when it was seen.\<close>

definition tracks :: "int \<Rightarrow> int set \<Rightarrow> 'f receiver_stream \<Rightarrow> bool" where
  "tracks a seen st \<longleftrightarrow>
     stream_ok st \<and> rs_started st \<and> finite seen \<and> a \<le> rs_last_seq_num st \<and> rs_last_seq_num st \<le> a + 128 \<and>
     rs_last_seq_num st = Max (insert a seen) \<and>
     (\<forall>i. a < i \<longrightarrow> i \<le> rs_last_seq_num st \<longrightarrow> (has_slot st i \<longleftrightarrow> i \<in> seen))"

lemma window_slots: "i mod 128 = j mod 128 \<Longrightarrow> \<bar>i - j\<bar> < 128 \<Longrightarrow> i = (j :: int)"
  using zdvd_imp_le [of 128 "\<bar>i - j\<bar>"] by (fastforce simp: mod_eq_dvd_iff)

lemma tracks_process:
  assumes "tracks a seen st" "a < seq_of pkt" "seq_of pkt \<le> a + 128"
  shows "tracks a (insert (seq_of pkt) seen) (process_rtp F now pkt st)"
proof -
  let ?s = "seq_of pkt" and ?l = "rs_last_seq_num st"
  from assms have st: "stream_ok st" "rs_started st" "length (rs_packets st) = 128"
    and l: "a \<le> ?l" "?l \<le> a + 128" and m: "?l = Max (insert a seen)" and fin: "finite seen"
    and h: "\<And>i. a < i \<Longrightarrow> i \<le> ?l \<Longrightarrow> has_slot st i \<longleftrightarrow> i \<in> seen"
    by (auto simp: tracks_def stream_ok_def)
  have le: "i \<le> ?l" if "i \<in> seen" for i using that fin m by simp
  have l': "rs_last_seq_num (process_rtp F now pkt st) = max ?s ?l"
    using assms(2,3) l by (auto simp: process_following(2) [OF st(2)])
  have "Max (insert a (insert ?s seen)) = max ?s ?l" using fin m by (simp add: insert_commute [of a])
  moreover have "has_slot (process_rtp F now pkt st) i \<longleftrightarrow> i \<in> insert ?s seen" if i: "a < i" "i \<le> max ?s ?l" for i
  proof -
    have c: "i \<le> ?l \<or> ?l < i \<and> (i < ?s \<or> i = ?s)" using i(2) by linarith
    have w: "i mod 128 = ?s mod 128 \<longleftrightarrow> i = ?s" using assms(2,3) i l window_slots [of i ?s] by auto
    have "j mod 128 \<noteq> i mod 128" if "j \<in> {?l<..<?s}" "j \<noteq> i" for j
    proof -
      have "i \<le> a + 128" using i(2) assms(3) l(2) by linarith
      then have "\<bar>j - i\<bar> < 128" using that(1) assms(3) l i(1) by auto
      then show ?thesis using window_slots [of j i] that(2) by blast
    qed
    then have "(\<forall>j \<in> {?l<..<?s}. j mod 128 \<noteq> i mod 128) \<longleftrightarrow> i \<notin> {?l<..<?s}" by blast
    then show ?thesis
      using h [of i] i(1) w le [of i] c by (auto simp: has_slot_process [OF st(2,3)])
  qed
  ultimately show ?thesis
    using stream_ok_process [OF st(2,1), of F now pkt] process_following(3) [OF st(2), of F now pkt] fin l assms(2,3)
    by (simp add: tracks_def l')
qed

lemma tracks_receive_all:
  assumes "tracks a seen st" "\<forall>(t, p) \<in> set arrivals. a < seq_of p \<and> seq_of p \<le> a + 128"
  shows "tracks a (seen \<union> (seq_of \<circ> snd) ` set arrivals) (receive_all F arrivals st)"
  using assms
proof (induction arrivals arbitrary: seen st)
  case (Cons x xs)
  obtain t p where x: "x = (t, p)" by (cases x)
  have "tracks a (insert (seq_of p) seen) (process_rtp F t p st)"
    using Cons.prems by (intro tracks_process) (simp_all add: x)
  from Cons.IH [OF this] Cons.prems show ?case by (simp add: x)
qed simp

lemma receive_all_keeps:
  "rs_started st \<Longrightarrow>
   rs_started (receive_all F arrivals st) \<and> rs_last_report_seq_num (receive_all F arrivals st) = rs_last_report_seq_num st \<and>
   rs_total_lost (receive_all F arrivals st) = rs_total_lost st"
  by (induction arrivals arbitrary: st) (auto simp: process_following)

lemma tracks_lost:
  assumes "tracks a seen st" "rs_last_report_seq_num st = a" "0 \<le> a" "seen \<subseteq> {a<..}"
  shows "int (unat (lost_since_report st)) = int (card ({a<..rs_last_seq_num st} - seen))"
proof (cases "rs_last_seq_num st = a")
  case False
  let ?l = "rs_last_seq_num st"
  have l: "a < ?l" "?l < 65536" "?l \<in> seen" and h: "\<And>i. a < i \<Longrightarrow> i \<le> ?l \<Longrightarrow> has_slot st i \<longleftrightarrow> i \<in> seen"
    using assms False Max_in [of "insert a seen"] by (auto simp: tracks_def stream_ok_def)
  have "{i. a + 1 \<le> i \<and> i < ?l \<and> \<not> has_slot st i} = {a<..?l} - seen"
    using l h by (auto simp: order_le_less)
  then show ?thesis
    using count_missing_card [of "a + 1" ?l st] assms l by (simp add: lost_since_report_def)
qed (simp add: lost_since_report_def assms)

section \<open>Reachable streams\<close>

text \<open>What the receiver report interceptor does with a stream; the first packet starts it.\<close>

inductive stream_step :: "'f f64_ops \<Rightarrow> 'f receiver_stream \<Rightarrow> 'f receiver_stream \<Rightarrow> bool" for F where
  "stream_step F st (process_rtp F now pkt st)"
| "stream_step F st (process_sender_report now sr st)"
| "stream_step F st (snd (generate_report F now st))"

lemma stream_ok_new: "stream_ok (stream_new F rnd t1 t2 ssrc rate)"
  by (simp add: stream_ok_def stream_new_def)

lemma stream_ok_first: "\<not> rs_started st \<Longrightarrow> stream_ok st \<Longrightarrow> stream_ok (process_rtp F now pkt st)"
  using uint_bounded [of "rtp_sequence_number pkt"]
  by (simp add: stream_ok_def process_rtp_def Let_def seq_of_def set_received_def)

lemma stream_ok_reports:
  "stream_ok st \<Longrightarrow> stream_ok (process_sender_report now sr st)"
  "stream_ok st \<Longrightarrow> stream_ok (snd (generate_report F now st))"
  by (simp_all add: stream_ok_def process_sender_report_def generate_report_def Let_def)

lemma stream_ok_step: "stream_step F st st' \<Longrightarrow> stream_ok st \<Longrightarrow> stream_ok st'"
  by (induction rule: stream_step.induct) (auto intro: stream_ok_reports stream_ok_process stream_ok_first)

interpretation stream: state_machine "\<lambda>st. \<exists>rnd t1 t2 ssrc rate. st = stream_new F rnd t1 t2 ssrc rate"
  "stream_step F" stream_ok for F
  by unfold_locales (auto intro: stream_ok_new stream_ok_step)

lemma tracks_start: "stream_ok st \<Longrightarrow> rs_started st \<Longrightarrow> tracks (rs_last_seq_num st) {} st"
  by (simp add: tracks_def)

section \<open>Losses that are not seen\<close>

definition all_slots :: "'f receiver_stream \<Rightarrow> bool" where
  "all_slots st \<longleftrightarrow> (\<forall>i. has_slot st i)"

lemma all_slots_no_loss:
  assumes "all_slots st"
  shows "lost_since_report st = 0"
proof -
  have g: "get_received w st" for w
    using assms by (metis all_slots_def has_slot_def word_of_int_uint)
  have "count_missing st i stop = 0" for i stop
    using g by (induction st i stop rule: count_missing.induct) (subst count_missing.simps, simp)
  then show ?thesis by (simp add: lost_since_report_def)
qed

lemma receive_consecutive:
  assumes "rs_started st" "length (rs_packets st) = 128"
    and "map (seq_of \<circ> snd) arrivals = [rs_last_seq_num st + 1..rs_last_seq_num st + int n]"
  shows "(has_slot (receive_all F arrivals st) i \<longleftrightarrow>
            has_slot st i \<or> (\<exists>j \<in> {rs_last_seq_num st<..rs_last_seq_num st + int n}. i mod 128 = j mod 128)) \<and>
         rs_last_seq_num (receive_all F arrivals st) = rs_last_seq_num st + int n \<and>
         rs_started (receive_all F arrivals st) \<and> length (rs_packets (receive_all F arrivals st)) = 128"
  using assms
proof (induction arrivals arbitrary: st n)
  case Nil
  then show ?case by (cases n) (auto simp: upto.simps)
next
  case (Cons x xs)
  obtain t p where x: "x = (t, p)" by (cases x)
  obtain k where n: "n = Suc k" using Cons.prems(3) by (cases n) (simp_all add: upto.simps)
  let ?l = "rs_last_seq_num st" and ?st = "process_rtp F t p st"
  have s: "seq_of p = ?l + 1" and r: "map (seq_of \<circ> snd) xs = [?l + 1 + 1..?l + 1 + int k]"
    using Cons.prems(3) by (simp_all add: x n upto.simps [of "?l + 1"] add.assoc o_def)
  have l: "rs_last_seq_num ?st = ?l + 1" "rs_started ?st" "length (rs_packets ?st) = 128"
    using Cons.prems(1,2) s by (simp_all add: process_following)
  have h: "has_slot ?st i \<longleftrightarrow> i mod 128 = (?l + 1) mod 128 \<or> has_slot st i"
    using s by (simp add: has_slot_process Cons.prems)
  have "{?l<..?l + int n} = insert (?l + 1) {?l + 1<..?l + 1 + int k}" by (auto simp: n)
  then show ?case
    using Cons.IH [of ?st k] l r h by (simp add: x n add.assoc o_def) blast
qed

lemma full_window:
  fixes i l :: int
  shows "\<exists>j \<in> {l<..l + 128}. i mod 128 = j mod 128"
proof -
  let ?j = "l + 1 + (i - (l + 1)) mod 128"
  have "?j mod 128 = i mod 128" by (simp add: mod_add_right_eq)
  moreover have "0 \<le> (i - (l + 1)) mod 128" "(i - (l + 1)) mod 128 < 128" by simp_all
  ultimately show ?thesis by (intro bexI [of _ ?j]) auto
qed


section \<open>Properties\<close>

text \<open>C16: Receiver reports count losses exactly within a window: when every packet since the last report
  is at most 128 sequence numbers behind it, in whatever order and however often each arrives, the report
  adds to the total exactly the numbers up to the newest that have not arrived.\<close>

theorem loss_report_exact:
  assumes "(stream_step F)\<^sup>*\<^sup>* (stream_new F rnd t1 t2 ssrc rate) st" and "rs_started st"
    and "rs_last_seq_num st = a" and "rs_last_report_seq_num st = a"
    and "\<forall>(t, p) \<in> set arrivals. a < seq_of p \<and> seq_of p \<le> a + 128"
    and "seen = (seq_of \<circ> snd) ` set arrivals"
    and "generate_report F now (receive_all F arrivals st) = (r, st')"
  shows "map rr_total_lost (rtcp_reports r) =
      [saturate_24 (rs_total_lost st + of_nat (card ({a<..Max (insert a seen)} - seen)))] \<and>
    rs_last_report_seq_num st' = Max (insert a seen)"
proof -
  let ?st = "receive_all F arrivals st"
  have ok: "stream_ok st" using stream.run_inv [of _ F st] assms(1) by blast
  have t: "tracks a seen ?st"
    using tracks_receive_all [OF tracks_start [OF ok assms(2)], of arrivals F] assms(3,5,6) by simp
  then have m: "rs_last_seq_num ?st = Max (insert a seen)" by (simp add: tracks_def)
  have k: "rs_last_report_seq_num ?st = a" "rs_total_lost ?st = rs_total_lost st"
    using receive_all_keeps [OF assms(2)] assms(4) by auto
  have "int (unat (lost_since_report ?st)) = int (card ({a<..rs_last_seq_num ?st} - seen))"
    using ok assms(3,5,6) by (intro tracks_lost [OF t k(1)]) (auto simp: stream_ok_def)
  then have "of_nat (unat (lost_since_report ?st)) = (of_nat (card ({a<..Max (insert a seen)} - seen)) :: u32)"
    unfolding m by (simp only: of_nat_eq_iff)
  then have "lost_since_report ?st = of_nat (card ({a<..Max (insert a seen)} - seen))" by simp
  then show ?thesis
    using assms(7) by (auto simp: generate_report_def Let_def k m)
qed

definition counting_f64 :: "nat f64_ops" where
  "counting_f64 =
     \<lparr>f_zero = 0, f_of_nat = id, f_secs = id, f_add = (+), f_sub = (-), f_mul = (*), f_div = (div), f_abs = id,
      f_to_u8 = of_nat, f_to_u32 = of_nat\<rparr>"

definition numbered :: "nat \<Rightarrow> instant \<times> rtp_packet" where
  "numbered n =
     (0, \<lparr>rtp_payload_type = 111, rtp_sequence_number = of_nat n, rtp_timestamp = 0, rtp_ssrc = 7, rtp_payload = []\<rparr>)"

lemma seq_of_numbered: "n < 65536 \<Longrightarrow> seq_of (snd (numbered n)) = int n"
  by (simp add: seq_of_def numbered_def unsigned_of_nat take_bit_nat_eq_self)

text \<open>A stream that has started with the number 10 and sent a report.\<close>

definition demo_stream :: "nat receiver_stream" where
  "demo_stream = snd (generate_report counting_f64 0
     (process_rtp counting_f64 0 (snd (numbered 10)) (stream_new counting_f64 1 0 0 7 90000)))"

lemma demo_stream_reached: "(stream_step counting_f64)\<^sup>*\<^sup>* (stream_new counting_f64 1 0 0 7 90000) demo_stream"
  unfolding demo_stream_def
  by (rule converse_rtranclp_into_rtranclp, rule stream_step.intros(1), rule r_into_rtranclp, rule stream_step.intros(3))

lemma demo_stream_simps [simp]:
  "rs_started demo_stream" "rs_last_seq_num demo_stream = 10" "rs_last_report_seq_num demo_stream = 10"
  by (simp_all add: demo_stream_def generate_report_def process_rtp_def stream_new_def Let_def seq_of_def numbered_def
      set_received_def)

text \<open>12, 11, 15 and 12 again arrive: 13 and 14 are lost.\<close>

theorem loss_report_exact_witness:
  "map rr_total_lost (rtcp_reports (fst (generate_report counting_f64 0
     (receive_all counting_f64 (map numbered [12, 11, 15, 12]) demo_stream)))) =
   [saturate_24 (rs_total_lost demo_stream + 2)]"
proof -
  let ?g = "generate_report counting_f64 0 (receive_all counting_f64 (map numbered [12, 11, 15, 12]) demo_stream)"
  have "map rr_total_lost (rtcp_reports (fst ?g)) =
      [saturate_24 (rs_total_lost demo_stream + of_nat (card ({10<..Max (insert 10 {12, 11, 15})} - {12, 11, 15 :: int})))] \<and>
    rs_last_report_seq_num (snd ?g) = Max (insert 10 {12, 11, 15})"
    by (rule loss_report_exact [OF demo_stream_reached demo_stream_simps(1,2,3),
          where arrivals = "map numbered [12, 11, 15, 12]" and now = 0])
      (auto simp: numbered_def seq_of_def)
  moreover have "{10<..15} - {12, 11, 15} = {13, 14 :: int}" by auto
  ultimately show ?thesis by simp
qed

text \<open>C23: Losses that are not reported: once 128 packets in a row have arrived the report counts no loss,
  whatever was lost since the last one, and a packet behind the wrap-around of the sequence number adds
  none, however many numbers were skipped.\<close>

theorem losses_overlooked:
  assumes "(stream_step F)\<^sup>*\<^sup>* (stream_new F rnd t1 t2 ssrc rate) st" and "rs_started st"
    and "map (seq_of \<circ> snd) arrivals = [rs_last_seq_num st + 1..rs_last_seq_num st + 128]"
    and "seq_of pkt + 0x0FFF < rs_last_seq_num st + 128"
  shows "lost_since_report (receive_all F arrivals st) = 0 \<and>
    lost_since_report (process_rtp F now pkt (receive_all F arrivals st)) = 0"
proof -
  let ?st = "receive_all F arrivals st"
  have ok: "length (rs_packets st) = 128" using stream.run_inv [of _ F st] assms(1) by (force simp: stream_ok_def)
  have r: "rs_last_seq_num ?st = rs_last_seq_num st + 128" "rs_started ?st" "length (rs_packets ?st) = 128"
    and h: "has_slot ?st i" for i
    using receive_consecutive [OF assms(2) ok, of arrivals 128 F i] assms(3) full_window [of "rs_last_seq_num st" i]
    by auto
  have "all_slots ?st" using h by (simp add: all_slots_def)
  moreover have "all_slots (process_rtp F now pkt ?st)"
    using h assms(4) by (simp add: all_slots_def has_slot_process r)
  ultimately show ?thesis by (simp add: all_slots_no_loss)
qed

text \<open>A stream near the wrap-around: it starts with 65400, the numbers up to 65528 arrive, then 4.\<close>

definition late_stream :: "nat receiver_stream" where
  "late_stream = process_rtp counting_f64 0 (snd (numbered 65400)) (stream_new counting_f64 1 0 0 7 90000)"

lemma late_stream_reached: "(stream_step counting_f64)\<^sup>*\<^sup>* (stream_new counting_f64 1 0 0 7 90000) late_stream"
  unfolding late_stream_def by (rule r_into_rtranclp) (rule stream_step.intros)

lemma late_stream_simps [simp]: "rs_started late_stream" "rs_last_seq_num late_stream = 65400"
  by (simp_all add: late_stream_def process_rtp_def stream_new_def Let_def seq_of_def numbered_def set_received_def)

lemma seq_of_numbered_run: "a + k < 65536 \<Longrightarrow> map (seq_of \<circ> snd) (map numbered [a..<a + k]) = [int a..int (a + k) - 1]"
proof (induction k)
  case (Suc k)
  then show ?case by (simp add: seq_of_numbered upto_rec2 [of "int a" "int a + int k"])
qed simp

theorem losses_overlooked_witness:
  "lost_since_report (process_rtp counting_f64 0 (snd (numbered 4))
     (receive_all counting_f64 (map numbered [65401..<65401 + 128]) late_stream)) = 0"
proof -
  have "map (seq_of \<circ> snd) (map numbered [65401..<65401 + 128]) =
      [rs_last_seq_num late_stream + 1..rs_last_seq_num late_stream + 128]"
    by (subst seq_of_numbered_run) simp_all
  then show ?thesis
    using losses_overlooked [OF late_stream_reached late_stream_simps(1), of "map numbered [65401..<65401 + 128]"
        "snd (numbered 4)" 0]
    by (simp add: seq_of_numbered)
qed

end
