(* ===== verification/Certificates.thy ===== *)
theory Certificates
  imports Candidate
begin

text \<open>
  \<open>vendor/sfu/src/server/certificate.rs\<close>: making a certificate for a key, and storing it as PEM.

  The key pairs, X.509 certificates and private keys of the crates \<open>rcgen\<close> and \<open>ring\<close> are values of the
  type \<open>'k\<close>; the functions of these crates, of \<open>pem\<close> and of \<open>dtls\<close> are the records below.  A point
  in time is the number of nanoseconds since the Unix epoch.  A panic is \<open>None\<close>.
\<close>

section \<open>Libraries\<close>

datatype key_kind = Ed25519 | EcdsaP256Sha256 | RsaSha256

type_synonym system_time = int

text \<open>\<open>CertificateParams\<close>: what the source sets and reads of it.\<close>

record 'k certificate_params =
  cp_names :: "string list"
  cp_alg :: key_kind
  cp_key_pair :: "'k option"
  cp_not_after :: system_time

record 'k key_lib =
  kl_default_not_after :: system_time
  kl_certificate :: "'k certificate_params \<Rightarrow> 'k res"
  kl_key_pair :: "'k \<Rightarrow> 'k"
  kl_compatible :: "'k \<Rightarrow> key_kind \<Rightarrow> bool"
  kl_key_der :: "'k \<Rightarrow> u8 list"
  kl_from_pkcs8 :: "key_kind \<Rightarrow> u8 list \<Rightarrow> string + 'k"
  kl_certificate_der :: "'k \<Rightarrow> u8 list res"

text \<open>The private key and the certificate of the \<open>dtls\<close> crate.\<close>

record 'k crypto_private_key =
  pk_kind :: "key_kind \<times> 'k"
  pk_serialized_der :: "u8 list"

record 'k dtls_certificate =
  dc_certificate :: certificate
  dc_private_key :: "'k crypto_private_key"

type_synonym pem_block = "string \<times> u8 list"

record 'k pem_lib =
  pl_parse :: "string \<Rightarrow> string + pem_block"
  pl_encode :: "pem_block \<Rightarrow> string"
  pl_dtls_from_pem :: "string \<Rightarrow> 'k dtls_certificate res"
  pl_dtls_to_pem :: "'k dtls_certificate \<Rightarrow> string"

section \<open>Certificates of keys\<close>

record 'k rtc_certificate =
  rc_dtls_certificate :: "'k dtls_certificate"
  rc_expires :: system_time

text \<open>\<open>PartialEq\<close> of \<open>RTCCertificate\<close>, from that of the certificate inside.\<close>

definition certificate_eq :: "'k rtc_certificate \<Rightarrow> 'k rtc_certificate \<Rightarrow> bool" where
  "certificate_eq c c' \<longleftrightarrow> rc_dtls_certificate c = rc_dtls_certificate c'"

definition unsupported_key :: error where
  "unsupported_key = Other ''Unsupported key_pair'' []"

text \<open>The kind of a key: the first of the three it is compatible with.\<close>

definition key_kind_of :: "'k key_lib \<Rightarrow> 'k \<Rightarrow> key_kind res" where
  "key_kind_of L key =
     (if kl_compatible L key Ed25519 then Inr Ed25519
      else if kl_compatible L key EcdsaP256Sha256 then Inr EcdsaP256Sha256
      else if kl_compatible L key RsaSha256 then Inr RsaSha256
      else Inl unsupported_key)"

definition private_key_of :: "'k key_lib \<Rightarrow> 'k \<Rightarrow> 'k crypto_private_key res" where
  "private_key_of L key =
     (let der = kl_key_der L key in
      and_then (key_kind_of L key) (\<lambda>k.
        case kl_from_pkcs8 L k der of
          Inl e \<Rightarrow> Inl (Other e [])
        | Inr p \<Rightarrow> Inr \<lparr>pk_kind = (k, p), pk_serialized_der = der\<rparr>))"

text \<open>\<open>from_params\<close>; \<open>arm\<close> tells whether the target is a 32-bit ARM, where the certificate expires in two
  days, \<open>now\<close> being the time.\<close>

definition rtc_from_params ::
  "'k key_lib \<Rightarrow> bool \<Rightarrow> system_time \<Rightarrow> 'k certificate_params \<Rightarrow> 'k rtc_certificate res" where
  "rtc_from_params L arm now params =
     and_then (kl_certificate L params) (\<lambda>x509.
     and_then (private_key_of L (kl_key_pair L x509)) (\<lambda>key.
     and_then (kl_certificate_der L x509) (\<lambda>der.
       Inr \<lparr>rc_dtls_certificate = \<lparr>dc_certificate = [der], dc_private_key = key\<rparr>,
            rc_expires = (if arm then now + 172800 * 1000000000 else cp_not_after params)\<rparr>)))"

definition runes_alpha :: string where
  "runes_alpha = ''abcdefghijklmnopqrstuvwxyzABCDEFGHIJKLMNOPQRSTUVWXYZ''"

text \<open>\<open>gen_range\<close> answers \<open>rs i\<close>, below the length of the alphabet.\<close>

definition math_rand_alpha :: "nat \<Rightarrow> (nat \<Rightarrow> nat) \<Rightarrow> string" where
  "math_rand_alpha n rs = map (\<lambda>i. runes_alpha ! rs i) [0..<n]"

definition rtc_from_key_pair ::
  "'k key_lib \<Rightarrow> bool \<Rightarrow> system_time \<Rightarrow> (nat \<Rightarrow> nat) \<Rightarrow> 'k \<Rightarrow> 'k rtc_certificate res" where
  "rtc_from_key_pair L arm now rs key =
     and_then (key_kind_of L key) (\<lambda>k.
       rtc_from_params L arm now
         \<lparr>cp_names = [math_rand_alpha 16 rs], cp_alg = k, cp_key_pair = Some key,
          cp_not_after = kl_default_not_after L\<rparr>)"

section \<open>PEM\<close>

text \<open>\<open>s.split("\\n\\n")\<close>\<close>

fun split_blank :: "string \<Rightarrow> string list" where
  "split_blank [] = [[]]"
| "split_blank [c] = [[c]]"
| "split_blank (c # c' # cs) =
     (if c = CHR 0x0A \<and> c' = CHR 0x0A then [] # split_blank cs
      else case split_blank (c' # cs) of [] \<Rightarrow> [[c]] | b # bs \<Rightarrow> (c # b) # bs)"

text \<open>The last second \<open>SystemTime\<close> can represent; \<open>checked_add\<close> fails beyond it.\<close>

definition max_system_seconds :: nat where
  "max_system_seconds = 2 ^ 63 - 1"

definition system_time_of_secs :: "nat \<Rightarrow> system_time option" where
  "system_time_of_secs n = (if n \<le> max_system_seconds then Some (int n * 1000000000) else None)"

definition rtc_from_existing :: "'k dtls_certificate \<Rightarrow> system_time \<Rightarrow> 'k rtc_certificate" where
  "rtc_from_existing c expires = \<lparr>rc_dtls_certificate = c, rc_expires = expires\<rparr>"

text \<open>\<open>from_pem\<close>; the slice of the first eight bytes panics when there are fewer.\<close>

definition rtc_from_pem :: "'k pem_lib \<Rightarrow> string \<Rightarrow> 'k rtc_certificate res option" where
  "rtc_from_pem L s =
     (case split_blank s of
        [] \<Rightarrow> Some (Inl (InvalidPEM ''empty PEM''))
      | first # rest \<Rightarrow>
          (case pl_parse L first of
             Inl e \<Rightarrow> Some (Inl (Other (''can't parse PEM: '' @ e) []))
           | Inr (tag, contents) \<Rightarrow>
               if tag \<noteq> ''EXPIRES'' then
                 Some (Inl (InvalidPEM (''invalid tag (expected: 'EXPIRES', got '' @ [CHR 0x27] @ tag @ [CHR 0x27] @ '')'')))
               else if length contents < 8 then None
               else
                 (case system_time_of_secs (from_le (take 8 contents)) of
                    None \<Rightarrow> Some (Inl (InvalidPEM ''failed to calculate SystemTime''))
                  | Some e \<Rightarrow>
                      Some (and_then (pl_dtls_from_pem L (join_with [CHR 0x0A, CHR 0x0A] rest))
                        (\<lambda>c. Inr (rtc_from_existing c e))))))"

text \<open>\<open>serialize_pem\<close>: a certificate that expired before the epoch is a panic.\<close>

definition rtc_serialize_pem :: "'k pem_lib \<Rightarrow> 'k rtc_certificate \<Rightarrow> string option" where
  "rtc_serialize_pem L c =
     (if rc_expires c < 0 then None
      else Some (pl_encode L (''EXPIRES'', le_bytes 8 (nat (rc_expires c div 1000000000))) @
                 [CHR 0x0A] @ pl_dtls_to_pem L (rc_dtls_certificate c)))"

end
