(* ===== verification/Certificate_Facts.thy ===== *)
theory Certificate_Facts
  imports Certificates
begin

text \<open>
  Certificates are made with the kind of their key and one block, and a stored certificate is read
  back, up to the fraction of a second of its expiry.
\<close>

section \<open>Blank lines\<close>

lemma split_blank_nonempty [simp]: "split_blank s \<noteq> []"
  by (induction s rule: split_blank.induct) (auto split: list.splits)

lemma join_split_blank: "join_with [CHR 0x0A, CHR 0x0A] (split_blank s) = s"
proof (induction s rule: split_blank.induct)
  case (3 c c' cs)
  show ?case
  proof (cases "c = CHR 0x0A \<and> c' = CHR 0x0A")
    case True
    obtain b bs where "split_blank cs = b # bs" using split_blank_nonempty by (metis list.exhaust)
    then show ?thesis using 3(1) [OF True] True by simp
  next
    case False
    obtain b bs where b: "split_blank (c' # cs) = b # bs" using split_blank_nonempty by (metis list.exhaust)
    then show ?thesis using 3(2) [OF False] False by (cases bs) auto
  qed
qed simp_all

text \<open>A text without a blank line, up to its last line feed, is the first block of what follows.\<close>

lemma split_blank_append:
  "split_blank (b @ [CHR 0x0A]) = [b @ [CHR 0x0A]] \<Longrightarrow>
   split_blank (b @ CHR 0x0A # CHR 0x0A # s) = b # split_blank s"
proof (induction b rule: split_blank.induct)
  case (3 c c' cs)
  have no: "\<not> (c = CHR 0x0A \<and> c' = CHR 0x0A)" using 3(3) by (auto split: list.splits if_splits)
  have "split_blank ((c' # cs) @ [CHR 0x0A]) = [(c' # cs) @ [CHR 0x0A]]"
    using 3(3) no by (auto split: list.splits)
  from 3(2) [OF no this] show ?case using no by simp
qed (auto split: if_splits)

section \<open>Storing certificates\<close>

lemma seconds_round_trip: "n \<le> max_system_seconds \<Longrightarrow> from_le (le_bytes 8 n) = n"
  by (simp add: from_le_bytes max_system_seconds_def)

text \<open>C36: Storing a certificate and reading it back gives the same certificate, with the expiry cut off
  to whole seconds, provided the crates read back what they write: the block of the \<open>pem\<close> crate ends
  with a line feed, has no blank line, and is parsed without its last line feed.\<close>

theorem certificate_pem_roundtrip:
  fixes c :: "'k rtc_certificate"
  assumes time: "0 \<le> rc_expires c" "nat (rc_expires c div 1000000000) \<le> max_system_seconds"
    and block: "pl_encode L (''EXPIRES'', le_bytes 8 (nat (rc_expires c div 1000000000))) = b @ [CHR 0x0A]"
      "split_blank (b @ [CHR 0x0A]) = [b @ [CHR 0x0A]]"
      "pl_parse L b = Inr (''EXPIRES'', le_bytes 8 (nat (rc_expires c div 1000000000)))"
    and dtls: "pl_dtls_from_pem L (pl_dtls_to_pem L (rc_dtls_certificate c)) = Inr (rc_dtls_certificate c)"
  shows "Option.bind (rtc_serialize_pem L c) (rtc_from_pem L) =
      Some (Inr (c\<lparr>rc_expires := rc_expires c div 1000000000 * 1000000000\<rparr>)) \<and>
    certificate_eq c (c\<lparr>rc_expires := rc_expires c div 1000000000 * 1000000000\<rparr>)"
proof -
  let ?n = "nat (rc_expires c div 1000000000)"
  have "rtc_serialize_pem L c = Some (b @ CHR 0x0A # CHR 0x0A # pl_dtls_to_pem L (rc_dtls_certificate c))"
    using time(1) block(1) by (simp add: rtc_serialize_pem_def)
  moreover have "rtc_from_pem L (b @ CHR 0x0A # CHR 0x0A # pl_dtls_to_pem L (rc_dtls_certificate c)) =
      Some (Inr (c\<lparr>rc_expires := rc_expires c div 1000000000 * 1000000000\<rparr>))"
    unfolding rtc_from_pem_def split_blank_append [OF block(2)]
    using time dtls
    by (simp add: block(3) join_split_blank seconds_round_trip system_time_of_secs_def rtc_from_existing_def)
  ultimately show ?thesis by (simp add: certificate_eq_def)
qed

section \<open>Kinds of keys\<close>

text \<open>A key that is compatible with none of the three kinds is refused before anything is generated, and a
  certificate has the kind of its key and one block.\<close>

lemma rtc_from_key_pair_unsupported:
  "(\<And>k. \<not> kl_compatible L key k) \<Longrightarrow> rtc_from_key_pair L arm now rs key = Inl unsupported_key"
  by (simp add: rtc_from_key_pair_def key_kind_of_def)

lemma private_key_of_Inr:
  assumes "private_key_of L key = Inr pk"
  shows "\<exists>k p. key_kind_of L key = Inr k \<and> kl_from_pkcs8 L k (kl_key_der L key) = Inr p \<and> pk_kind pk = (k, p)"
proof -
  obtain k where k: "key_kind_of L key = Inr k"
    using assms by (cases "key_kind_of L key") (auto simp: private_key_of_def Let_def)
  then show ?thesis
    using assms by (cases "kl_from_pkcs8 L k (kl_key_der L key)") (auto simp: private_key_of_def Let_def)
qed

lemma rtc_from_params_Inr:
  assumes "rtc_from_params L arm now params = Inr c"
  shows "\<exists>x509 k p der. kl_certificate L params = Inr x509 \<and> key_kind_of L (kl_key_pair L x509) = Inr k \<and>
    kl_from_pkcs8 L k (kl_key_der L (kl_key_pair L x509)) = Inr p \<and>
    dc_certificate (rc_dtls_certificate c) = [der] \<and> pk_kind (dc_private_key (rc_dtls_certificate c)) = (k, p)"
  using assms by (auto simp: rtc_from_params_def result_simps dest!: private_key_of_Inr)

lemma rtc_from_key_pair_Inr:
  "rtc_from_key_pair L arm now rs key = Inr c \<Longrightarrow> \<exists>der. dc_certificate (rc_dtls_certificate c) = [der]"
  using rtc_from_params_Inr by (fastforce simp: rtc_from_key_pair_def result_simps)

lemma math_rand_alpha_letters:
  "(\<And>i. rs i < length runes_alpha) \<Longrightarrow> set (math_rand_alpha n rs) \<subseteq> set runes_alpha \<and> length (math_rand_alpha n rs) = n"
  by (auto simp: math_rand_alpha_def)

section \<open>The round trip on an example\<close>

text \<open>A block as its tag, a colon and its bytes in hexadecimal.\<close>

fun unhex :: "char list \<Rightarrow> u8 list" where
  "unhex (a # b # cs) =
     of_nat (16 * the (List.find (\<lambda>i. hex_char i = a) [0..<16]) + the (List.find (\<lambda>i. hex_char i = b) [0..<16])) # unhex cs"
| "unhex _ = []"

definition demo_pem :: "nat pem_lib" where
  "demo_pem =
     \<lparr>pl_parse = (\<lambda>s. case split_on CHR '':'' s of [tag, hex] \<Rightarrow> Inr (tag, unhex hex) | _ \<Rightarrow> Inl ''no block''),
      pl_encode = (\<lambda>(tag, bs). tag @ '':'' @ concat (map hex_byte bs) @ [CHR 0x0A]),
      pl_dtls_from_pem = (\<lambda>s. Inr \<lparr>dc_certificate = [map (\<lambda>c. of_nat (of_char c)) s],
        dc_private_key = \<lparr>pk_kind = (Ed25519, 0), pk_serialized_der = []\<rparr>\<rparr>),
      pl_dtls_to_pem = (\<lambda>c. map (\<lambda>b. char_of (unat b)) (concat (dc_certificate c)))\<rparr>"

definition demo_stored :: "nat rtc_certificate" where
  "demo_stored =
     \<lparr>rc_dtls_certificate = \<lparr>dc_certificate = [[65, 10, 10, 66]],
        dc_private_key = \<lparr>pk_kind = (Ed25519, 0), pk_serialized_der = []\<rparr>\<rparr>, rc_expires = 258000000007\<rparr>"

theorem certificate_pem_roundtrip_witness:
  "Option.bind (rtc_serialize_pem demo_pem demo_stored) (rtc_from_pem demo_pem) =
     Some (Inr (demo_stored\<lparr>rc_expires := 258000000000\<rparr>))"
proof -
  have secs: "rc_expires demo_stored = 258000000007" "nat (rc_expires demo_stored div 1000000000) = 258"
    by (simp_all add: demo_stored_def)
  have block: "pl_encode demo_pem (''EXPIRES'', le_bytes 8 258) = ''EXPIRES:0201000000000000'' @ [CHR 0x0A]"
    "split_blank (''EXPIRES:0201000000000000'' @ [CHR 0x0A]) = [''EXPIRES:0201000000000000'' @ [CHR 0x0A]]"
    "pl_parse demo_pem ''EXPIRES:0201000000000000'' = Inr (''EXPIRES'', le_bytes 8 258)"
    by code_simp+
  have dtls: "pl_dtls_from_pem demo_pem (pl_dtls_to_pem demo_pem (rc_dtls_certificate demo_stored)) =
      Inr (rc_dtls_certificate demo_stored)" by code_simp
  show ?thesis
    using certificate_pem_roundtrip [of demo_stored demo_pem "''EXPIRES:0201000000000000''"] block dtls
    by (simp add: secs max_system_seconds_def)
qed

end
