(* ===== verification/Startup.thy ===== *)
theory Startup
  imports Grpc_Service Certificates Socket_Parse
begin

text \<open>
  Start of the server: \<open>main\<close> of \<open>src/bin/sfu.rs\<close> up to the gRPC server, with \<open>src/util/mod.rs\<close>, as a
  function of the command line and of what the system answers; a panic and an error that leaves
  \<open>main\<close> are values.
\<close>

section \<open>Command line\<close>

datatype level = LevelError | LevelWarn | LevelInfo | LevelDebug | LevelTrace

datatype level_filter = FilterOff | FilterError | FilterWarn | FilterInfo | FilterDebug | FilterTrace

fun filter_of_level :: "level \<Rightarrow> level_filter" where
  "filter_of_level LevelError = FilterError"
| "filter_of_level LevelWarn = FilterWarn"
| "filter_of_level LevelInfo = FilterInfo"
| "filter_of_level LevelDebug = FilterDebug"
| "filter_of_level LevelTrace = FilterTrace"

record cli =
  cli_host :: string
  cli_grpc_addr :: string
  cli_media_port_min :: u16
  cli_media_port_max :: u16
  cli_force_local_loop :: bool
  cli_debug :: bool
  cli_level :: level
  cli_enable_transcription :: bool
  cli_transcription_backend :: string
  cli_simul_streaming_addr :: string
  cli_openai_api_key :: "string option"
  cli_openai_base_url :: "string option"
  cli_openai_model :: "string option"

text \<open>The defaults; \<open>key\<close> is the environment variable \<open>OPENAI_API_KEY\<close>.\<close>

definition cli_default :: "string option \<Rightarrow> cli" where
  "cli_default key =
     \<lparr>cli_host = ''127.0.0.1'', cli_grpc_addr = ''127.0.0.1:50051'', cli_media_port_min = 3478,
      cli_media_port_max = 3478, cli_force_local_loop = False, cli_debug = False, cli_level = LevelInfo,
      cli_enable_transcription = False, cli_transcription_backend = ''simul-streaming'',
      cli_simul_streaming_addr = ''localhost:43007'', cli_openai_api_key = key, cli_openai_base_url = None,
      cli_openai_model = None\<rparr>"

text \<open>The filter of the logger; \<open>None\<close> when no logger is installed, as without \<open>--debug\<close>.\<close>

definition log_filter :: "cli \<Rightarrow> level_filter option" where
  "log_filter c = (if cli_debug c then Some (filter_of_level (cli_level c)) else None)"

section \<open>Host address\<close>

text \<open>The addresses of the network interfaces; the crate has values that are neither IPv4 nor IPv6.\<close>

datatype net_addr = NetV4 u32 | NetV6 "128 word" | NetOther

definition octet :: "nat \<Rightarrow> u32 \<Rightarrow> u32" where
  "octet i a = (drop_bit (8 * (3 - i)) a) mod 256"

definition is_loopback :: "u32 \<Rightarrow> bool" where
  "is_loopback a \<longleftrightarrow> octet 0 a = 127"

definition is_link_local :: "u32 \<Rightarrow> bool" where
  "is_link_local a \<longleftrightarrow> octet 0 a = 169 \<and> octet 1 a = 254"

definition is_broadcast :: "u32 \<Rightarrow> bool" where
  "is_broadcast a \<longleftrightarrow> a = 0xFFFFFFFF"

fun usable_address :: "net_addr \<Rightarrow> ip_addr option" where
  "usable_address (NetV4 v) =
     (if \<not> is_loopback v \<and> \<not> is_link_local v \<and> \<not> is_broadcast v then Some (IpV4 v) else None)"
| "usable_address (NetV6 v) = None"
| "usable_address NetOther = None"

fun first_some :: "('a \<Rightarrow> 'b option) \<Rightarrow> 'a list \<Rightarrow> 'b option" where
  "first_some f [] = None"
| "first_some f (x # xs) = (case f x of Some y \<Rightarrow> Some y | None \<Rightarrow> first_some f xs)"

text \<open>The first usable address, interface by interface; \<open>None\<close> is the panic.\<close>

definition select_host_address :: "net_addr list list option \<Rightarrow> ip_addr option" where
  "select_host_address networks =
     Option.bind networks (\<lambda>nets. first_some (first_some usable_address) nets)"

text \<open>\<open>IpAddr::from_str\<close>\<close>

definition parse_ip_addr :: "string \<Rightarrow> ip_addr option" where
  "parse_ip_addr s =
     (case (case read_ipv4_addr s of
              Some (a, r) \<Rightarrow> Some (IpV4 a, r)
            | None \<Rightarrow> map_option (\<lambda>(a, r). (IpV6 a, r)) (read_ipv6_addr s)) of
        Some (a, []) \<Rightarrow> Some a
      | _ \<Rightarrow> None)"

section \<open>Start\<close>

datatype 'a main_result = MainPanic | MainErr error | MainRun 'a

fun main_then :: "'a main_result \<Rightarrow> ('a \<Rightarrow> 'b main_result) \<Rightarrow> 'b main_result" where
  "main_then MainPanic f = MainPanic"
| "main_then (MainErr e) f = MainErr e"
| "main_then (MainRun x) f = f x"

definition expecting :: "'a option \<Rightarrow> 'a main_result" where
  "expecting r = (case r of None \<Rightarrow> MainPanic | Some x \<Rightarrow> MainRun x)"

definition trying :: "'a res \<Rightarrow> 'a main_result" where
  "trying r = (case r of Inl e \<Rightarrow> MainErr e | Inr x \<Rightarrow> MainRun x)"

text \<open>What the system and the crates answer: the interfaces, a fresh key pair, the DTLS configuration built
  from the certificates, the SCTP defaults, whether the runtime of the metrics thread can be built, and
  whether a socket can be bound.\<close>

record ('x, 'k) main_env =
  me_networks :: "net_addr list list option"
  me_keys :: "'k key_lib"
  me_key_pair :: "'k res"
  me_arm :: bool
  me_time :: system_time
  me_random :: "nat \<Rightarrow> nat"
  me_dtls_config :: "'k dtls_certificate list \<Rightarrow> 'x res"
  me_sctp_config :: 'x
  me_sctp_port :: u16
  me_max_message_size :: u32
  me_meter_runtime :: bool
  me_bind :: "ip_addr \<Rightarrow> u16 \<Rightarrow> bool"

record ('d, 'b, 'x) running_server =
  rn_log_filter :: "level_filter option"
  rn_host :: ip_addr
  rn_config :: "'x server_config"
  rn_service :: "('d, 'b) service"
  rn_grpc_addr :: "socket_addr \<times> u32"

definition host_address :: "('x, 'k) main_env \<Rightarrow> cli \<Rightarrow> ip_addr main_result" where
  "host_address E c =
     (if cli_host c = ''127.0.0.1'' \<and> \<not> cli_force_local_loop c
      then expecting (select_host_address (me_networks E))
      else trying (ok_or (ErrLib ''invalid IP address syntax'') (parse_ip_addr (cli_host c))))"

definition main_config :: "('x, 'k) main_env \<Rightarrow> 'x server_config main_result" where
  "main_config E =
     main_then (trying (me_key_pair E)) (\<lambda>key.
     main_then (trying (rtc_from_key_pair (me_keys E) (me_arm E) (me_time E) (me_random E) key)) (\<lambda>cert.
     main_then (trying (me_dtls_config E [rc_dtls_certificate cert])) (\<lambda>dtls.
       MainRun (with_idle_timeout (30 * 1000000000)
         (server_config_new (me_sctp_port E) (me_max_message_size E) dtls (me_sctp_config E)
            [dc_certificate (rc_dtls_certificate cert)])))))"

text \<open>\<open>init_meter_provider\<close>: the thread sends its provider, and \<open>main\<close> panics when it died before.\<close>

definition init_meter_provider :: "('x, 'k) main_env \<Rightarrow> unit main_result" where
  "init_meter_provider E = expecting (if me_meter_runtime E then Some () else None)"

text \<open>\<open>None\<close> without \<open>--enable-transcription\<close>.\<close>

definition main_transcription :: "cli \<Rightarrow> ('d, 'b) manager option main_result" where
  "main_transcription c =
     (if cli_enable_transcription c
      then main_then (expecting (cli_config (cli_transcription_backend c) (cli_openai_api_key c)
                        (cli_openai_base_url c) (cli_openai_model c) (cli_simul_streaming_addr c)))
             (\<lambda>config. MainRun (Some (manager_new config)))
      else MainRun None)"

fun start_workers ::
  "('x, 'k) main_env \<Rightarrow> ip_addr \<Rightarrow> u16 list \<Rightarrow> (u16, bool) hmap \<Rightarrow> (u16, bool) hmap main_result" where
  "start_workers E host [] tab = MainRun tab"
| "start_workers E host (port # ports) tab =
     (if me_bind E host port then start_workers E host ports (hm_insert port True tab) else MainPanic)"

definition main_start :: "('x, 'k) main_env \<Rightarrow> cli \<Rightarrow> ('d, 'b, 'x) running_server main_result" where
  "main_start E c =
     main_then (host_address E c) (\<lambda>host.
     main_then (main_config E) (\<lambda>cfg.
     main_then (init_meter_provider E) (\<lambda>_.
     main_then (main_transcription c) (\<lambda>manager.
     main_then (start_workers E host (media_ports (cli_media_port_min c) (cli_media_port_max c)) []) (\<lambda>tab.
     main_then (trying (ok_or (ErrLib ''invalid socket address syntax'') (parse_socket_addr (cli_grpc_addr c))))
       (\<lambda>addr. MainRun
         \<lparr>rn_log_filter = log_filter c, rn_host = host, rn_config = cfg,
          rn_service = service_new tab manager (map_option (\<lambda>m. True) manager), rn_grpc_addr = addr\<rparr>))))))"

end
