(* ===== verification/Startup_Facts.thy ===== *)
theory Startup_Facts
  imports Startup Certificate_Facts Service_Facts Server_States
begin

text \<open>
  What a started server has: a worker for each port of the range, a configuration its workers accept, and
  a host address that others can reach.
\<close>

section \<open>Start\<close>

lemma main_result_simps [simp]:
  "main_then r f = MainRun y \<longleftrightarrow> (\<exists>x. r = MainRun x \<and> f x = MainRun y)"
  "expecting v = MainRun x \<longleftrightarrow> v = Some x"
  "trying w = MainRun x \<longleftrightarrow> w = Inr x"
  by (cases r; simp) (auto simp: expecting_def trying_def split: option.splits sum.splits)

lemma unat_port: "unat (p :: u16) < 2 ^ 16"
  using unsigned_less [of p] by simp

lemma unat_of_port: "n < 2 ^ 16 \<Longrightarrow> unat (of_nat n :: u16) = n"
  by (simp add: unsigned_of_nat take_bit_nat_eq_self)

lemma update_fresh: "k \<notin> fst ` set m \<Longrightarrow> AList.update k v m = m @ [(k, v)]"
  by (induction m) auto

lemma distinct_media_ports: "distinct (media_ports lo hi)"
proof -
  have "inj_on (of_nat :: nat \<Rightarrow> u16) {unat lo..<Suc (unat hi)}"
  proof (rule inj_onI)
    fix x y
    assume "x \<in> {unat lo..<Suc (unat hi)}" "y \<in> {unat lo..<Suc (unat hi)}"
      and e: "(of_nat x :: u16) = of_nat y"
    then have "x < 2 ^ 16" "y < 2 ^ 16" using unat_port [of hi] by auto
    then show "x = y" using e unat_of_port by metis
  qed
  then show ?thesis by (simp add: media_ports_def distinct_map del: upt_Suc)
qed

lemma in_media_ports: "p \<in> set (media_ports lo hi) \<longleftrightarrow> lo \<le> p \<and> p \<le> hi"
proof
  assume "p \<in> set (media_ports lo hi)"
  then obtain n where "unat lo \<le> n" "n \<le> unat hi" "p = of_nat n" by (auto simp: media_ports_def)
  moreover have "n < 2 ^ 16" using calculation unat_port [of hi] by auto
  ultimately show "lo \<le> p \<and> p \<le> hi" by (simp add: word_le_nat_alt unat_of_port)
next
  assume "lo \<le> p \<and> p \<le> hi"
  then have "unat p \<in> {unat lo..<Suc (unat hi)}" by (simp add: word_le_nat_alt)
  then show "p \<in> set (media_ports lo hi)" unfolding media_ports_def by (auto simp del: upt_Suc intro!: image_eqI [where x = "unat p"])
qed

lemma start_workers_run:
  assumes "start_workers E host ports tab = MainRun tab'" and "distinct (map fst tab @ ports)"
  shows "tab' = tab @ map (\<lambda>p. (p, True)) ports \<and> (\<forall>p \<in> set ports. me_bind E host p)"
  using assms
proof (induction E host ports tab rule: start_workers.induct)
  case (2 E host port ports tab)
  have i: "hm_insert port True tab = tab @ [(port, True)]"
    using 2(3) by (simp add: hm_insert_def update_fresh)
  show ?case using 2 i by (auto split: if_splits)
qed simp

lemma main_start_parts:
  assumes "main_start E c = MainRun r"
  shows "host_address E c = MainRun (rn_host r)"
    and "start_workers E (rn_host r) (media_ports (cli_media_port_min c) (cli_media_port_max c)) [] =
      MainRun (sv_workers (rn_service r))"
    and "main_config E = MainRun (rn_config r)"
  using assms by (auto simp: main_start_def service_new_def)

text \<open>The configuration has a certificate with a fingerprint, so no worker ends when it makes its tables.\<close>

lemma main_config_accepted:
  assumes "main_config E = MainRun cfg"
  shows "\<exists>st. server_states_new L cfg addr = Inr st"
proof -
  obtain key cert where c: "rtc_from_key_pair (me_keys E) (me_arm E) (me_time E) (me_random E) key = Inr cert"
    and cfg: "svc_certificates cfg = [dc_certificate (rc_dtls_certificate cert)]"
    using assms by (auto simp: main_config_def server_config_new_def with_idle_timeout_def)
  then show ?thesis
    using rtc_from_key_pair_Inr [OF c] by (auto simp: server_states_new_def get_fingerprints_def)
qed

text \<open>C27: A server that starts has bound a socket for every port of its range at its host address, each
  with a worker that receives and whose tables can be made from the configuration, and sends the requests
  of a session to a worker of the range.  Only the empty range leaves it without a worker; then it starts
  as well, and refuses every offer.\<close>

theorem started_server_has_workers:
  assumes "main_start E c = MainRun r"
  shows "sv_workers (rn_service r) = map (\<lambda>p. (p, True)) (media_ports (cli_media_port_min c) (cli_media_port_max c)) \<and>
    (\<forall>p. cli_media_port_min c \<le> p \<longrightarrow> p \<le> cli_media_port_max c \<longrightarrow> me_bind E (rn_host r) p) \<and>
    (\<exists>st. server_states_new K (rn_config r) addr = Inr st) \<and>
    (case choose_port (rn_service r) sid of
       Some p \<Rightarrow> cli_media_port_min c \<le> p \<and> p \<le> cli_media_port_max c \<and> map_of (sv_workers (rn_service r)) p = Some True
     | None \<Rightarrow> cli_media_port_max c < cli_media_port_min c \<and>
         or_error (projr (fst (service_offer L show_err answer sid eid offer enable (rn_service r)))) = ''No media ports'')"
proof -
  let ?ports = "media_ports (cli_media_port_min c) (cli_media_port_max c)"
  have w: "sv_workers (rn_service r) = map (\<lambda>p. (p, True)) ?ports" and b: "\<forall>p \<in> set ?ports. me_bind E (rn_host r) p"
    using start_workers_run [OF main_start_parts(2) [OF assms]] distinct_media_ports by simp_all
  have "case choose_port (rn_service r) sid of
       Some p \<Rightarrow> cli_media_port_min c \<le> p \<and> p \<le> cli_media_port_max c \<and> map_of (sv_workers (rn_service r)) p = Some True
     | None \<Rightarrow> cli_media_port_max c < cli_media_port_min c \<and>
         or_error (projr (fst (service_offer L show_err answer sid eid offer enable (rn_service r)))) = ''No media ports''"
  proof (cases "choose_port (rn_service r) sid")
    case None
    then have "?ports = []" using choose_port_in [of "rn_service r" sid] w by simp
    then have "cli_media_port_max c < cli_media_port_min c"
      using in_media_ports [of "cli_media_port_min c" "cli_media_port_min c" "cli_media_port_max c"] by simp
    then show ?thesis using None by (simp add: service_offer_def)
  next
    case (Some p)
    then have "p \<in> set ?ports" using choose_port_in [of "rn_service r" sid] w by (auto simp: image_iff)
    moreover have "map_of (map (\<lambda>p. (p, True)) ?ports) p = Some True"
      using \<open>p \<in> set ?ports\<close> by (simp add: map_of_map_restrict)
    ultimately show ?thesis using Some w by (simp add: in_media_ports)
  qed
  moreover have "\<exists>st. server_states_new K (rn_config r) addr = Inr st"
    by (rule main_config_accepted [OF main_start_parts(3) [OF assms]])
  ultimately show ?thesis using w b by (auto simp: in_media_ports)
qed

text \<open>A host with two interfaces and the default command line.\<close>

definition demo_keys :: "nat key_lib" where
  "demo_keys =
     \<lparr>kl_default_not_after = 67767976233532799000000000, kl_certificate = (\<lambda>p. Inr (the (cp_key_pair p))),
      kl_key_pair = (\<lambda>x. x), kl_compatible = (\<lambda>x k. k = EcdsaP256Sha256), kl_key_der = (\<lambda>x. [of_nat x]),
      kl_from_pkcs8 = (\<lambda>k bs. Inr (unat (hd bs))), kl_certificate_der = (\<lambda>x. Inr [1, 2, 3])\<rparr>"

definition demo_main :: "(nat, nat) main_env" where
  "demo_main =
     \<lparr>me_networks = Some [[NetV4 0x7F000001], [NetV6 1, NetV4 0xC0A80105]], me_keys = demo_keys,
      me_key_pair = Inr 5, me_arm = False, me_time = 0, me_random = (\<lambda>i. i),
      me_dtls_config = (\<lambda>certs. Inr (length certs)), me_sctp_config = 0, me_sctp_port = 5000,
      me_max_message_size = 65536, me_meter_runtime = True, me_bind = (\<lambda>host port. host = IpV4 0xC0A80105)\<rparr>"

lemma demo_host: "host_address demo_main (cli_default None) = MainRun (IpV4 0xC0A80105)"
  by (simp add: host_address_def demo_main_def cli_default_def select_host_address_def expecting_def
      is_loopback_def is_link_local_def is_broadcast_def octet_def)

lemma demo_ports: "cli_media_port_min (cli_default k) = 3478" "cli_media_port_max (cli_default k) = 3478"
  by (simp_all add: cli_default_def)

lemma demo_grpc: "parse_socket_addr ''127.0.0.1:50051'' = Some (\<lparr>sa_ip = IpV4 2130706433, sa_port = 50051\<rparr>, 0)"
  by (simp add: parse_socket_addr_def read_socket_addr_v4_def read_ipv4_addr_def read_octet_def
        read_number_def digit_in_def hex_digit_def read_separator_def read_given_char_def read_port_def
        Let_def)

lemma demo_start:
  "\<exists>r :: (unit, u8 list boxed_backend, nat) running_server.
     main_start demo_main (cli_default None) = MainRun r \<and> rn_host r = IpV4 0xC0A80105"
proof -
  have "media_ports 3478 3478 = [3478]" by (simp add: media_ports_def)
  moreover have "me_bind demo_main (IpV4 0xC0A80105) 3478" by (simp add: demo_main_def)
  moreover have "main_config demo_main = MainRun (with_idle_timeout (30 * 1000000000)
      (server_config_new 5000 65536 1 0 [[[1, 2, 3]]]))"
    by (simp add: main_config_def demo_main_def demo_keys_def trying_def rtc_from_key_pair_def key_kind_of_def
        rtc_from_params_def private_key_of_def Let_def)
  moreover have "init_meter_provider demo_main = MainRun ()" by (simp add: init_meter_provider_def demo_main_def)
  ultimately show ?thesis
    using demo_host demo_grpc
    by (simp add: main_start_def main_transcription_def cli_default_def trying_def)
qed

theorem started_server_has_workers_witness:
  "\<exists>r :: (unit, u8 list boxed_backend, nat) running_server.
     main_start demo_main (cli_default None) = MainRun r \<and>
     sv_workers (rn_service r) = map (\<lambda>p. (p, True)) (media_ports 3478 3478) \<and>
     choose_port (rn_service r) 7 \<noteq> None"
proof -
  obtain r :: "(unit, u8 list boxed_backend, nat) running_server"
    where r: "main_start demo_main (cli_default None) = MainRun r" using demo_start by blast
  note w = started_server_has_workers [OF r, where sid = 7]
  have "choose_port (rn_service r) 7 \<noteq> None"
  proof
    assume "choose_port (rn_service r) 7 = None"
    with w show False by (simp add: demo_ports)
  qed
  moreover have "sv_workers (rn_service r) = map (\<lambda>p. (p, True)) (media_ports 3478 3478)"
    using conjunct1 [OF w] by (simp add: demo_ports)
  ultimately show ?thesis using r by blast
qed

text \<open>Unless told otherwise the host address is one that others can reach.\<close>

lemma first_some_Some: "first_some f xs = Some y \<Longrightarrow> \<exists>x \<in> set xs. f x = Some y"
  by (induction xs) (auto split: option.splits)

lemma usable_address_Some:
  "usable_address n = Some a \<Longrightarrow> \<exists>v. a = IpV4 v \<and> n = NetV4 v \<and> \<not> is_loopback v \<and> \<not> is_link_local v \<and> \<not> is_broadcast v"
  by (cases n) (auto split: if_splits)

lemma default_host_reachable:
  assumes "host_address E c = MainRun a" and "cli_host c = ''127.0.0.1''" and "\<not> cli_force_local_loop c"
  shows "\<exists>v nets. a = IpV4 v \<and> me_networks E = Some nets \<and> NetV4 v \<in> \<Union> (set ` set nets) \<and>
    \<not> is_loopback v \<and> \<not> is_link_local v \<and> \<not> is_broadcast v"
proof -
  obtain nets where n: "me_networks E = Some nets" "first_some (first_some usable_address) nets = Some a"
    using assms by (auto simp: host_address_def select_host_address_def split: Option.bind_splits)
  obtain ns x where x: "ns \<in> set nets" "x \<in> set ns" "usable_address x = Some a"
    using first_some_Some [OF n(2)] first_some_Some by metis
  then show ?thesis using usable_address_Some [OF x(3)] n(1) by auto
qed

end
