(* ===== verification/Shutdown.thy ===== *)
theory Shutdown
  imports Prelude
begin

text \<open>
  The end of the server: \<open>main\<close> of \<open>src/bin/sfu.rs\<close> from Ctrl-C on, with the thread of
  \<open>init_meter_provider\<close> and the ends of the media workers, as a step relation.

  The parts share two channels of capacity one, \<open>stop_tx\<close> to the media workers and \<open>stop_meter_tx\<close> to the
  metrics thread, and the wait group.  Of the crates only documented behaviour is used: sending waits while
  a bounded channel is full and has a receiver, a channel without senders tells its receivers, a
  broadcast without receivers fails at once, and \<open>wait\<close> returns when \<open>done\<close> has been called for each \<open>add\<close>.
\<close>

section \<open>State\<close>

text \<open>
  Where \<open>main\<close> is: the server runs; Ctrl-C has been sent to the media workers, and to the metrics thread,
  and the server is finishing; the server has returned; the second signals have been sent to the one and
  to the other; \<open>stop_tx\<close> has been dropped and \<open>main\<close> waits for the threads; it has ended.
\<close>

datatype main_point = Serving | StopSent | Finishing | Returned | SentAgain | MeterSentAgain | Dropped | Ended

text \<open>A media worker whose loop returned has called \<open>done\<close>; one that panicked has not.\<close>

datatype worker_status = WorkerRunning | WorkerDone | WorkerPanicked

datatype meter_status = MeterWaiting | MeterStopping | MeterDone

record shutdown_state =
  sd_main :: main_point
  sd_stop :: nat
  sd_workers :: "worker_status list"
  sd_meter_stop :: nat
  sd_meter :: meter_status

definition stop_capacity :: nat where
  "stop_capacity = 1"

definition meter_capacity :: nat where
  "meter_capacity = 1"

text \<open>The count of the wait group: every media worker and the metrics thread was added once.\<close>

definition wait_count :: "shutdown_state \<Rightarrow> nat" where
  "wait_count s =
     length (filter (\<lambda>w. w \<noteq> WorkerDone) (sd_workers s)) + (if sd_meter s = MeterDone then 0 else 1)"

text \<open>\<open>stop_meter_tx.broadcast(())\<close>: the thread drops the only receiver when it ends.\<close>

definition meter_ready :: "shutdown_state \<Rightarrow> bool" where
  "meter_ready s \<longleftrightarrow> sd_meter_stop s < meter_capacity \<or> sd_meter s = MeterDone"

definition meter_send :: "shutdown_state \<Rightarrow> shutdown_state" where
  "meter_send s = (if sd_meter s = MeterDone then s else s\<lparr>sd_meter_stop := Suc (sd_meter_stop s)\<rparr>)"

section \<open>Steps\<close>

text \<open>\<open>main\<close> itself keeps a receiver of \<open>stop_tx\<close> that never reads, so sending to the full channel waits.\<close>

inductive shutdown_step :: "shutdown_state \<Rightarrow> shutdown_state \<Rightarrow> bool" where
  ctrl_c: "sd_main s = Serving \<Longrightarrow> sd_stop s < stop_capacity \<Longrightarrow>
     shutdown_step s (s\<lparr>sd_main := StopSent, sd_stop := Suc (sd_stop s)\<rparr>)"
| meter_signal: "sd_main s = StopSent \<Longrightarrow> meter_ready s \<Longrightarrow> shutdown_step s ((meter_send s)\<lparr>sd_main := Finishing\<rparr>)"
| server_returns: "sd_main s = Finishing \<Longrightarrow> shutdown_step s (s\<lparr>sd_main := Returned\<rparr>)"
| send_again: "sd_main s = Returned \<Longrightarrow> sd_stop s < stop_capacity \<Longrightarrow>
     shutdown_step s (s\<lparr>sd_main := SentAgain, sd_stop := Suc (sd_stop s)\<rparr>)"
| meter_signal_again: "sd_main s = SentAgain \<Longrightarrow> meter_ready s \<Longrightarrow>
     shutdown_step s ((meter_send s)\<lparr>sd_main := MeterSentAgain\<rparr>)"
| drop_sender: "sd_main s = MeterSentAgain \<Longrightarrow> shutdown_step s (s\<lparr>sd_main := Dropped\<rparr>)"
| wait_returns: "sd_main s = Dropped \<Longrightarrow> wait_count s = 0 \<Longrightarrow> shutdown_step s (s\<lparr>sd_main := Ended\<rparr>)"
| worker_stops: "i < length (sd_workers s) \<Longrightarrow> sd_workers s ! i = WorkerRunning \<Longrightarrow> 0 < sd_stop s \<Longrightarrow>
     shutdown_step s (s\<lparr>sd_stop := sd_stop s - 1, sd_workers := (sd_workers s)[i := WorkerDone]\<rparr>)"
| worker_disconnected: "i < length (sd_workers s) \<Longrightarrow> sd_workers s ! i = WorkerRunning \<Longrightarrow> sd_stop s = 0 \<Longrightarrow>
     sd_main s = Dropped \<Longrightarrow> shutdown_step s (s\<lparr>sd_workers := (sd_workers s)[i := WorkerDone]\<rparr>)"
| meter_receives: "sd_meter s = MeterWaiting \<Longrightarrow> 0 < sd_meter_stop s \<Longrightarrow>
     shutdown_step s (s\<lparr>sd_meter := MeterStopping, sd_meter_stop := sd_meter_stop s - 1\<rparr>)"
| meter_ends: "sd_meter s = MeterStopping \<Longrightarrow> shutdown_step s (s\<lparr>sd_meter := MeterDone\<rparr>)"

text \<open>A worker that ends by itself: its loop returns an error when a datagram cannot be sent, and panics when
  the socket cannot be read.\<close>

inductive worker_fails :: "shutdown_state \<Rightarrow> shutdown_state \<Rightarrow> bool" where
  "i < length (sd_workers s) \<Longrightarrow> sd_workers s ! i = WorkerRunning \<Longrightarrow> w \<in> {WorkerDone, WorkerPanicked} \<Longrightarrow>
     worker_fails s (s\<lparr>sd_workers := (sd_workers s)[i := w]\<rparr>)"

definition serving :: "worker_status list \<Rightarrow> shutdown_state" where
  "serving workers =
     \<lparr>sd_main = Serving, sd_stop = 0, sd_workers = workers, sd_meter_stop = 0, sd_meter = MeterWaiting\<rparr>"

definition shut_down :: "shutdown_state \<Rightarrow> bool" where
  "shut_down s \<longleftrightarrow> sd_main s = Ended \<and> (\<forall>w \<in> set (sd_workers s). w = WorkerDone) \<and> sd_meter s = MeterDone"

inductive_cases shutdown_stepE: "shutdown_step s s'"

inductive_cases worker_failsE: "worker_fails s s'"

end
