(* ===== verification/Shutdown_Facts.thy ===== *)
theory Shutdown_Facts
  imports Shutdown
begin

text \<open>
  When the server ends: every run of the shutdown is finite, and it ends with everything stopped if a
  media worker is left to take the first signal and none has panicked.  Otherwise \<open>main\<close> never returns.
\<close>

section \<open>Progress\<close>

text \<open>The workers still running, and how far \<open>main\<close> and the metrics thread have to go.\<close>

definition running :: "shutdown_state \<Rightarrow> nat" where
  "running s = length (filter (\<lambda>w. w = WorkerRunning) (sd_workers s))"

fun main_left :: "main_point \<Rightarrow> nat" where
  "main_left Serving = 7"
| "main_left StopSent = 6"
| "main_left Finishing = 5"
| "main_left Returned = 4"
| "main_left SentAgain = 3"
| "main_left MeterSentAgain = 2"
| "main_left Dropped = 1"
| "main_left Ended = 0"

fun meter_left :: "meter_status \<Rightarrow> nat" where
  "meter_left MeterWaiting = 2"
| "meter_left MeterStopping = 1"
| "meter_left MeterDone = 0"

definition work_left :: "shutdown_state \<Rightarrow> nat" where
  "work_left s = main_left (sd_main s) + running s + meter_left (sd_meter s)"

lemma filter_stopped:
  "i < length ws \<Longrightarrow> ws ! i = WorkerRunning \<Longrightarrow> w \<noteq> WorkerRunning \<Longrightarrow>
     Suc (length (filter (\<lambda>w. w = WorkerRunning) (ws[i := w]))) = length (filter (\<lambda>w. w = WorkerRunning) ws)"
  by (induction ws arbitrary: i) (auto split: nat.splits simp: nth_Cons)

lemma running_update [simp]:
  "i < length (sd_workers s) \<Longrightarrow> sd_workers s ! i = WorkerRunning \<Longrightarrow>
     running (s\<lparr>sd_workers := (sd_workers s)[i := WorkerDone]\<rparr>) = running s - 1"
  "i < length (sd_workers s) \<Longrightarrow> sd_workers s ! i = WorkerRunning \<Longrightarrow>
     running (s\<lparr>sd_stop := k, sd_workers := (sd_workers s)[i := WorkerDone]\<rparr>) = running s - 1"
  "i < length (sd_workers s) \<Longrightarrow> sd_workers s ! i = WorkerRunning \<Longrightarrow> 0 < running s"
  using filter_stopped [of i "sd_workers s" WorkerDone] by (auto simp: running_def)

lemma running_same [simp]:
  "running (s\<lparr>sd_main := p\<rparr>) = running s" "running (s\<lparr>sd_main := p, sd_stop := k\<rparr>) = running s"
  "running (s\<lparr>sd_meter := m\<rparr>) = running s" "running (s\<lparr>sd_meter := m, sd_meter_stop := k\<rparr>) = running s"
  "running (meter_send s) = running s"
  by (simp_all add: running_def meter_send_def)

lemma meter_send_same [simp]:
  "sd_main (meter_send s) = sd_main s" "sd_stop (meter_send s) = sd_stop s"
  "sd_workers (meter_send s) = sd_workers s" "sd_meter (meter_send s) = sd_meter s"
  "sd_meter_stop (meter_send s) = (if sd_meter s = MeterDone then sd_meter_stop s else Suc (sd_meter_stop s))"
  by (simp_all add: meter_send_def)

lemma running_0: "running s = 0 \<longleftrightarrow> WorkerRunning \<notin> set (sd_workers s)"
  by (auto simp: running_def filter_empty_conv)

lemma shutdown_decreases: "shutdown_step s s' \<Longrightarrow> work_left s' < work_left s"
  by (erule shutdown_stepE) (auto simp: work_left_def dest: running_update(3))

lemma shutdown_bounded: "(shutdown_step ^^ n) s s' \<Longrightarrow> n + work_left s' \<le> work_left s"
proof (induction n arbitrary: s')
  case (Suc n)
  then obtain t where "(shutdown_step ^^ n) s t" "shutdown_step t s'" by auto
  with Suc.IH [of t] shutdown_decreases [of t s'] show ?case by linarith
qed simp

section \<open>The shutdown completes\<close>

text \<open>With \<open>r\<close> workers at the signal: how many are left, and what the channels hold, at each point.\<close>

definition shutdown_inv :: "nat \<Rightarrow> shutdown_state \<Rightarrow> bool" where
  "shutdown_inv r s \<longleftrightarrow>
     WorkerPanicked \<notin> set (sd_workers s) \<and>
     (case sd_main s of
        Serving \<Rightarrow> sd_stop s = 0 \<and> running s = r
      | StopSent \<Rightarrow> sd_stop s \<le> 1 \<and> running s + 1 = r + sd_stop s
      | Finishing \<Rightarrow> sd_stop s \<le> 1 \<and> running s + 1 = r + sd_stop s
      | Returned \<Rightarrow> sd_stop s \<le> 1 \<and> running s + 1 = r + sd_stop s
      | Ended \<Rightarrow> wait_count s = 0
      | _ \<Rightarrow> True) \<and>
     (if sd_main s \<in> {Serving, StopSent} then sd_meter s = MeterWaiting \<and> sd_meter_stop s = 0
      else if sd_main s \<in> {Finishing, Returned, SentAgain} then sd_meter s = MeterWaiting \<longrightarrow> sd_meter_stop s = 1
      else sd_meter s \<noteq> MeterWaiting)"

lemma no_panic_update:
  "WorkerPanicked \<notin> set ws \<Longrightarrow> WorkerPanicked \<notin> set (ws[i := WorkerDone])"
  by (auto dest: subsetD [OF set_update_subset_insert])

lemma wait_count_0:
  "wait_count s = 0 \<longleftrightarrow> (\<forall>w \<in> set (sd_workers s). w = WorkerDone) \<and> sd_meter s = MeterDone"
  by (auto simp: wait_count_def filter_empty_conv)

lemma wait_count_0_meter: "wait_count s = 0 \<Longrightarrow> sd_meter s \<noteq> MeterStopping"
  by (simp add: wait_count_0)

lemma wait_count_main [simp]: "wait_count (s\<lparr>sd_main := p\<rparr>) = wait_count s"
  by (simp add: wait_count_def)

lemma wait_count_idle: "wait_count s = 0 \<Longrightarrow> i < length (sd_workers s) \<Longrightarrow> sd_workers s ! i \<noteq> WorkerRunning"
  unfolding wait_count_0 using nth_mem by fastforce

interpretation stopping: state_machine "\<lambda>s. s = serving ws \<and> WorkerPanicked \<notin> set ws" shutdown_step
  "shutdown_inv (length (filter (\<lambda>w. w = WorkerRunning) ws))" for ws
proof
  fix s s'
  assume i: "shutdown_inv (length (filter (\<lambda>w. w = WorkerRunning) ws)) s" and "shutdown_step s s'"
  from this(2) show "shutdown_inv (length (filter (\<lambda>w. w = WorkerRunning) ws)) s'"
    by cases (use i in \<open>auto simp: shutdown_inv_def stop_capacity_def meter_ready_def meter_capacity_def no_panic_update
        split: main_point.splits if_splits dest: running_update(3) wait_count_idle wait_count_0_meter\<close>)
qed (auto simp: shutdown_inv_def serving_def running_def)

lemma shutdown_stuck:
  assumes "\<nexists>s'. shutdown_step s s'"
  shows "(sd_stop s = 0 \<or> running s = 0) \<and> sd_meter s \<noteq> MeterStopping \<and>
    (sd_meter s = MeterWaiting \<longrightarrow> sd_meter_stop s = 0) \<and>
    (case sd_main s of
       Serving \<Rightarrow> stop_capacity \<le> sd_stop s | Returned \<Rightarrow> stop_capacity \<le> sd_stop s
     | StopSent \<Rightarrow> \<not> meter_ready s | SentAgain \<Rightarrow> \<not> meter_ready s
     | Dropped \<Rightarrow> running s = 0 \<and> wait_count s \<noteq> 0 | Ended \<Rightarrow> True | _ \<Rightarrow> False)"
proof -
  have r: "\<exists>i. i < length (sd_workers s) \<and> sd_workers s ! i = WorkerRunning" if "running s \<noteq> 0"
    using that by (auto simp: running_0 in_set_conv_nth)
  have w: "sd_stop s = 0 \<or> running s = 0" using assms r worker_stops by blast
  moreover have "running s = 0" if "sd_main s = Dropped" using that assms r w worker_disconnected by metis
  moreover have "sd_meter s \<noteq> MeterStopping" "sd_meter s = MeterWaiting \<longrightarrow> sd_meter_stop s = 0"
    using assms meter_ends meter_receives by (blast, metis gr0I)
  moreover have "0 < wait_count s" if "sd_main s = Dropped" using that assms wait_returns by blast
  ultimately show ?thesis
    using assms ctrl_c [of s] meter_signal [of s] server_returns [of s] send_again [of s] meter_signal_again [of s]
      drop_sender [of s]
    by (cases "sd_main s") (simp_all, (meson not_le)+)
qed


text \<open>One worker has failed with an error before; the other takes the first signal, and the second stays in
  the channel.\<close>

definition demo_shutdown :: "main_point \<Rightarrow> nat \<Rightarrow> worker_status \<Rightarrow> nat \<Rightarrow> meter_status \<Rightarrow> shutdown_state" where
  "demo_shutdown p k w n m =
     \<lparr>sd_main = p, sd_stop = k, sd_workers = [WorkerDone, w], sd_meter_stop = n, sd_meter = m\<rparr>"

lemma demo_shutdown_steps:
  "shutdown_step (demo_shutdown Serving 0 WorkerRunning 0 MeterWaiting) (demo_shutdown StopSent 1 WorkerRunning 0 MeterWaiting)"
  "shutdown_step (demo_shutdown StopSent 1 WorkerRunning 0 MeterWaiting) (demo_shutdown Finishing 1 WorkerRunning 1 MeterWaiting)"
  "shutdown_step (demo_shutdown Finishing 1 WorkerRunning 1 MeterWaiting) (demo_shutdown Finishing 0 WorkerDone 1 MeterWaiting)"
  "shutdown_step (demo_shutdown Finishing 0 WorkerDone 1 MeterWaiting) (demo_shutdown Finishing 0 WorkerDone 0 MeterStopping)"
  "shutdown_step (demo_shutdown Finishing 0 WorkerDone 0 MeterStopping) (demo_shutdown Finishing 0 WorkerDone 0 MeterDone)"
  "shutdown_step (demo_shutdown Finishing 0 WorkerDone 0 MeterDone) (demo_shutdown Returned 0 WorkerDone 0 MeterDone)"
  "shutdown_step (demo_shutdown Returned 0 WorkerDone 0 MeterDone) (demo_shutdown SentAgain 1 WorkerDone 0 MeterDone)"
  "shutdown_step (demo_shutdown SentAgain 1 WorkerDone 0 MeterDone) (demo_shutdown MeterSentAgain 1 WorkerDone 0 MeterDone)"
  "shutdown_step (demo_shutdown MeterSentAgain 1 WorkerDone 0 MeterDone) (demo_shutdown Dropped 1 WorkerDone 0 MeterDone)"
  "shutdown_step (demo_shutdown Dropped 1 WorkerDone 0 MeterDone) (demo_shutdown Ended 1 WorkerDone 0 MeterDone)"
  using ctrl_c [of "demo_shutdown Serving 0 WorkerRunning 0 MeterWaiting"]
    meter_signal [of "demo_shutdown StopSent 1 WorkerRunning 0 MeterWaiting"]
    worker_stops [of 1 "demo_shutdown Finishing 1 WorkerRunning 1 MeterWaiting"]
    meter_receives [of "demo_shutdown Finishing 0 WorkerDone 1 MeterWaiting"]
    meter_ends [of "demo_shutdown Finishing 0 WorkerDone 0 MeterStopping"]
    server_returns [of "demo_shutdown Finishing 0 WorkerDone 0 MeterDone"]
    send_again [of "demo_shutdown Returned 0 WorkerDone 0 MeterDone"]
    meter_signal_again [of "demo_shutdown SentAgain 1 WorkerDone 0 MeterDone"]
    drop_sender [of "demo_shutdown MeterSentAgain 1 WorkerDone 0 MeterDone"]
    wait_returns [of "demo_shutdown Dropped 1 WorkerDone 0 MeterDone"]
  by (simp_all add: demo_shutdown_def stop_capacity_def meter_ready_def meter_capacity_def meter_send_def wait_count_def)

lemma demo_shutdown_reached:
  "(shutdown_step ^^ 10) (serving [WorkerDone, WorkerRunning]) (demo_shutdown Ended 1 WorkerDone 0 MeterDone)"
proof -
  have "serving [WorkerDone, WorkerRunning] = demo_shutdown Serving 0 WorkerRunning 0 MeterWaiting"
    by (simp add: serving_def demo_shutdown_def)
  then show ?thesis
    using demo_shutdown_steps by (simp add: eval_nat_numeral) (blast intro: relcomppI)
qed

lemma demo_shutdown_final: "\<nexists>s'. shutdown_step (demo_shutdown Ended 1 WorkerDone 0 MeterDone) s'"
  by (auto simp: demo_shutdown_def less_Suc_eq nth_Cons split: nat.splits elim!: shutdown_stepE)


section \<open>The shutdown hangs\<close>

text \<open>After the signal without workers: nobody empties the channel.\<close>

definition stalled :: "shutdown_state \<Rightarrow> bool" where
  "stalled s \<longleftrightarrow> running s = 0 \<and>
     (sd_main s = Serving \<and> sd_stop s = 0 \<or> sd_main s \<in> {StopSent, Finishing, Returned} \<and> sd_stop s = 1)"

lemma stalled_step: "shutdown_step s s' \<Longrightarrow> stalled s \<Longrightarrow> stalled s'"
  by (erule shutdown_stepE) (auto simp: stalled_def stop_capacity_def dest: running_update(3))

interpretation stalling: state_machine stalled shutdown_step stalled
  by unfold_locales (auto intro: stalled_step)

text \<open>With a panicked worker: the wait group never gets to 0.\<close>

definition lost :: "shutdown_state \<Rightarrow> bool" where
  "lost s \<longleftrightarrow> WorkerPanicked \<in> set (sd_workers s) \<and> sd_main s \<noteq> Ended"

lemma panicked_update:
  "WorkerPanicked \<in> set ws \<Longrightarrow> i < length ws \<Longrightarrow> ws ! i \<noteq> WorkerPanicked \<Longrightarrow> WorkerPanicked \<in> set (ws[i := w])"
  by (metis in_set_conv_nth length_list_update nth_list_update_neq)

lemma lost_step: "shutdown_step s s' \<Longrightarrow> lost s \<Longrightarrow> lost s'"
  by (erule shutdown_stepE) (auto simp: lost_def panicked_update wait_count_0)

interpretation losing: state_machine lost shutdown_step lost
  by unfold_locales (auto intro: lost_step)

lemma workers_fail: "worker_fails\<^sup>*\<^sup>* (serving ws) s \<Longrightarrow> sd_main s = Serving \<and> sd_stop s = 0"
  by (induction rule: rtranclp_induct) (auto simp: serving_def elim!: worker_failsE)

text \<open>C28: The shutdown can hang in two ways.  When no media worker is running any more at Ctrl-C, all having
  failed or none having been started, \<open>main\<close> waits for ever to send its second signal.  And
  when a worker has panicked, as it does when its socket cannot be read, \<open>main\<close> never gets past the wait group.\<close>

theorem shutdown_hangs:
  assumes "worker_fails\<^sup>*\<^sup>* (serving ws) s0" and "shutdown_step\<^sup>*\<^sup>* s0 s"
  shows "(WorkerRunning \<notin> set (sd_workers s0) \<longrightarrow> sd_main s \<in> {Serving, StopSent, Finishing, Returned}) \<and>
    (WorkerPanicked \<in> set (sd_workers s0) \<longrightarrow> sd_main s \<noteq> Ended)"
proof (intro conjI impI)
  note s0 = workers_fail [OF assms(1)]
  assume "WorkerRunning \<notin> set (sd_workers s0)"
  then have "stalled s0" using s0 by (simp add: stalled_def running_0)
  then have "stalled s" by (rule stalling.run_inv [OF _ assms(2)])
  then show "sd_main s \<in> {Serving, StopSent, Finishing, Returned}" by (auto simp: stalled_def)
next
  assume "WorkerPanicked \<in> set (sd_workers s0)"
  then have "lost s0" using workers_fail [OF assms(1)] by (simp add: lost_def)
  then have "lost s" by (rule losing.run_inv [OF _ assms(2)])
  then show "sd_main s \<noteq> Ended" by (simp add: lost_def)
qed

theorem shutdown_hangs_witness:
  "sd_main ((serving [WorkerPanicked])\<lparr>sd_main := StopSent, sd_stop := 1\<rparr>) \<in> {Serving, StopSent, Finishing, Returned}"
proof -
  have f: "worker_fails\<^sup>*\<^sup>* (serving [WorkerRunning]) (serving [WorkerPanicked])"
    using worker_fails.intros [of 0 "serving [WorkerRunning]" WorkerPanicked] by (simp add: serving_def r_into_rtranclp)
  have s: "shutdown_step\<^sup>*\<^sup>* (serving [WorkerPanicked]) ((serving [WorkerPanicked])\<lparr>sd_main := StopSent, sd_stop := 1\<rparr>)"
    using ctrl_c [of "serving [WorkerPanicked]"] by (simp add: serving_def stop_capacity_def r_into_rtranclp)
  show ?thesis using shutdown_hangs [OF f s] by (simp add: serving_def)
qed

end
