(* ===== verification/Renegotiation.thy ===== *)
theory Renegotiation
  imports Negotiation
begin

text \<open>
  Renegotiation over the data channel: what the server offers to a participant whose data channel
  opens, and what the others are offered when a participant publishes media.
\<close>

section \<open>The sections of an offer\<close>

text \<open>What an offer has for a transceiver of the endpoint it is made for.\<close>

definition offers_transceiver :: "session_description \<Rightarrow> mid \<Rightarrow> transceiver \<Rightarrow> bool" where
  "offers_transceiver d v t \<longleftrightarrow>
     (\<exists>m \<in> set (sd_media_descriptions d). get_mid_value m = Some v \<and>
        md_media m = codec_type_str (tr_kind t) \<and> get_peer_direction m = tr_direction t)"

lemma match_media_offer:
  assumes "match_media ts True m (secs, app, matched) = Inr (secs', app', matched')"
  shows "\<exists>new. secs' = secs @ new \<and> (\<forall>sec \<in> set new. ms_offered_direction sec = None) \<and>
    set matched' = set matched \<union> ms_mid ` set (filter (\<lambda>sec. \<not> ms_data sec) new) \<and>
    (\<forall>sec \<in> set new. get_mid_value m = Some (ms_mid sec))"
  using assms
  by (auto simp: match_media_def Let_def data_section_def simp del: set_filter split: option.splits if_splits)

lemma match_all_offer:
  assumes "match_all ts True ms (secs, app, matched) = Inr (secs', app', matched')"
  shows "\<exists>new. secs' = secs @ new \<and> (\<forall>sec \<in> set new. ms_offered_direction sec = None) \<and>
    set matched' = set matched \<union> ms_mid ` set (filter (\<lambda>sec. \<not> ms_data sec) new) \<and>
    (\<forall>sec \<in> set new. \<exists>m \<in> set ms. get_mid_value m = Some (ms_mid sec))"
  using assms
proof (induction ms arbitrary: secs app matched)
  case (Cons m ms)
  from Cons.prems obtain secs1 app1 matched1 where
    one: "match_media ts True m (secs, app, matched) = Inr (secs1, app1, matched1)" and
    rest: "match_all ts True ms (secs1, app1, matched1) = Inr (secs', app', matched')"
    by (auto simp: result_simps)
  obtain n1 where n1: "secs1 = secs @ n1" "\<forall>sec \<in> set n1. ms_offered_direction sec = None"
    "set matched1 = set matched \<union> ms_mid ` set (filter (\<lambda>sec. \<not> ms_data sec) n1)"
    "\<forall>sec \<in> set n1. get_mid_value m = Some (ms_mid sec)"
    using match_media_offer [OF one] by blast
  obtain n2 where n2: "secs' = secs1 @ n2" "\<forall>sec \<in> set n2. ms_offered_direction sec = None"
    "set matched' = set matched1 \<union> ms_mid ` set (filter (\<lambda>sec. \<not> ms_data sec) n2)"
    "\<forall>sec \<in> set n2. \<exists>m \<in> set ms. get_mid_value m = Some (ms_mid sec)"
    using Cons.IH [OF rest] by blast
  show ?case using n1 n2 by (intro exI [of _ "n1 @ n2"]) auto
qed simp

text \<open>The sections for matched transceivers come first, then those of the transceivers the participant has not
  described itself, in the order in which they were added.\<close>

lemma media_sections_offer:
  assumes "media_sections mids ts remote True = Inr secs"
  shows "\<exists>pre matched post. secs = pre @ map unmatched_section (filter (\<lambda>v. v \<notin> matched) mids) @ post \<and>
    (\<forall>sec \<in> set secs. ms_offered_direction sec = None) \<and>
    (\<forall>v \<in> matched. (\<exists>sec \<in> set pre. \<not> ms_data sec \<and> ms_mid sec = v) \<and>
       (\<exists>p. rd_parsed remote = Some p \<and> (\<exists>m \<in> set (sd_media_descriptions p). get_mid_value m = Some v)))"
proof -
  obtain pre app matched where m: "match_all ts True (case rd_parsed remote of Some p \<Rightarrow> sd_media_descriptions p | None \<Rightarrow> [])
      ([], False, []) = Inr (pre, app, matched)"
    and secs: "secs = (let s' = pre @ map unmatched_section (filter (\<lambda>v. v \<notin> set matched) mids)
                       in if app then s' else s' @ [data_section (dec (length s'))])"
    using assms by (auto simp: media_sections_def result_simps Let_def split: if_splits)
  have pre: "\<forall>sec \<in> set pre. ms_offered_direction sec = None" "set matched = ms_mid ` set (filter (\<lambda>sec. \<not> ms_data sec) pre)"
    "\<forall>sec \<in> set pre. \<exists>p. rd_parsed remote = Some p \<and> (\<exists>m \<in> set (sd_media_descriptions p). get_mid_value m = Some (ms_mid sec))"
    using match_all_offer [OF m] by (cases "rd_parsed remote"; auto)+
  show ?thesis
    unfolding secs Let_def
    using pre
    by (intro exI [of _ pre] exI [of _ "set matched"]
          exI [of _ "if app then [] else [data_section (dec (length (pre @ map unmatched_section (filter (\<lambda>v. v \<notin> set matched) mids))))]"])
      (auto simp: unmatched_section_def data_section_def)
qed

lemma media_sections_offer_covers:
  assumes "media_sections mids ts remote True = Inr secs" and "v \<in> set mids"
  shows "\<exists>sec \<in> set secs. ms_mid sec = v \<and> \<not> ms_data sec \<and> ms_offered_direction sec = None"
proof -
  obtain pre matched post where secs: "secs = pre @ map unmatched_section (filter (\<lambda>v. v \<notin> matched) mids) @ post"
    "\<forall>sec \<in> set secs. ms_offered_direction sec = None" "\<forall>v \<in> matched. \<exists>sec \<in> set pre. \<not> ms_data sec \<and> ms_mid sec = v"
    using media_sections_offer [OF assms(1)] by blast
  show ?thesis
  proof (cases "v \<in> matched")
    case True
    then show ?thesis using secs by fastforce
  next
    case False
    with assms(2) have "unmatched_section v \<in> set secs" using secs(1) by auto
    then show ?thesis by (auto simp: unmatched_section_def intro: bexI [of _ "unmatched_section v"])
  qed
qed

lemma create_offer_built:
  assumes L: "sdp_laws L" and a: "create_offer L sha eid remote ice s = Inr off"
    and ep: "hm_get (ss_endpoints s) eid = Some ep"
  shows "\<exists>d secs. rd_parsed off = Some d \<and> rd_sdp_type off = SdpOffer \<and>
    media_sections (ep_mids ep) (ep_transceivers ep) remote True = Inr secs \<and>
    length (sd_media_descriptions d) = length secs \<and>
    (\<forall>i < length secs. section_built (build_config_of (ss_config s)) (ep_transceivers ep) i (secs ! i)
                         (sd_media_descriptions d ! i))"
proof -
  obtain d where d: "generate_matched_sdp L sha eid remote ice False True (to_connection_role default_dtls_role_offer) s = Inr d"
    and off: "off = describe L SdpOffer d"
    using a by (auto simp: create_offer_def result_simps)
  have certs: "svc_certificates (scf_server_config (ss_config s)) \<noteq> []"
    using d by (auto simp: generate_matched_sdp_def Let_def result_simps split: option.splits)
  then obtain cert rest where certs: "svc_certificates (scf_server_config (ss_config s)) = cert # rest"
    by (cases "svc_certificates (scf_server_config (ss_config s))") auto
  obtain secs fps where m: "media_sections (ep_mids ep) (ep_transceivers ep) remote True = Inr secs"
    and b: "populate_sdp L (sl_new_session L False) fps (build_config_of (ss_config s)) ice
              (to_connection_role default_dtls_role_offer) secs (ep_transceivers ep) True = Inr d"
    using d by (auto simp: generate_matched_sdp_def Let_def result_simps certs ep)
  then show ?thesis
    using populate_sdp_built [OF L b] off by (intro exI [of _ d] exI [of _ secs]) simp
qed

lemma offer_covers:
  assumes L: "sdp_laws L" and a: "create_offer L sha eid remote ice s = Inr off"
    and ep: "hm_get (ss_endpoints s) eid = Some ep" and v: "v \<in> set (ep_mids ep)"
  shows "\<exists>d t. rd_parsed off = Some d \<and> rd_sdp_type off = SdpOffer \<and> hm_get (ep_transceivers ep) v = Some t \<and>
    offers_transceiver d v t"
proof -
  obtain d secs where d: "rd_parsed off = Some d" "rd_sdp_type off = SdpOffer"
    "media_sections (ep_mids ep) (ep_transceivers ep) remote True = Inr secs"
    "length (sd_media_descriptions d) = length secs"
    "\<forall>i < length secs. section_built (build_config_of (ss_config s)) (ep_transceivers ep) i (secs ! i)
                         (sd_media_descriptions d ! i)"
    using create_offer_built [OF assms(1-3)] by blast
  obtain sec where sec: "sec \<in> set secs" "ms_mid sec = v" "\<not> ms_data sec" "ms_offered_direction sec = None"
    using media_sections_offer_covers [OF d(3) v] by blast
  obtain i where i: "i < length secs" "secs ! i = sec" using sec(1) by (auto simp: in_set_conv_nth)
  have "section_built (build_config_of (ss_config s)) (ep_transceivers ep) i sec (sd_media_descriptions d ! i)"
    using d(5) i by auto
  moreover have "sd_media_descriptions d ! i \<in> set (sd_media_descriptions d)" using i d(4) by simp
  ultimately show ?thesis
    using d(1,2) sec by (auto simp: section_built_def offers_transceiver_def answer_direction_def)
qed

section \<open>Offers sent over the data channel\<close>

lemma put_session_modify:
  assumes "hm_wf (st_sessions st)" and "hm_get (st_sessions st) sid = Some s"
  shows "put_session sid (s\<lparr>ss_endpoints := hm_modify eid f (ss_endpoints s)\<rparr>) st = modify_endpoint sid eid f st"
  using assms hm_in_set_get [OF assms(1)]
  by (auto simp: put_session_def modify_endpoint_def hm_modify_def intro!: server_states.equality)

lemma put_session_twice [simp]: "put_session sid s (put_session sid s' st) = put_session sid s st"
  by (auto simp: put_session_def hm_modify_def intro!: server_states.equality)

text \<open>A message that could be made is an offer for the endpoint its transport leads to, and clears the flag
  of that endpoint alone.\<close>

lemma offer_message:
  assumes L: "sdp_laws (lib_sdp E)" and wf: "hm_wf (st_sessions st)"
    and r: "create_offer_message_event E J now tc h strm st = (Inr m, st')"
  shows "\<exists>sid eid s ep off text. find_endpoint (four_tuple_of tc) st = Some (sid, eid) \<and>
    hm_get (st_sessions st) sid = Some s \<and> hm_get (ss_endpoints s) eid = Some ep \<and>
    js_show_description J off = Inr text \<and> m = data_channel_tagged now tc h strm text \<and>
    (\<forall>v \<in> set (ep_mids ep). \<exists>d t. rd_parsed off = Some d \<and> rd_sdp_type off = SdpOffer \<and>
       hm_get (ep_transceivers ep) v = Some t \<and> offers_transceiver d v t) \<and>
    st' = modify_endpoint sid eid (set_renegotiation_needed False) st"
proof -
  obtain sid eid s ep where loc: "find_endpoint (four_tuple_of tc) st = Some (sid, eid)"
    "hm_get (st_sessions st) sid = Some s" "hm_get (ss_endpoints s) eid = Some ep"
    using r by (auto simp: create_offer_message_event_def Let_def ok_or_def and_then_def split: option.splits)
  let ?s1 = "s\<lparr>ss_endpoints := hm_modify eid (set_renegotiation_needed False) (ss_endpoints s)\<rparr>"
  note step = create_offer_message_event_def Let_def ok_or_def and_then_def
  obtain remote where remote: "ep_remote_description ep = Some remote"
    using r loc by (cases "ep_remote_description ep") (simp_all add: step)
  obtain t where t: "hm_get (ep_transports ep) (four_tuple_of tc) = Some t"
    using r loc remote by (cases "hm_get (ep_transports ep) (four_tuple_of tc)") (simp_all add: step)
  let ?ice = "cc_ice (cd_local_cred (tp_candidate t))"
  obtain off where off: "create_offer (lib_sdp E) (lib_sha256 E) eid remote ?ice ?s1 = Inr off"
    using r loc remote t
    by (cases "create_offer (lib_sdp E) (lib_sha256 E) eid remote ?ice ?s1") (simp_all add: step)
  have rest: "(case set_local_description eid off ?s1 of
        (Inl e, s2) \<Rightarrow> (Inl e, put_session sid s2 (put_session sid ?s1 st))
      | (Inr _, s2) \<Rightarrow> (and_then (show_json J off) (\<lambda>text. Inr (data_channel_tagged now tc h strm text)),
                       put_session sid s2 (put_session sid ?s1 st))) = (Inr m, st')"
    using r loc remote t off by (simp add: create_offer_message_event_def Let_def ok_or_def and_then_def [of "Inr _"])
  have ep1: "hm_get (ss_endpoints ?s1) eid = Some (set_renegotiation_needed False ep)" by (simp add: loc)
  obtain d where d: "rd_parsed off = Some d" "rd_sdp_type off = SdpOffer"
    using create_offer_built [OF L off ep1] by blast
  have "set_local_description eid off ?s1 = (Inr (), ?s1)"
    using d loc(3) by (simp add: set_local_description_def session_has_endpoint_def hm_contains_get)
  with rest obtain json where "js_show_description J off = Inr json" "m = data_channel_tagged now tc h strm json"
    "st' = put_session sid ?s1 st"
    by (auto simp: show_json_def and_then_def split: sum.splits)
  moreover have "\<exists>d t. rd_parsed off = Some d \<and> rd_sdp_type off = SdpOffer \<and>
      hm_get (ep_transceivers ep) v = Some t \<and> offers_transceiver d v t" if "v \<in> set (ep_mids ep)" for v
    using offer_covers [OF L off ep1, of v] that by (simp add: set_renegotiation_needed_def)
  ultimately show ?thesis
    using loc put_session_modify [OF wf loc(2)] by (intro exI conjI) auto
qed

section \<open>A data channel opens\<close>

lemma foldl_add_transceiver:
  "ep_mids (foldl (\<lambda>ep t. add_transceiver t ep) ep ts) = ep_mids ep @ map tr_mid ts"
  "distinct (map tr_mid ts) \<Longrightarrow> t \<in> set ts \<Longrightarrow>
   hm_get (ep_transceivers (foldl (\<lambda>ep t. add_transceiver t ep) ep ts)) (tr_mid t) = Some t"
proof -
  show "ep_mids (foldl (\<lambda>ep t. add_transceiver t ep) ep ts) = ep_mids ep @ map tr_mid ts"
    by (induction ts arbitrary: ep) (simp_all add: add_transceiver_def)
  have other: "hm_get (ep_transceivers (foldl (\<lambda>ep t. add_transceiver t ep) ep ts)) v = hm_get (ep_transceivers ep) v"
    if "v \<notin> tr_mid ` set ts" for ep :: "('a, 'b) endpoint" and v ts
    using that by (induction ts arbitrary: ep) (auto simp: add_transceiver_def)
  show "distinct (map tr_mid ts) \<Longrightarrow> t \<in> set ts \<Longrightarrow>
     hm_get (ep_transceivers (foldl (\<lambda>ep t. add_transceiver t ep) ep ts)) (tr_mid t) = Some t"
  proof (induction ts arbitrary: ep)
    case (Cons x xs)
    show ?case
    proof (cases "t = x")
      case True
      with Cons.prems other [of "tr_mid x" xs "add_transceiver x ep"] show ?thesis by (simp add: add_transceiver_def)
    qed (use Cons in simp)
  qed simp
qed

lemma foldl_add_transceiver_keeps [simp]:
  "ep_remote_description (foldl (\<lambda>ep t. add_transceiver t ep) e ts) = ep_remote_description e"
  "ep_transports (foldl (\<lambda>ep t. add_transceiver t ep) e ts) = ep_transports e"
  by (induction ts arbitrary: e) (simp_all add: add_transceiver_def)

text \<open>The media the other endpoints of a session publish: identifier at the publisher, and its transceiver.\<close>

definition published ::
  "endpoint_id \<Rightarrow> ('x, 'f) session \<Rightarrow> (endpoint_id \<times> mid \<times> transceiver) set" where
  "published eid s =
     {(oid, v, t). oid \<noteq> eid \<and> (\<exists>oep. hm_get (ss_endpoints s) oid = Some oep \<and>
        hm_get (ep_transceivers oep) v = Some t \<and> tr_direction t = Recvonly)}"

definition relayed :: "endpoint_id \<Rightarrow> mid \<Rightarrow> transceiver \<Rightarrow> transceiver" where
  "relayed oid v t = t\<lparr>tr_mid := peer_mid oid v, tr_direction := Sendonly\<rparr>"

lemma transceivers_to_offer_published:
  assumes ok: "session_ok cfg sid s"
  shows "set (transceivers_to_offer eid (ss_endpoints s)) = (\<lambda>(oid, v, t). relayed oid v t) ` published eid s"
    and "distinct (map tr_mid (transceivers_to_offer eid (ss_endpoints s)))"
proof -
  have wf: "hm_wf (ss_endpoints s)" by (rule session_okD(1) [OF ok])
  have twf: "hm_wf (ep_transceivers oep)" if "(oid, oep) \<in> set (ss_endpoints s)" for oid oep
    using session_okD(4) [OF ok, of oid oep] that hm_in_set_get [OF wf]
    by (simp add: endpoint_ok_def transceivers_ok_def)
  show "set (transceivers_to_offer eid (ss_endpoints s)) = (\<lambda>(oid, v, t). relayed oid v t) ` published eid s"
  proof (intro equalityI subsetI)
    fix x assume "x \<in> set (transceivers_to_offer eid (ss_endpoints s))"
    then obtain oid oep v t where "(oid, oep) \<in> set (ss_endpoints s)" "oid \<noteq> eid" "(v, t) \<in> set (ep_transceivers oep)"
      "tr_direction t = Recvonly" "x = relayed oid v t"
      by (auto simp: transceivers_to_offer_def relayed_def split: if_splits)
    then show "x \<in> (\<lambda>(oid, v, t). relayed oid v t) ` published eid s"
      using hm_in_set_get [OF wf] hm_in_set_get [OF twf] by (force simp: published_def)
  next
    fix x assume "x \<in> (\<lambda>(oid, v, t). relayed oid v t) ` published eid s"
    then obtain oid oep v t where "oid \<noteq> eid" "hm_get (ss_endpoints s) oid = Some oep"
      "hm_get (ep_transceivers oep) v = Some t" "tr_direction t = Recvonly" "x = relayed oid v t"
      by (auto simp: published_def)
    then have x: "(oid, oep) \<in> set (ss_endpoints s)" "oid \<noteq> eid" "(v, t) \<in> set (ep_transceivers oep)"
      "tr_direction t = Recvonly" "x = relayed oid v t" using hm_get_in_set by fastforce+
    have "x \<in> (\<lambda>(v, t). t\<lparr>tr_mid := peer_mid oid v, tr_direction := Sendonly\<rparr>) `
        {(v, t). (v, t) \<in> set (ep_transceivers oep) \<and> tr_direction t = Recvonly}"
      by (rule image_eqI [of _ _ "(v, t)"]) (simp_all add: x relayed_def)
    then show "x \<in> set (transceivers_to_offer eid (ss_endpoints s))"
      using x(1,2) by (auto simp: transceivers_to_offer_def intro!: bexI [of _ "(oid, oep)"])
  qed
  show "distinct (map tr_mid (transceivers_to_offer eid (ss_endpoints s)))"
  proof -
    let ?mids = "\<lambda>x. map tr_mid (case x of (oid, oep) \<Rightarrow>
      if oid \<noteq> eid then map (\<lambda>(v, t). t\<lparr>tr_mid := peer_mid oid v, tr_direction := Sendonly\<rparr>)
        (filter (\<lambda>(v, t). tr_direction t = Recvonly) (ep_transceivers oep)) else [])"
    have "distinct (concat (map ?mids (ss_endpoints s)))"
    proof (rule distinct_concat_keys)
      show "distinct (map fst (ss_endpoints s))" using wf by (simp add: hm_wf_def)
      show "distinct (?mids x)" if x: "x \<in> set (ss_endpoints s)" for x
      proof -
        obtain oid oep where e: "x = (oid, oep)" by (cases x)
        let ?ts = "filter (\<lambda>(v, t). tr_direction t = Recvonly) (ep_transceivers oep)"
        have "distinct (map fst ?ts)"
          using twf [of oid oep] x e by (simp add: hm_wf_def distinct_map_filter)
        then have "distinct (map (peer_mid oid) (map fst ?ts))" by (subst distinct_map) (simp add: inj_on_def)
        moreover have "map tr_mid (map (\<lambda>(v, t). t\<lparr>tr_mid := peer_mid oid v, tr_direction := Sendonly\<rparr>) ?ts) =
            map (peer_mid oid) (map fst ?ts)"
          by auto
        ultimately show ?thesis unfolding e by (simp only: prod.case split: if_split) simp
      qed
      show "fst x = fst y" if "a \<in> set (?mids x)" "a \<in> set (?mids y)" for x y a
        using that by (auto split: prod.splits if_splits)
    qed
    then show ?thesis by (simp add: transceivers_to_offer_def map_concat comp_def)
  qed
qed

lemma modify_endpoint_get:
  "hm_get (st_sessions (modify_endpoint sid eid f st)) sid' =
     map_option (\<lambda>s. if sid' = sid then s\<lparr>ss_endpoints := hm_modify eid f (ss_endpoints s)\<rparr> else s)
       (hm_get (st_sessions st) sid')"
  "find_endpoint ft (modify_endpoint sid eid f st) = find_endpoint ft st"
  "hm_wf (st_sessions (modify_endpoint sid eid f st)) = hm_wf (st_sessions st)"
  by (auto simp: modify_endpoint_def find_endpoint_def option.map_ident)

text \<open>C5: A participant is offered what the others publish.  When its data channel opens, the channel
  is recorded for its transport, and if any other endpoint of the session publishes media, exactly one
  message goes out, on this channel: an offer with a section for each published transceiver, under an
  identifier made of the publisher and its own, of the same kind, which the server sends and does not
  receive.  If nobody publishes, nothing is sent.\<close>

theorem newcomer_offered_published_media:
  assumes "sdp_laws (lib_sdp E)" and "states_ok st"
    and "find_endpoint (four_tuple_of tc) st = Some (sid, eid)" and "hm_get (st_sessions st) sid = Some s"
    and "handle_datachannel_open E J now tc h strm st = (Inr ms, st')"
  shows "(\<exists>t. transport_at st' sid eid (four_tuple_of tc) = Some t \<and> tp_association_handle t = Some h \<and>
      tp_stream_id t = Some strm) \<and>
    (if published eid s = {} then ms = []
     else \<exists>off d json. js_show_description J off = Inr json \<and> ms = [data_channel_tagged now tc h strm json] \<and>
       rd_parsed off = Some d \<and> rd_sdp_type off = SdpOffer \<and>
       (\<forall>(oid, v, t) \<in> published eid s. offers_transceiver d (peer_mid oid v) (relayed oid v t)))"
proof -
  let ?ft = "four_tuple_of tc" and ?new = "transceivers_to_offer eid (ss_endpoints s)"
  have sok: "session_ok (states_config st) sid s" using states_okD(4) [OF assms(2,4)] .
  note new = transceivers_to_offer_published [OF sok, of eid]
  obtain ep where ep: "hm_get (ss_endpoints s) eid = Some ep"
    using assms(3-5) by (cases "hm_get (ss_endpoints s) eid") (simp_all add: handle_datachannel_open_def Let_def and_then_def)
  obtain t where t: "hm_get (ep_transports ep) ?ft = Some t"
    using assms(3-5) ep
    by (cases "hm_get (ep_transports ep) ?ft") (simp_all add: handle_datachannel_open_def Let_def and_then_def)
  let ?f = "\<lambda>ep. foldl (\<lambda>ep t. add_transceiver t ep) (set_renegotiation_needed (?new \<noteq> [])
      (modify_transport ?ft (set_association_handle_and_stream_id h strm) ep)) ?new"
  let ?st1 = "modify_endpoint sid eid ?f st"
  have open': "(if ?new \<noteq> [] then
        (case create_offer_message_event E J now tc h strm ?st1 of (Inl e, st2) \<Rightarrow> (Inl e, st2) | (Inr m, st2) \<Rightarrow> (Inr [m], st2))
      else (Inr [], ?st1)) = (Inr ms, st')"
    using assms(3-5) ep t by (simp add: handle_datachannel_open_def Let_def and_then_def)
  have tr: "hm_get (ep_transports (?f ep)) ?ft = Some (set_association_handle_and_stream_id h strm t)"
    using t by (simp add: set_renegotiation_needed_def modify_transport_def)
  have set: "transport_at ?st1 sid eid ?ft = Some (set_association_handle_and_stream_id h strm t)"
    using assms(4) ep tr by (simp add: transport_at_Some modify_endpoint_get)
  show ?thesis
  proof (cases "published eid s = {}")
    case True
    then have "?new = []" using new(1) by simp
    then have "ms = []" "st' = ?st1" using open' by auto
    then show ?thesis using True set by (simp add: set_association_handle_and_stream_id_def)
  next
    case False
    then have "?new \<noteq> []" using new(1) by auto
    then obtain m where m: "create_offer_message_event E J now tc h strm ?st1 = (Inr m, st')" "ms = [m]"
      using open' by (auto split: sum.splits prod.splits)
    have wf: "hm_wf (st_sessions ?st1)" using states_okD(1) [OF assms(2)] by (simp add: modify_endpoint_get)
    obtain off json where off: "js_show_description J off = Inr json" "m = data_channel_tagged now tc h strm json"
      "\<forall>v \<in> set (ep_mids (?f ep)). \<exists>d t. rd_parsed off = Some d \<and> rd_sdp_type off = SdpOffer \<and>
         hm_get (ep_transceivers (?f ep)) v = Some t \<and> offers_transceiver d v t"
      "st' = modify_endpoint sid eid (set_renegotiation_needed False) ?st1"
      using offer_message [OF assms(1) wf m(1)] assms(3,4) ep by (auto simp: modify_endpoint_get)
    have each: "\<exists>d. rd_parsed off = Some d \<and> rd_sdp_type off = SdpOffer \<and> offers_transceiver d (tr_mid x) x"
      if "x \<in> set ?new" for x
    proof -
      have "tr_mid x \<in> set (ep_mids (?f ep))" "hm_get (ep_transceivers (?f ep)) (tr_mid x) = Some x"
        using that foldl_add_transceiver(2) [OF new(2) that] by (simp_all add: foldl_add_transceiver(1))
      with bspec [OF off(3), of "tr_mid x"] show ?thesis by simp
    qed
    obtain d where d: "rd_parsed off = Some d" "rd_sdp_type off = SdpOffer"
      using each \<open>?new \<noteq> []\<close> by (meson last_in_set)
    have all: "\<forall>(oid, v, t) \<in> published eid s. offers_transceiver d (peer_mid oid v) (relayed oid v t)"
    proof clarify
      fix oid v t assume "(oid, v, t) \<in> published eid s"
      then have "relayed oid v t \<in> set ?new" unfolding new(1) by (force intro: image_eqI)
      from each [OF this] d show "offers_transceiver d (peer_mid oid v) (relayed oid v t)" by (simp add: relayed_def)
    qed
    have "transport_at st' sid eid ?ft = Some (set_association_handle_and_stream_id h strm t)"
      using assms(4) ep tr by (simp add: off(4) transport_at_Some modify_endpoint_get set_renegotiation_needed_def)
    moreover have "\<exists>off d json. js_show_description J off = Inr json \<and> ms = [data_channel_tagged now tc h strm json] \<and>
       rd_parsed off = Some d \<and> rd_sdp_type off = SdpOffer \<and>
       (\<forall>(oid, v, t) \<in> published eid s. offers_transceiver d (peer_mid oid v) (relayed oid v t))"
      using off(1,2) d m(2) all by (intro exI conjI) simp_all
    ultimately show ?thesis
      using False by (simp add: set_association_handle_and_stream_id_def)
  qed
qed

text \<open>A room in which the second participant publishes its microphone and the first has just joined;
  \<open>desc\<close> is how the published stream is described, if at all.\<close>

definition demo_sender :: rtp_sender where
  "demo_sender = \<lparr>sn_cname = ''mic'', sn_msid = \<lparr>stream_id = ''s'', track_id = ''t''\<rparr>, sn_ssrcs = [7], sn_ssrc_groups = []\<rparr>"

definition listener :: "(nat, unit) endpoint" where
  "listener = (demo_endpoint 1)\<lparr>ep_remote_description := Some (offer_description data_only)\<rparr>"

definition publisher :: "rtp_sender option \<Rightarrow> (nat, unit) endpoint" where
  "publisher desc = add_transceiver (demo_transceiver\<lparr>tr_sender := desc\<rparr>) (demo_endpoint 2)"

definition room :: "rtp_sender option \<Rightarrow> (nat, unit) session" where
  "room desc = demo_session\<lparr>ss_endpoints := [(1, listener), (2, publisher desc)]\<rparr>"

definition room_states :: "rtp_sender option \<Rightarrow> (nat, unit) server_states" where
  "room_states desc = demo_states\<lparr>st_sessions := [(7, room desc)]\<rparr>"

lemma room_states_ok: "states_ok (room_states desc)"
proof -
  have "endpoint_ok 7 1 listener"
    using demo_endpoint_ok [of 1] by (simp add: listener_def endpoint_ok_def transports_ok_def transceivers_ok_def)
  moreover have "endpoint_ok 7 2 (publisher desc)"
    using demo_endpoint_ok [of 2]
    by (simp add: publisher_def add_transceiver_def demo_transceiver_def endpoint_ok_def transports_ok_def
        transceivers_ok_def demo_endpoint_def add_transport_def endpoint_new_def hm_all_def hm_insert_def)
  ultimately show ?thesis
    using demo_states_ok
    by (auto simp: states_ok_def room_states_def room_def demo_states_def session_ok_def demo_session_def
        states_config_def hm_all_def)
qed

lemma room_lookup [simp]:
  "find_endpoint (demo_tuple 1) (room_states desc) = Some (7, 1)"
  "hm_get (st_sessions (room_states desc)) 7 = Some (room desc)"
  "hm_get (ss_endpoints (room desc)) 1 = Some listener"
  "ss_endpoints (room desc) = [(1, listener), (2, publisher desc)]"
  "ep_transports listener = [(demo_tuple 1, demo_transport 1)]"
  "ep_transceivers listener = []" "ep_mids listener = []"
  "ep_remote_description listener = Some (offer_description data_only)"
  "ep_transceivers (publisher desc) = [(''0'', demo_transceiver\<lparr>tr_sender := desc\<rparr>)]"
  using demo_lookup(3)
  by (simp_all add: room_states_def room_def demo_states_def find_endpoint_def listener_def publisher_def
      add_transceiver_def demo_transceiver_def)
     (simp_all add: demo_endpoint_def add_transport_def endpoint_new_def hm_insert_def demo_transport_def transport_new_def)

lemma offer_message_result:
  assumes "find_endpoint (four_tuple_of tc) st = Some (sid, eid)" and "hm_get (st_sessions st) sid = Some s"
    and "hm_get (ss_endpoints s) eid = Some ep" and "ep_remote_description ep = Some remote"
    and "hm_get (ep_transports ep) (four_tuple_of tc) = Some t"
  shows "fst (create_offer_message_event E J now tc h strm st) =
    and_then (create_offer (lib_sdp E) (lib_sha256 E) eid remote (cc_ice (cd_local_cred (tp_candidate t)))
        (s\<lparr>ss_endpoints := hm_modify eid (set_renegotiation_needed False) (ss_endpoints s)\<rparr>)) (\<lambda>off.
      and_then (show_json J off) (\<lambda>text. Inr (data_channel_tagged now tc h strm text)))"
proof -
  let ?s1 = "s\<lparr>ss_endpoints := hm_modify eid (set_renegotiation_needed False) (ss_endpoints s)\<rparr>"
  let ?off = "create_offer (lib_sdp E) (lib_sha256 E) eid remote (cc_ice (cd_local_cred (tp_candidate t))) ?s1"
  have local_set: "set_local_description eid off ?s1 = (Inr (), ?s1)" if "?off = Inr off" for off
    using that assms(3) by (auto simp: create_offer_def result_simps set_local_description_def
        session_has_endpoint_def hm_contains_get)
  show ?thesis
    using assms local_set
    by (cases ?off) (simp_all add: create_offer_message_event_def Let_def ok_or_def and_then_def [of "Inr _"] and_then_def [of "Inl _"])
qed

lemma open_result:
  fixes r :: "'m tagged list res" and s :: "('x, 'f) session"
  assumes "find_endpoint (four_tuple_of tc) st = Some (sid, eid)" and "hm_get (st_sessions st) sid = Some s"
    and "hm_get (ss_endpoints s) eid = Some ep" and "ep_remote_description ep = Some remote"
    and "hm_get (ep_transports ep) (four_tuple_of tc) = Some t"
    and r: "r = fst (handle_datachannel_open E J now tc h strm st)"
    and new: "transceivers_to_offer eid (ss_endpoints s) = new" "new \<noteq> []"
  shows "\<exists>(s' :: ('x, 'f) session) ep'. r =
      and_then (create_offer (lib_sdp E) (lib_sha256 E) eid remote (cc_ice (cd_local_cred (tp_candidate t))) s') (\<lambda>off.
        and_then (show_json J off) (\<lambda>text. Inr [data_channel_tagged now tc h strm text])) \<and>
      ss_config s' = ss_config s \<and> hm_get (ss_endpoints s') eid = Some ep' \<and> ep_mids ep' = ep_mids ep @ map tr_mid new \<and>
      ep_transceivers ep' = ep_transceivers (foldl (\<lambda>ep t. add_transceiver t ep) ep new)"
proof -
  let ?f = "\<lambda>ep. foldl (\<lambda>ep t. add_transceiver t ep) (set_renegotiation_needed True
      (modify_transport (four_tuple_of tc) (set_association_handle_and_stream_id h strm) ep)) new"
  let ?st1 = "modify_endpoint sid eid ?f st"
  let ?s' = "s\<lparr>ss_endpoints := hm_modify eid (set_renegotiation_needed False) (hm_modify eid ?f (ss_endpoints s))\<rparr>"
  have same: "ep_transceivers (foldl (\<lambda>ep t. add_transceiver t ep) e ts) =
      ep_transceivers (foldl (\<lambda>ep t. add_transceiver t ep) e' ts)"
    if "ep_transceivers e = ep_transceivers e'" for e e' :: "('x, 'f) endpoint" and ts
    using that by (induction ts arbitrary: e e') (simp_all add: add_transceiver_def)
  have "r = and_then (fst (create_offer_message_event E J now tc h strm ?st1)) (\<lambda>m. Inr [m])"
    using assms unfolding r by (simp add: handle_datachannel_open_def Let_def and_then_def split: prod.splits sum.splits)
  also have "fst (create_offer_message_event E J now tc h strm ?st1) =
      and_then (create_offer (lib_sdp E) (lib_sha256 E) eid remote (cc_ice (cd_local_cred (tp_candidate t))) ?s') (\<lambda>off.
        and_then (show_json J off) (\<lambda>text. Inr (data_channel_tagged now tc h strm text)))"
    using assms(1-5) offer_message_result [of tc ?st1 sid eid "s\<lparr>ss_endpoints := hm_modify eid ?f (ss_endpoints s)\<rparr>" "?f ep" remote
        "set_association_handle_and_stream_id h strm t"]
    by (simp add: modify_endpoint_get set_renegotiation_needed_def modify_transport_def set_association_handle_and_stream_id_def)
  finally show ?thesis
    using assms(3) same [of "set_renegotiation_needed True (modify_transport (four_tuple_of tc)
        (set_association_handle_and_stream_id h strm) ep)" ep new]
    by (intro exI [of _ ?s'] exI [of _ "set_renegotiation_needed False (?f ep)"])
       (simp add: and_then_def set_renegotiation_needed_def modify_transport_def foldl_add_transceiver(1) split: sum.split)
qed

lemma room_offer_exists:
  assumes "ss_config s = ss_config demo_session" and "hm_get (ss_endpoints s) 1 = Some ep"
    and "ep_mids ep = [peer_mid 2 ''0''] \<or> ep_mids ep = [peer_mid 2 ''0'', peer_mid 2 ''0'']"
    and "ep_transceivers ep = [(peer_mid 2 ''0'', relayed 2 ''0'' (demo_transceiver\<lparr>tr_sender := Some demo_sender\<rparr>))]"
  shows "\<exists>off. create_offer plain_sdp sha 1 (offer_description data_only) ice s = Inr off"
proof -
  have "''0'' \<noteq> peer_mid 2 ''0''" by (auto simp: peer_mid_def dest: arg_cong [where f = length])
  with assms show ?thesis
    by (elim disjE)
      (simp_all add: create_offer_def generate_matched_sdp_def media_sections_def data_only_def
        match_media_def media_section_application_def
        demo_session_def demo_config_def server_config_new_def
        populate_sdp_def populate_section_def add_transceiver_sdp_def transceiver_media_def Let_def
        build_config_of_def data_section_def unmatched_section_def answer_direction_def demo_transceiver_def relayed_def)
qed

theorem newcomer_offered_published_media_witness:
  "\<exists>(ms :: 'm tagged list) st' off d json. handle_datachannel_open demo_lib demo_json 10 (demo_context 1) 3 4 (room_states (Some demo_sender)) = (Inr ms, st') \<and>
     ms = [data_channel_tagged 10 (demo_context 1) 3 4 json] \<and> js_show_description demo_json off = Inr json \<and>
     rd_parsed off = Some d \<and>
     offers_transceiver d (peer_mid 2 ''0'') (relayed 2 ''0'' (demo_transceiver\<lparr>tr_sender := Some demo_sender\<rparr>))"
proof -
  let ?x = "demo_transceiver\<lparr>tr_sender := Some demo_sender\<rparr>"
  obtain r :: "'m tagged list res" and st' where
    o: "handle_datachannel_open demo_lib demo_json 10 (demo_context 1) 3 4 (room_states (Some demo_sender)) = (r, st')"
    by (cases "handle_datachannel_open demo_lib demo_json 10 (demo_context 1) 3 4 (room_states (Some demo_sender))
        :: 'm tagged list res \<times> _")
  have new: "transceivers_to_offer 1 (ss_endpoints (room (Some demo_sender))) = [relayed 2 ''0'' ?x]"
    by (simp add: transceivers_to_offer_def relayed_def demo_transceiver_def)
  obtain s' :: "(nat, unit) session" and ep' where r: "r =
      and_then (create_offer plain_sdp (lib_sha256 demo_lib) 1 (offer_description data_only)
          (cc_ice (cd_local_cred (tp_candidate (demo_transport 1)))) s')
        (\<lambda>off. and_then (show_json demo_json off) (\<lambda>text. Inr [data_channel_tagged 10 (demo_context 1) 3 4 text]))"
    "ss_config s' = ss_config demo_session" "hm_get (ss_endpoints s') 1 = Some ep'" "ep_mids ep' = [peer_mid 2 ''0'']"
    "ep_transceivers ep' = [(peer_mid 2 ''0'', relayed 2 ''0'' ?x)]"
    using open_result [OF _ room_lookup(2,3,8) _ _ new, where tc = "demo_context 1" and t = "demo_transport 1" and r = r and E = demo_lib and J = demo_json and now = 10 and h = 3 and strm = 4] o
    by (auto simp: room_def add_transceiver_def hm_insert_def relayed_def)
  obtain off where "create_offer plain_sdp (lib_sha256 demo_lib) 1 (offer_description data_only)
      (cc_ice (cd_local_cred (tp_candidate (demo_transport 1)))) s' = Inr off"
    using room_offer_exists [OF r(2,3) _ r(5)] r(4) by blast
  then have "r = Inr [data_channel_tagged 10 (demo_context 1) 3 4 ''{}'']"
    by (simp add: r(1) show_json_def demo_json_def)
  with o have o': "handle_datachannel_open demo_lib demo_json 10 (demo_context 1) 3 4 (room_states (Some demo_sender)) =
      (Inr [data_channel_tagged 10 (demo_context 1) 3 4 ''{}''] :: 'm tagged list res, st')"
    by simp
  have pub: "(2, ''0'', ?x) \<in> published 1 (room (Some demo_sender))"
    by (simp add: published_def demo_transceiver_def)
  have "find_endpoint (four_tuple_of (demo_context 1)) (room_states (Some demo_sender)) = Some (7, 1)"
    "sdp_laws (lib_sdp demo_lib)"
    by (simp_all add: plain_sdp_laws)
  note offered = conjunct2 [OF newcomer_offered_published_media [OF this(2) room_states_ok this(1) room_lookup(2) o']]
  have "published 1 (room (Some demo_sender)) \<noteq> {}" using pub by blast
  from offered [unfolded if_not_P [OF this]]
  obtain off d json where "js_show_description demo_json off = Inr json" "rd_parsed off = Some d"
    "[data_channel_tagged 10 (demo_context 1) 3 4 ''{}''] = [data_channel_tagged 10 (demo_context 1) 3 4 json :: 'm tagged]"
    "\<forall>(oid, v, t) \<in> published 1 (room (Some demo_sender)). offers_transceiver d (peer_mid oid v) (relayed oid v t)"
    by blast
  with o' pub show ?thesis by (intro exI conjI) auto
qed

section \<open>Media announced before the data channel opens\<close>

lemma filter_two: "x \<in> set xs \<Longrightarrow> x \<in> set ys \<Longrightarrow> 2 \<le> length (filter (\<lambda>y. y = x) (xs @ ys))"
proof -
  assume "x \<in> set xs" "x \<in> set ys"
  then have "filter (\<lambda>y. y = x) xs \<noteq> []" "filter (\<lambda>y. y = x) ys \<noteq> []" by (auto simp: filter_empty_conv)
  then show ?thesis by (cases "filter (\<lambda>y. y = x) xs"; cases "filter (\<lambda>y. y = x) ys") simp_all
qed

lemma offer_sections_per_mid:
  assumes "sdp_laws L" and "create_offer L sha eid remote ice s = Inr off"
    and "hm_get (ss_endpoints s) eid = Some ep"
    and "\<And>p m. rd_parsed remote = Some p \<Longrightarrow> m \<in> set (sd_media_descriptions p) \<Longrightarrow> get_mid_value m \<noteq> Some v"
  shows "\<exists>d. rd_parsed off = Some d \<and> length (filter (\<lambda>w. w = v) (ep_mids ep)) \<le>
    length (filter (\<lambda>m. get_mid_value m = Some v) (sd_media_descriptions d))"
proof -
  obtain d secs where d: "rd_parsed off = Some d"
    "media_sections (ep_mids ep) (ep_transceivers ep) remote True = Inr secs"
    "length (sd_media_descriptions d) = length secs"
    "\<forall>i < length secs. section_built (build_config_of (ss_config s)) (ep_transceivers ep) i (secs ! i)
                         (sd_media_descriptions d ! i)"
    using create_offer_built [OF assms(1-3)] by blast
  obtain pre matched post where secs: "secs = pre @ map unmatched_section (filter (\<lambda>v. v \<notin> matched) (ep_mids ep)) @ post"
    "\<forall>v \<in> matched. \<exists>p. rd_parsed remote = Some p \<and> (\<exists>m \<in> set (sd_media_descriptions p). get_mid_value m = Some v)"
    using media_sections_offer [OF d(2)] by blast
  have "v \<notin> matched" using secs(2) assms(4) by blast
  then have same: "filter (\<lambda>w. w = v) (filter (\<lambda>w. w \<notin> matched) mids) = filter (\<lambda>w. w = v) mids" for mids
    by (induction mids) auto
  have mids: "map get_mid_value (sd_media_descriptions d) = map (Some \<circ> ms_mid) secs"
    using d(3,4) by (intro nth_equalityI) (auto simp: section_built_def)
  have "length (filter (\<lambda>m. get_mid_value m = Some v) (sd_media_descriptions d)) =
      length (filter (\<lambda>x. x = Some v) (map get_mid_value (sd_media_descriptions d)))"
    by (simp add: filter_map comp_def)
  also have "\<dots> = length (filter (\<lambda>w. w = v) (map ms_mid secs))"
    unfolding mids by (simp add: filter_map comp_def)
  also have "\<dots> \<ge> length (filter (\<lambda>w. w = v) (filter (\<lambda>w. w \<notin> matched) (ep_mids ep)))"
    unfolding secs(1) by (simp add: filter_map comp_def unmatched_section_def)
  finally show ?thesis using d(1) same by auto
qed

text \<open>C26: Media published before a participant's data channel opens is offered to it twice.  The stream was
  announced to its endpoint when it was published; opening the channel adds it once more without looking,
  so the offer has two sections under one identifier, which no client can accept.\<close>

theorem early_publication_offered_twice:
  fixes st :: "('x, 'f) server_states"
  assumes "sdp_laws (lib_sdp E)" and "states_ok st"
    and "find_endpoint (four_tuple_of tc) st = Some (sid, eid)" and "hm_get (st_sessions st) sid = Some s"
    and "hm_get (ss_endpoints s) eid = Some ep"
    and "(oid, v, x) \<in> published eid s" and "peer_mid oid v \<in> set (ep_mids ep)"
    and "\<And>remote p m. ep_remote_description ep = Some remote \<Longrightarrow> rd_parsed remote = Some p \<Longrightarrow>
           m \<in> set (sd_media_descriptions p) \<Longrightarrow> get_mid_value m \<noteq> Some (peer_mid oid v)"
    and "handle_datachannel_open E J now tc h strm st = (Inr (ms :: 'm tagged list), st')"
  shows "\<exists>off d json. ms = [data_channel_tagged now tc h strm json] \<and> js_show_description J off = Inr json \<and>
    rd_parsed off = Some d \<and>
    2 \<le> length (filter (\<lambda>m. get_mid_value m = Some (peer_mid oid v)) (sd_media_descriptions d))"
proof -
  let ?ft = "four_tuple_of tc" and ?new = "transceivers_to_offer eid (ss_endpoints s)"
  note new = transceivers_to_offer_published [OF states_okD(4) [OF assms(2,4)], of eid]
  have x: "relayed oid v x \<in> set ?new" unfolding new(1) using assms(6) by (force intro: image_eqI)
  then have ne: "?new \<noteq> []" by auto
  obtain t where t: "hm_get (ep_transports ep) ?ft = Some t"
    using assms(3-5,9)
    by (cases "hm_get (ep_transports ep) ?ft") (simp_all add: handle_datachannel_open_def Let_def and_then_def)
  show ?thesis
  proof (cases "ep_remote_description ep")
    case None
    then show ?thesis
      using assms(3-5,9) t ne
      by (simp add: handle_datachannel_open_def Let_def create_offer_message_event_def modify_endpoint_get
          set_renegotiation_needed_def modify_transport_def)
  next
    case (Some remote)
    obtain s' :: "('x, 'f) session" and ep' where r: "Inr ms =
        and_then (create_offer (lib_sdp E) (lib_sha256 E) eid remote (cc_ice (cd_local_cred (tp_candidate t))) s')
          (\<lambda>off. and_then (show_json J off) (\<lambda>text. Inr [data_channel_tagged now tc h strm text]))"
      "hm_get (ss_endpoints s') eid = Some ep'" "ep_mids ep' = ep_mids ep @ map tr_mid ?new"
      using open_result [OF assms(3-5) Some t _ refl ne, of "Inr ms" E J now h strm] assms(9) by auto
    obtain off json where off: "create_offer (lib_sdp E) (lib_sha256 E) eid remote (cc_ice (cd_local_cred (tp_candidate t))) s' = Inr off"
      "js_show_description J off = Inr json" "ms = [data_channel_tagged now tc h strm json]"
      using r(1) by (auto simp: show_json_def and_then_def split: sum.splits)
    have "peer_mid oid v \<in> set (map tr_mid ?new)" using x by (force simp: relayed_def)
    then have "2 \<le> length (filter (\<lambda>w. w = peer_mid oid v) (ep_mids ep'))"
      unfolding r(3) by (intro filter_two assms(7))
    with offer_sections_per_mid [OF assms(1) off(1) r(2), of "peer_mid oid v"] assms(8) Some off(2,3) show ?thesis
      by fastforce
  qed
qed

text \<open>The same room when the microphone was published before the listener's data channel opened.\<close>

definition early_listener :: "(nat, unit) endpoint" where
  "early_listener = add_transceiver (relayed 2 ''0'' (demo_transceiver\<lparr>tr_sender := Some demo_sender\<rparr>)) listener"

definition early_room :: "(nat, unit) session" where
  "early_room = demo_session\<lparr>ss_endpoints := [(1, early_listener), (2, publisher (Some demo_sender))]\<rparr>"

definition early_states :: "(nat, unit) server_states" where
  "early_states = demo_states\<lparr>st_sessions := [(7, early_room)]\<rparr>"

lemma early_lookup [simp]:
  "find_endpoint (demo_tuple 1) early_states = Some (7, 1)"
  "hm_get (st_sessions early_states) 7 = Some early_room"
  "hm_get (ss_endpoints early_room) 1 = Some early_listener"
  "ss_endpoints early_room = [(1, early_listener), (2, publisher (Some demo_sender))]"
  "ep_transports early_listener = [(demo_tuple 1, demo_transport 1)]"
  "ep_transceivers early_listener = [(peer_mid 2 ''0'', relayed 2 ''0'' (demo_transceiver\<lparr>tr_sender := Some demo_sender\<rparr>))]"
  "ep_mids early_listener = [peer_mid 2 ''0'']"
  "ep_remote_description early_listener = Some (offer_description data_only)"
  "ss_config early_room = ss_config demo_session"
  using demo_lookup(3)
  by (simp_all add: early_states_def early_room_def demo_states_def find_endpoint_def early_listener_def add_transceiver_def
      relayed_def hm_insert_def)

lemma early_states_ok: "states_ok early_states"
proof -
  have "endpoint_ok 7 1 listener" "endpoint_ok 7 2 (publisher (Some demo_sender))"
    using room_states_ok [of "Some demo_sender"]
    by (auto simp: states_ok_def room_states_def room_def session_ok_def demo_states_def demo_session_def hm_all_def)
  then show ?thesis
    using demo_states_ok endpoint_ok_add_transceiver [of 7 1 listener "relayed 2 ''0'' (demo_transceiver\<lparr>tr_sender := Some demo_sender\<rparr>)"]
    by (auto simp: states_ok_def early_states_def early_room_def early_listener_def demo_states_def session_ok_def
        demo_session_def states_config_def hm_all_def)
qed

theorem early_publication_offered_twice_witness:
  "\<exists>(ms :: 'm tagged list) st' off d json. handle_datachannel_open demo_lib demo_json 10 (demo_context 1) 3 4 early_states = (Inr ms, st') \<and>
     ms = [data_channel_tagged 10 (demo_context 1) 3 4 json] \<and> js_show_description demo_json off = Inr json \<and>
     rd_parsed off = Some d \<and> 2 \<le> length (filter (\<lambda>m. get_mid_value m = Some (peer_mid 2 ''0'')) (sd_media_descriptions d))"
proof -
  let ?x = "demo_transceiver\<lparr>tr_sender := Some demo_sender\<rparr>"
  obtain r :: "'m tagged list res" and st' where
    o: "handle_datachannel_open demo_lib demo_json 10 (demo_context 1) 3 4 early_states = (r, st')"
    by (cases "handle_datachannel_open demo_lib demo_json 10 (demo_context 1) 3 4 early_states :: 'm tagged list res \<times> _")
  have new: "transceivers_to_offer 1 (ss_endpoints early_room) = [relayed 2 ''0'' ?x]"
    by (simp add: transceivers_to_offer_def relayed_def demo_transceiver_def)
  have at: "find_endpoint (four_tuple_of (demo_context 1)) early_states = Some (7, 1)"
    "hm_get (ep_transports early_listener) (four_tuple_of (demo_context 1)) = Some (demo_transport 1)"
    by simp_all
  obtain s' :: "(nat, unit) session" and ep' where r: "r =
      and_then (create_offer plain_sdp (lib_sha256 demo_lib) 1 (offer_description data_only)
          (cc_ice (cd_local_cred (tp_candidate (demo_transport 1)))) s')
        (\<lambda>off. and_then (show_json demo_json off) (\<lambda>text. Inr [data_channel_tagged 10 (demo_context 1) 3 4 text]))"
    "ss_config s' = ss_config demo_session" "hm_get (ss_endpoints s') 1 = Some ep'"
    "ep_mids ep' = [peer_mid 2 ''0'', peer_mid 2 ''0'']" "ep_transceivers ep' = [(peer_mid 2 ''0'', relayed 2 ''0'' ?x)]"
    using open_result [OF at(1) early_lookup(2,3,8) at(2) _ new, of r demo_lib demo_json 10 3 4] o
    by (auto simp: add_transceiver_def hm_insert_def relayed_def)
  obtain off where "create_offer plain_sdp (lib_sha256 demo_lib) 1 (offer_description data_only)
      (cc_ice (cd_local_cred (tp_candidate (demo_transport 1)))) s' = Inr off"
    using room_offer_exists [OF r(2,3) _ r(5)] r(4) by blast
  then have "r = Inr [data_channel_tagged 10 (demo_context 1) 3 4 ''{}'']"
    by (simp add: r(1) show_json_def demo_json_def)
  with o have o': "handle_datachannel_open demo_lib demo_json 10 (demo_context 1) 3 4 early_states =
      (Inr [data_channel_tagged 10 (demo_context 1) 3 4 ''{}''] :: 'm tagged list res, st')"
    by simp
  have pub: "(2, ''0'', ?x) \<in> published 1 early_room" by (simp add: published_def demo_transceiver_def)
  have "sdp_laws (lib_sdp demo_lib)" by (simp add: plain_sdp_laws)
  moreover have "peer_mid 2 ''0'' \<in> set (ep_mids early_listener)" by simp
  moreover have "get_mid_value m \<noteq> Some (peer_mid 2 ''0'')"
    if "ep_remote_description early_listener = Some remote" "rd_parsed remote = Some p" "m \<in> set (sd_media_descriptions p)"
    for remote p m
    using that by (auto simp: data_only_def peer_mid_def dest: arg_cong [where f = length])
  ultimately obtain off d json where "[data_channel_tagged 10 (demo_context 1) 3 4 ''{}'' :: 'm tagged] = [data_channel_tagged 10 (demo_context 1) 3 4 json]"
    "js_show_description demo_json off = Inr json" "rd_parsed off = Some d"
    "2 \<le> length (filter (\<lambda>m. get_mid_value m = Some (peer_mid 2 ''0'')) (sd_media_descriptions d))"
    using early_publication_offered_twice [OF _ early_states_ok at(1) early_lookup(2,3) pub _ _ o'] by blast
  with o' show ?thesis by (intro exI conjI) auto
qed

section \<open>Streams without a description\<close>

text \<open>A transceiver the server sends on needs a sender, which it takes over from the publisher's section.
  Whatever else an endpoint has, one such transceiver without a sender and no offer can be made for it.\<close>

lemma populate_sections_fails:
  assumes "sec \<in> set secs" and "\<And>i d grp. \<exists>e. populate_section L fps bc ice role ts i d grp sec = Inl e"
  shows "\<exists>e. populate_sections L fps bc ice role ts i d grp secs = Inl e"
  using assms(1)
proof (induction secs arbitrary: i d grp)
  case (Cons x xs)
  show ?case
  proof (cases "populate_section L fps bc ice role ts i d grp x")
    case (Inr p)
    then have "x \<noteq> sec" using assms(2) [of i d grp] by auto
    with Cons Inr show ?thesis by (cases p) simp
  qed simp
qed simp

lemma senderless_section:
  assumes t: "hm_get ts (ms_mid sec) = Some t" and "tr_direction t = Sendonly" and "tr_sender t = None"
    and "\<not> ms_data sec" and "ms_offered_direction sec = None"
  shows "\<exists>e. populate_section L fps bc ice role ts i d grp sec = Inl e"
proof -
  have dir: "answer_direction (ms_offered_direction sec) (tr_direction t) = Sendonly"
    using assms(2,5) by (simp add: answer_direction_def)
  have "\<exists>e. transceiver_media L fps ice bc sec t add v role g (ms_offered_direction sec) = Inl e" for add v g
    unfolding transceiver_media_def Let_def dir assms(3) by (simp add: and_then_def split: sum.split)
  then obtain e where "transceiver_media L fps ice bc sec t (i = 0) (ms_mid sec) role GatherComplete (ms_offered_direction sec) = Inl e"
    by blast
  then show ?thesis
    using assms(4) by (simp add: populate_section_def add_transceiver_sdp_def t)
qed

lemma and_then_fails: "\<exists>e. r = Inl e \<Longrightarrow> \<exists>e. and_then r f = Inl e"
  by auto

lemma senderless_offer_fails:
  assumes "hm_get (ss_endpoints s) eid = Some ep" and "v \<in> set (ep_mids ep)"
    and "hm_get (ep_transceivers ep) v = Some t" and "tr_direction t = Sendonly" and "tr_sender t = None"
  shows "\<exists>e. create_offer L sha eid remote ice s = Inl e"
proof (cases "media_sections (ep_mids ep) (ep_transceivers ep) remote True")
  case (Inr secs)
  obtain sec where sec: "sec \<in> set secs" "ms_mid sec = v" "\<not> ms_data sec" "ms_offered_direction sec = None"
    using media_sections_offer_covers [OF Inr assms(2)] by blast
  have fails: "\<exists>e. populate_sections L fps bc ice role (ep_transceivers ep) i d grp secs = Inl e" for fps bc role i d grp
    using sec assms(3-5) by (intro populate_sections_fails [OF sec(1)] senderless_section) simp_all
  show ?thesis
    using Inr assms(1) fails
    by (cases "svc_certificates (scf_server_config (ss_config s))")
       (simp_all add: create_offer_def generate_matched_sdp_def Let_def populate_sdp_def and_then_fails)
qed (use assms(1) in \<open>simp add: create_offer_def generate_matched_sdp_def Let_def\<close>)

text \<open>One published stream without a description shuts everybody out who comes later.  A
  client whose section has no canonical name or no media stream identifier gets a transceiver without a
  sender; from then on every data channel that another endpoint of the session opens fails, whatever else
  is published, so its participant is offered nothing.\<close>

theorem undescribed_stream_blocks_newcomers:
  fixes r :: "'m tagged list res" and st :: "('x, 'f) server_states"
  assumes "states_ok st"
    and "find_endpoint (four_tuple_of tc) st = Some (sid, eid)" and "hm_get (st_sessions st) sid = Some s"
    and "(oid, v, x) \<in> published eid s" and "tr_sender x = None"
    and o: "handle_datachannel_open E J now tc h strm st = (r, st')"
  shows "\<exists>e. r = Inl e"
proof (cases r)
  case (Inr ms)
  let ?ft = "four_tuple_of tc" and ?new = "transceivers_to_offer eid (ss_endpoints s)"
  note new = transceivers_to_offer_published [OF states_okD(4) [OF assms(1,3)], of eid]
  have x: "relayed oid v x \<in> set ?new" unfolding new(1) using assms(4) by (force intro: image_eqI)
  then have ne: "?new \<noteq> []" by auto
  have loc: "\<exists>ep t. hm_get (ss_endpoints s) eid = Some ep \<and> hm_get (ep_transports ep) ?ft = Some t"
    using Inr assms(2,3) o
    by (simp add: handle_datachannel_open_def Let_def ok_or_def and_then_def split: option.splits sum.splits)
  then obtain ep t where ep: "hm_get (ss_endpoints s) eid = Some ep" "hm_get (ep_transports ep) ?ft = Some t" by blast
  show ?thesis
  proof (cases "ep_remote_description ep")
    case (Some remote)
    obtain s' :: "('x, 'f) session" and ep' where r: "r = and_then (create_offer (lib_sdp E) (lib_sha256 E) eid remote (cc_ice (cd_local_cred (tp_candidate t))) s')
          (\<lambda>off. and_then (show_json J off) (\<lambda>text. Inr [data_channel_tagged now tc h strm text]))"
      "hm_get (ss_endpoints s') eid = Some ep'" "ep_mids ep' = ep_mids ep @ map tr_mid ?new"
      "ep_transceivers ep' = ep_transceivers (foldl (\<lambda>ep t. add_transceiver t ep) ep ?new)"
      using open_result [OF assms(2,3) ep(1) Some ep(2) _ refl ne, of r E J now h strm] o by auto
    have "hm_get (ep_transceivers ep') (tr_mid (relayed oid v x)) = Some (relayed oid v x)"
      unfolding r(4) by (rule foldl_add_transceiver(2) [OF new(2) x])
    moreover have "tr_mid (relayed oid v x) \<in> set (ep_mids ep')" using x by (simp add: r(3))
    ultimately show ?thesis
      unfolding r(1) using assms(5) r(2)
      by (intro and_then_fails senderless_offer_fails [where v = "tr_mid (relayed oid v x)" and t = "relayed oid v x"])
         (auto simp: relayed_def)
  qed (use Inr assms(2,3) o ep ne in \<open>simp add: handle_datachannel_open_def Let_def create_offer_message_event_def
      modify_endpoint_get set_renegotiation_needed_def modify_transport_def\<close>)
qed simp

theorem undescribed_stream_blocks_newcomers_witness:
  "\<exists>e. fst (handle_datachannel_open demo_lib demo_json 10 (demo_context 1) 3 4 (room_states None)) = Inl e"
proof -
  have pub: "(2, ''0'', demo_transceiver) \<in> published 1 (room None)"
    by (simp add: published_def demo_transceiver_def)
  have "\<exists>e. r = Inl e" if "handle_datachannel_open demo_lib demo_json 10 (demo_context 1) 3 4 (room_states None) = (r, st')"
    for r :: "'m tagged list res" and st'
    using that
    by (intro undescribed_stream_blocks_newcomers [OF room_states_ok _ room_lookup(2) pub _ that])
       (simp_all add: demo_transceiver_def)
  then show ?thesis by (metis eq_fst_iff)
qed

end
