(* ===== verification/Publication.thy ===== *)
theory Publication
  imports Renegotiation
begin

text \<open>
  A participant publishes media: what an offer sent over its data channel adds to the endpoints of the
  session, and which offers the others get for it.
\<close>

section \<open>Adding media to a session\<close>

text \<open>A section of the offer under an identifier of its own, which its endpoint has no transceiver for.\<close>

definition new_media ::
  "session_description \<Rightarrow> media_description \<Rightarrow> codec_type \<Rightarrow> direction \<Rightarrow> mid \<Rightarrow> ('x, 'f) endpoint \<Rightarrow> bool" where
  "new_media p m kind dir v ep \<longleftrightarrow>
     m \<in> set (sd_media_descriptions p) \<and> media_target m = Inr (Some (kind, dir, v)) \<and>
     (\<forall>m' \<in> set (sd_media_descriptions p). \<forall>k d. media_target m' = Inr (Some (k, d, v)) \<longrightarrow> m' = m) \<and>
     hm_get (ep_transceivers ep) v = None"

definition shared_transceiver ::
  "endpoint_id \<Rightarrow> mid \<Rightarrow> codec_type \<Rightarrow> rtp_sender option \<Rightarrow> rtp_parameters \<Rightarrow> transceiver" where
  "shared_transceiver eid v kind sender params =
     \<lparr>tr_mid = peer_mid eid v, tr_sender = sender, tr_direction = Sendonly,
      tr_current_direction = DirUnspecified, tr_rtp_params = params, tr_kind = kind\<rparr>"

definition announced :: "endpoint_id \<Rightarrow> mid \<Rightarrow> transceiver \<Rightarrow> ('x, 'f) endpoint \<Rightarrow> bool" where
  "announced eid v t ep \<longleftrightarrow>
     ep_renegotiation_needed ep \<and> peer_mid eid v \<in> set (ep_mids ep) \<and>
     hm_get (ep_transceivers ep) (peer_mid eid v) = Some t"

text \<open>What sharing leaves alone.\<close>

definition connected_alike :: "('x, 'f) endpoint \<Rightarrow> ('x, 'f) endpoint \<Rightarrow> bool" where
  "connected_alike ep ep' \<longleftrightarrow>
     ep_transports ep' = ep_transports ep \<and> ep_remote_description ep' = ep_remote_description ep"

lemma connected_alike_refl [simp]: "connected_alike ep ep"
  by (simp add: connected_alike_def)

lemma connected_alike_trans: "connected_alike a b \<Longrightarrow> connected_alike b c \<Longrightarrow> connected_alike a c"
  by (simp add: connected_alike_def)

lemma share_transceiver_facts:
  "connected_alike ep (share_transceiver eid v kind dir sender params ep)"
  "w \<noteq> peer_mid eid v \<Longrightarrow>
     hm_get (ep_transceivers (share_transceiver eid v kind dir sender params ep)) w = hm_get (ep_transceivers ep) w"
  "announced eid w t ep \<Longrightarrow> w \<noteq> v \<Longrightarrow> announced eid w t (share_transceiver eid v kind dir sender params ep)"
  "hm_get (ep_transceivers ep) (peer_mid eid v) = None \<Longrightarrow>
     announced eid v (shared_transceiver eid v kind sender params) (share_transceiver eid v kind Sendonly sender params ep)"
  "hm_get (ep_transceivers ep) (peer_mid eid v) = None \<Longrightarrow> dir \<noteq> Sendonly \<Longrightarrow>
     share_transceiver eid v kind dir sender params ep = ep"
  by (auto simp: share_transceiver_def connected_alike_def announced_def add_transceiver_def
      shared_transceiver_def Let_def split: option.splits)

text \<open>One section of an offer: nothing happens for a known identifier; a new one is added to the
  sender and shared with every other endpoint.\<close>

lemma offered_media_cases:
  assumes "offered_media L eid m kind dir v s = (Inr (), s')" and "hm_get (ss_endpoints s) eid = Some ep"
  obtains (known) "hm_get (ep_transceivers ep) v \<noteq> None" "s' = s"
  | (added) sender params where "hm_get (ep_transceivers ep) v = None"
      "remote_sender_and_parameters L m = Inr (sender, params)"
      "s' = s\<lparr>ss_endpoints := ss_endpoints s'\<rparr>"
      "hm_get (ss_endpoints s') eid = Some (add_transceiver
         \<lparr>tr_mid = v, tr_sender = sender, tr_direction = (if dir = Recvonly then Sendonly else Recvonly),
          tr_current_direction = DirUnspecified, tr_rtp_params = params, tr_kind = kind\<rparr> ep)"
      "\<And>oid. oid \<noteq> eid \<Longrightarrow> hm_get (ss_endpoints s') oid =
         map_option (share_transceiver eid v kind dir sender params) (hm_get (ss_endpoints s) oid)"
proof (cases "hm_get (ep_transceivers ep) v")
  case None
  from assms None obtain sender params where r: "remote_sender_and_parameters L m = Inr (sender, params)"
    by (auto simp: offered_media_def hm_contains_get split: sum.splits prod.splits)
  show thesis
    by (rule added [OF None r]) (use assms None r in \<open>auto simp: offered_media_def hm_contains_get Let_def option.map_comp comp_def\<close>)
next
  case (Some t)
  then show thesis using assms known by (simp add: offered_media_def hm_contains_get)
qed

lemma remote_media_step:
  assumes "remote_media L eid False (m # ms) s = (Inr (), s')"
  obtains (skipped) "media_target m = Inr None" "remote_media L eid False ms s = (Inr (), s')"
  | (offered) kind dir v s1 where "media_target m = Inr (Some (kind, dir, v))"
      "offered_media L eid m kind dir v s = (Inr (), s1)" "remote_media L eid False ms s1 = (Inr (), s')"
  using assms by (auto split: sum.splits option.splits prod.splits)

lemma remote_media_keeps_announced:
  assumes "remote_media L eid False ms s = (Inr (), s')" and "hm_get (ss_endpoints s) eid = Some ep"
    and "hm_get (ep_transceivers ep) v \<noteq> None" and "oid \<noteq> eid"
    and "hm_get (ss_endpoints s) oid = Some oep" and "announced eid v t oep"
  shows "\<exists>oep'. hm_get (ss_endpoints s') oid = Some oep' \<and> announced eid v t oep' \<and> connected_alike oep oep'"
  using assms
proof (induction ms arbitrary: s ep oep)
  case (Cons m ms)
  from Cons.prems(1) show ?case
  proof (cases rule: remote_media_step)
    case (offered kind dir w s1)
    from offered(2) Cons.prems(2) show ?thesis
    proof (cases rule: offered_media_cases)
      case (added sender params)
      have "w \<noteq> v" using added(1) Cons.prems(3) by auto
      let ?oep = "share_transceiver eid w kind dir sender params oep"
      have "hm_get (ss_endpoints s1) oid = Some ?oep" using added(5) Cons.prems(4,5) by simp
      moreover have "announced eid v t ?oep" using Cons.prems(6) \<open>w \<noteq> v\<close> by (intro share_transceiver_facts(3)) auto
      ultimately show ?thesis
        using Cons.IH [OF offered(3) added(4) _ Cons.prems(4), of ?oep] Cons.prems(3)
          connected_alike_trans [OF share_transceiver_facts(1) [of oep eid w kind dir sender params]]
          \<open>w \<noteq> v\<close> [symmetric]
        by (simp add: add_transceiver_def) blast
    next
      case known
      with Cons.IH [OF offered(3) _ Cons.prems(3,4) _ Cons.prems(6)] Cons.prems(2,5) show ?thesis by simp
    qed
  next
    case skipped
    then show ?thesis using Cons.IH [OF skipped(2) Cons.prems(2-6)] by simp
  qed
qed auto

lemma remote_media_announces:
  assumes "remote_media L eid False ms s = (Inr (), s')" and "hm_get (ss_endpoints s) eid = Some ep"
    and "hm_get (ep_transceivers ep) v = None" and "oid \<noteq> eid"
    and "hm_get (ss_endpoints s) oid = Some oep" and "hm_get (ep_transceivers oep) (peer_mid eid v) = None"
    and "m \<in> set ms" and "media_target m = Inr (Some (kind, Sendonly, v))"
    and "\<forall>m' \<in> set ms. \<forall>k d. media_target m' = Inr (Some (k, d, v)) \<longrightarrow> m' = m"
  shows "\<exists>oep' sender params. hm_get (ss_endpoints s') oid = Some oep' \<and> connected_alike oep oep' \<and>
    remote_sender_and_parameters L m = Inr (sender, params) \<and>
    announced eid v (shared_transceiver eid v kind sender params) oep'"
  using assms
proof (induction ms arbitrary: s ep oep)
  case (Cons x ms)
  note uniq = Cons.prems(9)
  from Cons.prems(1) show ?case
  proof (cases rule: remote_media_step)
    case skipped
    then have "m \<in> set ms" using Cons.prems(7,8) by auto
    with Cons.IH [OF skipped(2) Cons.prems(2-6) this Cons.prems(8)] uniq show ?thesis by auto
  next
    case (offered k dir w s1)
    show ?thesis
    proof (cases "x = m")
      case True
      then have w: "k = kind" "dir = Sendonly" "w = v" using offered(1) Cons.prems(8) by auto
      from offered(2) Cons.prems(2) show ?thesis
      proof (cases rule: offered_media_cases)
        case (added sender params)
        let ?oep = "share_transceiver eid v kind Sendonly sender params oep"
        have "hm_get (ss_endpoints s1) oid = Some ?oep" using added(5) Cons.prems(4,5) w by simp
        from remote_media_keeps_announced [OF offered(3) added(4) _ Cons.prems(4) this
            share_transceiver_facts(4) [OF Cons.prems(6)]]
        show ?thesis
          using added(2) True w
            connected_alike_trans [OF share_transceiver_facts(1) [of oep eid v kind Sendonly sender params]]
          by (auto simp: add_transceiver_def)
      qed (use Cons.prems(3) w in simp)
    next
      case False
      then have m: "m \<in> set ms" using Cons.prems(7) by simp
      have u: "\<forall>m' \<in> set ms. \<forall>k d. media_target m' = Inr (Some (k, d, v)) \<longrightarrow> m' = m"
        using uniq by auto
      from offered(2) Cons.prems(2) show ?thesis
      proof (cases rule: offered_media_cases)
        case known
        with Cons.IH [OF _ Cons.prems(2-6) m Cons.prems(8) u] offered(3) show ?thesis by simp
      next
        case (added sender params)
        have "w \<noteq> v" using uniq offered(1) False by auto
        let ?oep = "share_transceiver eid w k dir sender params oep"
        have o: "hm_get (ss_endpoints s1) oid = Some ?oep" using added(5) Cons.prems(4,5) by simp
        have "hm_get (ep_transceivers ?oep) (peer_mid eid v) = None"
          using \<open>w \<noteq> v\<close> Cons.prems(6) by (simp add: share_transceiver_facts(2))
        moreover have "hm_get (ep_transceivers (add_transceiver \<lparr>tr_mid = w, tr_sender = sender,
            tr_direction = (if dir = Recvonly then Sendonly else Recvonly), tr_current_direction = DirUnspecified,
            tr_rtp_params = params, tr_kind = k\<rparr> ep)) v = None"
          using Cons.prems(3) \<open>w \<noteq> v\<close> by (simp add: add_transceiver_def)
        ultimately show ?thesis
          using Cons.IH [OF offered(3) added(4) _ Cons.prems(4) o _ m Cons.prems(8) u]
            connected_alike_trans [OF share_transceiver_facts(1) [of oep eid w k dir sender params]]
          by blast
      qed
    qed
  qed
qed simp

section \<open>Accepting the offer\<close>

lemma local_media_others:
  "oid \<noteq> eid \<Longrightarrow> hm_get (ss_endpoints (snd (local_media eid ms s))) oid = hm_get (ss_endpoints s) oid"
  by (induction eid ms s rule: local_media.induct)
     (auto simp: set_endpoint_direction_def split: sum.splits option.splits)

definition same_directions :: "('x, 'f) endpoint \<Rightarrow> ('x, 'f) endpoint \<Rightarrow> bool" where
  "same_directions ep ep' \<longleftrightarrow> (\<forall>w. map_option tr_direction (hm_get (ep_transceivers ep') w) =
     map_option tr_direction (hm_get (ep_transceivers ep) w))"

lemma local_media_own:
  "hm_get (ss_endpoints s) eid = Some ep \<Longrightarrow>
   \<exists>ep'. hm_get (ss_endpoints (snd (local_media eid ms s))) eid = Some ep' \<and> same_directions ep ep'"
proof (induction ms arbitrary: s ep)
  case (Cons m ms)
  show ?case
  proof (cases "media_target m")
    case (Inr x)
    show ?thesis
    proof (cases x)
      case (Some y)
      obtain kind dir v where y: "y = (kind, dir, v)" by (cases y)
      let ?ep = "ep\<lparr>ep_transceivers := hm_modify v (set_current_direction dir) (ep_transceivers ep)\<rparr>"
      have "hm_get (ss_endpoints (set_endpoint_direction eid v dir s)) eid = Some ?ep"
        using Cons.prems by (simp add: set_endpoint_direction_def)
      from Cons.IH [OF this] show ?thesis
        using Inr Some y
        by (auto simp: same_directions_def option.map_comp comp_def set_current_direction_def split: option.splits)
    qed (use Inr Cons in simp)
  qed (use Cons.prems in \<open>simp add: same_directions_def\<close>)
qed (simp add: same_directions_def)

lemma accept_connected_offer:
  assumes "accept_offer E fresh clk sid eid (Some ft) offer st = (Inr answer, st')"
    and "hm_get (st_sessions st) sid = Some s" and "hm_get (ss_endpoints s) eid = Some ep"
    and "unmarshal (lib_sdp E) offer = Inr p" and "rd_sdp_type offer = SdpOffer"
  obtains s1 s2 where "remote_media (lib_sdp E) eid False (sd_media_descriptions p) s = (Inr (), s1)"
    "hm_get (st_sessions st') sid = Some s2" "\<And>oid. oid \<noteq> eid \<Longrightarrow> hm_get (ss_endpoints s2) oid = hm_get (ss_endpoints s1) oid"
    "\<And>tup. find_endpoint tup st' = find_endpoint tup st" "rd_sdp_type answer = SdpAnswer"
    "\<And>ep1. hm_get (ss_endpoints s1) eid = Some ep1 \<Longrightarrow>
       \<exists>ep2. hm_get (ss_endpoints s2) eid = Some ep2 \<and> same_directions ep1 ep2"
proof -
  have has: "session_has_endpoint s eid" using assms(3) by (simp add: session_has_endpoint_def hm_contains_get)
  have cog: "create_or_get_session sid st = (s, st)" using assms(2) by (simp add: create_or_get_session_def)
  obtain rc where rc: "credentials_from_sdp (lib_sdp E) p = Inr rc"
    "accept_parsed_offer E fresh clk sid eid (Some ft) rc (offer\<lparr>rd_parsed := Some p\<rparr>) st = (Inr answer, st')"
    using assms(1,4) by (auto simp: accept_offer_def split: sum.splits)
  obtain r s1 where s1: "set_remote_description (lib_sdp E) eid (offer\<lparr>rd_parsed := Some p\<rparr>) s = (r, s1)"
    by (cases "set_remote_description (lib_sdp E) eid (offer\<lparr>rd_parsed := Some p\<rparr>) s")
  obtain u where r: "r = Inr u"
    using rc(2) s1 by (cases r) (auto simp: accept_parsed_offer_def cog has local_credentials_def)
  have remote: "remote_media (lib_sdp E) eid False (sd_media_descriptions p) s = (Inr (), s1)"
    using s1 r has assms(5) by (simp add: set_remote_description_def)
  obtain lc where lc: "create_answer (lib_sdp E) (lib_sha256 E) eid (offer\<lparr>rd_parsed := Some p\<rparr>) lc s1 = Inr answer"
    "set_local_description eid answer s1 = (Inr (), s2) \<Longrightarrow> st' = put_session sid s2 st" for s2
    using rc(2) s1 r
    by (auto simp: accept_parsed_offer_def cog has local_credentials_def split: sum.splits prod.splits)
  have ans: "rd_sdp_type answer = SdpAnswer" using lc(1) by (auto simp: create_answer_def result_simps)
  obtain s2 where s2: "set_local_description eid answer s1 = (Inr (), s2)"
    using rc(2) s1 r
    by (auto simp: accept_parsed_offer_def cog has local_credentials_def split: sum.splits prod.splits)
  have "hm_get (ss_endpoints (snd (set_local_description eid answer s1))) oid = hm_get (ss_endpoints s1) oid" if "oid \<noteq> eid" for oid
    using that by (simp add: set_local_description_def local_media_others split: option.split)
  then have "hm_get (ss_endpoints s2) oid = hm_get (ss_endpoints s1) oid" if "oid \<noteq> eid" for oid
    using that s2 by simp
  moreover have "\<exists>ep2. hm_get (ss_endpoints s2) eid = Some ep2 \<and> same_directions ep1 ep2"
    if "hm_get (ss_endpoints s1) eid = Some ep1" for ep1
  proof -
    have "\<exists>ep2. hm_get (ss_endpoints (snd (set_local_description eid answer s1))) eid = Some ep2 \<and> same_directions ep1 ep2"
      using that local_media_own [OF that] by (simp add: set_local_description_def same_directions_def split: option.split)
    then show ?thesis using s2 by simp
  qed
  ultimately show thesis
    using remote ans assms(2) lc(2) [OF s2] by (intro that [of s1 s2]) (auto simp: put_session_def find_endpoint_def)
qed

lemma accept_offer_announces:
  assumes "accept_offer E fresh clk sid eid (Some ft) offer st = (Inr answer, st')"
    and "hm_get (st_sessions st) sid = Some s" and "hm_get (ss_endpoints s) eid = Some ep"
    and "unmarshal (lib_sdp E) offer = Inr p" and "rd_sdp_type offer = SdpOffer"
    and "new_media p m kind Sendonly v ep"
    and "oid \<noteq> eid" and "hm_get (ss_endpoints s) oid = Some oep"
    and "hm_get (ep_transceivers oep) (peer_mid eid v) = None"
  shows "\<exists>s' oep' sender params. hm_get (st_sessions st') sid = Some s' \<and> hm_get (ss_endpoints s') oid = Some oep' \<and>
    (\<forall>tup. find_endpoint tup st' = find_endpoint tup st) \<and> rd_sdp_type answer = SdpAnswer \<and>
    connected_alike oep oep' \<and> remote_sender_and_parameters (lib_sdp E) m = Inr (sender, params) \<and>
    announced eid v (shared_transceiver eid v kind sender params) oep'"
proof -
  obtain s1 s2 where a: "remote_media (lib_sdp E) eid False (sd_media_descriptions p) s = (Inr (), s1)"
    "hm_get (st_sessions st') sid = Some s2" "\<And>oid. oid \<noteq> eid \<Longrightarrow> hm_get (ss_endpoints s2) oid = hm_get (ss_endpoints s1) oid"
    "\<And>tup. find_endpoint tup st' = find_endpoint tup st" "rd_sdp_type answer = SdpAnswer"
    by (rule accept_connected_offer [OF assms(1-5)]) (rule that)
  from assms(6) have m: "hm_get (ep_transceivers ep) v = None" "m \<in> set (sd_media_descriptions p)"
    "media_target m = Inr (Some (kind, Sendonly, v))"
    "\<forall>m' \<in> set (sd_media_descriptions p). \<forall>k d. media_target m' = Inr (Some (k, d, v)) \<longrightarrow> m' = m"
    by (simp_all add: new_media_def)
  from remote_media_announces [OF a(1) assms(3) m(1) assms(7-9) m(2-4)]
  obtain oep' sender params where "hm_get (ss_endpoints s1) oid = Some oep'" "connected_alike oep oep'"
    "remote_sender_and_parameters (lib_sdp E) m = Inr (sender, params)"
    "announced eid v (shared_transceiver eid v kind sender params) oep'" by blast
  with a(2-5) assms(7) show ?thesis by (intro exI [of _ s2] exI [of _ oep']) auto
qed

section \<open>Offers to the others\<close>

text \<open>Sending an offer to one peer changes nothing of the others but the flag of one endpoint.\<close>

definition flags_apart :: "('x, 'f) server_states \<Rightarrow> ('x, 'f) server_states \<Rightarrow> bool" where
  "flags_apart st st' \<longleftrightarrow> (\<forall>tup. find_endpoint tup st' = find_endpoint tup st) \<and>
     hm_wf (st_sessions st') = hm_wf (st_sessions st) \<and>
     (\<forall>sid s eid ep. hm_get (st_sessions st) sid = Some s \<longrightarrow> hm_get (ss_endpoints s) eid = Some ep \<longrightarrow>
        (\<exists>s' b. hm_get (st_sessions st') sid = Some s' \<and>
           hm_get (ss_endpoints s') eid = Some (set_renegotiation_needed b ep)))"

lemma set_renegotiation_twice [simp]:
  "set_renegotiation_needed b (set_renegotiation_needed c ep) = set_renegotiation_needed b ep"
  "ep_mids (set_renegotiation_needed b ep) = ep_mids ep"
  "ep_transceivers (set_renegotiation_needed b ep) = ep_transceivers ep"
  "ep_transports (set_renegotiation_needed b ep) = ep_transports ep"
  "ep_remote_description (set_renegotiation_needed b ep) = ep_remote_description ep"
  "set_renegotiation_needed (ep_renegotiation_needed ep) ep = ep"
  by (simp_all add: set_renegotiation_needed_def)

lemma flags_apart_message:
  assumes "sdp_laws (lib_sdp E)" and "hm_wf (st_sessions st)"
    and "create_offer_message_event E J now tc h strm st = (Inr m, st')"
  shows "flags_apart st st'"
proof -
  obtain sid eid where st': "st' = modify_endpoint sid eid (set_renegotiation_needed False) st"
    using offer_message [OF assms] by blast
  have "\<exists>s' b. hm_get (st_sessions st') k = Some s' \<and> hm_get (ss_endpoints s') i = Some (set_renegotiation_needed b ep)"
    if "hm_get (st_sessions st) k = Some s" "hm_get (ss_endpoints s) i = Some ep" for k s i ep
    using that
    by (intro exI [of _ "if k = sid then s\<lparr>ss_endpoints := hm_modify eid (set_renegotiation_needed False) (ss_endpoints s)\<rparr> else s"]
          exI [of _ "if k = sid \<and> i = eid then False else ep_renegotiation_needed ep"]) (auto simp: st' modify_endpoint_get)
  then show ?thesis by (simp add: flags_apart_def st' modify_endpoint_get)
qed

lemma offer_peers_message:
  assumes "sdp_laws (lib_sdp E)" and "hm_wf (st_sessions st)"
    and "offer_peers E J now ps st = (Inr ms, st')"
    and "(tc, h, strm, True) \<in> set ps" and "find_endpoint (four_tuple_of tc) st = Some (sid, eid)"
    and "hm_get (st_sessions st) sid = Some s" and "hm_get (ss_endpoints s) eid = Some ep"
    and "v \<in> set (ep_mids ep)"
  shows "\<exists>off d t json. js_show_description J off = Inr json \<and> data_channel_tagged now tc h strm json \<in> set ms \<and>
    rd_parsed off = Some d \<and> rd_sdp_type off = SdpOffer \<and> hm_get (ep_transceivers ep) v = Some t \<and>
    offers_transceiver d v t"
  using assms(2-8)
proof (induction ps arbitrary: st s ep ms)
  case (Cons p ps)
  obtain tc1 h1 strm1 needed where p: "p = (tc1, h1, strm1, needed)" by (cases p)
  show ?case
  proof (cases needed)
    case False
    with Cons.IH [OF Cons.prems(1) _ _ Cons.prems(4-7)] Cons.prems(2,3) p show ?thesis by simp
  next
    case True
    obtain m st1 ms1 where m: "create_offer_message_event E J now tc1 h1 strm1 st = (Inr m, st1)"
      "offer_peers E J now ps st1 = (Inr ms1, st')" "ms = m # ms1"
      using Cons.prems(2) p True by (auto split: sum.splits prod.splits)
    show ?thesis
    proof (cases "p = (tc, h, strm, True)")
      case True
      then show ?thesis
        using offer_message [OF assms(1) Cons.prems(1) m(1)] m(3) Cons.prems(4-7) p by (auto dest!: bspec)
    next
      case False
      have f: "flags_apart st st1" by (rule flags_apart_message [OF assms(1) Cons.prems(1) m(1)])
      obtain s' b where s': "hm_get (st_sessions st1) sid = Some s'"
        "hm_get (ss_endpoints s') eid = Some (set_renegotiation_needed b ep)"
        using f Cons.prems(5,6) by (fastforce simp: flags_apart_def)
      from Cons.IH [OF _ m(2) _ _ s'] f Cons.prems(1,3,4,7) False m(3) show ?thesis
        by (fastforce simp: flags_apart_def)
    qed
  qed
qed simp

lemma in_set_map_filter: "x \<in> set (List.map_filter f xs) \<longleftrightarrow> (\<exists>y \<in> set xs. f y = Some x)"
  by (induction xs) (auto simp: List.map_filter_simps split: option.splits)

lemma other_channel_listed:
  assumes "find_endpoint (four_tuple_of tc) st = Some (sid, eid)"
    and "hm_get (st_sessions st) sid = Some s" and "oid \<noteq> eid" and "hm_get (ss_endpoints s) oid = Some oep"
    and "hm_get (ep_transports oep) tup = Some t" and "tp_association_handle t = Some h" and "tp_stream_id t = Some strm"
    and "get_other_datachannel_transport_contexts tc st = Inr peers"
  shows "(context_of tup (tc_ecn tc), h, strm, ep_renegotiation_needed oep) \<in> set peers"
proof -
  have "(oid, oep) \<in> set (ss_endpoints s)" "(tup, t) \<in> set (ep_transports oep)"
    using assms(4,5) by (simp_all add: hm_get_in_set)
  then show ?thesis
    using assms(1-3,6-8)
    by (auto simp: get_other_datachannel_transport_contexts_def other_endpoints_def result_simps
        in_set_map_filter intro!: exI [of _ oid] exI [of _ oep] bexI [of _ "(tup, t)"])
qed

section \<open>Streams without a description\<close>

lemma senderless_message_fails:
  fixes r :: "'m tagged res"
  assumes "create_offer_message_event E J now tc h strm st = (r, st')"
    and "find_endpoint (four_tuple_of tc) st = Some (sid, eid)" and "hm_get (st_sessions st) sid = Some s"
    and "hm_get (ss_endpoints s) eid = Some ep" and "v \<in> set (ep_mids ep)"
    and "hm_get (ep_transceivers ep) v = Some x" and "tr_direction x = Sendonly" and "tr_sender x = None"
  shows "\<exists>e. r = Inl e"
proof (cases "ep_remote_description ep")
  case None
  then show ?thesis using assms(1-4) by (auto simp: create_offer_message_event_def Let_def)
next
  case (Some remote)
  show ?thesis
  proof (cases "hm_get (ep_transports ep) (four_tuple_of tc)")
    case None
    then show ?thesis using assms(1-4) Some by (auto simp: create_offer_message_event_def Let_def)
  next
    case t: (Some t)
    let ?s1 = "s\<lparr>ss_endpoints := hm_modify eid (set_renegotiation_needed False) (ss_endpoints s)\<rparr>"
    have "\<exists>e. create_offer (lib_sdp E) (lib_sha256 E) eid remote (cc_ice (cd_local_cred (tp_candidate t))) ?s1 = Inl e"
      using assms(4-8) by (intro senderless_offer_fails [where v = v and t = x and ep = "set_renegotiation_needed False ep"]) auto
    moreover have "fst (r, st') = and_then (create_offer (lib_sdp E) (lib_sha256 E) eid remote (cc_ice (cd_local_cred (tp_candidate t))) ?s1)
        (\<lambda>off. and_then (show_json J off) (\<lambda>text. Inr (data_channel_tagged now tc h strm text)))"
      unfolding assms(1) [symmetric] by (rule offer_message_result [OF assms(2-4) Some t])
    ultimately show ?thesis by auto
  qed
qed

lemma offer_peers_fails:
  fixes r :: "'m tagged list res"
  assumes "sdp_laws (lib_sdp E)" and "hm_wf (st_sessions st)"
    and "(tc, h, strm, True) \<in> set ps" and "find_endpoint (four_tuple_of tc) st = Some (sid, eid)"
    and "hm_get (st_sessions st) sid = Some s" and "hm_get (ss_endpoints s) eid = Some ep"
    and "v \<in> set (ep_mids ep)" and "hm_get (ep_transceivers ep) v = Some x"
    and "tr_direction x = Sendonly" and "tr_sender x = None"
    and "offer_peers E J now ps st = (r, st')"
  shows "\<exists>e. r = Inl e"
  using assms(2-8,11)
proof (induction ps arbitrary: st s ep r st')
  case (Cons p ps)
  obtain tc1 h1 strm1 needed where p: "p = (tc1, h1, strm1, needed)" by (cases p)
  show ?case
  proof (cases needed)
    case False
    then show ?thesis using Cons.IH [OF Cons.prems(1) _ Cons.prems(3-7)] Cons.prems(2,8) p by simp
  next
    case True
    obtain r1 :: "'m tagged res" and st1 where m: "create_offer_message_event E J now tc1 h1 strm1 st = (r1, st1)"
      by (cases "create_offer_message_event E J now tc1 h1 strm1 st :: 'm tagged res \<times> _")
    show ?thesis
    proof (cases r1)
      case (Inl e)
      then show ?thesis using m Cons.prems(8) p True by auto
    next
      case (Inr msg)
      obtain r2 :: "'m tagged list res" and st2 where rest: "offer_peers E J now ps st1 = (r2, st2)"
        by (cases "offer_peers E J now ps st1 :: 'm tagged list res \<times> _")
      have ne: "p \<noteq> (tc, h, strm, True)"
        using senderless_message_fails [of E J now tc h strm st r1 st1, OF _ Cons.prems(3-7) assms(9,10)] m p Inr by auto
      have f: "flags_apart st st1" using flags_apart_message [OF assms(1) Cons.prems(1)] m Inr by simp
      obtain s' b where s': "hm_get (st_sessions st1) sid = Some s'"
        "hm_get (ss_endpoints s') eid = Some (set_renegotiation_needed b ep)"
        using f Cons.prems(4,5) by (fastforce simp: flags_apart_def)
      have "\<exists>e. r2 = Inl e"
        using Cons.IH [OF _ _ _ s' _ _ rest] f Cons.prems(1-3,6,7) ne by (simp add: flags_apart_def)
      then show ?thesis using Cons.prems(8) p True m Inr rest by auto
    qed
  qed
qed simp

section \<open>Media in both directions\<close>

lemma remote_media_keeps_own:
  assumes "remote_media L eid False ms s = (Inr (), s')" and "hm_get (ss_endpoints s) eid = Some ep"
  shows "\<exists>ep'. hm_get (ss_endpoints s') eid = Some ep' \<and>
    (\<forall>v t. hm_get (ep_transceivers ep) v = Some t \<longrightarrow> hm_get (ep_transceivers ep') v = Some t)"
  using assms
proof (induction ms arbitrary: s ep)
  case (Cons m ms)
  from Cons.prems(1) show ?case
  proof (cases rule: remote_media_step)
    case (offered kind dir w s1)
    from offered(2) Cons.prems(2) show ?thesis
    proof (cases rule: offered_media_cases)
      case known
      then show ?thesis using Cons.IH [OF offered(3)] Cons.prems(2) by simp
    next
      case (added sender params)
      from Cons.IH [OF offered(3) added(4)] show ?thesis
      proof (elim exE conjE)
        fix ep' assume ep': "hm_get (ss_endpoints s') eid = Some ep'"
          and keep: "\<forall>v t. hm_get (ep_transceivers (add_transceiver \<lparr>tr_mid = w, tr_sender = sender,
            tr_direction = (if dir = Recvonly then Sendonly else Recvonly), tr_current_direction = DirUnspecified,
            tr_rtp_params = params, tr_kind = kind\<rparr> ep)) v = Some t \<longrightarrow> hm_get (ep_transceivers ep') v = Some t"
        have "hm_get (ep_transceivers ep') v = Some t" if "hm_get (ep_transceivers ep) v = Some t" for v t
        proof -
          have "v \<noteq> w" using that added(1) by auto
          then show ?thesis using keep that by (simp add: add_transceiver_def)
        qed
        with ep' show ?thesis by blast
      qed
    qed
  next
    case skipped
    then show ?thesis using Cons.IH [OF skipped(2) Cons.prems(2)] by simp
  qed
qed auto

lemma remote_media_duplex:
  assumes "remote_media L eid False ms s = (Inr (), s')" and "hm_get (ss_endpoints s) eid = Some ep"
    and "\<forall>m' \<in> set ms. \<forall>k d w. media_target m' = Inr (Some (k, d, w)) \<longrightarrow> d = Sendrecv \<and>
      (\<forall>oid oep. oid \<noteq> eid \<longrightarrow> hm_get (ss_endpoints s) oid = Some oep \<longrightarrow> hm_get (ep_transceivers oep) (peer_mid eid w) = None)"
  shows "(\<forall>oid. oid \<noteq> eid \<longrightarrow> hm_get (ss_endpoints s') oid = hm_get (ss_endpoints s) oid) \<and>
    (\<forall>m' \<in> set ms. \<forall>k d w. media_target m' = Inr (Some (k, d, w)) \<longrightarrow> hm_get (ep_transceivers ep) w = None \<longrightarrow>
      (\<exists>ep' t. hm_get (ss_endpoints s') eid = Some ep' \<and> hm_get (ep_transceivers ep') w = Some t \<and> tr_direction t = Recvonly))"
  using assms
proof (induction ms arbitrary: s ep)
  case (Cons m ms)
  from Cons.prems(1) show ?case
  proof (cases rule: remote_media_step)
    case skipped
    then show ?thesis using Cons.IH [OF skipped(2) Cons.prems(2)] Cons.prems(3) by auto
  next
    case (offered kind dir w s1)
    from offered(2) Cons.prems(2) show ?thesis
    proof (cases rule: offered_media_cases)
      case known
      then show ?thesis using Cons.IH [OF offered(3)] Cons.prems(2,3) offered(1) by auto
    next
      case (added sender params)
      let ?t = "\<lparr>tr_mid = w, tr_sender = sender, tr_direction = (if dir = Recvonly then Sendonly else Recvonly),
          tr_current_direction = DirUnspecified, tr_rtp_params = params, tr_kind = kind\<rparr>"
      have d: "dir = Sendrecv" using Cons.prems(3) offered(1) by auto
      have same: "hm_get (ss_endpoints s1) oid = hm_get (ss_endpoints s) oid" if "oid \<noteq> eid" for oid
        using added(5) [OF that] Cons.prems(3) offered(1) that d
        by (cases "hm_get (ss_endpoints s) oid") (auto simp: share_transceiver_facts(5))
      have rest: "(\<forall>oid. oid \<noteq> eid \<longrightarrow> hm_get (ss_endpoints s') oid = hm_get (ss_endpoints s1) oid) \<and>
        (\<forall>m' \<in> set ms. \<forall>k d x. media_target m' = Inr (Some (k, d, x)) \<longrightarrow>
          hm_get (ep_transceivers (add_transceiver ?t ep)) x = None \<longrightarrow>
          (\<exists>ep' t. hm_get (ss_endpoints s') eid = Some ep' \<and> hm_get (ep_transceivers ep') x = Some t \<and> tr_direction t = Recvonly))"
        using Cons.prems(3) same by (intro Cons.IH [OF offered(3) added(4)]) auto
      have w: "\<exists>ep' t. hm_get (ss_endpoints s') eid = Some ep' \<and> hm_get (ep_transceivers ep') w = Some t \<and> tr_direction t = Recvonly"
        using remote_media_keeps_own [OF offered(3) added(4)] d by (auto simp: add_transceiver_def)
      have "\<exists>ep' t. hm_get (ss_endpoints s') eid = Some ep' \<and> hm_get (ep_transceivers ep') x = Some t \<and> tr_direction t = Recvonly"
        if "m' \<in> set (m # ms)" "media_target m' = Inr (Some (k, d, x))" "hm_get (ep_transceivers ep) x = None" for m' k d x
      proof (cases "x = w")
        case False
        then have "m' \<in> set ms" using that(1,2) offered(1) by auto
        with rest that(2,3) False show ?thesis by (auto simp: add_transceiver_def)
      qed (use w in simp)
      then have "\<forall>m' \<in> set (m # ms). \<forall>k d x. media_target m' = Inr (Some (k, d, x)) \<longrightarrow> hm_get (ep_transceivers ep) x = None \<longrightarrow>
          (\<exists>ep' t. hm_get (ss_endpoints s') eid = Some ep' \<and> hm_get (ep_transceivers ep') x = Some t \<and> tr_direction t = Recvonly)"
        by blast
      moreover have "\<forall>oid. oid \<noteq> eid \<longrightarrow> hm_get (ss_endpoints s') oid = hm_get (ss_endpoints s) oid"
        using rest same by simp
      ultimately show ?thesis by simp
    qed
  qed
qed auto

lemma offer_peers_unflagged:
  "\<forall>(tc, h, strm, needed) \<in> set ps. \<not> needed \<Longrightarrow> offer_peers E J now ps st = (Inr [], st)"
  by (induction ps) auto

section \<open>A participant who publishes\<close>

lemma local_media_succeeds:
  "\<forall>m \<in> set ms. get_mid_value m \<noteq> Some [] \<Longrightarrow> \<exists>s'. local_media eid ms s = (Inr (), s')"
proof (induction ms arbitrary: s)
  case (Cons m ms)
  then have "\<exists>x. media_target m = Inr x" by (auto simp: media_target_def Let_def split: option.split)
  then show ?case using Cons by (auto split: option.split prod.split)
qed simp

text \<open>An offer from a connected endpoint is answered if each step succeeds.\<close>

lemma connected_offer_accepted:
  assumes "hm_get (st_sessions st) sid = Some s" and "hm_get (ss_endpoints s) eid = Some ep"
    and "unmarshal (lib_sdp E) offer = Inr p" and "credentials_from_sdp (lib_sdp E) p = Inr rc"
    and "rd_sdp_type offer = SdpOffer"
    and "remote_media (lib_sdp E) eid False (sd_media_descriptions p) s = (Inr (), s1)"
    and "hm_get (ss_endpoints s1) eid = Some ep1" and "hm_get (ep_transports ep1) ft = Some t"
    and "create_answer (lib_sdp E) (lib_sha256 E) eid (offer\<lparr>rd_parsed := Some p\<rparr>) (cc_ice (cd_local_cred (tp_candidate t))) s1 = Inr answer"
    and "rd_parsed answer = Some d" and "\<forall>m \<in> set (sd_media_descriptions d). get_mid_value m \<noteq> Some []"
  shows "\<exists>s2. local_media eid (sd_media_descriptions d) s1 = (Inr (), s2) \<and>
    accept_offer E fresh clk sid eid (Some ft) offer st = (Inr answer, put_session sid s2 st)"
proof -
  obtain s2 where s2: "local_media eid (sd_media_descriptions d) s1 = (Inr (), s2)"
    using local_media_succeeds [OF assms(11)] by blast
  have ans: "rd_sdp_type answer = SdpAnswer" using assms(9) by (auto simp: create_answer_def result_simps)
  show ?thesis
    using assms s2 ans
    by (simp add: accept_offer_def accept_parsed_offer_def create_or_get_session_def session_has_endpoint_def
        hm_contains_get local_credentials_def set_remote_description_def endpoint_credentials_def
        set_local_description_def Let_def)
qed

end
