(* ===== verification/Published_Media.thy ===== *)
theory Published_Media
  imports Publication
begin

text \<open>
  What the other participants of a session get when somebody publishes media over the data channel, and
  two ways in which they do not.
\<close>

section \<open>A room with a listener\<close>

text \<open>The first participant listens with an open data channel; the second offers a stream of audio, with or
  without a description of it.\<close>

definition stream :: "bool \<Rightarrow> string \<Rightarrow> media_description" where
  "stream described dir =
     (let m = demo_media ''audio'' ''1'' dir
      in if described then add_attribute ''ssrc'' (Some ''7 cname:mic'') (add_attribute ''msid'' (Some ''s t'') m) else m)"

definition stream_offer :: "bool \<Rightarrow> string \<Rightarrow> media_description list" where
  "stream_offer described dir = [demo_media ''application'' ''0'' ''sendrecv'', stream described dir]"

definition open_listener :: "(nat, unit) endpoint" where
  "open_listener = modify_transport (demo_tuple 1) (set_association_handle_and_stream_id 3 4) listener"

definition stage :: "(nat, unit) session" where
  "stage = demo_session\<lparr>ss_endpoints := [(1, open_listener), (2, demo_endpoint 2)]\<rparr>"

definition stage_states :: "(nat, unit) server_states" where
  "stage_states = demo_states\<lparr>st_sessions := [(7, stage)]\<rparr>"

definition parse_json :: json_lib where
  "parse_json = \<lparr>js_parse_description = (\<lambda>s. Inr (offer_description [])), js_show_description = (\<lambda>d. Inr ''{}'')\<rparr>"

lemma stage_states_ok: "states_ok stage_states"
proof -
  have "endpoint_ok 7 1 listener"
    using demo_endpoint_ok [of 1] by (simp add: listener_def endpoint_ok_def transports_ok_def transceivers_ok_def)
  then have "endpoint_ok 7 1 open_listener"
    unfolding open_listener_def by (rule endpoint_ok_modify_transport) (simp_all add: set_association_handle_and_stream_id_def)
  then show ?thesis
    using demo_states_ok demo_endpoint_ok [of 2]
    by (auto simp: states_ok_def stage_states_def stage_def demo_states_def session_ok_def demo_session_def
        states_config_def hm_all_def)
qed

lemma stage_lookup [simp]:
  "find_endpoint (demo_tuple 1) stage_states = Some (7, 1)"
  "find_endpoint (demo_tuple 2) stage_states = Some (7, 2)"
  "hm_get (st_sessions stage_states) 7 = Some stage"
  "hm_get (ss_endpoints stage) 1 = Some open_listener"
  "hm_get (ss_endpoints stage) 2 = Some (demo_endpoint 2)"
  "ss_endpoints stage = [(1, open_listener), (2, demo_endpoint 2)]"
  "ep_transports open_listener = [(demo_tuple 1, set_association_handle_and_stream_id 3 4 (demo_transport 1))]"
  "ep_transceivers open_listener = []" "ep_mids open_listener = []" "\<not> ep_renegotiation_needed open_listener"
  "ep_remote_description open_listener = Some (offer_description data_only)"
  "ep_transceivers (demo_endpoint i) = []" "ep_mids (demo_endpoint i) = []"
  using demo_lookup(3)
  by (simp_all add: stage_states_def stage_def demo_states_def find_endpoint_def open_listener_def modify_transport_def
      hm_modify_def)
     (simp_all add: listener_def demo_endpoint_def add_transport_def endpoint_new_def)

lemma stream_simps [simp]:
  "get_mid_value (stream described dir) = Some ''1''" "md_media (stream described dir) = ''audio''"
  "md_formats (stream described dir) = []"
  by (simp_all add: stream_def Let_def demo_media_def get_mid_value_def plain_media_def add_attribute_def)

lemma stream_described:
  "dir = ''sendonly'' \<or> dir = ''sendrecv'' \<Longrightarrow>
   remote_sender_and_parameters (lib_sdp (join_lib ms)) (stream described dir) =
     Inr (if described then Some demo_sender else None, \<lparr>rp_header_extensions = [], rp_codecs = []\<rparr>)"
proof -
  assume dir: "dir = ''sendonly'' \<or> dir = ''sendrecv''"
  have n: "parse_u32 ''7'' = Inr 7" using parse_u32_dec [of 7] by (simp add: dec.simps digit_char_def char_of_def bit_0)
  have "get_ssrcs (stream described dir) = Inr (if described then [7] else [])"
    "get_ssrc_groups (stream described dir) = Inr []"
    using dir n by (auto simp: stream_def Let_def demo_media_def plain_media_def get_ssrcs_def get_ssrc_groups_def
        split_whitespace_def is_ws_def)
  moreover have "get_cname (stream described dir) = (if described then Some ''mic'' else None)"
    "get_msid (stream described dir) = (if described then Some \<lparr>stream_id = ''s'', track_id = ''t''\<rparr> else None)"
    using dir by (auto simp: stream_def Let_def demo_media_def plain_media_def get_cname_def get_msid_def
        msid_of_fields_def split_whitespace_def is_ws_def str_contains_def)
  moreover have "rtp_extensions_from_media_description (lib_sdp (join_lib ms)) (stream described dir) = Inr []"
    using dir by (auto simp: stream_def Let_def demo_media_def plain_media_def rtp_extensions_from_media_description_def
        join_lib_def plain_sdp_def)
  ultimately show ?thesis
    by (simp add: remote_sender_and_parameters_def codecs_from_media_description_def demo_sender_def)
qed

lemma stream_target:
  "media_target (stream described ''sendonly'') = Inr (Some (KindAudio, Sendonly, ''1''))"
  "media_target (stream described ''sendrecv'') = Inr (Some (KindAudio, Sendrecv, ''1''))"
  "media_target (demo_media ''application'' v dir) = Inr None"
proof -
  have d: "get_peer_direction (stream described ''sendonly'') = Sendonly"
    "get_peer_direction (stream described ''sendrecv'') = Sendrecv"
    by (simp_all add: stream_def Let_def demo_media_def get_peer_direction_def plain_media_def direction_of_str_def)
  show "media_target (stream described ''sendonly'') = Inr (Some (KindAudio, Sendonly, ''1''))"
    "media_target (stream described ''sendrecv'') = Inr (Some (KindAudio, Sendrecv, ''1''))"
    "media_target (demo_media ''application'' v dir) = Inr None"
    using d by (simp_all add: media_target_def Let_def codec_type_of_str_def media_section_application_def)
qed

definition stream_transceiver :: "bool \<Rightarrow> transceiver" where
  "stream_transceiver described =
     \<lparr>tr_mid = ''1'', tr_sender = (if described then Some demo_sender else None), tr_direction = Recvonly,
      tr_current_direction = DirUnspecified, tr_rtp_params = \<lparr>rp_header_extensions = [], rp_codecs = []\<rparr>,
      tr_kind = KindAudio\<rparr>"

definition stage_after :: "bool \<Rightarrow> direction \<Rightarrow> (nat, unit) session" where
  "stage_after described d =
     stage\<lparr>ss_endpoints :=
       [(1, share_transceiver 2 ''1'' KindAudio d (if described then Some demo_sender else None)
              \<lparr>rp_header_extensions = [], rp_codecs = []\<rparr> open_listener),
        (2, add_transceiver (stream_transceiver described) (demo_endpoint 2))]\<rparr>"

lemma stage_remote_media:
  "remote_media (lib_sdp (join_lib ms)) 2 False (stream_offer described ''sendonly'') stage =
     (Inr (), stage_after described Sendonly)"
  "remote_media (lib_sdp (join_lib ms)) 2 False (stream_offer described ''sendrecv'') stage =
     (Inr (), stage_after described Sendrecv)"
  by (simp_all add: stream_offer_def stream_target stream_described offered_media_def stage_after_def
      stream_transceiver_def hm_contains_get hm_modify_def hm_map_values_def Let_def)

lemma stage_answer:
  assumes "get_peer_direction (stream described dir) = d" and "d = Sendonly \<or> d = Sendrecv"
  shows "\<exists>answer. create_answer (lib_sdp (join_lib ms)) sha 2 (offer_description []\<lparr>rd_parsed := Some (demo_offer (stream_offer described dir))\<rparr>)
    ice (stage_after described d) = Inr answer"
proof -
  have t: "hm_get (ss_endpoints (stage_after described d)) 2 = Some (add_transceiver (stream_transceiver described) (demo_endpoint 2))"
    "ep_transceivers (add_transceiver (stream_transceiver described) (demo_endpoint 2)) = [(''1'', stream_transceiver described)]"
    by (simp_all add: stage_after_def add_transceiver_def stream_transceiver_def hm_insert_def)
  show ?thesis
    using assms t
    by (elim disjE)
      (simp_all add: join_lib_def create_answer_def generate_matched_sdp_def media_sections_def stream_offer_def
        match_media_def media_section_application_def codec_type_of_str_def
        hm_contains_def stage_after_def stage_def demo_session_def demo_config_def server_config_new_def
        populate_sdp_def populate_section_def add_transceiver_sdp_def transceiver_media_def Let_def
        build_config_of_def data_section_def answer_direction_def stream_transceiver_def
        intersect_direction_def)
qed

lemma join_lib_laws: "sdp_laws (lib_sdp (join_lib ms))"
  unfolding sdp_laws_def appends_def inert_key_def
  by (simp add: join_lib_def plain_sdp_def plain_media_def plain_session_def direction_of_str_def)

lemma stage_accepts:
  assumes "dir = ''sendonly'' \<and> d = Sendonly \<or> dir = ''sendrecv'' \<and> d = Sendrecv"
  shows "\<exists>answer s2. accept_offer (join_lib (stream_offer described dir)) demo_fresh 10 7 2 (Some (demo_tuple 2)) (offer_description [])
      stage_states = (Inr answer, put_session 7 s2 stage_states) \<and>
    hm_get (ss_endpoints s2) 1 = hm_get (ss_endpoints (stage_after described d)) 1 \<and> ss_config s2 = ss_config demo_session \<and> map fst (ss_endpoints s2) = [1, 2]"
proof -
  let ?ms = "stream_offer described dir" and ?E = "join_lib (stream_offer described dir)"
  let ?offer = "offer_description []\<lparr>rd_parsed := Some (demo_offer ?ms)\<rparr>"
  have c: "credentials_from_sdp (lib_sdp ?E) (demo_offer ?ms) = Inr demo_remote"
    using assms unfolding stream_offer_def
    by (intro join_credentials)
       (auto simp: dtls_role_of_sdp_def demo_offer_def demo_media_def plain_media_def plain_session_def stream_def Let_def)
  have r: "remote_media (lib_sdp ?E) 2 False (sd_media_descriptions (demo_offer ?ms)) stage = (Inr (), stage_after described d)"
    using assms stage_remote_media by auto
  have dir: "get_peer_direction (stream described dir) = d"
    using assms by (auto simp: stream_def Let_def demo_media_def get_peer_direction_def plain_media_def direction_of_str_def)
  obtain answer where a: "create_answer (lib_sdp ?E) (lib_sha256 ?E) 2 ?offer (cc_ice (cd_local_cred (tp_candidate (demo_transport 2))))
      (stage_after described d) = Inr answer"
    using stage_answer [OF dir] assms by blast
  have two: "hm_get (ss_endpoints (stage_after described d)) 2 = Some (add_transceiver (stream_transceiver described) (demo_endpoint 2))"
    "ep_transports (add_transceiver (stream_transceiver described) (demo_endpoint 2)) = [(demo_tuple 2, demo_transport 2)]"
    by (simp_all add: stage_after_def add_transceiver_def)
  obtain da secs where da: "rd_parsed answer = Some da" "map ms_mid secs = answered_mids ?ms" "length (sd_media_descriptions da) = length secs"
    "\<forall>i < length secs. section_built (build_config_of (ss_config (stage_after described d)))
       (case hm_get (ss_endpoints (stage_after described d)) 2 of Some ep \<Rightarrow> ep_transceivers ep | None \<Rightarrow> []) i (secs ! i)
       (sd_media_descriptions da ! i)"
    using create_answer_built [OF join_lib_laws a, of "demo_offer ?ms"] by auto
  have named: "\<forall>v \<in> set (map ms_mid secs). v \<noteq> []"
    unfolding da(2) using dir assms
    by (auto simp: stream_offer_def answerable_def codec_type_of_str_def media_section_application_def)
  have "get_mid_value (sd_media_descriptions da ! i) \<noteq> Some []" if "i < length secs" for i
    using da(4) named nth_mem [OF that] that by (auto simp: section_built_def)
  then have some: "\<forall>m \<in> set (sd_media_descriptions da). get_mid_value m \<noteq> Some []"
    using da(3) by (metis in_set_conv_nth)
  have o: "rd_sdp_type (offer_description []) = SdpOffer" by (simp add: offer_description_def)
  have tr: "hm_get (ep_transports (add_transceiver (stream_transceiver described) (demo_endpoint 2))) (demo_tuple 2) = Some (demo_transport 2)"
    by (simp add: two(2))
  obtain s2 where s2: "local_media 2 (sd_media_descriptions da) (stage_after described d) = (Inr (), s2)"
    "accept_offer ?E demo_fresh 10 7 2 (Some (demo_tuple 2)) (offer_description []) stage_states = (Inr answer, put_session 7 s2 stage_states)"
    using connected_offer_accepted [OF stage_lookup(3,5) join_lib_simps c o r two(1) tr a da(1) some, of demo_fresh 10] by blast
  have "ss_config (snd (local_media eid ms s)) = ss_config s \<and> map fst (ss_endpoints (snd (local_media eid ms s))) = map fst (ss_endpoints s)"
    for eid ms and s :: "(nat, unit) session"
    by (induction eid ms s rule: local_media.induct) (auto simp: set_endpoint_direction_def split: sum.splits option.splits)
  from this [of 2 "sd_media_descriptions da" "stage_after described d"]
  have "ss_config s2 = ss_config demo_session \<and> map fst (ss_endpoints s2) = [1, 2]"
    using s2(1) by (simp add: stage_after_def stage_def)
  moreover have "hm_get (ss_endpoints s2) 1 = hm_get (ss_endpoints (stage_after described d)) 1"
    using local_media_others [of 1 2 "sd_media_descriptions da" "stage_after described d"] s2(1) by simp
  ultimately show ?thesis using s2(2) by (intro exI [of _ answer] exI [of _ s2]) simp
qed

definition informed :: "bool \<Rightarrow> direction \<Rightarrow> (nat, unit) endpoint" where
  "informed described d =
     share_transceiver 2 ''1'' KindAudio d (if described then Some demo_sender else None)
       \<lparr>rp_header_extensions = [], rp_codecs = []\<rparr> open_listener"

lemma informed_simps [simp]:
  "ep_transports (informed described d) = [(demo_tuple 1, set_association_handle_and_stream_id 3 4 (demo_transport 1))]"
  "ep_remote_description (informed described d) = Some (offer_description data_only)"
  "ep_renegotiation_needed (informed described Sendonly)" "informed described Sendrecv = open_listener"
  "ep_mids (informed described Sendonly) = [peer_mid 2 ''1'']"
  "ep_transceivers (informed described Sendonly) = [(peer_mid 2 ''1'', shared_transceiver 2 ''1'' KindAudio
     (if described then Some demo_sender else None) \<lparr>rp_header_extensions = [], rp_codecs = []\<rparr>)]"
  by (simp_all add: informed_def share_transceiver_def Let_def add_transceiver_def hm_insert_def shared_transceiver_def)

lemma stage_message:
  assumes "dir = ''sendonly'' \<and> d = Sendonly \<or> dir = ''sendrecv'' \<and> d = Sendrecv"
  shows "\<exists>answer s2 e2. accept_offer (join_lib (stream_offer described dir)) demo_fresh 10 7 2 (Some (demo_tuple 2)) (offer_description [])
      stage_states = (Inr answer, put_session 7 s2 stage_states) \<and>
    ss_endpoints s2 = [(1, informed described d), (2, e2)] \<and> ss_config s2 = ss_config demo_session \<and>
    get_other_datachannel_transport_contexts (demo_context 2) (put_session 7 s2 stage_states) =
      Inr [(demo_context 1, 3, 4, ep_renegotiation_needed (informed described d))]"
proof -
  obtain answer s2 where a: "accept_offer (join_lib (stream_offer described dir)) demo_fresh 10 7 2 (Some (demo_tuple 2)) (offer_description [])
      stage_states = (Inr answer, put_session 7 s2 stage_states)"
    "hm_get (ss_endpoints s2) 1 = hm_get (ss_endpoints (stage_after described d)) 1" "ss_config s2 = ss_config demo_session"
    "map fst (ss_endpoints s2) = [1, 2]"
    using stage_accepts [OF assms, of described] by (elim exE conjE) (rule that)
  obtain e1 e2 where "ss_endpoints s2 = [(1, e1), (2, e2)]"
    using a(4) by (cases "ss_endpoints s2"; cases "tl (ss_endpoints s2)") auto
  then have e: "ss_endpoints s2 = [(1, informed described d), (2, e2)]"
    using a(2) by (simp add: stage_after_def informed_def)
  have "get_other_datachannel_transport_contexts (demo_context 2) (put_session 7 s2 stage_states) =
      Inr [(demo_context 1, 3, 4, ep_renegotiation_needed (informed described d))]"
    using e by (simp add: get_other_datachannel_transport_contexts_def other_endpoints_def find_endpoint_def
        put_session_def List.map_filter_simps set_association_handle_and_stream_id_def demo_context_def [symmetric]
        stage_lookup(2) [unfolded find_endpoint_def])
  with a e show ?thesis by blast
qed

lemma stage_offer_exists:
  assumes "ss_config s = ss_config demo_session" and "hm_get (ss_endpoints s) 1 = Some ep"
    and "ep_mids ep = [peer_mid 2 ''1'']"
    and "ep_transceivers ep = [(peer_mid 2 ''1'', shared_transceiver 2 ''1'' KindAudio (Some demo_sender) ps)]"
  shows "\<exists>off. create_offer (lib_sdp (join_lib ms)) sha 1 (offer_description data_only) ice s = Inr off"
proof -
  have "''0'' \<noteq> peer_mid 2 ''1''" by (auto simp: peer_mid_def dest: arg_cong [where f = length])
  with assms show ?thesis
    by (simp add: create_offer_def generate_matched_sdp_def media_sections_def data_only_def join_lib_def
        match_media_def media_section_application_def
        demo_session_def demo_config_def server_config_new_def
        populate_sdp_def populate_section_def add_transceiver_sdp_def transceiver_media_def Let_def
        build_config_of_def data_section_def unmatched_section_def answer_direction_def shared_transceiver_def)
qed

lemma stage_new_media:
  assumes "dir = ''sendonly'' \<and> d = Sendonly \<or> dir = ''sendrecv'' \<and> d = Sendrecv"
  shows "new_media (demo_offer (stream_offer described dir)) (stream described dir) KindAudio d ''1'' (demo_endpoint 2)"
  using assms by (auto simp: new_media_def stream_offer_def stream_target)

lemma stage_text: "from_utf8 [] = Inr []" "js_parse_description parse_json text = Inr (offer_description [])"
  "rd_sdp_type (offer_description []) = SdpOffer" "js_show_description parse_json desc = Inr ''{}''"
  by (simp_all add: from_utf8_def parse_json_def offer_description_def)

lemma stage_peer:
  "hm_get (ep_transceivers open_listener) v = None"
  "hm_get (ep_transports open_listener) (demo_tuple 1) = Some (set_association_handle_and_stream_id 3 4 (demo_transport 1))"
  "tp_association_handle (set_association_handle_and_stream_id 3 4 (demo_transport 1)) = Some 3"
  "tp_stream_id (set_association_handle_and_stream_id 3 4 (demo_transport 1)) = Some 4"
  "find_endpoint (four_tuple_of (demo_context 2)) stage_states = Some (7, 2)" "(1 :: endpoint_id) \<noteq> 2"
  by (simp_all add: set_association_handle_and_stream_id_def)

section \<open>Publishing\<close>

text \<open>C4: Published media reaches the others.  When a connected participant sends an offer over its
  data channel with a new section it only sends on, and the server can answer, the first message
  back is the answer, and every other endpoint of the session whose data channel is open gets an offer
  with a section for the new stream: under an identifier made of the publisher and the section's
  own, of the same kind, which the server sends and does not receive.\<close>

theorem published_media_offered_to_peers:
  assumes "sdp_laws (lib_sdp E)" and "states_ok st"
    and "find_endpoint (four_tuple_of tc) st = Some (sid, eid)"
    and "hm_get (st_sessions st) sid = Some s" and "hm_get (ss_endpoints s) eid = Some ep"
    and "from_utf8 payload = Inr text" and "js_parse_description J text = Inr desc" and "rd_sdp_type desc = SdpOffer"
    and "unmarshal (lib_sdp E) desc = Inr p" and "new_media p m kind Sendonly v ep"
    and "oid \<noteq> eid" and "hm_get (ss_endpoints s) oid = Some oep"
    and "hm_get (ep_transceivers oep) (peer_mid eid v) = None"
    and "hm_get (ep_transports oep) tup = Some t" and "tp_association_handle t = Some h'" and "tp_stream_id t = Some strm'"
    and "find_endpoint tup st = Some (sid, oid)"
    and "handle_datachannel_message E J fresh clk now tc h strm payload st = (Inr ms, st')"
  shows "\<exists>answer json off d json' sender params.
    rd_sdp_type answer = SdpAnswer \<and> js_show_description J answer = Inr json \<and>
    ms \<noteq> [] \<and> hd ms = data_channel_tagged now tc h strm json \<and>
    rd_sdp_type off = SdpOffer \<and> rd_parsed off = Some d \<and> js_show_description J off = Inr json' \<and>
    data_channel_tagged now (context_of tup (tc_ecn tc)) h' strm' json' \<in> set (tl ms) \<and>
    remote_sender_and_parameters (lib_sdp E) m = Inr (sender, params) \<and>
    offers_transceiver d (peer_mid eid v) (shared_transceiver eid v kind sender params)"
proof -
  let ?ft = "four_tuple_of tc"
  obtain answer st1 where a: "accept_offer E fresh clk sid eid (Some ?ft) desc st = (Inr answer, st1)"
    using assms(3,6-8,18) by (auto simp: handle_datachannel_message_def Let_def split: sum.splits prod.splits)
  obtain json peers offers where r: "js_show_description J answer = Inr json"
    "get_other_datachannel_transport_contexts tc st1 = Inr peers" "offer_peers E J now peers st1 = (Inr offers, st')"
    "ms = data_channel_tagged now tc h strm json # offers"
    using assms(3,6-8,18) a
    by (auto simp: handle_datachannel_message_def Let_def show_json_def and_then_def split: sum.splits prod.splits)
  obtain s' oep' sender params where s': "hm_get (st_sessions st1) sid = Some s'" "hm_get (ss_endpoints s') oid = Some oep'"
    "\<forall>tup. find_endpoint tup st1 = find_endpoint tup st" "rd_sdp_type answer = SdpAnswer" "connected_alike oep oep'"
    "remote_sender_and_parameters (lib_sdp E) m = Inr (sender, params)"
    "announced eid v (shared_transceiver eid v kind sender params) oep'"
    using accept_offer_announces [OF a assms(4,5,9,8,10-13)] by blast
  have "hm_get (ep_transports oep') tup = Some t" using s'(5) assms(14) by (simp add: connected_alike_def)
  from other_channel_listed [OF _ s'(1) assms(11) s'(2) this assms(15,16) r(2)]
  have listed: "(context_of tup (tc_ecn tc), h', strm', True) \<in> set peers"
    using s'(3,7) assms(3) by (simp add: announced_def)
  have "hm_wf (st_sessions st1)"
    using states_okD(1) [OF accept_offer_ok [OF assms(2), of E fresh clk sid eid "Some ?ft" desc]] a by simp
  from offer_peers_message [OF assms(1) this r(3) listed _ s'(1,2), of "peer_mid eid v"]
  obtain off d json' where "js_show_description J off = Inr json'"
    "data_channel_tagged now (context_of tup (tc_ecn tc)) h' strm' json' \<in> set offers"
    "rd_parsed off = Some d" "rd_sdp_type off = SdpOffer"
    "offers_transceiver d (peer_mid eid v) (shared_transceiver eid v kind sender params)"
    using s'(3,7) assms(17) by (auto simp: announced_def)
  with r(1,4) s'(4,6) show ?thesis by (intro exI conjI) auto
qed

theorem published_media_offered_to_peers_witness:
  "\<exists>(ms :: 'm tagged list) st' off d json'. handle_datachannel_message (join_lib (stream_offer True ''sendonly'')) parse_json demo_fresh 10 10 (demo_context 2) 5 6 [] stage_states
       = (Inr ms, st') \<and>
     js_show_description parse_json off = Inr json' \<and> rd_parsed off = Some d \<and>
     data_channel_tagged 10 (demo_context 1) 3 4 json' \<in> set (tl ms) \<and>
     (\<exists>params. offers_transceiver d (peer_mid 2 ''1'') (shared_transceiver 2 ''1'' KindAudio (Some demo_sender) params))"
proof -
  let ?E = "join_lib (stream_offer True ''sendonly'')"
  obtain answer s2 e2 where a: "accept_offer ?E demo_fresh 10 7 2 (Some (demo_tuple 2)) (offer_description [])
      stage_states = (Inr answer, put_session 7 s2 stage_states)"
    "ss_endpoints s2 = [(1, informed True Sendonly), (2, e2)]" "ss_config s2 = ss_config demo_session"
    "get_other_datachannel_transport_contexts (demo_context 2) (put_session 7 s2 stage_states) =
      Inr [(demo_context 1, 3, 4, ep_renegotiation_needed (informed True Sendonly))]"
    using stage_message [OF disjI1 [OF conjI [OF refl refl]], of True] by (elim exE conjE) (rule that)
  have c: "find_endpoint (four_tuple_of (demo_context 1)) (put_session 7 s2 stage_states) = Some (7, 1)"
    "hm_get (st_sessions (put_session 7 s2 stage_states)) 7 = Some s2"
    "hm_get (ss_endpoints s2) 1 = Some (informed True Sendonly)"
    "hm_get (ep_transports (informed True Sendonly)) (four_tuple_of (demo_context 1)) =
       Some (set_association_handle_and_stream_id 3 4 (demo_transport 1))"
    using a(2) stage_lookup(1) by (simp_all add: find_endpoint_def put_session_def)
  have off: "\<exists>off. create_offer (lib_sdp ?E) sha 1 (offer_description data_only) ice
      (s2\<lparr>ss_endpoints := hm_modify 1 (set_renegotiation_needed False) (ss_endpoints s2)\<rparr>) = Inr off" for sha ice
    by (rule stage_offer_exists [where ep = "set_renegotiation_needed False (informed True Sendonly)"
          and ps = "\<lparr>rp_header_extensions = [], rp_codecs = []\<rparr>"]) (simp_all add: a)
  have "\<exists>m :: 'm tagged. fst (create_offer_message_event ?E parse_json 10 (demo_context 1) 3 4 (put_session 7 s2 stage_states)) = Inr m"
    using off [of "lib_sha256 ?E" "cc_ice (cd_local_cred (tp_candidate (set_association_handle_and_stream_id 3 4 (demo_transport 1))))"]
    unfolding offer_message_result [OF c(1-3) informed_simps(2) c(4)]
    by (auto simp: show_json_def stage_text)
  then obtain m :: "'m tagged" and st' where
    "create_offer_message_event ?E parse_json 10 (demo_context 1) 3 4 (put_session 7 s2 stage_states) = (Inr m, st')"
    by (metis fst_conv surj_pair)
  then have "\<exists>ms :: 'm tagged list. handle_datachannel_message ?E parse_json demo_fresh 10 10 (demo_context 2) 5 6 [] stage_states = (Inr ms, st')"
    using a(1,4) stage_lookup(2)
    by (simp add: handle_datachannel_message_def stage_text show_json_def Let_def)
  then obtain ms :: "'m tagged list" where
    h: "handle_datachannel_message ?E parse_json demo_fresh 10 10 (demo_context 2) 5 6 [] stage_states = (Inr ms, st')" ..
  have new: "new_media (demo_offer (stream_offer True ''sendonly'')) (stream True ''sendonly'') KindAudio Sendonly ''1'' (demo_endpoint 2)"
    by (rule stage_new_media) simp
  have sp: "remote_sender_and_parameters (lib_sdp ?E) (stream True ''sendonly'') =
      Inr (Some demo_sender, \<lparr>rp_header_extensions = [], rp_codecs = []\<rparr>)"
    using stream_described [of "''sendonly''" _ True] by simp
  from published_media_offered_to_peers [OF join_lib_laws stage_states_ok stage_peer(5) stage_lookup(3,5) stage_text(1-3)
      join_lib_simps new stage_peer(6) stage_lookup(4) stage_peer(1-4) stage_lookup(1) h]
  obtain off d json' sender params where o: "rd_parsed off = Some d" "js_show_description parse_json off = Inr json'"
    "data_channel_tagged 10 (context_of (demo_tuple 1) (tc_ecn (demo_context 2))) 3 4 json' \<in> set (tl ms)"
    "remote_sender_and_parameters (lib_sdp ?E) (stream True ''sendonly'') = Inr (sender, params)"
    "offers_transceiver d (peer_mid 2 ''1'') (shared_transceiver 2 ''1'' KindAudio sender params)"
    by (elim exE conjE) (rule that)
  have "sender = Some demo_sender" using o(4) sp by simp
  with o(1,2,3,5) show ?thesis using h by (intro exI [of _ ms] exI [of _ st'] exI [of _ off] exI [of _ d] exI [of _ json'])
      (auto simp: demo_context_def [symmetric])
qed

text \<open>C24: A stream without a description silences its publisher.  If the new section has no canonical
  name or no media stream identifier, the server takes it in but cannot make the offer for any peer whose
  data channel is open, and the error replaces everything that was to be sent: the publisher does not
  get the answer to its offer either.\<close>

theorem undescribed_stream_loses_answer:
  assumes "sdp_laws (lib_sdp E)" and "states_ok st"
    and "find_endpoint (four_tuple_of tc) st = Some (sid, eid)"
    and "hm_get (st_sessions st) sid = Some s" and "hm_get (ss_endpoints s) eid = Some ep"
    and "from_utf8 payload = Inr text" and "js_parse_description J text = Inr desc" and "rd_sdp_type desc = SdpOffer"
    and "unmarshal (lib_sdp E) desc = Inr p" and "new_media p m kind Sendonly v ep"
    and "get_cname m = None \<or> get_msid m = None"
    and "oid \<noteq> eid" and "hm_get (ss_endpoints s) oid = Some oep"
    and "hm_get (ep_transceivers oep) (peer_mid eid v) = None"
    and "hm_get (ep_transports oep) tup = Some t" and "tp_association_handle t = Some h'" and "tp_stream_id t = Some strm'"
    and "find_endpoint tup st = Some (sid, oid)"
    and "accept_offer E fresh clk sid eid (Some (four_tuple_of tc)) desc st = (Inr answer, st1)"
  shows "\<exists>e. fst (handle_datachannel_message E J fresh clk now tc h strm payload st) = Inl e"
proof -
  obtain s' oep' sender params where s': "hm_get (st_sessions st1) sid = Some s'" "hm_get (ss_endpoints s') oid = Some oep'"
    "\<forall>tup. find_endpoint tup st1 = find_endpoint tup st" "connected_alike oep oep'"
    "remote_sender_and_parameters (lib_sdp E) m = Inr (sender, params)"
    "announced eid v (shared_transceiver eid v kind sender params) oep'"
    using accept_offer_announces [OF assms(19,4,5,9,8,10,12-14)] by blast
  have none: "sender = None"
    using s'(5) assms(11) by (auto simp: remote_sender_and_parameters_def result_simps split: option.splits)
  have wf: "hm_wf (st_sessions st1)"
    using states_okD(1) [OF accept_offer_ok [OF assms(2), of E fresh clk sid eid "Some (four_tuple_of tc)" desc]] assms(19) by simp
  have "\<exists>e. r = Inl e"
    if r: "handle_datachannel_message E J fresh clk now tc h strm payload st = (r, st')" for r :: "'m tagged list res" and st'
  proof (cases r)
    case (Inr ms)
    obtain peers offers where o: "get_other_datachannel_transport_contexts tc st1 = Inr peers"
      "offer_peers E J now peers st1 = (Inr offers :: 'm tagged list res, st')"
      using assms(3,6-8,19) r Inr
      by (auto simp: handle_datachannel_message_def Let_def show_json_def and_then_def split: sum.splits prod.splits)
    have "hm_get (ep_transports oep') tup = Some t" using s'(4) assms(15) by (simp add: connected_alike_def)
    from other_channel_listed [OF _ s'(1) assms(12) s'(2) this assms(16,17) o(1)]
    have listed: "(context_of tup (tc_ecn tc), h', strm', True) \<in> set peers"
      using s'(3,6) assms(3) by (simp add: announced_def)
    have "\<exists>e. (Inr offers :: 'm tagged list res) = Inl e"
      by (rule offer_peers_fails [OF assms(1) wf listed _ s'(1,2) _ _ _ _ o(2),
            where v = "peer_mid eid v" and x = "shared_transceiver eid v kind sender params"])
         (use s'(3,6) assms(18) none in \<open>simp_all add: announced_def shared_transceiver_def\<close>)
    then show ?thesis by simp
  qed simp
  then show ?thesis by (metis eq_fst_iff)
qed

theorem undescribed_stream_loses_answer_witness:
  "\<exists>answer st1 e. accept_offer (join_lib (stream_offer False ''sendonly'')) demo_fresh 10 7 2 (Some (demo_tuple 2)) (offer_description [])
      stage_states = (Inr answer, st1) \<and>
    fst (handle_datachannel_message (join_lib (stream_offer False ''sendonly'')) parse_json demo_fresh 10 10 (demo_context 2) 5 6 []
      stage_states) = Inl e"
proof -
  obtain answer st1 where a: "accept_offer (join_lib (stream_offer False ''sendonly'')) demo_fresh 10 7 2
      (Some (four_tuple_of (demo_context 2))) (offer_description []) stage_states = (Inr answer, st1)"
    using stage_message [of "''sendonly''" Sendonly False] by auto
  have new: "new_media (demo_offer (stream_offer False ''sendonly'')) (stream False ''sendonly'') KindAudio Sendonly ''1'' (demo_endpoint 2)"
    by (rule stage_new_media) simp
  have "get_cname (stream False ''sendonly'') = None \<or> get_msid (stream False ''sendonly'') = None"
    by (simp add: stream_def demo_media_def get_cname_def plain_media_def)
  from undescribed_stream_loses_answer [OF join_lib_laws stage_states_ok stage_peer(5) stage_lookup(3,5) stage_text(1-3)
      join_lib_simps new this stage_peer(6) stage_lookup(4) stage_peer(1-4) stage_lookup(1) a]
  show ?thesis using a by auto
qed

text \<open>C25: Media sent and received in one section is not announced.  When a connected participant
  offers sections for both directions under new identifiers, while no other endpoint waits for an
  offer, the server records the media as published and answers, but it sends nothing to the other
  endpoints and leaves them as they are; only those that open their data channel later are offered it.\<close>

theorem duplex_media_not_announced:
  assumes "states_ok st" and "find_endpoint (four_tuple_of tc) st = Some (sid, eid)"
    and "hm_get (st_sessions st) sid = Some s" and "hm_get (ss_endpoints s) eid = Some ep"
    and "from_utf8 payload = Inr text" and "js_parse_description J text = Inr desc" and "rd_sdp_type desc = SdpOffer"
    and "unmarshal (lib_sdp E) desc = Inr p" and "new_media p m kind Sendrecv v ep"
    and "\<forall>m' \<in> set (sd_media_descriptions p). \<forall>k d w. media_target m' = Inr (Some (k, d, w)) \<longrightarrow> d = Sendrecv \<and>
      (\<forall>oid oep. oid \<noteq> eid \<longrightarrow> hm_get (ss_endpoints s) oid = Some oep \<longrightarrow> hm_get (ep_transceivers oep) (peer_mid eid w) = None)"
    and "\<forall>oid oep. oid \<noteq> eid \<longrightarrow> hm_get (ss_endpoints s) oid = Some oep \<longrightarrow> \<not> ep_renegotiation_needed oep"
    and "handle_datachannel_message E J fresh clk now tc h strm payload st = (Inr ms, st')"
  shows "\<exists>answer json s' t. rd_sdp_type answer = SdpAnswer \<and> js_show_description J answer = Inr json \<and>
    ms = [data_channel_tagged now tc h strm json] \<and> hm_get (st_sessions st') sid = Some s' \<and>
    (\<forall>oid. oid \<noteq> eid \<longrightarrow> hm_get (ss_endpoints s') oid = hm_get (ss_endpoints s) oid \<and> (eid, v, t) \<in> published oid s')"
proof -
  let ?ft = "four_tuple_of tc"
  obtain answer st1 where a: "accept_offer E fresh clk sid eid (Some ?ft) desc st = (Inr answer, st1)"
    using assms(2,5-7,12) by (auto simp: handle_datachannel_message_def Let_def split: sum.splits prod.splits)
  obtain json peers offers where r: "js_show_description J answer = Inr json"
    "get_other_datachannel_transport_contexts tc st1 = Inr peers" "offer_peers E J now peers st1 = (Inr offers, st')"
    "ms = data_channel_tagged now tc h strm json # offers"
    using assms(2,5-7,12) a
    by (auto simp: handle_datachannel_message_def Let_def show_json_def and_then_def split: sum.splits prod.splits)
  obtain s1 s2 where s: "remote_media (lib_sdp E) eid False (sd_media_descriptions p) s = (Inr (), s1)"
    "hm_get (st_sessions st1) sid = Some s2" "\<And>oid. oid \<noteq> eid \<Longrightarrow> hm_get (ss_endpoints s2) oid = hm_get (ss_endpoints s1) oid"
    "\<And>tup. find_endpoint tup st1 = find_endpoint tup st" "rd_sdp_type answer = SdpAnswer"
    "\<And>ep1. hm_get (ss_endpoints s1) eid = Some ep1 \<Longrightarrow> \<exists>ep2. hm_get (ss_endpoints s2) eid = Some ep2 \<and> same_directions ep1 ep2"
    by (rule accept_connected_offer [OF a assms(3,4,8,7)]) (rule that)
  note dup = remote_media_duplex [OF s(1) assms(4,10)]
  have same: "hm_get (ss_endpoints s2) oid = hm_get (ss_endpoints s) oid" if "oid \<noteq> eid" for oid
    using dup s(3) that by simp
  have m: "m \<in> set (sd_media_descriptions p)" "media_target m = Inr (Some (kind, Sendrecv, v))" "hm_get (ep_transceivers ep) v = None"
    using assms(9) by (simp_all add: new_media_def)
  obtain ep1 t1 where "hm_get (ss_endpoints s1) eid = Some ep1" "hm_get (ep_transceivers ep1) v = Some t1" "tr_direction t1 = Recvonly"
    using bspec [OF conjunct2 [OF dup] m(1)] m(2,3) by blast
  note own = this
  obtain ep2 where ep2: "hm_get (ss_endpoints s2) eid = Some ep2" "same_directions ep1 ep2"
    using s(6) [OF own(1)] by blast
  then have "map_option tr_direction (hm_get (ep_transceivers ep2) v) = Some Recvonly"
    using own(2,3) by (simp add: same_directions_def)
  then obtain t where t: "hm_get (ss_endpoints s2) eid = Some ep2" "hm_get (ep_transceivers ep2) v = Some t"
    "tr_direction t = Recvonly"
    using ep2(1) by auto
  have "hm_wf (ss_endpoints s2)"
    using states_okD(4) [OF _ s(2)] accept_offer_ok [OF assms(1), of E fresh clk sid eid "Some ?ft" desc] a
    by (auto dest: session_okD(1))
  then have "\<forall>(tc, h, strm, needed) \<in> set peers. \<not> needed"
    using r(2) s(2,4) assms(2,11) same
    by (auto simp: get_other_datachannel_transport_contexts_def other_endpoints_def result_simps
        in_set_map_filter hm_in_set_get split: option.splits)
  then have "offers = []" "st' = st1" using r(3) by (simp_all add: offer_peers_unflagged)
  with r(1,4) s(2,5) same t show ?thesis by (intro exI conjI) (auto simp: published_def)
qed

theorem duplex_media_not_announced_witness:
  "\<exists>(m :: 'm tagged) st' s' t. handle_datachannel_message (join_lib (stream_offer True ''sendrecv'')) parse_json demo_fresh 10 10 (demo_context 2) 5 6 []
      stage_states = (Inr [m], st') \<and>
    hm_get (st_sessions st') 7 = Some s' \<and> hm_get (ss_endpoints s') 1 = Some open_listener \<and> (2, ''1'', t) \<in> published 1 s'"
proof -
  let ?E = "join_lib (stream_offer True ''sendrecv'')"
  obtain answer s2 e2 where a: "accept_offer ?E demo_fresh 10 7 2 (Some (demo_tuple 2)) (offer_description [])
      stage_states = (Inr answer, put_session 7 s2 stage_states)"
    "get_other_datachannel_transport_contexts (demo_context 2) (put_session 7 s2 stage_states) =
      Inr [(demo_context 1, 3, 4, ep_renegotiation_needed (informed True Sendrecv))]"
    using stage_message [OF disjI2 [OF conjI [OF refl refl]], of True] by (elim exE conjE) (rule that)
  obtain ms :: "'m tagged list" and st' where
    h: "handle_datachannel_message ?E parse_json demo_fresh 10 10 (demo_context 2) 5 6 [] stage_states = (Inr ms, st')"
    using a stage_lookup(2) by (simp add: handle_datachannel_message_def stage_text show_json_def Let_def)
  have new: "new_media (demo_offer (stream_offer True ''sendrecv'')) (stream True ''sendrecv'') KindAudio Sendrecv ''1'' (demo_endpoint 2)"
    by (rule stage_new_media) simp
  have others: "hm_get (ep_transceivers oep) w = None" "\<not> ep_renegotiation_needed oep"
    if "oid \<noteq> 2" "hm_get (ss_endpoints stage) oid = Some oep" for oid oep w
    using that by (auto split: if_splits)
  have "\<forall>m' \<in> set (sd_media_descriptions (demo_offer (stream_offer True ''sendrecv''))). \<forall>k d w. media_target m' = Inr (Some (k, d, w)) \<longrightarrow>
      d = Sendrecv \<and> (\<forall>oid oep. oid \<noteq> 2 \<longrightarrow> hm_get (ss_endpoints stage) oid = Some oep \<longrightarrow> hm_get (ep_transceivers oep) (peer_mid 2 w) = None)"
    by (auto simp: stream_offer_def stream_target others simp del: stage_lookup(6))
  moreover have "\<forall>oid oep. oid \<noteq> 2 \<longrightarrow> hm_get (ss_endpoints stage) oid = Some oep \<longrightarrow> \<not> ep_renegotiation_needed oep"
    by (auto simp: others simp del: stage_lookup(6))
  ultimately obtain json s' t where "ms = [data_channel_tagged 10 (demo_context 2) 5 6 json]" "hm_get (st_sessions st') 7 = Some s'"
    "\<forall>oid. oid \<noteq> 2 \<longrightarrow> hm_get (ss_endpoints s') oid = hm_get (ss_endpoints stage) oid \<and> (2, ''1'', t) \<in> published oid s'"
    using duplex_media_not_announced [OF stage_states_ok stage_peer(5) stage_lookup(3,5) stage_text(1-3) join_lib_simps new _ _ h] by auto
  with h show ?thesis
    by (intro exI [of _ "data_channel_tagged 10 (demo_context 2) 5 6 json"] exI [of _ st'] exI [of _ s'] exI [of _ t]) simp
qed

end
