(* ===== verification/Offer_Rpc.thy ===== *)
theory Offer_Rpc
  imports Service_Facts Loop_Facts
begin

text \<open>
  The Offer call from end to end: the service picks a media worker and queues the offer on its signaling
  channel, the worker's loop reaches it, and what it sends back becomes the reply of the call.
\<close>

section \<open>Text through the channel\<close>

text \<open>A Rust string is valid UTF-8; the strings here are its bytes.\<close>

definition utf8_text :: "string \<Rightarrow> bool" where
  "utf8_text s \<longleftrightarrow> utf8_valid (bytes_of_string s)"

lemma from_utf8_text: "utf8_text s \<Longrightarrow> from_utf8 (bytes_of_string s) = Inr s"
proof -
  have "char_of (unat (of_nat (of_char c) :: u8)) = c" for c
  proof -
    have "(of_char c :: nat) < 256" by (metis nat_of_char_less_256)
    then have "unat (of_nat (of_char c) :: u8) = of_char c" by (simp add: unsigned_of_nat take_bit_nat_eq_self)
    then show ?thesis by simp
  qed
  then have "map (\<lambda>b. char_of (unat b)) (bytes_of_string s) = s"
    by (simp add: bytes_of_string_def comp_def)
  then show "utf8_text s \<Longrightarrow> from_utf8 (bytes_of_string s) = Inr s"
    by (simp add: utf8_text_def from_utf8_def)
qed

section \<open>The contract of the call\<close>

text \<open>What a client is promised: the outcome of its offer on the states of the worker at that moment.\<close>

definition offer_outcome ::
  "sfu_lib \<Rightarrow> json_lib \<Rightarrow> ice_parameters \<Rightarrow> instant \<Rightarrow> session_id \<Rightarrow> endpoint_id \<Rightarrow> string
     \<Rightarrow> ('x, 'f) server_states \<Rightarrow> string res" where
  "offer_outcome E J fresh now sid eid sdp st =
     (case js_parse_description J sdp of
        Inl e \<Rightarrow> Inl (ErrLib e)
      | Inr d \<Rightarrow>
          (case fst (accept_offer E fresh now sid eid None d st) of
             Inl e \<Rightarrow> Inl e
           | Inr ans \<Rightarrow> (case js_show_description J ans of Inl e \<Rightarrow> Inl (ErrLib e) | Inr t \<Rightarrow> Inr t)))"

definition outcome_reply :: "(error \<Rightarrow> string) \<Rightarrow> session_id \<Rightarrow> endpoint_id \<Rightarrow> string res \<Rightarrow> offer_response" where
  "outcome_reply show_err sid eid r =
     \<lparr>or_session_id = sid, or_endpoint_id = eid,
      or_answer_sdp = (case r of Inr t \<Rightarrow> t | Inl e \<Rightarrow> []),
      or_error = (case r of Inr t \<Rightarrow> [] | Inl e \<Rightarrow> show_err e)\<rparr>"

definition worker_reply ::
  "(error \<Rightarrow> string) \<Rightarrow> session_id \<Rightarrow> endpoint_id \<Rightarrow> u8 list res \<Rightarrow> signaling_protocol_message" where
  "worker_reply show_err sid eid r =
     (case r of Inr ans \<Rightarrow> SigAnswer sid eid ans | Inl e \<Rightarrow> SigErr sid eid (bytes_of_string (show_err e)))"

definition texts_utf8 :: "json_lib \<Rightarrow> (error \<Rightarrow> string) \<Rightarrow> bool" where
  "texts_utf8 J show_err \<longleftrightarrow>
     (\<forall>d t. js_show_description J d = Inr t \<longrightarrow> utf8_text t) \<and> (\<forall>e. utf8_text (show_err e))"

text \<open>Nothing is lost on the way there and back.\<close>

lemma reply_of_outcome:
  assumes "utf8_text sdp" and "texts_utf8 J show_err"
  shows "offer_reply show_err sid eid
      (worker_reply show_err sid eid (fst (try_offer E J fresh now sid eid (bytes_of_string sdp) st))) =
    outcome_reply show_err sid eid (offer_outcome E J fresh now sid eid sdp st)"
proof -
  have shown: "from_utf8 (bytes_of_string t) = Inr t" if "js_show_description J d = Inr t" for d t
    using assms(2) that by (intro from_utf8_text) (auto simp: texts_utf8_def)
  have err: "from_utf8 (bytes_of_string (show_err e)) = Inr (show_err e)" for e
    using assms(2) by (intro from_utf8_text) (auto simp: texts_utf8_def)
  show ?thesis
    using shown err
    by (auto simp: try_offer_def offer_outcome_def worker_reply_def offer_reply_def outcome_reply_def
        from_utf8_text [OF assms(1)] split: sum.splits prod.splits)
qed

section \<open>The turn that reaches the offer\<close>

lemma calm_offer_turn:
  assumes "sctp_loops_end (en_sctp E)" and "calm i" and "ml_signals w = (SigOffer sid eid offer, True) # rest"
  shows "\<exists>ds S w'. write_socket_output E (ti_send i) 0 (ml_sfu w) = (Inr (), ds, S) \<and>
    loop_turn E show_err i w = Some (LoopContinue w') \<and>
    ml_responses w' = ml_responses w @
      [worker_reply show_err sid eid (fst (try_offer (en_sfu E) (en_json E) (ti_fresh_signal i) (ti_now_signal i) sid eid offer (sf_states S)))]"
proof -
  obtain ds S where o: "write_socket_output E (ti_send i) 0 (ml_sfu w) = (Inr (), ds, S)"
    using calm_output [OF assms(2)] by blast
  let ?w1 = "w\<lparr>ml_signals := ml_signals w @ ti_arrivals i, ml_sfu := S, ml_sent := ml_sent w @ ds\<rparr>"
  let ?r = "fst (try_offer (en_sfu E) (en_json E) (ti_fresh_signal i) (ti_now_signal i) sid eid offer (sf_states S))"
  obtain v where p: "signaling_phase (en_sfu E) (en_json E) show_err (ti_fresh_signal i) (ti_now_signal i)
      (Some (SigOffer sid eid offer, True)) (worker_view ?w1) = (True, v)"
    and v: "mw_responses v = ml_responses w @ [worker_reply show_err sid eid ?r]"
    by (cases "try_offer (en_sfu E) (en_json E) (ti_fresh_signal i) (ti_now_signal i) sid eid offer (sf_states S)"; cases ?r)
       (auto simp: signaling_phase_def handle_offer_message_def send_response_def worker_reply_def worker_view_def)
  let ?w2 = "put_worker v (?w1\<lparr>ml_signals := rest @ ti_arrivals i\<rparr>)"
  let ?w3 = "put_worker (audio_phase (worker_view ?w2)) ?w2"
  have t: "loop_turn E show_err i w = network_phase E i ?w3"
    using assms(2,3) o p by (simp add: loop_turn_def Let_def calm_def pop_front_def)
  obtain w' where "network_phase E i ?w3 = Some (LoopContinue w')" "ml_responses w' = ml_responses ?w3"
    using calm_network [OF assms(1,2), of ?w3] by blast
  with o t v show ?thesis by (intro exI [of _ ds] exI [of _ S] exI [of _ w']) simp
qed

lemma calm_prefix:
  assumes "sctp_loops_end (en_sctp E)" and "list_all calm inputs" and "length inputs = length q"
    and "ml_signals w = q @ m # rest"
  shows "\<exists>w' rest' rs. loop_run E show_err inputs w = Some (LoopContinue w') \<and> ml_signals w' = m # rest' \<and>
    ml_responses w' = ml_responses w @ rs"
  using assms(2-4)
proof (induction inputs arbitrary: w q rest)
  case (Cons i inputs)
  then obtain x q' where q: "q = x # q'" by (cases q) auto
  obtain w1 rs where t: "loop_turn E show_err i w = Some (LoopContinue w1)"
    "ml_signals w1 = tl (ml_signals w @ ti_arrivals i)" "ml_responses w1 = ml_responses w @ rs"
    using calm_turn [OF assms(1), of i show_err w] Cons.prems(1) by auto
  have "ml_signals w1 = q' @ m # (rest @ ti_arrivals i)" using t(2) Cons.prems(3) q by simp
  from Cons.IH [OF _ _ this] Cons.prems(1,2) q obtain w' rest' rs' where
    "loop_run E show_err inputs w1 = Some (LoopContinue w')" "ml_signals w' = m # rest'" "ml_responses w' = ml_responses w1 @ rs'"
    by auto
  with t show ?case by auto
qed simp

text \<open>C6: An Offer call is answered with the outcome of its offer.  As long as the chosen worker still receives and
  neither its sockets fail nor it is stopped, the offer queued behind n messages is reached in the
  turn n + 1, and the call returns, without any change of its text on the way, the answer the server gives to
  this offer on the states it then has, or its error; the call itself only queues the offer.\<close>

theorem offer_call_answered:
  assumes "choose_port sv sid = Some port" and "map_of (sv_workers sv) port = Some True"
    and "sctp_loops_end (en_sctp E)" and "list_all calm inputs" and "length inputs = length (ml_signals w)" and "calm i"
    and "utf8_text sdp" and "texts_utf8 (en_json E) show_err"
  shows "\<exists>wn w' ds S resp.
    loop_run E show_err inputs (w\<lparr>ml_signals := ml_signals w @ [(SigOffer sid eid (bytes_of_string sdp), True)]\<rparr>) =
      Some (LoopContinue wn) \<and>
    write_socket_output E (ti_send i) 0 (ml_sfu wn) = (Inr (), ds, S) \<and>
    loop_turn E show_err i wn = Some (LoopContinue w') \<and> ml_responses w' = ml_responses wn @ [resp] \<and>
    service_offer L show_err (Some resp) sid eid sdp False sv =
      (Inr (outcome_reply show_err sid eid
         (offer_outcome (en_sfu E) (en_json E) (ti_fresh_signal i) (ti_now_signal i) sid eid sdp (sf_states S))),
       sv\<lparr>sv_messages := sv_messages sv @ [(port, SigOffer sid eid (bytes_of_string sdp))]\<rparr>)"
proof -
  let ?m = "(SigOffer sid eid (bytes_of_string sdp), True)"
  obtain wn rest where wn: "loop_run E show_err inputs (w\<lparr>ml_signals := ml_signals w @ [?m]\<rparr>) = Some (LoopContinue wn)"
    "ml_signals wn = ?m # rest"
    using calm_prefix [OF assms(3-5), of "w\<lparr>ml_signals := ml_signals w @ [?m]\<rparr>" ?m "[]" show_err] by auto
  obtain ds S w' where t: "write_socket_output E (ti_send i) 0 (ml_sfu wn) = (Inr (), ds, S)"
    "loop_turn E show_err i wn = Some (LoopContinue w')"
    "ml_responses w' = ml_responses wn @ [worker_reply show_err sid eid
       (fst (try_offer (en_sfu E) (en_json E) (ti_fresh_signal i) (ti_now_signal i) sid eid (bytes_of_string sdp) (sf_states S)))]"
    using calm_offer_turn [OF assms(3,6) wn(2), of show_err] by blast
  show ?thesis
    using wn(1) t assms(1,2) reply_of_outcome [OF assms(7,8)]
    by (intro exI conjI) (simp_all add: service_offer_def send_to_worker_def)
qed

text \<open>A service with one worker, before which another message waits.\<close>

definition offer_service :: "(unit, u8 list boxed_backend) service" where
  "offer_service = service_new [(5000, True)] None None"

definition offer_queue :: "(nat, unit, string option \<times> bool \<times> bool) media_loop" where
  "offer_queue = (demo_loop True)\<lparr>ml_signals := [(SigLeave 7 1, True)]\<rparr>"

theorem offer_call_answered_witness:
  "\<exists>wn w' resp. loop_run demo_env (\<lambda>e. ''error'') [demo_turn [] RecvTimedOut]
      (offer_queue\<lparr>ml_signals := ml_signals offer_queue @ [(SigOffer 7 9 (bytes_of_string ''offer''), True)]\<rparr>) = Some (LoopContinue wn) \<and>
    loop_turn demo_env (\<lambda>e. ''error'') (demo_turn [] RecvTimedOut) wn = Some (LoopContinue w') \<and>
    ml_responses w' = ml_responses wn @ [resp] \<and>
    fst (service_offer demo_tlib (\<lambda>e. ''error'') (Some resp) 7 9 ''offer'' False offer_service) =
      Inr \<lparr>or_session_id = 7, or_endpoint_id = 9, or_answer_sdp = [], or_error = ''error''\<rparr>"
proof -
  have "choose_port offer_service 7 = Some 5000" "map_of (sv_workers offer_service) 5000 = Some True"
    by (simp_all add: offer_service_def service_new_def choose_port_def)
  moreover have "utf8_text ''offer''" "texts_utf8 (en_json demo_env) (\<lambda>e. ''error'')"
    by (simp_all add: utf8_text_def bytes_of_string_def texts_utf8_def demo_json_def)
  ultimately show ?thesis
    using offer_call_answered [of offer_service 7 5000 demo_env "[demo_turn [] RecvTimedOut]" offer_queue
        "demo_turn [] RecvTimedOut" "''offer''" "\<lambda>e. ''error''" 9 demo_tlib]
      demo_loops_end demo_calm [of RecvTimedOut]
    by (auto simp: offer_queue_def demo_turn_def outcome_reply_def offer_outcome_def demo_json_def)
qed

end
