(* ===== verification/Source_Tests.thy ===== *)
theory Source_Tests
  imports Transcription_Facts Extractor_Facts Decoder_Facts
begin

text \<open>
  The unit tests of \<open>transcription/\<close>, translated as Boolean definitions over the model, and proofs that
  the model passes them.  The tests of the resampler depend on the FFT library, so they come with what they
  need of it.
\<close>

section \<open>\<open>SimulStreamingClient::parse_line\<close>\<close>

definition test_parse_line :: bool where
  "test_parse_line =
     (case parse_line ''0 1200  And so'' of
        Some seg \<Rightarrow> start_ms seg = 0 \<and> end_ms seg = 1200 \<and> seg_text seg = '' And so''
      | None \<Rightarrow> False)"

definition test_parse_line_with_punctuation :: bool where
  "test_parse_line_with_punctuation =
     (case parse_line ''2400 3600 ,'' of
        Some seg \<Rightarrow> start_ms seg = 2400 \<and> end_ms seg = 3600 \<and> seg_text seg = '',''
      | None \<Rightarrow> False)"

definition test_parse_line_invalid :: bool where
  "test_parse_line_invalid \<longleftrightarrow>
     parse_line ''invalid'' = None \<and> parse_line [] = None \<and> parse_line ''100 200'' = None"

lemma parse_line_dec:
  assumes "a < 2 ^ 53" and "b < 2 ^ 53" and "line = dec a @ '' '' @ dec b @ '' '' @ t"
  shows "parse_line line = Some \<lparr>start_ms = of_nat a, end_ms = of_nat b, seg_text = t\<rparr>"
  using parse_f64_dec_u64 [OF assms(1)] parse_f64_dec_u64 [OF assms(2)]
  unfolding parse_line_def assms(3) splitn_line segment_of_parts_def by auto

lemma test_numbers: "dec 0 = ''0''" "dec 1200 = ''1200''" "dec 2400 = ''2400''" "dec 3600 = ''3600''"
  by (simp_all add: dec.simps digit_char_def char_of_def bit_0)

lemma parse_line_tests_pass: "test_parse_line" "test_parse_line_with_punctuation" "test_parse_line_invalid"
proof -
  show "test_parse_line"
    using parse_line_dec [of 0 1200 "''0 1200  And so''" "'' And so''"]
    by (simp add: test_parse_line_def test_numbers)
  show "test_parse_line_with_punctuation"
    using parse_line_dec [of 2400 3600 "''2400 3600 ,''" "'',''"]
    by (simp add: test_parse_line_with_punctuation_def test_numbers)
  show "test_parse_line_invalid"
    by (simp add: test_parse_line_invalid_def parse_line_def segment_of_parts_def numeral_3_eq_3)
qed

section \<open>\<open>RtpAudioExtractor\<close>\<close>

definition opus_test_packet :: "u8 list" where
  "opus_test_packet =
     [0x80, 111, 0x00, 0x01, 0x00, 0x00, 0x00, 0x00, 0x12, 0x34, 0x56, 0x78, 0xFC, 0x01, 0x02, 0x03]"

definition test_rtp_parser :: bool where
  "test_rtp_parser =
     (case extract_audio (register_ssrc 0x12345678 1 1 ext_new) opus_test_packet of
        (_, Some p) \<Rightarrow> ap_session_id p = 1 \<and> ap_endpoint_id p = 1 \<and> ap_ssrc p = 0x12345678 \<and>
          ap_opus_data p = [0xFC, 0x01, 0x02, 0x03]
      | (_, None) \<Rightarrow> False)"

definition test_rtp_parser_unknown_ssrc :: bool where
  "test_rtp_parser_unknown_ssrc \<longleftrightarrow>
     snd (extract_audio ext_new
       [0x80, 111, 0x00, 0x01, 0x00, 0x00, 0x00, 0x00, 0xAB, 0xCD, 0xEF, 0x00, 0xFC, 0x01, 0x02, 0x03]) = None"

definition test_rtp_parser_video_packet :: bool where
  "test_rtp_parser_video_packet \<longleftrightarrow>
     snd (extract_audio (register_ssrc 0x12345678 1 1 ext_new)
       [0x80, 96, 0x00, 0x01, 0x00, 0x00, 0x00, 0x00, 0x12, 0x34, 0x56, 0x78, 0x00, 0x01, 0x02, 0x03]) = None"

lemma rtp_parser_tests_pass: "test_rtp_parser" "test_rtp_parser_unknown_ssrc" "test_rtp_parser_video_packet"
  unfolding test_rtp_parser_def test_rtp_parser_unknown_ssrc_def test_rtp_parser_video_packet_def opus_test_packet_def
  by code_simp+

section \<open>\<open>AudioResampler\<close>\<close>

definition test_resampler_ratio :: "'r resample_lib \<Rightarrow> bool" where
  "test_resampler_ratio R =
     (case resampler_new R of
        Inr p \<Rightarrow>
          (case resample R (replicate 960 0) p of
             Some (_, Inr out) \<Rightarrow> 300 \<le> length out \<and> length out \<le> 340
           | _ \<Rightarrow> False)
      | Inl _ \<Rightarrow> False)"

definition test_resampler_preserves_silence :: "'r resample_lib \<Rightarrow> bool" where
  "test_resampler_preserves_silence R =
     (case resampler_new R of
        Inr p \<Rightarrow>
          (case resample R (replicate 960 0) p of
             Some (_, Inr out) \<Rightarrow> (\<forall>s \<in> set out. \<bar>sint s\<bar> < 10)
           | _ \<Rightarrow> False)
      | Inl _ \<Rightarrow> False)"

text \<open>The frame of the tests is exactly one chunk, so the library is asked once.\<close>

lemma resample_test_frame:
  assumes "rl_new R 48000 16000 960 = Inr r0" and "rl_process R r0 (replicate 960 (F32Fin 0)) = (r1, Inr xs)"
  shows "resampler_new R = Inr \<lparr>rp_resampler = r0, rp_input_buffer = [], rp_chunk_size = 960\<rparr>"
    and "resample R (replicate 960 0) \<lparr>rp_resampler = r0, rp_input_buffer = [], rp_chunk_size = 960\<rparr> =
      Some (\<lparr>rp_resampler = r1, rp_input_buffer = [], rp_chunk_size = 960\<rparr>, Inr (map sample_of_f32 xs))"
proof -
  have zeros: "map f32_of_sample (replicate 960 0) = replicate 960 (F32Fin 0)"
    by (simp add: f32_of_sample_def)
  show "resampler_new R = Inr \<lparr>rp_resampler = r0, rp_input_buffer = [], rp_chunk_size = 960\<rparr>"
    using assms(1) by (simp add: resampler_new_def with_chunk_size_def webrtc_sample_rate_def simulstreaming_sample_rate_def)
  show "resample R (replicate 960 0) \<lparr>rp_resampler = r0, rp_input_buffer = [], rp_chunk_size = 960\<rparr> =
      Some (\<lparr>rp_resampler = r1, rp_input_buffer = [], rp_chunk_size = 960\<rparr>, Inr (map sample_of_f32 xs))"
    unfolding resample_def using assms(2) zeros
    by (simp add: resample_chunks.simps [of R "[]"] resample_chunks.simps [of R "map sample_of_f32 xs"] del: map_replicate)
qed

lemma resampler_tests_pass:
  assumes "rl_new R 48000 16000 960 = Inr r0" and "rl_process R r0 (replicate 960 (F32Fin 0)) = (r1, Inr xs)"
  shows "300 \<le> length xs \<Longrightarrow> length xs \<le> 340 \<Longrightarrow> test_resampler_ratio R"
    and "set xs \<subseteq> {F32Fin 0} \<Longrightarrow> test_resampler_preserves_silence R"
proof -
  show "300 \<le> length xs \<Longrightarrow> length xs \<le> 340 \<Longrightarrow> test_resampler_ratio R"
    by (simp add: test_resampler_ratio_def resample_test_frame [OF assms])
  have "sint (sample_of_f32 (F32Fin 0)) = 0"
    by (simp add: sample_of_f32_def clamp_unit_def scaled_floor_def float_floor_def round_half_even_def)
  then show "set xs \<subseteq> {F32Fin 0} \<Longrightarrow> test_resampler_preserves_silence R"
    by (auto simp: test_resampler_preserves_silence_def resample_test_frame [OF assms])
qed

end
